(* ===== verification/Prelude.thy ===== *)
theory Prelude
  imports Complex_Main "HOL-Library.Sublist"
begin

text \<open>
  Shared vocabulary of the development: operations on the system state that may
  throw, rows of a table keyed by a column, JavaScript truthiness of optional
  strings, and the generic lemmas the component theories rest on.

  An operation is a function from the state to the state and a result, which is
  \<open>Inl\<close> of the thrown error or \<open>Inr\<close> of the returned value. Effects made before
  a throw stay in the returned state, as they do in the program outside a
  database transaction.
\<close>

named_theorems rows "laws of lookups and updates of keyed rows"
named_theorems ops "unfolding rules of the sequencing of operations"

subsection \<open>Operations that may throw\<close>

type_synonym ('s, 'e, 'a) oper = "'s \<Rightarrow> 's \<times> ('e + 'a)"

definition ret :: "'a \<Rightarrow> ('s, 'e, 'a) oper" where
  "ret x s = (s, Inr x)"

definition throw :: "'e \<Rightarrow> ('s, 'e, 'a) oper" where
  "throw e s = (s, Inl e)"

text \<open>\<open>andThen f k\<close> is \<open>const x = await f(); ... k(x)\<close>: a throw of \<open>f\<close> skips \<open>k\<close>.\<close>

definition andThen ::
  "('s, 'e, 'a) oper \<Rightarrow> ('a \<Rightarrow> ('s, 'e, 'b) oper) \<Rightarrow> ('s, 'e, 'b) oper" where
  "andThen f k s = (case f s of (s1, Inl e) \<Rightarrow> (s1, Inl e) | (s1, Inr x) \<Rightarrow> k x s1)"

text \<open>\<open>catching f h\<close> is \<open>try { f } catch (err) { h(err) }\<close>.\<close>

definition catching ::
  "('s, 'e, 'a) oper \<Rightarrow> ('e \<Rightarrow> ('s, 'e, 'a) oper) \<Rightarrow> ('s, 'e, 'a) oper" where
  "catching f h s = (case f s of (s1, Inl e) \<Rightarrow> h e s1 | (s1, Inr x) \<Rightarrow> (s1, Inr x))"

text \<open>\<open>finallyDo f g\<close> is \<open>try { f } finally { g }\<close> with a \<open>g\<close> that does not throw.\<close>

definition finallyDo ::
  "('s, 'e, 'a) oper \<Rightarrow> ('s \<Rightarrow> 's) \<Rightarrow> ('s, 'e, 'a) oper" where
  "finallyDo f g s = (case f s of (s1, r) \<Rightarrow> (g s1, r))"

text \<open>\<open>forEach f xs\<close> is \<open>for (const x of xs) { results.push(...f(x)) }\<close>: a throw ends the loop.\<close>

fun forEach :: "('a \<Rightarrow> ('s, 'e, 'b list) oper) \<Rightarrow> 'a list \<Rightarrow> ('s, 'e, 'b list) oper" where
  "forEach f [] = ret []"
| "forEach f (x # xs) = andThen (f x) (\<lambda>r. andThen (forEach f xs) (\<lambda>rs. ret (r @ rs)))"

lemma ret_apply [simp, ops]: "ret x s = (s, Inr x)"
  by (simp add: ret_def)

lemma throw_apply [simp, ops]: "throw e s = (s, Inl e)"
  by (simp add: throw_def)

lemma andThen_eq [ops]:
  "andThen f k s = (case snd (f s) of Inl e \<Rightarrow> (fst (f s), Inl e) | Inr x \<Rightarrow> k x (fst (f s)))"
  by (cases "f s") (simp add: andThen_def split: sum.splits)

lemma andThen_Inr: "f s = (s1, Inr x) \<Longrightarrow> andThen f k s = k x s1"
  by (simp add: andThen_def)

lemma andThen_Inl: "f s = (s1, Inl e) \<Longrightarrow> andThen f k s = (s1, Inl e)"
  by (simp add: andThen_def)

lemma andThen_ret [simp]: "andThen (ret x) k = k x"
  by (rule ext) (simp add: andThen_def)

lemma andThen_throw [simp]: "andThen (throw e) k = throw e"
  by (rule ext) (simp add: andThen_def)

lemma andThen_returns:
  assumes "andThen f k s = (s2, Inr y)"
  obtains s1 x where "f s = (s1, Inr x)" and "k x s1 = (s2, Inr y)"
  using assms by (auto simp: andThen_def split: prod.splits sum.splits)

lemma catching_eq [ops]:
  "catching f h s = (case snd (f s) of Inl e \<Rightarrow> h e (fst (f s)) | Inr x \<Rightarrow> (fst (f s), Inr x))"
  by (cases "f s") (simp add: catching_def split: sum.splits)

lemma finallyDo_eq [ops]: "finallyDo f g s = (g (fst (f s)), snd (f s))"
  by (cases "f s") (simp add: finallyDo_def)

text \<open>An invariant of the state kept by both halves is kept by the sequence.\<close>

lemma andThen_preserves:
  assumes "I s"
    and "\<And>s. I s \<Longrightarrow> I (fst (f s))"
    and "\<And>x s. I s \<Longrightarrow> I (fst (k x s))"
  shows "I (fst (andThen f k s))"
  using assms by (auto simp: andThen_eq split: sum.splits)

lemma forEach_preserves:
  assumes "I s" and step: "\<And>x s. x \<in> set xs \<Longrightarrow> I s \<Longrightarrow> I (fst (f x s))"
  shows "I (fst (forEach f xs s))"
  using assms
proof (induction xs arbitrary: s)
  case (Cons x xs)
  have rest: "I (fst (andThen (forEach f xs) (\<lambda>rs. ret (r @ rs)) s1))" if "I s1" for r s1
    using Cons.IH[OF that] Cons.prems(2) by (simp add: andThen_eq split: sum.splits)
  obtain s1 r where fx: "f x s = (s1, r)" by fastforce
  then have "I s1" using Cons.prems(2)[OF _ Cons.prems(1), of x] by simp
  then show ?case using rest by (cases r) (simp_all add: andThen_def[of "f x"] fx)
qed simp

text \<open>\<open>keeps I f\<close>: the operation \<open>f\<close> keeps the invariant \<open>I\<close> of the state, thrown or not.\<close>

definition keeps :: "('s \<Rightarrow> bool) \<Rightarrow> ('s, 'e, 'a) oper \<Rightarrow> bool" where
  "keeps I f \<longleftrightarrow> (\<forall>s. I s \<longrightarrow> I (fst (f s)))"

named_theorems kept "operations that keep an invariant"

lemma keepsD: "keeps I f \<Longrightarrow> I s \<Longrightarrow> I (fst (f s))"
  by (simp add: keeps_def)

lemma keepsI: "(\<And>s. I s \<Longrightarrow> I (fst (f s))) \<Longrightarrow> keeps I f"
  by (simp add: keeps_def)

lemma keeps_ret [kept]: "keeps I (ret x)" and keeps_throw [kept]: "keeps I (throw e)"
  by (simp_all add: keeps_def)

lemma keeps_andThen [kept]: "keeps I f \<Longrightarrow> (\<And>x. keeps I (k x)) \<Longrightarrow> keeps I (andThen f k)"
  by (rule keepsI, rule andThen_preserves) (auto dest: keepsD)

lemma keeps_catching [kept]: "keeps I f \<Longrightarrow> (\<And>e. keeps I (h e)) \<Longrightarrow> keeps I (catching f h)"
  by (auto simp: keeps_def catching_eq split: sum.splits)

lemma keeps_finallyDo [kept]: "keeps I f \<Longrightarrow> (\<And>s. I s \<Longrightarrow> I (g s)) \<Longrightarrow> keeps I (finallyDo f g)"
  by (simp add: keeps_def finallyDo_eq)

lemma keeps_forEach [kept]: "(\<And>x. keeps I (f x)) \<Longrightarrow> keeps I (forEach f xs)"
  by (rule keepsI, rule forEach_preserves) (auto dest: keepsD)

lemma keeps_quiet [kept]: "(\<And>s. I s \<Longrightarrow> I (g s)) \<Longrightarrow> keeps I (\<lambda>s. (g s, r s))"
  by (simp add: keeps_def)

lemma keeps_if [kept]: "keeps I f \<Longrightarrow> keeps I g \<Longrightarrow> keeps I (if b then f else g)"
  by simp

subsection \<open>Optional strings of the source\<close>

text \<open>\<open>truthy v\<close> is \<open>!!v\<close> of an optional string: undefined, null and the empty string are false.\<close>

fun truthy :: "string option \<Rightarrow> bool" where
  "truthy None = False"
| "truthy (Some v) = (v \<noteq> [])"

text \<open>\<open>orElse a b\<close> is \<open>a || b\<close> on optional strings, \<open>orDefault a d\<close> is \<open>a || 'd'\<close>.\<close>

definition orElse :: "string option \<Rightarrow> string option \<Rightarrow> string option" where
  "orElse a b = (if truthy a then a else b)"

definition orDefault :: "string option \<Rightarrow> string \<Rightarrow> string" where
  "orDefault a d = (case a of Some v \<Rightarrow> (if v = [] then d else v) | None \<Rightarrow> d)"

text \<open>\<open>hay.includes(needle)\<close>.\<close>

definition contains :: "string \<Rightarrow> string \<Rightarrow> bool" where
  "contains hay needle = sublist needle hay"

text \<open>\<open>s.trim()\<close> on the white space of the ASCII range.\<close>

definition is_space :: "char \<Rightarrow> bool" where
  "is_space c = (c = CHR '' '' \<or> c = CHR 0x09 \<or> c = CHR 0x0A \<or> c = CHR 0x0B
     \<or> c = CHR 0x0C \<or> c = CHR 0x0D)"

definition trim :: "string \<Rightarrow> string" where
  "trim v = rev (dropWhile is_space (rev (dropWhile is_space v)))"

text \<open>\<open>toUpperCase\<close> and \<open>toLowerCase\<close> on ASCII text.\<close>

definition upper_char :: "char \<Rightarrow> char" where
  "upper_char c = (if 97 \<le> (of_char c :: nat) \<and> (of_char c :: nat) \<le> 122
     then char_of ((of_char c :: nat) - 32) else c)"

definition lower_char :: "char \<Rightarrow> char" where
  "lower_char c = (if 65 \<le> (of_char c :: nat) \<and> (of_char c :: nat) \<le> 90
     then char_of ((of_char c :: nat) + 32) else c)"

definition toUpper :: "string \<Rightarrow> string" where
  "toUpper = map upper_char"

definition toLower :: "string \<Rightarrow> string" where
  "toLower = map lower_char"

lemma truthy_iff: "truthy v \<longleftrightarrow> (\<exists>x. v = Some x \<and> x \<noteq> [])"
  by (cases v) auto

lemma orDefault_nonempty: "d \<noteq> [] \<Longrightarrow> orDefault a d \<noteq> []"
  by (simp add: orDefault_def split: option.splits)

subsection \<open>Rows of a table\<close>

text \<open>
  A table is the list of its rows in creation order. \<open>rowBy key k\<close> is the unique
  lookup on the column \<open>key\<close>, \<open>setBy key k f\<close> the update of the rows it selects.
\<close>

definition rowBy :: "('r \<Rightarrow> 'k) \<Rightarrow> 'k \<Rightarrow> 'r list \<Rightarrow> 'r option" where
  "rowBy key k rs = find (\<lambda>r. key r = k) rs"

definition setBy :: "('r \<Rightarrow> 'k) \<Rightarrow> 'k \<Rightarrow> ('r \<Rightarrow> 'r) \<Rightarrow> 'r list \<Rightarrow> 'r list" where
  "setBy key k f rs = map (\<lambda>r. if key r = k then f r else r) rs"

definition unique_by :: "('r \<Rightarrow> 'k) \<Rightarrow> 'r list \<Rightarrow> bool" where
  "unique_by key rs = distinct (map key rs)"

lemma rowBy_Nil [simp]: "rowBy key k [] = None"
  by (simp add: rowBy_def)

lemma rowBy_Cons [simp]:
  "rowBy key k (r # rs) = (if key r = k then Some r else rowBy key k rs)"
  by (simp add: rowBy_def)

lemma setBy_Nil [simp]: "setBy key k f [] = []"
  by (simp add: setBy_def)

lemma setBy_Cons [simp]:
  "setBy key k f (r # rs) = (if key r = k then f r else r) # setBy key k f rs"
  by (simp add: setBy_def)

lemma rowBy_append [rows]:
  "rowBy key k (rs @ rs') = (case rowBy key k rs of None \<Rightarrow> rowBy key k rs' | Some r \<Rightarrow> Some r)"
  by (induction rs) auto

lemma find_snoc [rows]:
  "find P (xs @ [y]) = (case find P xs of None \<Rightarrow> (if P y then Some y else None) | Some x \<Rightarrow> Some x)"
  by (induction xs) auto

lemma find_SomeD: "find P xs = Some x \<Longrightarrow> x \<in> set xs \<and> P x"
  by (induction xs) (auto split: if_splits)

lemma rowBy_SomeD: "rowBy key k rs = Some r \<Longrightarrow> r \<in> set rs \<and> key r = k"
  by (induction rs) (auto split: if_splits)

lemma rowBy_None_iff: "rowBy key k rs = None \<longleftrightarrow> k \<notin> key ` set rs"
  by (induction rs) auto

lemma rowBy_unique:
  "unique_by key rs \<Longrightarrow> r \<in> set rs \<Longrightarrow> rowBy key (key r) rs = Some r"
  by (induction rs) (auto simp: unique_by_def)

lemma same_row:
  "unique_by key rs \<Longrightarrow> r \<in> set rs \<Longrightarrow> r' \<in> set rs \<Longrightarrow> key r = key r' \<Longrightarrow> r = r'"
  by (auto simp: unique_by_def distinct_map dest: inj_onD)

lemma rowBy_setBy_same [rows]:
  assumes "\<And>r. key (f r) = key r"
  shows "rowBy key k (setBy key k f rs) = map_option f (rowBy key k rs)"
  using assms by (induction rs) auto

lemma rowBy_setBy_other [rows]:
  assumes "\<And>r. key (f r) = key r" and "k \<noteq> k'"
  shows "rowBy key k (setBy key k' f rs) = rowBy key k rs"
  using assms by (induction rs) auto

lemma map_key_setBy [rows]:
  assumes "\<And>r. g (f r) = g r"
  shows "map g (setBy key k f rs) = map g rs"
  using assms by (induction rs) auto

lemma unique_setBy [rows]:
  assumes "\<And>r. g (f r) = g r"
  shows "unique_by g (setBy key k f rs) = unique_by g rs"
  using assms by (simp add: unique_by_def map_key_setBy)

lemma unique_append_one [rows]:
  "unique_by key (rs @ [r]) \<longleftrightarrow> unique_by key rs \<and> rowBy key (key r) rs = None"
  by (auto simp: unique_by_def rowBy_None_iff)

lemma setBy_absent: "rowBy key k rs = None \<Longrightarrow> setBy key k f rs = rs"
  by (induction rs) (auto split: if_splits)

lemma set_setBy: "set (setBy key k f rs) \<subseteq> f ` {r \<in> set rs. key r = k} \<union> {r \<in> set rs. key r \<noteq> k}"
  by (auto simp: setBy_def)

lemma in_setBy:
  "r \<in> set (setBy key k f rs) \<Longrightarrow> (\<exists>r0 \<in> set rs. key r0 = k \<and> r = f r0) \<or> (r \<in> set rs \<and> key r \<noteq> k)"
  by (auto simp: setBy_def)

text \<open>A sum over the rows moves by the change of the one row that was written.\<close>

lemma sum_setBy:
  fixes w :: "'r \<Rightarrow> int"
  assumes "unique_by key rs" and "rowBy key k rs = Some r"
  shows "sum_list (map w (setBy key k f rs)) = sum_list (map w rs) - w r + w (f r)"
  using assms
proof (induction rs)
  case Nil
  then show ?case by simp
next
  case (Cons a rs)
  show ?case
  proof (cases "key a = k")
    case True
    with Cons.prems have "rowBy key k rs = None"
      by (auto simp: rowBy_None_iff unique_by_def)
    then have "setBy key k f rs = rs" by (rule setBy_absent)
    with True Cons.prems show ?thesis by simp
  next
    case False
    with Cons show ?thesis by (simp add: unique_by_def)
  qed
qed

lemma sum_list_nonneg_member:
  fixes w :: "'r \<Rightarrow> int"
  assumes "\<And>r. r \<in> set rs \<Longrightarrow> 0 \<le> w r" and "r \<in> set rs"
  shows "w r \<le> sum_list (map w rs)"
  using assms
proof (induction rs)
  case (Cons a rs)
  have "0 \<le> sum_list (map w rs)"
    using Cons.prems(1) by (intro sum_list_nonneg) auto
  with Cons show ?case by fastforce
qed simp

lemma sum_list_map_filter_int:
  fixes w :: "'r \<Rightarrow> int"
  shows "sum_list (map w (filter P rs)) = sum_list (map (\<lambda>r. if P r then w r else 0) rs)"
  by (induction rs) auto

subsection \<open>Columns of fixed scale\<close>

text \<open>
  Money columns are integers in units of the column's last decimal place:
  \<open>Decimal(18,4)\<close> in units of 0.0001 and \<open>Decimal(18,7)\<close> in units of 0.0000001.
  \<open>toColumn n x\<close> is the value stored for \<open>x\<close> in a column of scale \<open>n\<close>: PostgreSQL
  rounds a numeric to the nearest value of the scale, halves away from zero.
\<close>

definition toColumn :: "nat \<Rightarrow> rat \<Rightarrow> int" where
  "toColumn n x = (if 0 \<le> x then \<lfloor>x * 10 ^ n + 1 / 2\<rfloor> else - \<lfloor>- x * 10 ^ n + 1 / 2\<rfloor>)"

definition ofColumn :: "nat \<Rightarrow> int \<Rightarrow> rat" where
  "ofColumn n v = of_int v / 10 ^ n"

lemma toColumn_ofColumn [simp]: "toColumn n (ofColumn n v) = v"
proof -
  have fl: "\<lfloor>rat_of_int w + 1 / 2\<rfloor> = w" for w :: int
    by (simp add: floor_eq_iff)
  show ?thesis
    using fl[of v] fl[of "- v"] by (auto simp: toColumn_def ofColumn_def)
qed

text \<open>Rounding commutes with subtracting a value of the column.\<close>

lemma toColumn_diff:
  assumes "0 \<le> x - ofColumn n v" and "0 \<le> x"
  shows "toColumn n (x - ofColumn n v) = toColumn n x - v"
proof -
  have "(x - ofColumn n v) * 10 ^ n + 1 / 2 = (x * 10 ^ n + 1 / 2) - of_int v"
    by (simp add: ofColumn_def left_diff_distrib)
  then have "\<lfloor>(x - ofColumn n v) * 10 ^ n + 1 / 2\<rfloor> = \<lfloor>x * 10 ^ n + 1 / 2\<rfloor> - v"
    by (simp only: floor_diff_of_int)
  with assms show ?thesis by (simp add: toColumn_def)
qed

lemma ofColumn_le_iff [simp]: "ofColumn n a \<le> ofColumn n b \<longleftrightarrow> a \<le> b"
  by (simp add: ofColumn_def divide_le_cancel)

lemma ofColumn_nonneg [simp]: "0 \<le> ofColumn n a \<longleftrightarrow> 0 \<le> a"
proof -
  have "\<not> (10 :: rat) ^ n \<le> 0" by (simp add: not_le)
  then show ?thesis by (simp add: ofColumn_def zero_le_divide_iff)
qed

lemma toColumn_nonneg: "0 \<le> x \<Longrightarrow> 0 \<le> toColumn n x"
  by (simp add: toColumn_def zero_le_floor)

lemma toColumn_mono: "0 \<le> x \<Longrightarrow> x \<le> y \<Longrightarrow> toColumn n x \<le> toColumn n y"
  by (simp add: toColumn_def floor_mono)

text \<open>Storing a value that fits under a value of the column keeps it under.\<close>

lemma toColumn_le:
  assumes "0 \<le> x" and "x \<le> ofColumn n v"
  shows "toColumn n x \<le> v"
proof -
  have "x * 10 ^ n \<le> of_int v"
    using assms(2) by (simp add: ofColumn_def field_simps)
  then have "x * 10 ^ n + 1 / 2 < of_int v + 1" by simp
  then have "\<lfloor>x * 10 ^ n + 1 / 2\<rfloor> < v + 1"
    unfolding floor_less_iff by simp
  with assms(1) show ?thesis by (simp add: toColumn_def)
qed

subsection \<open>Runs of a component\<close>

text \<open>
  A component with events: \<open>runSteps\<close> plays a list of events, \<open>admissible\<close> says that each
  was enabled when it was played. An invariant every enabled event keeps holds after
  every admissible run, whatever the interleaving.
\<close>

fun runSteps :: "('ev \<Rightarrow> 's \<Rightarrow> 's) \<Rightarrow> 'ev list \<Rightarrow> 's \<Rightarrow> 's" where
  "runSteps step [] s = s"
| "runSteps step (e # es) s = runSteps step es (step e s)"

fun admissible :: "('ev \<Rightarrow> 's \<Rightarrow> bool) \<Rightarrow> ('ev \<Rightarrow> 's \<Rightarrow> 's) \<Rightarrow> 'ev list \<Rightarrow> 's \<Rightarrow> bool" where
  "admissible enabled step [] s = True"
| "admissible enabled step (e # es) s = (enabled e s \<and> admissible enabled step es (step e s))"

locale component =
  fixes enabled :: "'ev \<Rightarrow> 's \<Rightarrow> bool"
    and step :: "'ev \<Rightarrow> 's \<Rightarrow> 's"
    and inv :: "'s \<Rightarrow> bool"
  assumes step_keeps: "inv s \<Longrightarrow> enabled e s \<Longrightarrow> inv (step e s)"
begin

lemma run_keeps: "inv s \<Longrightarrow> admissible enabled step es s \<Longrightarrow> inv (runSteps step es s)"
  by (induction es arbitrary: s) (auto intro: step_keeps)

lemma run_prefix_keeps:
  "inv s \<Longrightarrow> admissible enabled step (es @ fs) s \<Longrightarrow> inv (runSteps step es s)"
  by (induction es arbitrary: s) (auto intro: step_keeps)

end

end
