(* ===== verification/Schema.thy ===== *)
theory Schema
  imports Prelude
begin

text \<open>
  The data model: the enums and tables of \<^verbatim>\<open>prisma/schema.prisma\<close>, the error classes of
  \<^verbatim>\<open>src/errors/index.ts\<close>, the configuration record of \<^verbatim>\<open>src/config/index.ts\<close>, the state the
  services share, and the database transaction. Enum constructors carry the prefix of
  their enum because the enums share names such as PENDING. Times are milliseconds.
  NGN columns, \<open>Decimal(18,4)\<close>, and USDC columns, \<open>Decimal(18,7)\<close>, are integers in
  units of their last decimal place, so that sums and differences of columns are exact,
  as they are in decimal.js (20 significant digits) on columns of at most 18 digits.
\<close>

subsection \<open>Enums\<close>

type_synonym id = string
type_synonym time = int

datatype quote_status = Q_ACTIVE | Q_EXPIRED | Q_USED | Q_CANCELLED

datatype order_type = ON_RAMP | OFF_RAMP | MERCHANT_PAYMENT

datatype order_status =
    O_CREATED | O_AWAITING_PAYMENT | O_PAYMENT_DETECTED | O_PAYMENT_CONFIRMED
  | O_SETTLEMENT_PENDING | O_SETTLEMENT_COMPLETED | O_COMPLETED | O_FAILED | O_CANCELLED
  | O_REFUND_PENDING | O_REFUNDED | O_REFUND_FAILED | O_EXPIRED

datatype refund_status = R_PENDING | R_PROCESSING | R_SUCCEEDED | R_FAILED | R_CANCELLED

datatype reservation_status =
    V_RESERVED | V_CONFIRMED | V_CONSUMED | V_EXPIRED_RELEASED | V_CANCELLED_RELEASED

datatype treasury_type = REPLENISHMENT | SETTLEMENT_PAYOUT | MANUAL_ADJUSTMENT | FEE_COLLECTION

datatype payment_type = DEPOSIT | PAYMENT | PAYOUT | REFUND

datatype payment_status =
    P_CREATED | P_PENDING | P_PROCESSING | P_SUCCEEDED | P_FAILED | P_CANCELLED
  | P_EXPIRED | P_REFUNDED

datatype settlement_status =
    S_PENDING | S_SUBMITTING | S_SUBMITTED | S_CONFIRMING | S_COMPLETED | S_FAILED
  | S_REQUIRES_RECONCILIATION

datatype transaction_type = T_DEPOSIT | T_WITHDRAWAL | T_SETTLEMENT | T_FEE

datatype transaction_status = X_PENDING | X_SUCCESSFUL | X_FAILED

datatype role = USER | MERCHANT | ADMIN | SUPER_ADMIN

datatype alert_state = HEALTHY | WARNING | CRITICAL

subsection \<open>Tables\<close>

record quote =
  q_id :: id
  q_sourceCurrency :: string
  q_destinationAsset :: string
  q_sourceAmount :: int
  q_destinationAmount :: int
  q_exchangeRate :: int
  q_fee :: int
  q_grossUsdcAmount :: int
  q_networkFeeUsdc :: int
  q_spread :: int
  q_baseFxRate :: int
  q_rateTimestamp :: time
  q_liquidityAvailable :: bool
  q_version :: nat
  q_provider :: string
  q_status :: quote_status
  q_expiresAt :: time

record order =
  o_id :: id
  o_userId :: id
  o_quoteId :: id
  o_idempotencyKey :: "string option"
  o_type :: order_type
  o_status :: order_status
  o_sourceCurrency :: string
  o_destinationAsset :: string
  o_sourceAmount :: int
  o_destinationAmount :: int
  o_walletAddress :: "string option"

record payment =
  p_id :: id
  p_orderId :: id
  p_userId :: id
  p_provider :: string
  p_providerPaymentId :: "string option"
  p_type :: payment_type
  p_amount :: int
  p_grossAmount :: int
  p_providerFee :: int
  p_platformFee :: int
  p_netAmount :: int
  p_currency :: string
  p_status :: payment_status
  p_reference :: string
  p_idempotencyKey :: "string option"
  p_createdAt :: time

record provider_tx =
  pt_paymentId :: id
  pt_provider :: string
  pt_providerTransactionId :: string
  pt_status :: payment_status
  pt_amount :: int
  pt_currency :: string

record settlement =
  s_id :: id
  s_settlementId :: string
  s_orderId :: id
  s_userId :: id
  s_status :: settlement_status
  s_asset :: string
  s_amount :: int
  s_source :: "string option"
  s_destination :: "string option"
  s_contractAddress :: "string option"
  s_hash :: "string option"
  s_ledger :: "int option"
  s_attemptCount :: nat
  s_lastError :: "string option"
  s_submittedAt :: "time option"
  s_confirmedAt :: "time option"
  s_createdAt :: time

text \<open>
  Of a refund's JSON \<open>metadata\<close> the code reads back only the two flags
  \<open>ambiguousResponse\<close> and \<open>ambiguousNetworkFailure\<close>.
\<close>

record refund =
  r_id :: id
  r_orderId :: id
  r_paymentId :: "id option"
  r_userId :: id
  r_amount :: int
  r_currency :: string
  r_reason :: string
  r_status :: refund_status
  r_idempotencyKey :: string
  r_providerRefundId :: "string option"
  r_providerReference :: "string option"
  r_failureReason :: "string option"
  r_ambiguousResponse :: bool
  r_ambiguousNetworkFailure :: bool
  r_initiatedBy :: id
  r_completedAt :: "time option"
  r_failedAt :: "time option"

record pool =
  l_id :: id
  l_asset :: string
  l_network :: string
  l_total :: int
  l_reserved :: int
  l_available :: int
  l_minThreshold :: int

record reservation =
  v_id :: id
  v_poolId :: id
  v_orderId :: id
  v_amount :: int
  v_status :: reservation_status
  v_expiresAt :: time

record treasury_tx =
  t_poolId :: id
  t_type :: treasury_type
  t_amount :: int
  t_hash :: "string option"
  t_externalRef :: "string option"
  t_createdAt :: time

record app_tx =
  x_id :: id
  x_userId :: id
  x_orderId :: id
  x_type :: transaction_type
  x_status :: transaction_status
  x_amount :: int
  x_asset :: string

record webhook_event =
  w_id :: id
  w_provider :: string
  w_eventId :: string
  w_eventType :: string
  w_signatureVerified :: bool
  w_processed :: bool
  w_processedAt :: "time option"

text \<open>An audit entry without its \<open>details\<close> payload and IP address.\<close>

record audit_entry =
  a_actor :: string
  a_userId :: "id option"
  a_action :: string
  a_resource :: string
  a_resourceId :: "id option"

subsection \<open>The stores of the sandbox payment providers\<close>

text \<open>
  The mock and the NGN provider keep the answers they gave in two maps, by reference and by
  provider id. Both maps hold the same object, which verification mutates: \<open>objs\<close> are the
  objects, the maps hold their addresses. The amount is the number its string denotes.
\<close>

record pay_response =
  pr_providerPaymentId :: string
  pr_status :: payment_status
  pr_amount :: rat
  pr_currency :: string
  pr_reference :: "string option"
  pr_accountNumber :: "string option"

record pay_store =
  objs :: "pay_response list"
  byRef :: "string \<Rightarrow> nat option"
  byId :: "string \<Rightarrow> nat option"

definition empty_store :: pay_store where
  "empty_store = \<lparr>objs = [], byRef = (\<lambda>_. None), byId = (\<lambda>_. None)\<rparr>"

subsection \<open>The state the services share\<close>

text \<open>
  The tables, the audit log, the in-process map of treasury alert states and the stores of
  the sandbox providers. The audit log is written through the global client and the last
  three live in memory: none of them is part of a database transaction.
\<close>

record sys =
  quotes :: "quote list"
  orders :: "order list"
  payments :: "payment list"
  providerTxs :: "provider_tx list"
  settlements :: "settlement list"
  refunds :: "refund list"
  pools :: "pool list"
  reservations :: "reservation list"
  treasuryTxs :: "treasury_tx list"
  transactions :: "app_tx list"
  webhookEvents :: "webhook_event list"
  audits :: "audit_entry list"
  poolStates :: "id \<Rightarrow> alert_state option"
  mockStore :: pay_store
  ngnStore :: pay_store

definition empty_sys :: sys where
  "empty_sys = \<lparr>quotes = [], orders = [], payments = [], providerTxs = [], settlements = [],
     refunds = [], pools = [], reservations = [], treasuryTxs = [], transactions = [],
     webhookEvents = [], audits = [], poolStates = (\<lambda>_. None),
     mockStore = empty_store, ngnStore = empty_store\<rparr>"

subsection \<open>Errors\<close>

text \<open>
  The error classes the modelled code throws. The message is kept where the code reads it
  back or where one class stands for several rejections; \<open>PrismaP2002\<close> is a unique
  constraint violation and \<open>PrismaP2025\<close> a missing row of \<open>update\<close> or \<open>findUniqueOrThrow\<close>.
\<close>

datatype app_error =
    ValidationError string
  | BadRequestError string
  | UnauthorizedError string
  | ForbiddenError string
  | NotFoundError string
  | ConflictError string
  | PaymentNotFoundError
  | InvalidPaymentStateError
  | WebhookVerificationError string
  | ProviderError string
  | SettlementNotFoundError
  | InvalidSettlementStateError
  | InvalidOrderStateForSettlementError string
  | StellarNetworkError string
  | StellarInvalidAddressError string
  | StellarInvalidAssetError
  | StellarRpcError string
  | SorobanSimulationError string
  | SorobanSubmissionError string
  | SorobanConfirmationError
  | SorobanSignerConfigError string
  | SorobanContractConfigError string
  | RefundNotFoundError
  | InvalidRefundStateError
  | AppError nat string
  | PrismaP2002
  | PrismaP2025
  | PlainError string

type_synonym 'a op = "(sys, app_error, 'a) oper"

text \<open>\<open>statusCode\<close> of each class; the two Prisma codes get theirs in the error handler.\<close>

fun statusCode :: "app_error \<Rightarrow> nat" where
  "statusCode (ValidationError _) = 400"
| "statusCode (BadRequestError _) = 400"
| "statusCode (UnauthorizedError _) = 401"
| "statusCode (ForbiddenError _) = 403"
| "statusCode (NotFoundError _) = 404"
| "statusCode (ConflictError _) = 409"
| "statusCode PaymentNotFoundError = 404"
| "statusCode InvalidPaymentStateError = 400"
| "statusCode (WebhookVerificationError _) = 400"
| "statusCode (ProviderError _) = 502"
| "statusCode SettlementNotFoundError = 404"
| "statusCode InvalidSettlementStateError = 400"
| "statusCode (InvalidOrderStateForSettlementError _) = 400"
| "statusCode (StellarNetworkError _) = 502"
| "statusCode (StellarInvalidAddressError _) = 400"
| "statusCode StellarInvalidAssetError = 400"
| "statusCode (StellarRpcError _) = 502"
| "statusCode (SorobanSimulationError _) = 400"
| "statusCode (SorobanSubmissionError _) = 502"
| "statusCode SorobanConfirmationError = 504"
| "statusCode (SorobanSignerConfigError _) = 500"
| "statusCode (SorobanContractConfigError _) = 500"
| "statusCode RefundNotFoundError = 404"
| "statusCode InvalidRefundStateError = 400"
| "statusCode (AppError c _) = c"
| "statusCode PrismaP2002 = 409"
| "statusCode PrismaP2025 = 404"
| "statusCode (PlainError _) = 500"

subsection \<open>Configuration\<close>

record config =
  env :: string
  requireDistributedLocks :: bool
  lockTtlMs :: int
  lockHeartbeatMs :: int
  network :: string
  usdcIssuer :: string
  usdcContractId :: "string option"
  vaultContractId :: string
  signerPublicKey :: "string option"
  signerSecretKey :: "string option"
  signerProvider :: string
  kmsKeyArn :: "string option"
  governanceType :: string
  productionSettlementEnabled :: bool
  emergencyGlobalPause :: bool
  maxSingleSettlementUsdc :: rat
  maxHourlyOutflowUsdc :: rat
  maxDailyOutflowUsdc :: rat
  minSettlementUsdc :: rat
  warnThresholdUsdc :: rat
  criticalThresholdUsdc :: rat
  feePercentage :: rat
  spreadPercentage :: rat
  ttlSeconds :: int
  expirySeconds :: int
  fxMaxAgeSeconds :: int
  minNgnAmount :: rat
  maxNgnAmount :: rat
  maxQuoteUsdcAmount :: rat
  quoteProvider :: string
  ngnProvider :: string
  paystackSecretKey :: string

text \<open>A column of USDC as the number the thresholds of the configuration are compared with.\<close>

definition usdc :: "int \<Rightarrow> rat" where
  "usdc v = ofColumn 7 v"

lemma usdc_mono: "a \<le> b \<Longrightarrow> usdc a \<le> usdc b"
  by (simp add: usdc_def ofColumn_def divide_right_mono)

text \<open>The configuration the concrete examples run under.\<close>

definition demo_cfg :: config where
  "demo_cfg = \<lparr>env = ''test'', requireDistributedLocks = False, lockTtlMs = 15000,
     lockHeartbeatMs = 5000, network = ''testnet'', usdcIssuer = ''GISSUER'',
     usdcContractId = Some ''CUSDC'', vaultContractId = ''CVAULT'',
     signerPublicKey = Some ''GSIGNER'', signerSecretKey = Some ''SSECRET'',
     signerProvider = ''testnet_local'', kmsKeyArn = None, governanceType = ''single_key'',
     productionSettlementEnabled = False, emergencyGlobalPause = False,
     maxSingleSettlementUsdc = 10000, maxHourlyOutflowUsdc = 50000,
     maxDailyOutflowUsdc = 200000, minSettlementUsdc = 1, warnThresholdUsdc = 5000,
     criticalThresholdUsdc = 1000, feePercentage = 1 / 100, spreadPercentage = 0,
     ttlSeconds = 300, expirySeconds = 300, fxMaxAgeSeconds = 300, minNgnAmount = 1000,
     maxNgnAmount = 10000000, maxQuoteUsdcAmount = 10000, quoteProvider = ''mock'',
     ngnProvider = ''sandbox'', paystackSecretKey = []\<rparr>"

subsection \<open>Database transactions\<close>

text \<open>
  \<open>prisma.$transaction(body)\<close>: a throw of the body restores every table; the audit log and
  the in-memory state keep what the body wrote.
\<close>

definition rollback :: "sys \<Rightarrow> sys \<Rightarrow> sys" where
  "rollback s s1 = s\<lparr>audits := audits s1, poolStates := poolStates s1, mockStore := mockStore s1, ngnStore := ngnStore s1\<rparr>"

definition inTransaction :: "'a op \<Rightarrow> 'a op" where
  "inTransaction body s =
     (case body s of (s1, Inl e) \<Rightarrow> (rollback s s1, Inl e) | (s1, Inr x) \<Rightarrow> (s1, Inr x))"

lemma inTransaction_eq [ops]:
  "inTransaction body s = (case snd (body s) of
     Inl e \<Rightarrow> (rollback s (fst (body s)), Inl e) | Inr x \<Rightarrow> (fst (body s), Inr x))"
  by (cases "body s") (simp add: inTransaction_def split: sum.splits)

lemma inTransaction_throws:
  "inTransaction body s = (s1, Inl e) \<Longrightarrow>
     quotes s1 = quotes s \<and> orders s1 = orders s \<and> payments s1 = payments s
     \<and> providerTxs s1 = providerTxs s \<and> settlements s1 = settlements s \<and> refunds s1 = refunds s
     \<and> pools s1 = pools s \<and> reservations s1 = reservations s \<and> treasuryTxs s1 = treasuryTxs s
     \<and> transactions s1 = transactions s \<and> webhookEvents s1 = webhookEvents s"
  by (auto simp: inTransaction_eq rollback_def split: sum.splits)

subsection \<open>The audit log\<close>

text \<open>
  \<open>AuditService.log\<close> appends an entry whose actor defaults to the user and then to
  \<open>'system'\<close>. A failing write is caught and reported on the console only, so that the
  caller goes on in any case.
\<close>

definition auditLog ::
  "string option \<Rightarrow> id option \<Rightarrow> string \<Rightarrow> string \<Rightarrow> id option \<Rightarrow> sys \<Rightarrow> sys" where
  "auditLog actor userId action resource resourceId s =
     s\<lparr>audits := audits s @ [\<lparr>a_actor = orDefault (orElse actor userId) ''system'',
        a_userId = userId, a_action = action, a_resource = resource,
        a_resourceId = resourceId\<rparr>]\<rparr>"

text \<open>Writing the audit log leaves everything else alone.\<close>

lemma auditLog_frame [simp]:
  "quotes (auditLog a u ac rs i s) = quotes s"
  "orders (auditLog a u ac rs i s) = orders s"
  "payments (auditLog a u ac rs i s) = payments s"
  "providerTxs (auditLog a u ac rs i s) = providerTxs s"
  "settlements (auditLog a u ac rs i s) = settlements s"
  "refunds (auditLog a u ac rs i s) = refunds s"
  "pools (auditLog a u ac rs i s) = pools s"
  "reservations (auditLog a u ac rs i s) = reservations s"
  "treasuryTxs (auditLog a u ac rs i s) = treasuryTxs s"
  "transactions (auditLog a u ac rs i s) = transactions s"
  "webhookEvents (auditLog a u ac rs i s) = webhookEvents s"
  "poolStates (auditLog a u ac rs i s) = poolStates s"
  "mockStore (auditLog a u ac rs i s) = mockStore s"
  "ngnStore (auditLog a u ac rs i s) = ngnStore s"
  by (simp_all add: auditLog_def)

lemma rollback_frame [simp]:
  "quotes (rollback s s1) = quotes s"
  "orders (rollback s s1) = orders s"
  "payments (rollback s s1) = payments s"
  "providerTxs (rollback s s1) = providerTxs s"
  "settlements (rollback s s1) = settlements s"
  "refunds (rollback s s1) = refunds s"
  "pools (rollback s s1) = pools s"
  "reservations (rollback s s1) = reservations s"
  "treasuryTxs (rollback s s1) = treasuryTxs s"
  "transactions (rollback s s1) = transactions s"
  "webhookEvents (rollback s s1) = webhookEvents s"
  "audits (rollback s s1) = audits s1"
  "poolStates (rollback s s1) = poolStates s1"
  "mockStore (rollback s s1) = mockStore s1"
  "ngnStore (rollback s s1) = ngnStore s1"
  by (simp_all add: rollback_def)

end
