(* ===== verification/StellarConfig.thy ===== *)
theory StellarConfig
  imports Schema
begin

text \<open>
  The configuration and its guards: the environment schema and the configuration object of
  \<^verbatim>\<open>src/config/index.ts\<close>, and the network and safety guards of \<^verbatim>\<open>src/stellar/config/index.ts\<close>.
  The checks of the Stellar SDK on keys and contract addresses (\<open>StrKey\<close>) are parameters.
\<close>

subsection \<open>The environment\<close>

record strkey =
  sk_publicKey :: "string \<Rightarrow> bool"
  sk_secretSeed :: "string \<Rightarrow> bool"
  sk_contract :: "string \<Rightarrow> bool"

text \<open>
  The variables the schema's refinements and the modelled part of the configuration read, with
  the defaults applied and the numbers parsed; \<open>None\<close> is a variable that is not set.
\<close>

record env_data =
  NODE_ENV :: string
  DATABASE_URL :: string
  WORKER_LOCK_TTL_MS :: int
  WORKER_LOCK_HEARTBEAT_MS :: int
  REQUIRE_DISTRIBUTED_LOCKS :: bool
  STELLAR_NETWORK :: string
  STELLAR_USDC_ISSUER :: string
  STELLAR_USDC_CONTRACT_ID :: "string option"
  STELLAR_SETTLEMENT_VAULT_CONTRACT_ID :: string
  SOROBAN_SETTLEMENT_VAULT_CONTRACT_ID :: string
  STELLAR_SETTLEMENT_SIGNER_PUBLIC_KEY :: "string option"
  STELLAR_SETTLEMENT_SIGNER_SECRET_KEY :: "string option"
  JWT_SECRET :: string
  NGN_PROVIDER :: string
  PAYSTACK_SECRET_KEY :: string
  QUOTE_PROVIDER :: string
  QUOTE_EXPIRY_SECONDS :: int
  QUOTE_TTL_SECONDS :: int
  FX_RATE_MAX_AGE_SECONDS :: int
  QUOTE_FEE_PERCENTAGE :: rat
  QUOTE_SPREAD_PERCENTAGE :: rat
  MIN_NGN_AMOUNT :: rat
  MAX_NGN_AMOUNT :: rat
  MAX_QUOTE_USDC_AMOUNT :: rat
  STELLAR_SIGNER_PROVIDER :: string
  STELLAR_KMS_KEY_ARN :: string
  AWS_KMS_SIGNING_KEY_ID :: string
  PRODUCTION_SETTLEMENT_ENABLED :: bool
  MAX_SINGLE_SETTLEMENT_USDC :: rat
  MAX_HOURLY_OUTFLOW_USDC :: rat
  MAX_DAILY_OUTFLOW_USDC :: rat
  MIN_SETTLEMENT_USDC :: rat
  TREASURY_WARN_THRESHOLD_USDC :: rat
  TREASURY_CRITICAL_THRESHOLD_USDC :: rat
  STELLAR_CONTRACT_ADMIN_GOVERNANCE_TYPE :: string
  EMERGENCY_GLOBAL_PAUSE :: bool

definition mainnetIssuer :: string where
  "mainnetIssuer = ''GA5ZSEJYB37JRC5AVCIA5MOP4RHTM335X2KGX3IHOJAPP5RE34K4KZVN''"

definition mainnetContract :: string where
  "mainnetContract = ''CCW67TSZV3SSS2HXMBQ5JFGCKJNXKZM7UQUWUZPUTHXSTZLEO7SJMI75''"

definition isPublic :: "string \<Rightarrow> bool" where
  "isPublic net = (net = ''public'' \<or> net = ''mainnet'')"

text \<open>The enumerations and the per-field checks.\<close>

definition fieldsOk :: "strkey \<Rightarrow> env_data \<Rightarrow> bool" where
  "fieldsOk k d \<longleftrightarrow>
     NODE_ENV d \<in> {''development'', ''test'', ''staging'', ''production''} \<and> DATABASE_URL d \<noteq> []
     \<and> STELLAR_NETWORK d \<in> {''testnet'', ''futurenet'', ''public'', ''mainnet''}
     \<and> STELLAR_USDC_ISSUER d \<noteq> [] \<and> sk_publicKey k (STELLAR_USDC_ISSUER d)
     \<and> (truthy (STELLAR_USDC_CONTRACT_ID d) \<longrightarrow> sk_contract k (the (STELLAR_USDC_CONTRACT_ID d)))
     \<and> (truthy (STELLAR_SETTLEMENT_SIGNER_PUBLIC_KEY d) \<longrightarrow>
          sk_publicKey k (the (STELLAR_SETTLEMENT_SIGNER_PUBLIC_KEY d)))
     \<and> (truthy (STELLAR_SETTLEMENT_SIGNER_SECRET_KEY d) \<longrightarrow>
          sk_secretSeed k (the (STELLAR_SETTLEMENT_SIGNER_SECRET_KEY d)))
     \<and> NGN_PROVIDER d \<in> {''sandbox'', ''paystack''} \<and> QUOTE_PROVIDER d \<in> {''real'', ''mock''}
     \<and> STELLAR_SIGNER_PROVIDER d \<in> {''testnet_local'', ''aws_kms'', ''gcp_kms'', ''fireblocks''}
     \<and> STELLAR_CONTRACT_ADMIN_GOVERNANCE_TYPE d \<in> {''single_key'', ''multisig'', ''dao''}"

definition testKey :: "string \<Rightarrow> bool" where
  "testKey v = (take 8 v = ''sk_test_'')"

definition kmsKey :: "env_data \<Rightarrow> string" where
  "kmsKey d = (if STELLAR_KMS_KEY_ARN d \<noteq> [] then STELLAR_KMS_KEY_ARN d else AWS_KMS_SIGNING_KEY_ID d)"

text \<open>The nine refinements, in their order.\<close>

definition refinements :: "env_data \<Rightarrow> bool list" where
  "refinements d =
     (let pub = isPublic (STELLAR_NETWORK d) in
      [\<not> (NGN_PROVIDER d = ''paystack'' \<and> trim (PAYSTACK_SECRET_KEY d) = []),
       \<not> (NODE_ENV d = ''production'' \<and> JWT_SECRET d = ''dev_secret_change_me_in_production''),
       \<not> (NODE_ENV d = ''production'' \<and> \<not> pub),
       \<not> (pub \<and> STELLAR_USDC_ISSUER d \<noteq> mainnetIssuer),
       \<not> (\<not> pub \<and> STELLAR_USDC_ISSUER d = mainnetIssuer),
       \<not> (pub \<and> truthy (STELLAR_USDC_CONTRACT_ID d) \<and> STELLAR_USDC_CONTRACT_ID d \<noteq> Some mainnetContract),
       \<not> (NODE_ENV d = ''production'' \<and> NGN_PROVIDER d = ''paystack'' \<and> testKey (PAYSTACK_SECRET_KEY d)),
       \<not> (PRODUCTION_SETTLEMENT_ENABLED d \<and>
           (\<not> pub \<or> STELLAR_USDC_ISSUER d \<noteq> mainnetIssuer \<or> STELLAR_SIGNER_PROVIDER d = ''testnet_local''
            \<or> (STELLAR_SIGNER_PROVIDER d = ''aws_kms'' \<and> trim (kmsKey d) = [])
            \<or> STELLAR_CONTRACT_ADMIN_GOVERNANCE_TYPE d = ''single_key'')),
       \<not> (TREASURY_CRITICAL_THRESHOLD_USDC d > TREASURY_WARN_THRESHOLD_USDC d)])"

definition envAccepted :: "strkey \<Rightarrow> env_data \<Rightarrow> bool" where
  "envAccepted k d \<longleftrightarrow> fieldsOk k d \<and> list_all (\<lambda>b. b) (refinements d)"

definition orInt :: "int \<Rightarrow> int \<Rightarrow> int" where
  "orInt a b = (if a \<noteq> 0 then a else b)"

definition toConfig :: "env_data \<Rightarrow> config" where
  "toConfig d =
     \<lparr>env = NODE_ENV d, requireDistributedLocks = REQUIRE_DISTRIBUTED_LOCKS d,
      lockTtlMs = WORKER_LOCK_TTL_MS d, lockHeartbeatMs = WORKER_LOCK_HEARTBEAT_MS d,
      network = STELLAR_NETWORK d, usdcIssuer = STELLAR_USDC_ISSUER d,
      usdcContractId = STELLAR_USDC_CONTRACT_ID d,
      vaultContractId = orDefault (Some (SOROBAN_SETTLEMENT_VAULT_CONTRACT_ID d)) (STELLAR_SETTLEMENT_VAULT_CONTRACT_ID d),
      signerPublicKey = STELLAR_SETTLEMENT_SIGNER_PUBLIC_KEY d,
      signerSecretKey = STELLAR_SETTLEMENT_SIGNER_SECRET_KEY d, signerProvider = STELLAR_SIGNER_PROVIDER d,
      kmsKeyArn = Some (kmsKey d), governanceType = STELLAR_CONTRACT_ADMIN_GOVERNANCE_TYPE d,
      productionSettlementEnabled = PRODUCTION_SETTLEMENT_ENABLED d,
      emergencyGlobalPause = EMERGENCY_GLOBAL_PAUSE d,
      maxSingleSettlementUsdc = MAX_SINGLE_SETTLEMENT_USDC d, maxHourlyOutflowUsdc = MAX_HOURLY_OUTFLOW_USDC d,
      maxDailyOutflowUsdc = MAX_DAILY_OUTFLOW_USDC d, minSettlementUsdc = MIN_SETTLEMENT_USDC d,
      warnThresholdUsdc = TREASURY_WARN_THRESHOLD_USDC d,
      criticalThresholdUsdc = TREASURY_CRITICAL_THRESHOLD_USDC d,
      feePercentage = QUOTE_FEE_PERCENTAGE d, spreadPercentage = QUOTE_SPREAD_PERCENTAGE d,
      ttlSeconds = orInt (QUOTE_TTL_SECONDS d) (QUOTE_EXPIRY_SECONDS d),
      expirySeconds = orInt (QUOTE_TTL_SECONDS d) (QUOTE_EXPIRY_SECONDS d),
      fxMaxAgeSeconds = FX_RATE_MAX_AGE_SECONDS d, minNgnAmount = MIN_NGN_AMOUNT d,
      maxNgnAmount = MAX_NGN_AMOUNT d, maxQuoteUsdcAmount = MAX_QUOTE_USDC_AMOUNT d,
      quoteProvider = QUOTE_PROVIDER d, ngnProvider = NGN_PROVIDER d,
      paystackSecretKey = PAYSTACK_SECRET_KEY d\<rparr>"

text \<open>Loading the module: a refused environment throws.\<close>

definition loadConfig :: "strkey \<Rightarrow> env_data \<Rightarrow> app_error + config" where
  "loadConfig k d =
     (if envAccepted k d then Inr (toConfig d)
      else Inl (PlainError ''Invalid application environment configuration.''))"

subsection \<open>Network guards\<close>

text \<open>The passphrases are constants of the Stellar SDK.\<close>

datatype passphrase = PublicNet | Futurenet | Testnet

definition getNetworkPassphrase :: "string \<Rightarrow> passphrase" where
  "getNetworkPassphrase net =
     (if isPublic (toLower net) then PublicNet
      else if toLower net = ''futurenet'' then Futurenet else Testnet)"

definition passphraseOf :: "config \<Rightarrow> passphrase" where
  "passphraseOf cfg = getNetworkPassphrase (network cfg)"

definition isMainnet :: "config \<Rightarrow> bool" where
  "isMainnet cfg = isPublic (toLower (network cfg))"

definition liveEnv :: "config \<Rightarrow> bool" where
  "liveEnv cfg = (env cfg = ''production'' \<or> env cfg = ''staging'')"

definition assertTestnetSafety :: "config \<Rightarrow> app_error + unit" where
  "assertTestnetSafety cfg =
     (if isMainnet cfg \<and> \<not> liveEnv cfg
      then Inl (StellarNetworkError ''Mainnet operations are strictly prohibited during development.'')
      else Inr ())"

definition assertContractGovernanceReadiness :: "config \<Rightarrow> app_error + unit" where
  "assertContractGovernanceReadiness cfg =
     (if (isMainnet cfg \<or> env cfg = ''production'') \<and> governanceType cfg = ''single_key''
      then Inl (SorobanSignerConfigError ''FATAL SECURITY VIOLATION: contract admin cannot be single_key'')
      else Inr ())"

definition assertProductionSettlementSafety :: "config \<Rightarrow> app_error + unit" where
  "assertProductionSettlementSafety cfg =
     (if \<not> isMainnet cfg then
        (if productionSettlementEnabled cfg
         then Inl (StellarNetworkError ''Production settlement safety violation: not on mainnet'')
         else Inr ())
      else if \<not> productionSettlementEnabled cfg
      then Inl (StellarNetworkError ''Live settlement submission refused: PRODUCTION_SETTLEMENT_ENABLED is false'')
      else if \<not> liveEnv cfg
      then Inl (StellarNetworkError ''Mainnet settlement submission refused: NODE_ENV'')
      else if usdcIssuer cfg \<noteq> mainnetIssuer
      then Inl (StellarNetworkError ''Mainnet settlement safety violation: STELLAR_USDC_ISSUER'')
      else if signerProvider cfg = ''testnet_local''
      then Inl (SorobanSignerConfigError ''FATAL SECURITY VIOLATION: Local testnet signer'')
      else if signerProvider cfg = ''aws_kms'' \<and> trim (orDefault (kmsKeyArn cfg) []) = []
      then Inl (SorobanSignerConfigError ''FATAL SECURITY VIOLATION: AWS KMS signer key ARN is required'')
      else if ngnProvider cfg = ''paystack'' \<and> testKey (paystackSecretKey cfg)
      then Inl (StellarNetworkError ''Mainnet settlement safety violation: Paystack test key'')
      else assertContractGovernanceReadiness cfg)"

definition assertLiveSettlementTestnetSafety :: "config \<Rightarrow> app_error + unit" where
  "assertLiveSettlementTestnetSafety = assertProductionSettlementSafety"

definition usdcContract :: "config \<Rightarrow> app_error + string" where
  "usdcContract cfg =
     (if truthy (usdcContractId cfg) then Inr (the (usdcContractId cfg))
      else Inl (PlainError ''STELLAR_USDC_CONTRACT_ID is required for Soroban USDC operations''))"

text \<open>The guards of \<^verbatim>\<open>LuminaRailWorkerRunner.start\<close>, before it begins to sweep.\<close>

definition workerStartGuards :: "config \<Rightarrow> string \<Rightarrow> app_error + unit" where
  "workerStartGuards cfg redisUrl =
     (case assertProductionSettlementSafety cfg of
        Inl e \<Rightarrow> Inl e
      | Inr _ \<Rightarrow>
          (case assertContractGovernanceReadiness cfg of
             Inl e \<Rightarrow> Inl e
           | Inr _ \<Rightarrow>
               if env cfg = ''production'' then
                 (if trim redisUrl = [] then Inl (PlainError ''REDIS_URL environment variable is required'')
                  else if signerProvider cfg = ''testnet_local''
                  then Inl (SorobanSignerConfigError ''FATAL SECURITY VIOLATION: Local testnet signer'')
                  else if signerProvider cfg = ''aws_kms'' \<and> trim (orDefault (kmsKeyArn cfg) []) = []
                  then Inl (SorobanSignerConfigError ''FATAL SECURITY VIOLATION: KMS key ARN is required'')
                  else Inr ())
               else Inr ()))"

subsection \<open>What the guards admit\<close>

lemma accepted_refinements:
  assumes "envAccepted k d"
  shows "NODE_ENV d = ''production'' \<Longrightarrow> isPublic (STELLAR_NETWORK d)"
    and "isPublic (STELLAR_NETWORK d) \<Longrightarrow> STELLAR_USDC_ISSUER d = mainnetIssuer"
    and "PRODUCTION_SETTLEMENT_ENABLED d \<Longrightarrow> isPublic (STELLAR_NETWORK d)
      \<and> STELLAR_SIGNER_PROVIDER d \<noteq> ''testnet_local''
      \<and> (STELLAR_SIGNER_PROVIDER d = ''aws_kms'' \<longrightarrow> trim (kmsKey d) \<noteq> [])
      \<and> STELLAR_CONTRACT_ADMIN_GOVERNANCE_TYPE d \<noteq> ''single_key''"
    and "NODE_ENV d = ''production'' \<Longrightarrow> \<not> (NGN_PROVIDER d = ''paystack'' \<and> testKey (PAYSTACK_SECRET_KEY d))"
  using assms by (auto simp: envAccepted_def refinements_def Let_def)

lemma lower_network: "net \<in> {''testnet'', ''futurenet'', ''public'', ''mainnet''} \<Longrightarrow> toLower net = net"
  by (auto simp: toLower_def lower_char_def)

lemma accepted_network: "envAccepted k d \<Longrightarrow> isMainnet (toConfig d) = isPublic (STELLAR_NETWORK d)"
  using lower_network[of "STELLAR_NETWORK d"] by (simp add: envAccepted_def fieldsOk_def isMainnet_def toConfig_def)

lemma orDefault_Some_nil: "orDefault (Some v) [] = v"
  by (simp add: orDefault_def)

text \<open>
  C24. The schema of the environment and the guard in front of every submission fit together: under
  an accepted environment a settlement can be submitted exactly off the main network without the
  production flag, or on the main network with it, in production or staging, and not with a
  Paystack test key. So production submits only with the flag, the main network's issuer, a
  signer that is not local, and a shared contract admin.
\<close>

theorem submission_allowed_iff:
  assumes ok: "loadConfig k d = Inr cfg"
  shows "((assertLiveSettlementTestnetSafety cfg = Inr ()) \<longleftrightarrow>
      (if isPublic (STELLAR_NETWORK d) then
         PRODUCTION_SETTLEMENT_ENABLED d \<and> NODE_ENV d \<in> {''production'', ''staging''}
         \<and> \<not> (NGN_PROVIDER d = ''paystack'' \<and> testKey (PAYSTACK_SECRET_KEY d))
       else \<not> PRODUCTION_SETTLEMENT_ENABLED d \<and> NODE_ENV d \<noteq> ''production''))
    \<and> (NODE_ENV d = ''production'' \<and> assertLiveSettlementTestnetSafety cfg = Inr () \<longrightarrow>
         PRODUCTION_SETTLEMENT_ENABLED d \<and> usdcIssuer cfg = mainnetIssuer
         \<and> signerProvider cfg \<noteq> ''testnet_local'' \<and> governanceType cfg \<noteq> ''single_key'')"
proof -
  have acc: "envAccepted k d" and cfg: "cfg = toConfig d"
    using ok by (auto simp: loadConfig_def split: if_splits)
  note r = accepted_refinements[OF acc]
  have main: "isMainnet cfg = isPublic (STELLAR_NETWORK d)" using accepted_network[OF acc] cfg by simp
  have f: "env cfg = NODE_ENV d" "productionSettlementEnabled cfg = PRODUCTION_SETTLEMENT_ENABLED d"
    "usdcIssuer cfg = STELLAR_USDC_ISSUER d" "signerProvider cfg = STELLAR_SIGNER_PROVIDER d"
    "kmsKeyArn cfg = Some (kmsKey d)" "governanceType cfg = STELLAR_CONTRACT_ADMIN_GOVERNANCE_TYPE d"
    "ngnProvider cfg = NGN_PROVIDER d" "paystackSecretKey cfg = PAYSTACK_SECRET_KEY d"
    by (simp_all add: cfg toConfig_def)
  show ?thesis
    using r
    by (auto simp: assertLiveSettlementTestnetSafety_def assertProductionSettlementSafety_def
        assertContractGovernanceReadiness_def main f liveEnv_def orDefault_Some_nil)
qed

text \<open>A production environment of the main network.\<close>

definition demo_strkey :: strkey where
  "demo_strkey = \<lparr>sk_publicKey = (\<lambda>v. take 1 v = ''G''), sk_secretSeed = (\<lambda>v. take 1 v = ''S''),
     sk_contract = (\<lambda>v. take 1 v = ''C'')\<rparr>"

definition demo_env_data :: env_data where
  "demo_env_data =
     \<lparr>NODE_ENV = ''production'', DATABASE_URL = ''postgres'', WORKER_LOCK_TTL_MS = 15000,
      WORKER_LOCK_HEARTBEAT_MS = 5000, REQUIRE_DISTRIBUTED_LOCKS = True, STELLAR_NETWORK = ''public'',
      STELLAR_USDC_ISSUER = mainnetIssuer, STELLAR_USDC_CONTRACT_ID = Some mainnetContract,
      STELLAR_SETTLEMENT_VAULT_CONTRACT_ID = ''CVAULT'', SOROBAN_SETTLEMENT_VAULT_CONTRACT_ID = [],
      STELLAR_SETTLEMENT_SIGNER_PUBLIC_KEY = Some ''GSIGNER'', STELLAR_SETTLEMENT_SIGNER_SECRET_KEY = None,
      JWT_SECRET = ''jwt'', NGN_PROVIDER = ''paystack'', PAYSTACK_SECRET_KEY = ''sk_live_1'',
      QUOTE_PROVIDER = ''real'', QUOTE_EXPIRY_SECONDS = 300, QUOTE_TTL_SECONDS = 300,
      FX_RATE_MAX_AGE_SECONDS = 300, QUOTE_FEE_PERCENTAGE = 1 / 100, QUOTE_SPREAD_PERCENTAGE = 0,
      MIN_NGN_AMOUNT = 1000, MAX_NGN_AMOUNT = 10000000, MAX_QUOTE_USDC_AMOUNT = 10000,
      STELLAR_SIGNER_PROVIDER = ''aws_kms'', STELLAR_KMS_KEY_ARN = ''arn'', AWS_KMS_SIGNING_KEY_ID = [],
      PRODUCTION_SETTLEMENT_ENABLED = True, MAX_SINGLE_SETTLEMENT_USDC = 10000,
      MAX_HOURLY_OUTFLOW_USDC = 50000, MAX_DAILY_OUTFLOW_USDC = 200000, MIN_SETTLEMENT_USDC = 1,
      TREASURY_WARN_THRESHOLD_USDC = 5000, TREASURY_CRITICAL_THRESHOLD_USDC = 1000,
      STELLAR_CONTRACT_ADMIN_GOVERNANCE_TYPE = ''multisig'', EMERGENCY_GLOBAL_PAUSE = False\<rparr>"

theorem submission_allowed_iff_witness:
  "assertLiveSettlementTestnetSafety (toConfig demo_env_data) = Inr ()"
proof -
  have "loadConfig demo_strkey demo_env_data = Inr (toConfig demo_env_data)"
    by (simp add: loadConfig_def envAccepted_def fieldsOk_def refinements_def demo_strkey_def demo_env_data_def
        isPublic_def mainnetIssuer_def mainnetContract_def testKey_def kmsKey_def trim_def is_space_def)
  from conjunct1[OF submission_allowed_iff[OF this]] show ?thesis
    by (rule iffD2) (simp add: demo_env_data_def isPublic_def testKey_def)
qed

end
