(* ===== verification/StateMachines.thy ===== *)
theory StateMachines
  imports Schema
begin

text \<open>
  The four status machines: \<^verbatim>\<open>orders.state-machine.ts\<close>, \<^verbatim>\<open>payment.state-machine.ts\<close>,
  \<^verbatim>\<open>refund.state-machine.ts\<close> and \<^verbatim>\<open>settlements.state-machine.ts\<close>, and the contract they
  share: a reflexive relation whose final statuses are never left. The contract is the
  locale \<open>status_machine\<close>; each machine interprets it.
\<close>

subsection \<open>The contract\<close>

locale status_machine =
  fixes can :: "'st \<Rightarrow> 'st \<Rightarrow> bool"
    and final :: "'st set"
  assumes can_refl: "can x x"
    and final_closed: "x \<in> final \<Longrightarrow> can x y \<Longrightarrow> y \<in> final"
begin

text \<open>A history is a list of statuses each reached from the one before by an allowed step.\<close>

fun history :: "'st \<Rightarrow> 'st list \<Rightarrow> bool" where
  "history x [] = True"
| "history x (y # ys) = (can x y \<and> history y ys)"

lemma history_final: "history x ys \<Longrightarrow> x \<in> final \<Longrightarrow> set ys \<subseteq> final"
  by (induction ys arbitrary: x) (auto dest: final_closed)

lemma history_append:
  "history x (ys @ zs) \<longleftrightarrow> history x ys \<and> history (last (x # ys)) zs"
  by (induction ys arbitrary: x) auto

lemma history_suffix_final:
  assumes "history x (ys @ y # zs)" and "y \<in> final"
  shows "set zs \<subseteq> final"
proof -
  from assms(1) have "history y zs" by (simp add: history_append)
  then show ?thesis using assms(2) by (rule history_final)
qed

lemma not_final_before: "can x y \<Longrightarrow> y \<notin> final \<Longrightarrow> x \<notin> final"
  using final_closed by blast

end

subsection \<open>Orders\<close>

fun allowedOrder :: "order_status \<Rightarrow> order_status list" where
  "allowedOrder O_CREATED = [O_CREATED, O_AWAITING_PAYMENT, O_CANCELLED, O_EXPIRED]"
| "allowedOrder O_AWAITING_PAYMENT =
     [O_AWAITING_PAYMENT, O_PAYMENT_DETECTED, O_PAYMENT_CONFIRMED, O_SETTLEMENT_PENDING,
      O_FAILED, O_CANCELLED, O_EXPIRED, O_REFUND_PENDING, O_REFUNDED]"
| "allowedOrder O_PAYMENT_DETECTED =
     [O_PAYMENT_DETECTED, O_PAYMENT_CONFIRMED, O_SETTLEMENT_PENDING, O_FAILED, O_CANCELLED,
      O_REFUND_PENDING, O_REFUNDED]"
| "allowedOrder O_PAYMENT_CONFIRMED =
     [O_PAYMENT_CONFIRMED, O_SETTLEMENT_PENDING, O_FAILED, O_CANCELLED, O_REFUND_PENDING,
      O_REFUNDED]"
| "allowedOrder O_SETTLEMENT_PENDING =
     [O_SETTLEMENT_PENDING, O_SETTLEMENT_COMPLETED, O_COMPLETED, O_FAILED, O_CANCELLED,
      O_REFUND_PENDING, O_REFUNDED]"
| "allowedOrder O_SETTLEMENT_COMPLETED = [O_SETTLEMENT_COMPLETED, O_COMPLETED]"
| "allowedOrder O_COMPLETED = [O_COMPLETED]"
| "allowedOrder O_FAILED = [O_FAILED, O_REFUND_PENDING, O_REFUNDED]"
| "allowedOrder O_CANCELLED = [O_CANCELLED, O_REFUND_PENDING, O_REFUNDED]"
| "allowedOrder O_REFUND_PENDING = [O_REFUND_PENDING, O_REFUNDED, O_REFUND_FAILED]"
| "allowedOrder O_REFUNDED = [O_REFUNDED]"
| "allowedOrder O_REFUND_FAILED = [O_REFUND_FAILED, O_REFUND_PENDING, O_REFUNDED]"
| "allowedOrder O_EXPIRED = [O_EXPIRED, O_REFUND_PENDING, O_REFUNDED]"

definition canOrder :: "order_status \<Rightarrow> order_status \<Rightarrow> bool" where
  "canOrder current target =
     (if current = target then True
      else if current = O_REFUNDED then target = O_REFUNDED
      else if (current = O_COMPLETED \<or> current = O_SETTLEMENT_COMPLETED)
              \<and> (target = O_SETTLEMENT_PENDING \<or> target = O_REFUND_PENDING) then False
      else target \<in> set (allowedOrder current))"

definition validateOrderTransition :: "order_status \<Rightarrow> order_status \<Rightarrow> unit op" where
  "validateOrderTransition current target =
     (if canOrder current target then ret ()
      else throw (BadRequestError ''Invalid Order status transition''))"

subsection \<open>Payments\<close>

fun allowedPayment :: "payment_status \<Rightarrow> payment_status list" where
  "allowedPayment P_CREATED =
     [P_PENDING, P_PROCESSING, P_SUCCEEDED, P_FAILED, P_CANCELLED, P_EXPIRED]"
| "allowedPayment P_PENDING = [P_PROCESSING, P_SUCCEEDED, P_FAILED, P_CANCELLED, P_EXPIRED]"
| "allowedPayment P_PROCESSING = [P_SUCCEEDED, P_FAILED, P_CANCELLED, P_EXPIRED]"
| "allowedPayment P_SUCCEEDED = [P_REFUNDED]"
| "allowedPayment P_FAILED = []"
| "allowedPayment P_CANCELLED = []"
| "allowedPayment P_EXPIRED = []"
| "allowedPayment P_REFUNDED = []"

definition canPayment :: "payment_status \<Rightarrow> payment_status \<Rightarrow> bool" where
  "canPayment from target = (if from = target then True else target \<in> set (allowedPayment from))"

definition validatePaymentTransition :: "payment_status \<Rightarrow> payment_status \<Rightarrow> unit op" where
  "validatePaymentTransition from target =
     (if canPayment from target then ret () else throw InvalidPaymentStateError)"

subsection \<open>Refunds\<close>

fun allowedRefund :: "refund_status \<Rightarrow> refund_status list" where
  "allowedRefund R_PENDING = [R_PENDING, R_PROCESSING, R_CANCELLED]"
| "allowedRefund R_PROCESSING = [R_PROCESSING, R_SUCCEEDED, R_FAILED]"
| "allowedRefund R_SUCCEEDED = [R_SUCCEEDED]"
| "allowedRefund R_FAILED = [R_FAILED]"
| "allowedRefund R_CANCELLED = [R_CANCELLED]"

definition canRefund :: "refund_status \<Rightarrow> refund_status \<Rightarrow> bool" where
  "canRefund current target = (if current = target then True else target \<in> set (allowedRefund current))"

definition validateRefundTransition :: "refund_status \<Rightarrow> refund_status \<Rightarrow> unit op" where
  "validateRefundTransition current target =
     (if canRefund current target then ret () else throw InvalidRefundStateError)"

definition isTerminalRefund :: "refund_status \<Rightarrow> bool" where
  "isTerminalRefund st = (st = R_SUCCEEDED \<or> st = R_FAILED \<or> st = R_CANCELLED)"

subsection \<open>Settlements\<close>

fun allowedSettlement :: "settlement_status \<Rightarrow> settlement_status list" where
  "allowedSettlement S_PENDING = [S_SUBMITTING, S_FAILED]"
| "allowedSettlement S_SUBMITTING = [S_SUBMITTED, S_PENDING, S_FAILED, S_REQUIRES_RECONCILIATION]"
| "allowedSettlement S_SUBMITTED = [S_CONFIRMING, S_COMPLETED, S_FAILED, S_REQUIRES_RECONCILIATION]"
| "allowedSettlement S_CONFIRMING = [S_COMPLETED, S_FAILED, S_REQUIRES_RECONCILIATION]"
| "allowedSettlement S_COMPLETED = []"
| "allowedSettlement S_FAILED = []"
| "allowedSettlement S_REQUIRES_RECONCILIATION = [S_CONFIRMING, S_COMPLETED, S_FAILED, S_PENDING]"

definition canSettlement :: "settlement_status \<Rightarrow> settlement_status \<Rightarrow> bool" where
  "canSettlement from target =
     (if from = target then True else target \<in> set (allowedSettlement from))"

definition validateSettlementTransition ::
  "settlement_status \<Rightarrow> settlement_status \<Rightarrow> unit op" where
  "validateSettlementTransition from target =
     (if canSettlement from target then ret () else throw InvalidSettlementStateError)"

lemmas can_defs = canOrder_def canPayment_def canRefund_def canSettlement_def

lemmas validate_defs [ops] = validateOrderTransition_def validatePaymentTransition_def
  validateRefundTransition_def validateSettlementTransition_def

subsection \<open>The machines meet the contract\<close>

interpretation order_sm: status_machine canOrder "{O_COMPLETED, O_REFUNDED}"
  by unfold_locales (auto simp: canOrder_def split: if_splits)

text \<open>An order that left the payment phase for a refund never executes a settlement again.\<close>

interpretation refund_path: status_machine canOrder
    "{O_REFUND_PENDING, O_REFUND_FAILED, O_REFUNDED}"
  by unfold_locales (auto simp: canOrder_def split: if_splits)

text \<open>A settled order stays settled.\<close>

interpretation settled_path: status_machine canOrder "{O_SETTLEMENT_COMPLETED, O_COMPLETED}"
  by unfold_locales (auto simp: canOrder_def split: if_splits)

interpretation payment_sm: status_machine canPayment "{P_FAILED, P_CANCELLED, P_EXPIRED, P_REFUNDED}"
  by unfold_locales (auto simp: canPayment_def split: if_splits)

text \<open>Money received is only ever kept or given back.\<close>

interpretation captured_sm: status_machine canPayment "{P_SUCCEEDED, P_REFUNDED}"
  by unfold_locales (auto simp: canPayment_def split: if_splits)

interpretation refund_sm: status_machine canRefund "{x. isTerminalRefund x}"
  by unfold_locales (auto simp: canRefund_def isTerminalRefund_def split: if_splits)

interpretation settlement_sm: status_machine canSettlement "{S_COMPLETED}"
  by unfold_locales (auto simp: canSettlement_def split: if_splits)

interpretation settlement_end_sm: status_machine canSettlement "{S_COMPLETED, S_FAILED}"
  by unfold_locales (auto simp: canSettlement_def split: if_splits)

text \<open>The histories of an order, over the code's own relation.\<close>

fun orderHistory :: "order_status \<Rightarrow> order_status list \<Rightarrow> bool" where
  "orderHistory x [] = True"
| "orderHistory x (y # ys) = (canOrder x y \<and> orderHistory y ys)"

lemma orderHistory_refund: "orderHistory x ys = refund_path.history x ys"
  by (induction ys arbitrary: x) auto

lemma orderHistory_settled: "orderHistory x ys = settled_path.history x ys"
  by (induction ys arbitrary: x) auto

end
