(* ===== verification/Liquidity.thy ===== *)
theory Liquidity
  imports StateMachines
begin

text \<open>
  The treasury pool: \<^verbatim>\<open>liquidity.service.ts\<close> and \<^verbatim>\<open>treasury-telemetry.service.ts\<close>.
  Operations in the order of the code, the ledger invariant, its preservation by every
  operation, and the exact effect of each operation on the balances. Row locks
  (\<open>SELECT ... FOR UPDATE\<close>) have no effect of their own here: they are what lets each
  \<open>InTx\<close> operation be one step on the state.
\<close>

subsection \<open>Telemetry\<close>

datatype telemetry_action = EMITTED_WARN | EMITTED_CRITICAL | EMITTED_RECOVERED | NO_CHANGE

record evaluation =
  e_previousState :: alert_state
  e_newState :: alert_state
  e_stateChanged :: bool
  e_actionTaken :: telemetry_action

definition classify :: "rat \<Rightarrow> rat \<Rightarrow> rat \<Rightarrow> alert_state" where
  "classify available warn critical =
     (if available \<le> critical then CRITICAL else if available \<le> warn then WARNING else HEALTHY)"

definition evaluatePoolBalance ::
  "config \<Rightarrow> rat option \<Rightarrow> rat option \<Rightarrow> string option \<Rightarrow> pool \<Rightarrow> sys \<Rightarrow> sys \<times> evaluation" where
  "evaluatePoolBalance cfg warnOpt criticalOpt workerId p s =
     (let available = usdc (l_available p);
          warn = (case warnOpt of Some w \<Rightarrow> w | None \<Rightarrow> warnThresholdUsdc cfg);
          critical = (case criticalOpt of Some c \<Rightarrow> c | None \<Rightarrow> criticalThresholdUsdc cfg);
          previous = (case poolStates s (l_id p) of Some st \<Rightarrow> st | None \<Rightarrow> HEALTHY);
          new = classify available warn critical;
          actor = Some (orDefault workerId ''system-telemetry'');
          s1 = s\<lparr>poolStates := (poolStates s)(l_id p \<mapsto> new)\<rparr>
      in if previous \<noteq> new then
           (case new of
              CRITICAL \<Rightarrow>
                (auditLog actor None ''TREASURY_LOW_BALANCE_CRITICAL'' ''LiquidityPool'' None s1,
                 \<lparr>e_previousState = previous, e_newState = new, e_stateChanged = True,
                  e_actionTaken = EMITTED_CRITICAL\<rparr>)
            | WARNING \<Rightarrow>
                (auditLog actor None ''TREASURY_LOW_BALANCE_WARN'' ''LiquidityPool'' None s1,
                 \<lparr>e_previousState = previous, e_newState = new, e_stateChanged = True,
                  e_actionTaken = EMITTED_WARN\<rparr>)
            | HEALTHY \<Rightarrow>
                (auditLog actor None ''TREASURY_BALANCE_RECOVERED'' ''LiquidityPool'' None s1,
                 \<lparr>e_previousState = previous, e_newState = new, e_stateChanged = True,
                  e_actionTaken = EMITTED_RECOVERED\<rparr>))
         else (s, \<lparr>e_previousState = previous, e_newState = new, e_stateChanged = False,
                   e_actionTaken = NO_CHANGE\<rparr>))"

text \<open>The services call it without options and ignore its result.\<close>

definition telemetry :: "config \<Rightarrow> pool \<Rightarrow> sys \<Rightarrow> sys" where
  "telemetry cfg p s = fst (evaluatePoolBalance cfg None None None p s)"

lemma telemetry_frame [simp]:
  "quotes (telemetry cfg p s) = quotes s"
  "orders (telemetry cfg p s) = orders s"
  "payments (telemetry cfg p s) = payments s"
  "providerTxs (telemetry cfg p s) = providerTxs s"
  "settlements (telemetry cfg p s) = settlements s"
  "refunds (telemetry cfg p s) = refunds s"
  "pools (telemetry cfg p s) = pools s"
  "reservations (telemetry cfg p s) = reservations s"
  "treasuryTxs (telemetry cfg p s) = treasuryTxs s"
  "transactions (telemetry cfg p s) = transactions s"
  "webhookEvents (telemetry cfg p s) = webhookEvents s"
  "mockStore (telemetry cfg p s) = mockStore s"
  "ngnStore (telemetry cfg p s) = ngnStore s"
  by (auto simp: telemetry_def evaluatePoolBalance_def Let_def split: alert_state.splits)

instantiation alert_state :: linorder
begin

definition severity :: "alert_state \<Rightarrow> nat" where
  "severity a = (case a of HEALTHY \<Rightarrow> 0 | WARNING \<Rightarrow> 1 | CRITICAL \<Rightarrow> 2)"

definition less_eq_alert_state :: "alert_state \<Rightarrow> alert_state \<Rightarrow> bool" where
  "less_eq_alert_state a b = (severity a \<le> severity b)"

definition less_alert_state :: "alert_state \<Rightarrow> alert_state \<Rightarrow> bool" where
  "less_alert_state a b = (severity a < severity b)"

instance
  by standard
    (auto simp: less_eq_alert_state_def less_alert_state_def severity_def split: alert_state.splits)

end

lemma classify_antimono:
  "a \<le> b \<Longrightarrow> critical \<le> warn \<Longrightarrow> classify b warn critical \<le> classify a warn critical"
  by (auto simp: classify_def less_eq_alert_state_def severity_def)

subsection \<open>Pools\<close>

definition getPool :: "config \<Rightarrow> id \<Rightarrow> string \<Rightarrow> string \<Rightarrow> pool op" where
  "getPool cfg newId asset net s =
     (case find (\<lambda>p. l_asset p = asset \<and> l_network p = net) (pools s) of
        Some existing \<Rightarrow> (telemetry cfg existing s, Inr existing)
      | None \<Rightarrow>
          if \<exists>p \<in> set (pools s). l_asset p = asset then (s, Inl PrismaP2002)
          else
            let created = \<lparr>l_id = newId, l_asset = asset, l_network = net,
                  l_total = 100000000000, l_reserved = 0, l_available = 100000000000,
                  l_minThreshold = 10000000000\<rparr>
            in (telemetry cfg created (s\<lparr>pools := pools s @ [created]\<rparr>), Inr created))"

definition getAvailableLiquidity :: "config \<Rightarrow> id \<Rightarrow> string \<Rightarrow> string \<Rightarrow> int op" where
  "getAvailableLiquidity cfg newId asset net =
     andThen (getPool cfg newId asset net) (\<lambda>p. ret (l_available p))"

subsection \<open>Reservations\<close>

definition insufficient :: app_error where
  "insufficient = BadRequestError ''Insufficient liquidity in pool to satisfy request''"

definition reserveForOrderInTx ::
  "config \<Rightarrow> time \<Rightarrow> id \<Rightarrow> id \<Rightarrow> id \<Rightarrow> int \<Rightarrow> int option \<Rightarrow> reservation op" where
  "reserveForOrderInTx cfg now newId poolId orderId amount expiryMinutes s =
     (if amount \<le> 0 then (s, Inl (BadRequestError ''Reservation amount must be a positive number''))
      else case rowBy l_id poolId (pools s) of
        None \<Rightarrow> (s, Inl (NotFoundError ''Liquidity pool not found.''))
      | Some p \<Rightarrow>
          let currentAvailable = l_total p - l_reserved p in
          if currentAvailable < amount then (s, Inl insufficient)
          else
            let newReserved = l_reserved p + amount; newAvailable = l_total p - newReserved in
            if newAvailable < 0 \<or> newReserved > l_total p then (s, Inl insufficient)
            else
              let updated = p\<lparr>l_reserved := newReserved, l_available := newAvailable\<rparr>;
                  s1 = telemetry cfg updated (s\<lparr>pools := setBy l_id (l_id p)
                         (\<lambda>r. r\<lparr>l_reserved := newReserved, l_available := newAvailable\<rparr>) (pools s)\<rparr>);
                  minutes = (case expiryMinutes of Some m \<Rightarrow> (if m = 0 then 15 else m) | None \<Rightarrow> 15);
                  row = \<lparr>v_id = newId, v_poolId = l_id p, v_orderId = orderId, v_amount = amount,
                         v_status = V_RESERVED, v_expiresAt = now + minutes * 60 * 1000\<rparr>
              in if rowBy v_orderId orderId (reservations s1) \<noteq> None then (s1, Inl PrismaP2002)
                 else (s1\<lparr>reservations := reservations s1 @ [row]\<rparr>, Inr row))"

definition confirmReservationInTx :: "id \<Rightarrow> reservation option op" where
  "confirmReservationInTx orderId s =
     (case rowBy v_orderId orderId (reservations s) of
        None \<Rightarrow> (s, Inr None)
      | Some v \<Rightarrow>
          if v_status v = V_CONFIRMED \<or> v_status v = V_CONSUMED then (s, Inr (Some v))
          else if v_status v \<noteq> V_RESERVED then (s, Inr (Some v))
          else (s\<lparr>reservations := setBy v_id (v_id v) (\<lambda>r. r\<lparr>v_status := V_CONFIRMED\<rparr>) (reservations s)\<rparr>,
                Inr (Some (v\<lparr>v_status := V_CONFIRMED\<rparr>))))"

definition confirmReservation :: "id \<Rightarrow> reservation option op" where
  "confirmReservation orderId = inTransaction (confirmReservationInTx orderId)"

definition consumeReservationBody ::
  "config \<Rightarrow> time \<Rightarrow> id \<Rightarrow> string option \<Rightarrow> string option \<Rightarrow> reservation option op" where
  "consumeReservationBody cfg now orderId externalRef hash s =
     (case rowBy v_orderId orderId (reservations s) of
        None \<Rightarrow> (s, Inr None)
      | Some v \<Rightarrow>
          if v_status v = V_CONSUMED then (s, Inr (Some v))
          else if v_status v = V_EXPIRED_RELEASED \<or> v_status v = V_CANCELLED_RELEASED
          then (s, Inr (Some v))
          else case rowBy l_id (v_poolId v) (pools s) of
            None \<Rightarrow> (s, Inl PrismaP2025)
          | Some p \<Rightarrow>
              let newTotal = l_total p - v_amount v;
                  newReserved = l_reserved p - v_amount v;
                  safeTotal = (if newTotal < 0 then 0 else newTotal);
                  safeReserved = (if newReserved < 0 then 0 else newReserved);
                  safeAvailable = safeTotal - safeReserved;
                  write = (\<lambda>r. r\<lparr>l_total := safeTotal, l_reserved := safeReserved,
                                 l_available := safeAvailable\<rparr>);
                  s1 = telemetry cfg (write p)
                         (s\<lparr>pools := setBy l_id (l_id p) write (pools s)\<rparr>);
                  s2 = s1\<lparr>reservations := setBy v_id (v_id v)
                            (\<lambda>r. r\<lparr>v_status := V_CONSUMED\<rparr>) (reservations s1)\<rparr>;
                  payout = \<lparr>t_poolId = l_id p, t_type = SETTLEMENT_PAYOUT, t_amount = v_amount v,
                            t_hash = (if truthy hash then hash else None),
                            t_externalRef = Some (orDefault externalRef orderId),
                            t_createdAt = now\<rparr>
              in (s2\<lparr>treasuryTxs := treasuryTxs s2 @ [payout]\<rparr>,
                  Inr (Some (v\<lparr>v_status := V_CONSUMED\<rparr>))))"

definition consumeReservation ::
  "config \<Rightarrow> time \<Rightarrow> id \<Rightarrow> string option \<Rightarrow> string option \<Rightarrow> reservation option op" where
  "consumeReservation cfg now orderId externalRef hash =
     inTransaction (consumeReservationBody cfg now orderId externalRef hash)"

definition releaseReservationInTx ::
  "config \<Rightarrow> id \<Rightarrow> reservation_status \<Rightarrow> reservation option op" where
  "releaseReservationInTx cfg orderId target s =
     (case rowBy v_orderId orderId (reservations s) of
        None \<Rightarrow> (s, Inr None)
      | Some v \<Rightarrow>
          if v_status v = V_CONSUMED \<or> v_status v = V_EXPIRED_RELEASED
             \<or> v_status v = V_CANCELLED_RELEASED
          then (s, Inr (Some v))
          else case rowBy l_id (v_poolId v) (pools s) of
            None \<Rightarrow> (s, Inl PrismaP2025)
          | Some p \<Rightarrow>
              let newReserved = l_reserved p - v_amount v;
                  safeReserved = (if newReserved < 0 then 0 else newReserved);
                  newAvailable = l_total p - safeReserved;
                  write = (\<lambda>r. r\<lparr>l_reserved := safeReserved, l_available := newAvailable\<rparr>);
                  s1 = telemetry cfg (write p)
                         (s\<lparr>pools := setBy l_id (l_id p) write (pools s)\<rparr>)
              in (s1\<lparr>reservations := setBy v_id (v_id v)
                       (\<lambda>r. r\<lparr>v_status := target\<rparr>) (reservations s1)\<rparr>,
                  Inr (Some (v\<lparr>v_status := target\<rparr>))))"

definition releaseReservation ::
  "config \<Rightarrow> id \<Rightarrow> reservation_status \<Rightarrow> reservation option op" where
  "releaseReservation cfg orderId target = inTransaction (releaseReservationInTx cfg orderId target)"

definition expireReservation :: "config \<Rightarrow> id \<Rightarrow> reservation option op" where
  "expireReservation cfg orderId = releaseReservation cfg orderId V_EXPIRED_RELEASED"

subsection \<open>Treasury adjustments\<close>

text \<open>The amount is the caller's decimal, not yet a column: the columns round it on writing.\<close>

definition adjustedTotal :: "treasury_type \<Rightarrow> rat \<Rightarrow> rat \<Rightarrow> rat" where
  "adjustedTotal ty current amount =
     (if ty = REPLENISHMENT \<or> ty = MANUAL_ADJUSTMENT \<or> ty = FEE_COLLECTION then current + amount
      else if ty = SETTLEMENT_PAYOUT then current - amount
      else current)"

definition recordTreasuryBody ::
  "config \<Rightarrow> time \<Rightarrow> id \<Rightarrow> treasury_type \<Rightarrow> rat \<Rightarrow> string option \<Rightarrow> string option \<Rightarrow> treasury_tx op" where
  "recordTreasuryBody cfg now poolId ty amount externalRef hash s =
     (case rowBy l_id poolId (pools s) of
        None \<Rightarrow> (s, Inl PrismaP2025)
      | Some p \<Rightarrow>
          let newTotal = adjustedTotal ty (ofColumn 7 (l_total p)) amount
          in if ty = SETTLEMENT_PAYOUT \<and> newTotal < 0
             then (s, Inl (BadRequestError ''Insufficient total balance for payout adjustment''))
             else
               let newAvailable = newTotal - ofColumn 7 (l_reserved p) in
               if newAvailable < 0
               then (s, Inl (BadRequestError ''Adjustment would result in negative available balance''))
               else
                 let write = (\<lambda>r. r\<lparr>l_total := toColumn 7 newTotal, l_available := toColumn 7 newAvailable\<rparr>);
                     s1 = telemetry cfg (write p)
                            (s\<lparr>pools := setBy l_id poolId write (pools s)\<rparr>);
                     row = \<lparr>t_poolId = poolId, t_type = ty, t_amount = toColumn 7 amount,
                            t_hash = (if truthy hash then hash else None),
                            t_externalRef = (if truthy externalRef then externalRef else None),
                            t_createdAt = now\<rparr>
                 in (s1\<lparr>treasuryTxs := treasuryTxs s1 @ [row]\<rparr>, Inr row))"

definition recordTreasuryTransaction ::
  "config \<Rightarrow> time \<Rightarrow> id \<Rightarrow> treasury_type \<Rightarrow> rat \<Rightarrow> string option \<Rightarrow> string option \<Rightarrow> treasury_tx op" where
  "recordTreasuryTransaction cfg now poolId ty amount externalRef hash s =
     (if amount \<le> 0 then (s, Inl (BadRequestError ''Transaction amount must be a positive number''))
      else inTransaction (recordTreasuryBody cfg now poolId ty amount externalRef hash) s)"

lemmas liquidity_defs = reserveForOrderInTx_def confirmReservationInTx_def confirmReservation_def
  consumeReservationBody_def consumeReservation_def releaseReservationInTx_def
  releaseReservation_def expireReservation_def recordTreasuryBody_def recordTreasuryTransaction_def

end
