(* ===== verification/Ledger.thy ===== *)
theory Ledger
  imports Liquidity
begin

text \<open>
  The ledger invariant of the treasury pools and what every operation of
  \<^verbatim>\<open>liquidity.service.ts\<close> does to it. The invariant ties the three balances of a pool to
  each other and to the reservations that hold its money.
\<close>

named_theorems ledger "facts about the ledger invariant"

subsection \<open>The invariant\<close>

definition active :: "reservation_status \<Rightarrow> bool" where
  "active st = (st = V_RESERVED \<or> st = V_CONFIRMED)"

definition heldBy :: "id \<Rightarrow> reservation \<Rightarrow> int" where
  "heldBy pid v = (if v_poolId v = pid \<and> active (v_status v) then v_amount v else 0)"

definition held :: "id \<Rightarrow> reservation list \<Rightarrow> int" where
  "held pid vs = sum_list (map (heldBy pid) vs)"

definition pool_ok :: "reservation list \<Rightarrow> pool \<Rightarrow> bool" where
  "pool_ok vs p \<longleftrightarrow> l_available p = l_total p - l_reserved p \<and> l_reserved p \<le> l_total p
     \<and> l_reserved p = held (l_id p) vs"

definition ledger_ok :: "pool list \<Rightarrow> reservation list \<Rightarrow> bool" where
  "ledger_ok ps vs \<longleftrightarrow> unique_by l_id ps \<and> unique_by v_id vs \<and> unique_by v_orderId vs
     \<and> (\<forall>v \<in> set vs. 0 < v_amount v \<and> rowBy l_id (v_poolId v) ps \<noteq> None)
     \<and> (\<forall>p \<in> set ps. pool_ok vs p)"

definition ledger_inv :: "sys \<Rightarrow> bool" where
  "ledger_inv s \<longleftrightarrow> ledger_ok (pools s) (reservations s)"

lemma active_simps [simp]:
  "active V_RESERVED" "active V_CONFIRMED" "\<not> active V_CONSUMED"
  "\<not> active V_EXPIRED_RELEASED" "\<not> active V_CANCELLED_RELEASED"
  by (simp_all add: active_def)

lemma active_iff: "active st \<longleftrightarrow> \<not> (st = V_CONSUMED \<or> st = V_EXPIRED_RELEASED \<or> st = V_CANCELLED_RELEASED)"
  by (cases st) simp_all

lemma ledger_inv_cong:
  "pools s = pools s' \<Longrightarrow> reservations s = reservations s' \<Longrightarrow> ledger_inv s = ledger_inv s'"
  by (simp add: ledger_inv_def)

lemma held_append: "held pid (vs @ [v]) = held pid vs + heldBy pid v"
  by (simp add: held_def)

lemma held_nonneg: "\<forall>v \<in> set vs. 0 < v_amount v \<Longrightarrow> 0 \<le> held pid vs"
  unfolding held_def by (intro sum_list_nonneg) (auto simp: heldBy_def less_imp_le)

lemma held_ge:
  assumes "\<forall>v \<in> set vs. 0 < v_amount v" and "v \<in> set vs" and "active (v_status v)"
  shows "v_amount v \<le> held (v_poolId v) vs"
proof -
  have "heldBy (v_poolId v) v \<le> held (v_poolId v) vs"
    unfolding held_def
    by (rule sum_list_nonneg_member) (use assms in \<open>auto simp: heldBy_def less_imp_le\<close>)
  with assms(3) show ?thesis by (simp add: heldBy_def)
qed

lemma held_setBy:
  assumes "unique_by v_id vs" and "rowBy v_id (v_id v) vs = Some v"
  shows "held pid (setBy v_id (v_id v) f vs) = held pid vs - heldBy pid v + heldBy pid (f v)"
  unfolding held_def using assms by (rule sum_setBy)

lemma held_absent: "\<forall>v \<in> set vs. v_poolId v \<noteq> pid \<Longrightarrow> held pid vs = 0"
  by (induction vs) (auto simp: held_def heldBy_def)

lemma pool_ok_cong: "held (l_id p) vs' = held (l_id p) vs \<Longrightarrow> pool_ok vs' p = pool_ok vs p"
  by (simp add: pool_ok_def)

lemma ledger_okD:
  assumes "ledger_ok ps vs"
  shows "unique_by l_id ps" and "unique_by v_id vs" and "unique_by v_orderId vs"
    and "\<And>v. v \<in> set vs \<Longrightarrow> 0 < v_amount v"
    and "\<And>v. v \<in> set vs \<Longrightarrow> \<exists>p. rowBy l_id (v_poolId v) ps = Some p"
    and "\<And>p. p \<in> set ps \<Longrightarrow> pool_ok vs p"
  using assms by (auto simp: ledger_ok_def)

text \<open>The reservation an order's lookup finds, its pool, and what it holds there.\<close>

lemma ledger_lookup:
  assumes ok: "ledger_ok ps vs" and v: "rowBy v_orderId orderId vs = Some v"
  obtains p where "rowBy l_id (v_poolId v) ps = Some p" and "p \<in> set ps" and "l_id p = v_poolId v"
    and "pool_ok vs p" and "rowBy v_id (v_id v) vs = Some v" and "v \<in> set vs" and "0 < v_amount v"
    and "active (v_status v) \<Longrightarrow> v_amount v \<le> l_reserved p"
proof -
  note d = ledger_okD[OF ok]
  from rowBy_SomeD[OF v] have vin: "v \<in> set vs" by simp
  from d(5)[OF vin] obtain p where p: "rowBy l_id (v_poolId v) ps = Some p" by blast
  from rowBy_SomeD[OF p] have pin: "p \<in> set ps" and pid: "l_id p = v_poolId v" by auto
  have pos: "\<forall>v \<in> set vs. 0 < v_amount v" using d(4) by blast
  have ge: "v_amount v \<le> l_reserved p" if "active (v_status v)"
    using held_ge[OF pos vin that] d(6)[OF pin] pid by (simp add: pool_ok_def)
  show ?thesis
    by (rule that[OF p pin pid d(6)[OF pin] rowBy_unique[OF d(2) vin] vin d(4)[OF vin] ge])
qed

subsection \<open>The three ways the ledger moves\<close>

text \<open>A reservation stops holding its amount and the pool's reserved balance drops by it.\<close>

lemma ledger_unhold:
  assumes ok: "ledger_ok ps vs" and v: "rowBy v_orderId orderId vs = Some v"
    and p: "rowBy l_id (v_poolId v) ps = Some p"
    and act: "active (v_status v)" and inact: "\<not> active st"
    and fid: "\<And>r. l_id (f r) = l_id r"
    and bal: "l_available (f p) = l_total (f p) - l_reserved (f p)" "l_reserved (f p) \<le> l_total (f p)"
      "l_reserved (f p) = l_reserved p - v_amount v"
  shows "ledger_ok (setBy l_id (l_id p) f ps) (setBy v_id (v_id v) (\<lambda>r. r\<lparr>v_status := st\<rparr>) vs)"
proof -
  let ?g = "\<lambda>r. r\<lparr>v_status := st\<rparr>"
  let ?ps = "setBy l_id (l_id p) f ps" and ?vs = "setBy v_id (v_id v) ?g vs"
  note d = ledger_okD[OF ok]
  obtain pin: "p \<in> set ps" and pid: "l_id p = v_poolId v" and vrow: "rowBy v_id (v_id v) vs = Some v"
    using ledger_lookup[OF ok v] p by (metis option.inject)
  have held': "held pid ?vs = held pid vs - heldBy pid v" for pid
    using held_setBy[OF d(2) vrow, of pid ?g] inact by (simp add: heldBy_def)
  have "pool_ok ?vs q" if "q \<in> set ?ps" for q
    using in_setBy[OF that]
  proof
    assume "\<exists>r0 \<in> set ps. l_id r0 = l_id p \<and> q = f r0"
    then have "q = f p" using same_row[OF d(1) _ pin] by blast
    then show ?thesis
      using bal act d(6)[OF pin] pid by (simp add: pool_ok_def held' heldBy_def fid)
  next
    assume "q \<in> set ps \<and> l_id q \<noteq> l_id p"
    then show ?thesis
      using d(6)[of q] pid by (auto simp: pool_ok_def held' heldBy_def)
  qed
  moreover have "0 < v_amount r \<and> rowBy l_id (v_poolId r) ?ps \<noteq> None" if "r \<in> set ?vs" for r
  proof -
    from in_setBy[OF that] obtain r0 where r0: "r0 \<in> set vs" "v_amount r = v_amount r0"
      "v_poolId r = v_poolId r0" by auto
    obtain q where "rowBy l_id (v_poolId r) ps = Some q" using d(5)[OF r0(1)] r0(3) by auto
    then show ?thesis
      using d(4)[OF r0(1)] r0(2) by (cases "v_poolId r = l_id p") (auto simp: rows fid)
  qed
  ultimately show ?thesis
    using d(1-3) fid by (auto simp: ledger_ok_def rows)
qed

text \<open>A confirmation changes no balance.\<close>

lemma ledger_confirm:
  assumes ok: "ledger_ok ps vs" and v: "rowBy v_orderId orderId vs = Some v"
    and act: "active (v_status v)"
  shows "ledger_ok ps (setBy v_id (v_id v) (\<lambda>r. r\<lparr>v_status := V_CONFIRMED\<rparr>) vs)"
proof -
  let ?g = "\<lambda>r. r\<lparr>v_status := V_CONFIRMED\<rparr>"
  let ?vs = "setBy v_id (v_id v) ?g vs"
  note d = ledger_okD[OF ok]
  obtain vrow: "rowBy v_id (v_id v) vs = Some v"
    using ledger_lookup[OF ok v] by blast
  have held': "held pid ?vs = held pid vs" for pid
    using held_setBy[OF d(2) vrow, of pid ?g] act by (simp add: heldBy_def)
  have "0 < v_amount r \<and> rowBy l_id (v_poolId r) ps \<noteq> None" if "r \<in> set ?vs" for r
    using in_setBy[OF that] d(4,5) by auto
  moreover have "pool_ok ?vs q" if "q \<in> set ps" for q
    using d(6)[OF that] by (simp add: pool_ok_cong[OF held'])
  ultimately show ?thesis
    using d(1-3) by (auto simp: ledger_ok_def rows)
qed

text \<open>A new reservation holds its amount and the reserved balance grows by it.\<close>

lemma ledger_hold:
  assumes ok: "ledger_ok ps vs" and p: "rowBy l_id pid ps = Some p"
    and v: "v_poolId v = pid" "active (v_status v)" "0 < v_amount v"
    and fresh: "rowBy v_id (v_id v) vs = None" "rowBy v_orderId (v_orderId v) vs = None"
    and fid: "\<And>r. l_id (f r) = l_id r"
    and bal: "l_available (f p) = l_total (f p) - l_reserved (f p)" "l_reserved (f p) \<le> l_total (f p)"
      "l_reserved (f p) = l_reserved p + v_amount v"
  shows "ledger_ok (setBy l_id pid f ps) (vs @ [v])"
proof -
  let ?ps = "setBy l_id pid f ps"
  note d = ledger_okD[OF ok]
  from rowBy_SomeD[OF p] have pin: "p \<in> set ps" and pid: "l_id p = pid" by auto
  have "pool_ok (vs @ [v]) q" if "q \<in> set ?ps" for q
    using in_setBy[OF that]
  proof
    assume "\<exists>r0 \<in> set ps. l_id r0 = pid \<and> q = f r0"
    then have "q = f p" using same_row[OF d(1) _ pin] pid by auto
    then show ?thesis
      using bal v d(6)[OF pin] pid by (simp add: pool_ok_def held_append heldBy_def fid)
  next
    assume "q \<in> set ps \<and> l_id q \<noteq> pid"
    then show ?thesis
      using d(6)[of q] v by (auto simp: pool_ok_def held_append heldBy_def)
  qed
  moreover have "rowBy l_id (v_poolId r) ?ps \<noteq> None" if "r \<in> set (vs @ [v])" for r
  proof -
    have "\<exists>q. rowBy l_id (v_poolId r) ps = Some q" using that d(5) p v by auto
    then show ?thesis by (cases "v_poolId r = pid") (auto simp: rows fid)
  qed
  moreover have "0 < v_amount r" if "r \<in> set (vs @ [v])" for r
    using that d(4) v(3) by auto
  ultimately show ?thesis
    using d(1-3) fid fresh by (auto simp: ledger_ok_def rows)
qed

text \<open>A pool's total moves while its reserved balance stays covered.\<close>

lemma ledger_total:
  assumes ok: "ledger_ok ps vs" and p: "rowBy l_id pid ps = Some p"
    and fid: "\<And>r. l_id (f r) = l_id r"
    and bal: "l_available (f p) = l_total (f p) - l_reserved (f p)" "l_reserved (f p) \<le> l_total (f p)"
      "l_reserved (f p) = l_reserved p"
  shows "ledger_ok (setBy l_id pid f ps) vs"
proof -
  let ?ps = "setBy l_id pid f ps"
  note d = ledger_okD[OF ok]
  from rowBy_SomeD[OF p] have pin: "p \<in> set ps" and pid: "l_id p = pid" by auto
  have "pool_ok vs q" if "q \<in> set ?ps" for q
    using in_setBy[OF that]
  proof
    assume "\<exists>r0 \<in> set ps. l_id r0 = pid \<and> q = f r0"
    then have "q = f p" using same_row[OF d(1) _ pin] pid by auto
    then show ?thesis using bal d(6)[OF pin] by (simp add: pool_ok_def fid)
  next
    assume "q \<in> set ps \<and> l_id q \<noteq> pid"
    then show ?thesis using d(6)[of q] by auto
  qed
  moreover have "rowBy l_id (v_poolId r) ?ps \<noteq> None" if "r \<in> set vs" for r
  proof -
    have "\<exists>q. rowBy l_id (v_poolId r) ps = Some q" using that d(5) by auto
    then show ?thesis by (cases "v_poolId r = pid") (auto simp: rows fid)
  qed
  ultimately show ?thesis
    using d(1-4) fid by (auto simp: ledger_ok_def rows)
qed

text \<open>A new pool holds nothing.\<close>

lemma ledger_new_pool:
  assumes ok: "ledger_ok ps vs" and fresh: "rowBy l_id (l_id p) ps = None"
    and bal: "l_available p = l_total p" "l_reserved p = 0" "0 \<le> l_total p"
  shows "ledger_ok (ps @ [p]) vs"
proof -
  note d = ledger_okD[OF ok]
  have "\<forall>v \<in> set vs. v_poolId v \<noteq> l_id p" using d(5) fresh by fastforce
  then have "pool_ok vs p" using bal by (simp add: pool_ok_def held_absent)
  moreover have "rowBy l_id (v_poolId r) (ps @ [p]) \<noteq> None" if "r \<in> set vs" for r
    using d(5)[OF that] by (auto simp: rows)
  ultimately show ?thesis
    using d(1-4,6) fresh by (auto simp: ledger_ok_def rows)
qed

end
