(* ===== verification/LiquidityProps.thy ===== *)
theory LiquidityProps
  imports Ledger
begin

text \<open>
  What the operations of the treasury pool do: each keeps the ledger invariant and, under
  it, has an exact effect on the balances. The clamps \<open>safeTotal\<close>, \<open>safeReserved\<close> never fire.
\<close>

subsection \<open>Every operation keeps the ledger\<close>

lemma getPool_ledger [ledger]:
  assumes "ledger_inv s" and "rowBy l_id newId (pools s) = None"
  shows "ledger_inv (fst (getPool cfg newId asset net s))"
  using assms
  by (auto simp: getPool_def ledger_inv_def Let_def intro: ledger_new_pool split: option.splits)

lemma confirm_ledger [ledger]:
  assumes "ledger_inv s"
  shows "ledger_inv (fst (confirmReservationInTx orderId s))"
  using assms
  by (auto simp: confirmReservationInTx_def ledger_inv_def intro: ledger_confirm split: option.splits)

lemma reserve_ledger [ledger]:
  assumes inv: "ledger_inv s" and fresh: "rowBy v_id newId (reservations s) = None"
    and ok: "snd (reserveForOrderInTx cfg now newId poolId orderId amount mins s) = Inr r"
  shows "ledger_inv (fst (reserveForOrderInTx cfg now newId poolId orderId amount mins s))"
proof -
  from ok obtain p where p: "rowBy l_id poolId (pools s) = Some p"
    by (auto simp: reserveForOrderInTx_def split: if_splits option.splits)
  have pid: "l_id p = poolId" using rowBy_SomeD[OF p] by simp
  show ?thesis
    using ok p fresh inv
    by (auto simp: reserveForOrderInTx_def ledger_inv_def Let_def pid split: if_splits
        intro!: ledger_hold)
qed

text \<open>A failing reservation inside its transaction restores the tables.\<close>

lemma reserve_tx_ledger [ledger]:
  assumes "ledger_inv s" and "rowBy v_id newId (reservations s) = None"
  shows "ledger_inv (fst (inTransaction (reserveForOrderInTx cfg now newId poolId orderId amount mins) s))"
proof (cases "snd (reserveForOrderInTx cfg now newId poolId orderId amount mins s)")
  case (Inl e)
  then show ?thesis using assms by (simp add: inTransaction_eq ledger_inv_def)
next
  case (Inr r)
  then show ?thesis using reserve_ledger[OF assms Inr] by (simp add: inTransaction_eq)
qed

subsection \<open>Exact effects\<close>

text \<open>Consuming an active reservation under the invariant.\<close>

text \<open>A reservation found by its order after the row of that order was closed is closed.\<close>

lemma closed_row:
  assumes ok: "ledger_ok ps vs" and v0: "rowBy v_orderId i vs = Some v0" and st: "\<not> active st"
    and v: "v \<in> set (setBy v_id (v_id v0) (\<lambda>r. r\<lparr>v_status := st\<rparr>) vs)" "v_orderId v = i"
  shows "\<not> active (v_status v)"
proof -
  from in_setBy[OF v(1)] consider r where "v = r\<lparr>v_status := st\<rparr>" | "v \<in> set vs" "v_id v \<noteq> v_id v0" by blast
  then show ?thesis
  proof cases
    case 1
    with st show ?thesis by simp
  next
    case 2
    have "v0 \<in> set vs" "v_orderId v0 = i" using rowBy_SomeD[OF v0] by auto
    then have "v = v0" using same_row[OF ledger_okD(3)[OF ok] 2(1)] v(2) by simp
    with 2(2) show ?thesis by simp
  qed
qed

lemma consume_active:
  assumes inv: "ledger_inv s" and v: "rowBy v_orderId orderId (reservations s) = Some v"
    and act: "active (v_status v)" and p: "rowBy l_id (v_poolId v) (pools s) = Some p"
  shows "pools (fst (consumeReservation cfg now orderId ref h s)) =
           setBy l_id (l_id p) (\<lambda>r. r\<lparr>l_total := l_total p - v_amount v,
             l_reserved := l_reserved p - v_amount v, l_available := l_available p\<rparr>) (pools s)"
    and "reservations (fst (consumeReservation cfg now orderId ref h s)) =
           setBy v_id (v_id v) (\<lambda>r. r\<lparr>v_status := V_CONSUMED\<rparr>) (reservations s)"
    and "treasuryTxs (fst (consumeReservation cfg now orderId ref h s)) = treasuryTxs s @
           [\<lparr>t_poolId = l_id p, t_type = SETTLEMENT_PAYOUT, t_amount = v_amount v,
             t_hash = (if truthy h then h else None),
             t_externalRef = Some (orDefault ref orderId), t_createdAt = now\<rparr>]"
    and "snd (consumeReservation cfg now orderId ref h s) = Inr (Some (v\<lparr>v_status := V_CONSUMED\<rparr>))"
proof -
  obtain "pool_ok (reservations s) p" and "v_amount v \<le> l_reserved p"
    using ledger_lookup[of "pools s" "reservations s", OF _ v] inv p act
    by (metis ledger_inv_def option.inject)
  then have bal: "v_amount v \<le> l_reserved p" "l_reserved p \<le> l_total p"
    "l_available p = l_total p - l_reserved p" by (auto simp: pool_ok_def)
  have st: "\<not> v_status v = V_CONSUMED" "\<not> v_status v = V_EXPIRED_RELEASED"
    "\<not> v_status v = V_CANCELLED_RELEASED" using act by (auto simp: active_def)
  note simps = consumeReservation_def inTransaction_eq consumeReservationBody_def v p st Let_def
  show "pools (fst (consumeReservation cfg now orderId ref h s)) =
           setBy l_id (l_id p) (\<lambda>r. r\<lparr>l_total := l_total p - v_amount v,
             l_reserved := l_reserved p - v_amount v, l_available := l_available p\<rparr>) (pools s)"
    using bal by (simp add: simps)
  show "reservations (fst (consumeReservation cfg now orderId ref h s)) =
           setBy v_id (v_id v) (\<lambda>r. r\<lparr>v_status := V_CONSUMED\<rparr>) (reservations s)"
    and "treasuryTxs (fst (consumeReservation cfg now orderId ref h s)) = treasuryTxs s @
           [\<lparr>t_poolId = l_id p, t_type = SETTLEMENT_PAYOUT, t_amount = v_amount v,
             t_hash = (if truthy h then h else None),
             t_externalRef = Some (orDefault ref orderId), t_createdAt = now\<rparr>]"
    and "snd (consumeReservation cfg now orderId ref h s) = Inr (Some (v\<lparr>v_status := V_CONSUMED\<rparr>))"
    by (simp_all add: simps)
qed

lemma consume_inactive:
  assumes "rowBy v_orderId orderId (reservations s) = Some v" and "\<not> active (v_status v)"
  shows "consumeReservation cfg now orderId ref h s = (s, Inr (Some v))"
  using assms by (auto simp: consumeReservation_def inTransaction_eq consumeReservationBody_def active_iff)

lemma consume_missing:
  "rowBy v_orderId orderId (reservations s) = None \<Longrightarrow>
     consumeReservation cfg now orderId ref h s = (s, Inr None)"
  by (simp add: consumeReservation_def inTransaction_eq consumeReservationBody_def)

lemma release_active:
  assumes inv: "ledger_inv s" and v: "rowBy v_orderId orderId (reservations s) = Some v"
    and act: "active (v_status v)" and p: "rowBy l_id (v_poolId v) (pools s) = Some p"
  shows "pools (fst (releaseReservationInTx cfg orderId st s)) =
           setBy l_id (l_id p) (\<lambda>r. r\<lparr>l_reserved := l_reserved p - v_amount v,
             l_available := l_available p + v_amount v\<rparr>) (pools s)"
    and "reservations (fst (releaseReservationInTx cfg orderId st s)) =
           setBy v_id (v_id v) (\<lambda>r. r\<lparr>v_status := st\<rparr>) (reservations s)"
    and "snd (releaseReservationInTx cfg orderId st s) = Inr (Some (v\<lparr>v_status := st\<rparr>))"
proof -
  obtain "pool_ok (reservations s) p" and "v_amount v \<le> l_reserved p"
    using ledger_lookup[of "pools s" "reservations s", OF _ v] inv p act
    by (metis ledger_inv_def option.inject)
  then have bal: "v_amount v \<le> l_reserved p" "l_available p = l_total p - l_reserved p"
    by (auto simp: pool_ok_def)
  have st: "\<not> v_status v = V_CONSUMED" "\<not> v_status v = V_EXPIRED_RELEASED"
    "\<not> v_status v = V_CANCELLED_RELEASED" using act by (auto simp: active_def)
  note simps = releaseReservationInTx_def v p st Let_def
  show "pools (fst (releaseReservationInTx cfg orderId st s)) =
           setBy l_id (l_id p) (\<lambda>r. r\<lparr>l_reserved := l_reserved p - v_amount v,
             l_available := l_available p + v_amount v\<rparr>) (pools s)"
    using bal(1) by (simp add: simps) (simp add: bal(2) algebra_simps)
  show "reservations (fst (releaseReservationInTx cfg orderId st s)) =
           setBy v_id (v_id v) (\<lambda>r. r\<lparr>v_status := st\<rparr>) (reservations s)"
    and "snd (releaseReservationInTx cfg orderId st s) = Inr (Some (v\<lparr>v_status := st\<rparr>))"
    by (simp_all add: simps)
qed

lemma release_inactive:
  assumes "rowBy v_orderId orderId (reservations s) = Some v" and "\<not> active (v_status v)"
  shows "releaseReservationInTx cfg orderId st s = (s, Inr (Some v))"
  using assms by (auto simp: releaseReservationInTx_def active_iff)

lemma release_missing:
  "rowBy v_orderId orderId (reservations s) = None \<Longrightarrow>
     releaseReservationInTx cfg orderId st s = (s, Inr None)"
  by (simp add: releaseReservationInTx_def)

lemma consume_ledger [ledger]:
  assumes inv: "ledger_inv s"
  shows "ledger_inv (fst (consumeReservation cfg now orderId ref h s))"
proof (cases "rowBy v_orderId orderId (reservations s)")
  case None
  then show ?thesis using inv by (simp add: consume_missing)
next
  case (Some v)
  show ?thesis
  proof (cases "active (v_status v)")
    case False
    then show ?thesis using inv Some by (simp add: consume_inactive)
  next
    case True
    have ok: "ledger_ok (pools s) (reservations s)" using inv by (simp add: ledger_inv_def)
    obtain p where p: "rowBy l_id (v_poolId v) (pools s) = Some p" "pool_ok (reservations s) p"
      using ledger_lookup[OF ok Some] by metis
    note eff = consume_active[OF inv Some True p(1)]
    show ?thesis
      unfolding ledger_inv_def eff
      by (rule ledger_unhold[OF ok Some p(1) True]) (use p(2) in \<open>auto simp: pool_ok_def\<close>)
  qed
qed

lemma release_ledger [ledger]:
  assumes inv: "ledger_inv s" and inact: "\<not> active st"
  shows "ledger_inv (fst (releaseReservationInTx cfg orderId st s))"
proof (cases "rowBy v_orderId orderId (reservations s)")
  case None
  then show ?thesis using inv by (simp add: release_missing)
next
  case (Some v)
  show ?thesis
  proof (cases "active (v_status v)")
    case False
    then show ?thesis using inv Some by (simp add: release_inactive)
  next
    case True
    have ok: "ledger_ok (pools s) (reservations s)" using inv by (simp add: ledger_inv_def)
    obtain p where p: "rowBy l_id (v_poolId v) (pools s) = Some p" "pool_ok (reservations s) p"
      "0 < v_amount v"
      using ledger_lookup[OF ok Some] by metis
    note eff = release_active[OF inv Some True p(1)]
    show ?thesis
      unfolding ledger_inv_def eff
      by (rule ledger_unhold[OF ok Some p(1) True inact]) (use p(2,3) in \<open>auto simp: pool_ok_def\<close>)
  qed
qed

text \<open>Under the invariant neither of them throws.\<close>

lemma release_returns:
  assumes inv: "ledger_inv s"
  shows "\<exists>r. snd (releaseReservationInTx cfg orderId st s) = Inr r"
proof (cases "rowBy v_orderId orderId (reservations s)")
  case (Some v)
  have ok: "ledger_ok (pools s) (reservations s)" using inv by (simp add: ledger_inv_def)
  obtain p where "rowBy l_id (v_poolId v) (pools s) = Some p" using ledger_lookup[OF ok Some] by metis
  with Some show ?thesis by (auto simp: releaseReservationInTx_def Let_def)
qed (simp add: release_missing)

lemma consume_returns:
  assumes inv: "ledger_inv s"
  shows "\<exists>r. snd (consumeReservation cfg now orderId ref h s) = Inr r"
proof (cases "rowBy v_orderId orderId (reservations s)")
  case (Some v)
  have ok: "ledger_ok (pools s) (reservations s)" using inv by (simp add: ledger_inv_def)
  obtain p where p: "rowBy l_id (v_poolId v) (pools s) = Some p" using ledger_lookup[OF ok Some] by metis
  show ?thesis
    using consume_active(4)[OF inv Some _ p] consume_inactive[OF Some] by (cases "active (v_status v)") auto
qed (simp add: consume_missing)

lemma releaseReservation_eq:
  assumes "ledger_inv s"
  shows "releaseReservation cfg orderId st s = releaseReservationInTx cfg orderId st s"
  using release_returns[OF assms, of cfg orderId st]
  by (auto simp: releaseReservation_def inTransaction_eq prod_eq_iff)

lemma confirmReservation_eq: "confirmReservation orderId s = confirmReservationInTx orderId s"
  by (auto simp: confirmReservation_def inTransaction_eq confirmReservationInTx_def split: option.splits)

lemma treasury_ledger [ledger]:
  assumes inv: "ledger_inv s"
  shows "ledger_inv (fst (recordTreasuryTransaction cfg now pid ty amount ref h s))"
proof (cases "snd (recordTreasuryTransaction cfg now pid ty amount ref h s)")
  case (Inl e)
  then show ?thesis
    using inv by (auto simp: recordTreasuryTransaction_def inTransaction_eq ledger_inv_def
        split: sum.splits if_splits)
next
  case (Inr r)
  then have pos: "0 < amount" by (auto simp: recordTreasuryTransaction_def split: if_splits)
  have body: "snd (recordTreasuryBody cfg now pid ty amount ref h s) = Inr r"
    using Inr pos by (auto simp: recordTreasuryTransaction_def inTransaction_eq split: sum.splits)
  then obtain p where p: "rowBy l_id pid (pools s) = Some p"
    by (auto simp: recordTreasuryBody_def split: option.splits)
  have ok: "ledger_ok (pools s) (reservations s)" using inv by (simp add: ledger_inv_def)
  have pid: "pool_ok (reservations s) p" using ledger_okD(6)[OF ok] rowBy_SomeD[OF p] by simp
  have res: "0 \<le> l_reserved p"
    using pid held_nonneg[of "reservations s"] ledger_okD(4)[OF ok] by (simp add: pool_ok_def)
  define newTotal where "newTotal = adjustedTotal ty (ofColumn 7 (l_total p)) amount"
  have nt: "0 \<le> newTotal - ofColumn 7 (l_reserved p)"
    and eff: "pools (fst (recordTreasuryBody cfg now pid ty amount ref h s)) =
      setBy l_id pid (\<lambda>r. r\<lparr>l_total := toColumn 7 newTotal,
        l_available := toColumn 7 (newTotal - ofColumn 7 (l_reserved p))\<rparr>) (pools s)"
    using body p by (auto simp: recordTreasuryBody_def Let_def newTotal_def split: if_splits)
  have nt0: "0 \<le> newTotal"
    using nt res order_trans[of 0 "ofColumn 7 (l_reserved p)" newTotal] by simp
  have "ledger_ok (pools (fst (recordTreasuryBody cfg now pid ty amount ref h s))) (reservations s)"
    unfolding eff
    by (rule ledger_total[OF ok p])
      (use toColumn_diff[OF nt nt0] toColumn_nonneg[OF nt, of 7] in auto)
  moreover have "reservations (fst (recordTreasuryBody cfg now pid ty amount ref h s)) = reservations s"
    using body p by (auto simp: recordTreasuryBody_def Let_def)
  ultimately show ?thesis
    using pos body by (simp add: recordTreasuryTransaction_def inTransaction_eq ledger_inv_def)
qed

subsection \<open>Runs of the ledger\<close>

text \<open>
  The operations as events of one component. What enables an event is what its callers
  provide: generated ids are fresh, and a release targets one of the two released statuses.
\<close>

datatype liq_event =
    EvPool id string string
  | EvReserve time id id id int
  | EvConfirm id
  | EvConsume time id "string option" "string option"
  | EvRelease id reservation_status
  | EvTreasury time id treasury_type rat "string option" "string option"

fun liqStep :: "config \<Rightarrow> liq_event \<Rightarrow> sys \<Rightarrow> sys" where
  "liqStep cfg (EvPool newId asset net) s = fst (getPool cfg newId asset net s)"
| "liqStep cfg (EvReserve now newId pid orderId amount) s =
     fst (inTransaction (reserveForOrderInTx cfg now newId pid orderId amount None) s)"
| "liqStep cfg (EvConfirm orderId) s = fst (confirmReservation orderId s)"
| "liqStep cfg (EvConsume now orderId ref h) s = fst (consumeReservation cfg now orderId ref h s)"
| "liqStep cfg (EvRelease orderId st) s = fst (releaseReservation cfg orderId st s)"
| "liqStep cfg (EvTreasury now pid ty amount ref h) s =
     fst (recordTreasuryTransaction cfg now pid ty amount ref h s)"

fun liqEnabled :: "liq_event \<Rightarrow> sys \<Rightarrow> bool" where
  "liqEnabled (EvPool newId asset net) s = (rowBy l_id newId (pools s) = None)"
| "liqEnabled (EvReserve now newId pid orderId amount) s = (rowBy v_id newId (reservations s) = None)"
| "liqEnabled (EvRelease orderId st) s = (st = V_EXPIRED_RELEASED \<or> st = V_CANCELLED_RELEASED)"
| "liqEnabled _ s = True"

lemma liqStep_keeps: "ledger_inv s \<Longrightarrow> liqEnabled ev s \<Longrightarrow> ledger_inv (liqStep cfg ev s)"
  by (cases ev) (auto simp: ledger confirmReservation_eq releaseReservation_eq)

interpretation liq: component liqEnabled "liqStep cfg" ledger_inv for cfg
  by unfold_locales (rule liqStep_keeps)

text \<open>Released and consumed reservations are never touched again.\<close>

definition closedRow :: "reservation \<Rightarrow> reservation list \<Rightarrow> bool" where
  "closedRow v vs \<longleftrightarrow> rowBy v_orderId (v_orderId v) vs = Some v \<and> \<not> active (v_status v)"

lemma closedRow_append:
  "closedRow v vs \<Longrightarrow> closedRow v (vs @ [w])"
  by (simp add: closedRow_def rows)

lemma closedRow_setBy:
  assumes closed: "closedRow v vs" and w: "rowBy v_orderId orderId vs = Some w"
    and act: "active (v_status w)" and uniq: "unique_by v_id vs"
  shows "closedRow v (setBy v_id (v_id w) (\<lambda>r. r\<lparr>v_status := st\<rparr>) vs)"
proof -
  have vin: "v \<in> set vs" and win: "w \<in> set vs"
    using closed rowBy_SomeD w by (fastforce simp: closedRow_def)+
  have ne: "v_id v \<noteq> v_id w"
    using same_row[OF uniq vin win] closed act by (auto simp: closedRow_def)
  have "rowBy v_orderId o2 (setBy v_id (v_id w) (\<lambda>r. r\<lparr>v_status := st\<rparr>) vs) = Some v"
    if "rowBy v_orderId o2 vs = Some v" for o2
    using that ne by (induction vs) (auto split: if_splits)
  then show ?thesis using closed by (simp add: closedRow_def)
qed

lemma liqStep_closed:
  assumes inv: "ledger_inv s" and en: "liqEnabled ev s" and closed: "closedRow v (reservations s)"
  shows "closedRow v (reservations (liqStep cfg ev s))"
proof -
  have ok: "ledger_ok (pools s) (reservations s)" using inv by (simp add: ledger_inv_def)
  note set = closedRow_setBy[OF closed _ _ ledger_okD(2)[OF ok]]
  show ?thesis
  proof (cases ev)
    case (EvConsume now orderId ref h)
    then show ?thesis
      using closed set by (auto simp: consumeReservation_def inTransaction_eq consumeReservationBody_def
          Let_def active_iff split: option.splits sum.splits)
  next
    case (EvRelease orderId st)
    then show ?thesis
      using closed set by (auto simp: releaseReservation_def inTransaction_eq releaseReservationInTx_def
          Let_def active_iff split: option.splits sum.splits)
  next
    case (EvConfirm orderId)
    then show ?thesis
      using closed set by (auto simp: confirmReservation_eq confirmReservationInTx_def split: option.splits)
  next
    case (EvReserve now newId pid orderId amount)
    then show ?thesis
      using closed by (auto simp: inTransaction_eq reserveForOrderInTx_def Let_def
          intro: closedRow_append split: option.splits sum.splits)
  next
    case (EvPool newId asset net)
    then show ?thesis using closed by (auto simp: getPool_def Let_def split: option.splits)
  next
    case (EvTreasury now pid ty amount ref h)
    then show ?thesis
      using closed by (auto simp: recordTreasuryTransaction_def inTransaction_eq recordTreasuryBody_def
          Let_def split: option.splits sum.splits)
  qed
qed

interpretation liq_closed: component liqEnabled "liqStep cfg"
    "\<lambda>s. ledger_inv s \<and> closedRow v (reservations s)" for cfg v
  by unfold_locales (auto intro: liqStep_keeps liqStep_closed)

subsection \<open>A concrete ledger\<close>

definition demo_pool :: pool where
  "demo_pool = \<lparr>l_id = ''pool'', l_asset = ''USDC'', l_network = ''testnet'', l_total = 1000,
     l_reserved = 300, l_available = 700, l_minThreshold = 100\<rparr>"

definition demo_resv :: "reservation_status \<Rightarrow> reservation" where
  "demo_resv st = \<lparr>v_id = ''res'', v_poolId = ''pool'', v_orderId = ''order'', v_amount = 300,
     v_status = st, v_expiresAt = 900000\<rparr>"

definition demo_ledger :: sys where
  "demo_ledger = empty_sys\<lparr>pools := [demo_pool], reservations := [demo_resv V_CONFIRMED]\<rparr>"

lemmas demo_defs = demo_cfg_def demo_pool_def demo_resv_def demo_ledger_def empty_sys_def

lemma demo_ledger_inv: "ledger_inv demo_ledger"
  by (simp add: demo_defs ledger_inv_def ledger_ok_def unique_by_def pool_ok_def held_def heldBy_def)

subsection \<open>Properties\<close>

text \<open>
  C3. Whatever sequence of pool creations, reservations, confirmations, consumptions, releases
  and treasury adjustments is played, successful or refused, every pool keeps
  \<open>available = total - reserved\<close>, its reserved balance is exactly the sum of the active
  reservations against it, and it is never promised beyond its total.
\<close>

theorem ledger_never_overcommits:
  assumes "ledger_inv s" and "admissible liqEnabled (liqStep cfg) evs s"
    and "p \<in> set (pools (runSteps (liqStep cfg) evs s))"
  shows "l_available p = l_total p - l_reserved p
    \<and> l_reserved p = held (l_id p) (reservations (runSteps (liqStep cfg) evs s))
    \<and> 0 \<le> l_reserved p \<and> l_reserved p \<le> l_total p"
proof (intro conjI)
  have "ledger_inv (runSteps (liqStep cfg) evs s)" using assms(1,2) by (rule liq.run_keeps)
  then have ok: "ledger_ok (pools (runSteps (liqStep cfg) evs s))
      (reservations (runSteps (liqStep cfg) evs s))" by (simp add: ledger_inv_def)
  note po = ledger_okD(6)[OF ok assms(3)]
  from po show "l_available p = l_total p - l_reserved p"
    and res: "l_reserved p = held (l_id p) (reservations (runSteps (liqStep cfg) evs s))"
    and "l_reserved p \<le> l_total p" by (simp_all add: pool_ok_def)
  show "0 \<le> l_reserved p"
    unfolding res by (rule held_nonneg) (use ledger_okD(4)[OF ok] in blast)
qed

theorem ledger_never_overcommits_witness:
  "\<exists>p \<in> set (pools (runSteps (liqStep demo_cfg)
      [EvReserve 0 ''r2'' ''pool'' ''o2'' 700, EvConsume 5 ''order'' None None] demo_ledger)).
     l_total p = 700 \<and> 0 \<le> l_reserved p \<and> l_reserved p \<le> l_total p"
proof -
  let ?evs = "[EvReserve 0 ''r2'' ''pool'' ''o2'' 700, EvConsume 5 ''order'' None None]"
  have adm: "admissible liqEnabled (liqStep demo_cfg) ?evs demo_ledger"
    by (simp add: demo_defs)
  obtain p where p: "p \<in> set (pools (runSteps (liqStep demo_cfg) ?evs demo_ledger))" "l_total p = 700"
    by (simp add: inTransaction_eq reserveForOrderInTx_def consumeReservation_def
        consumeReservationBody_def Let_def demo_defs)
  show ?thesis
    using p ledger_never_overcommits[OF demo_ledger_inv adm p(1)] by blast
qed

text \<open>
  A reservation succeeds exactly when the amount is positive, the pool exists, the order
  holds no reservation yet and the amount fits into what the pool has not promised; it then
  moves exactly that amount from available to reserved, and a refused one changes no table.
\<close>

theorem reserve_exactly_when_covered:
  fixes cfg :: config and now :: time and newId poolId orderId :: id and amount :: int and s :: sys
  defines "run \<equiv> inTransaction (reserveForOrderInTx cfg now newId poolId orderId amount None) s"
  shows "((\<exists>r. snd run = Inr r) \<longleftrightarrow> 0 < amount \<and> rowBy v_orderId orderId (reservations s) = None
      \<and> (\<exists>p. rowBy l_id poolId (pools s) = Some p \<and> amount \<le> l_total p - l_reserved p))
    \<and> (snd run = Inr r \<longrightarrow> reservations (fst run) = reservations s @ [r] \<and> v_orderId r = orderId
      \<and> v_amount r = amount \<and> v_status r = V_RESERVED \<and> v_expiresAt r = now + 15 * 60 * 1000
      \<and> (\<forall>p. rowBy l_id poolId (pools s) = Some p \<longrightarrow> rowBy l_id poolId (pools (fst run)) =
            Some (p\<lparr>l_reserved := l_reserved p + amount,
                    l_available := l_total p - (l_reserved p + amount)\<rparr>)))
    \<and> (snd run = Inl e \<longrightarrow> pools (fst run) = pools s \<and> reservations (fst run) = reservations s)"
    (is "?succ \<and> ?eff \<and> ?err")
proof (intro conjI)
  show ?succ
    by (auto simp: run_def inTransaction_eq reserveForOrderInTx_def Let_def split: option.splits)
  show ?eff
  proof (cases "rowBy l_id poolId (pools s)")
    case (Some p)
    then have "l_id p = poolId" by (auto dest: rowBy_SomeD)
    with Some show ?thesis
      by (auto simp: run_def inTransaction_eq reserveForOrderInTx_def Let_def rows split: sum.splits)
  qed (auto simp: run_def inTransaction_eq reserveForOrderInTx_def split: sum.splits)
  show ?err by (auto simp: run_def inTransaction_eq split: sum.splits)
qed

theorem reserve_exactly_when_covered_witness:
  "\<exists>r. snd (inTransaction (reserveForOrderInTx demo_cfg 0 ''r2'' ''pool'' ''o2'' 700 None) demo_ledger) = Inr r"
  by (subst conjunct1[OF reserve_exactly_when_covered]) (simp add: demo_defs)

text \<open>
  Consuming the active reservation of an order books the payout exactly once: total and
  reserved balance drop by the reserved amount, the available balance does not move, one
  payout row is recorded, and a second consumption changes nothing.
\<close>

theorem consume_books_once:
  fixes cfg :: config and now now' :: time and orderId :: id and ref h ref' h' :: "string option" and s :: sys
  assumes inv: "ledger_inv s" and v: "rowBy v_orderId orderId (reservations s) = Some v"
    and act: "active (v_status v)"
  defines "s1 \<equiv> fst (consumeReservation cfg now orderId ref h s)"
  shows "(\<exists>p p'. rowBy l_id (v_poolId v) (pools s) = Some p \<and> rowBy l_id (v_poolId v) (pools s1) = Some p'
           \<and> l_total p' = l_total p - v_amount v \<and> l_reserved p' = l_reserved p - v_amount v
           \<and> l_available p' = l_available p)
    \<and> (length (treasuryTxs s1) = Suc (length (treasuryTxs s)) \<and> t_amount (last (treasuryTxs s1)) = v_amount v
           \<and> t_type (last (treasuryTxs s1)) = SETTLEMENT_PAYOUT)
    \<and> fst (consumeReservation cfg now' orderId ref' h' s1) = s1" (is "?bal \<and> ?row \<and> ?again")
proof -
  have ok: "ledger_ok (pools s) (reservations s)" using inv by (simp add: ledger_inv_def)
  obtain p where p: "rowBy l_id (v_poolId v) (pools s) = Some p" and pid: "l_id p = v_poolId v"
    and vrow: "rowBy v_id (v_id v) (reservations s) = Some v"
    using ledger_lookup[OF ok v] by metis
  note eff = consume_active[OF inv v act p]
  have bal: ?bal
    unfolding s1_def eff using p pid by (simp add: rows)
  have row: ?row
    unfolding s1_def eff by simp
  have "rowBy v_orderId orderId (setBy v_id (v_id v) (\<lambda>r. r\<lparr>v_status := V_CONSUMED\<rparr>) vs) =
      Some (v\<lparr>v_status := V_CONSUMED\<rparr>)" if "rowBy v_orderId orderId vs = Some v" for vs
    using that by (induction vs) (auto split: if_splits)
  then have "rowBy v_orderId orderId (reservations s1) = Some (v\<lparr>v_status := V_CONSUMED\<rparr>)"
    unfolding s1_def eff using v by blast
  then have ?again by (simp add: consume_inactive)
  with bal row show ?thesis by blast
qed

theorem consume_books_once_witness:
  "length (treasuryTxs (fst (consumeReservation demo_cfg 5 ''order'' None None demo_ledger))) = Suc 0"
proof -
  have v: "rowBy v_orderId ''order'' (reservations demo_ledger) = Some (demo_resv V_CONFIRMED)"
    by (simp add: demo_defs)
  have "active (v_status (demo_resv V_CONFIRMED))" by (simp add: demo_defs)
  from consume_books_once[OF demo_ledger_inv v this, of demo_cfg 5 None None] show ?thesis
    by (simp add: demo_ledger_def empty_sys_def)
qed

text \<open>
  Once a reservation is released or consumed, no sequence of ledger operations reopens
  it: a settlement that completes after its reservation expired books no payout, neither in
  the pool's total nor in the treasury transactions.
\<close>

theorem closed_reservation_stays_closed:
  assumes "ledger_inv s" and "rowBy v_orderId orderId (reservations s) = Some v"
    and "\<not> active (v_status v)" and "admissible liqEnabled (liqStep cfg) evs s"
  shows "rowBy v_orderId orderId (reservations (runSteps (liqStep cfg) evs s)) = Some v
    \<and> consumeReservation cfg now orderId ref h (runSteps (liqStep cfg) evs s) =
           (runSteps (liqStep cfg) evs s, Inr (Some v))"
proof (intro conjI)
  have oid: "v_orderId v = orderId" using assms(2) by (auto dest: rowBy_SomeD)
  have "closedRow v (reservations (runSteps (liqStep cfg) evs s))"
    using liq_closed.run_keeps[of s v cfg evs] assms oid by (simp add: closedRow_def)
  then show row: "rowBy v_orderId orderId (reservations (runSteps (liqStep cfg) evs s)) = Some v"
    by (simp add: closedRow_def oid)
  show "consumeReservation cfg now orderId ref h (runSteps (liqStep cfg) evs s) =
           (runSteps (liqStep cfg) evs s, Inr (Some v))"
    using row assms(3) by (rule consume_inactive)
qed

theorem closed_reservation_stays_closed_witness:
  "consumeReservation demo_cfg 9 ''order'' None None
     (demo_ledger\<lparr>pools := [demo_pool\<lparr>l_reserved := 0, l_available := 1000\<rparr>],
       reservations := [demo_resv V_EXPIRED_RELEASED]\<rparr>) =
     (demo_ledger\<lparr>pools := [demo_pool\<lparr>l_reserved := 0, l_available := 1000\<rparr>],
       reservations := [demo_resv V_EXPIRED_RELEASED]\<rparr>, Inr (Some (demo_resv V_EXPIRED_RELEASED)))"
proof -
  let ?s = "demo_ledger\<lparr>pools := [demo_pool\<lparr>l_reserved := 0, l_available := 1000\<rparr>],
       reservations := [demo_resv V_EXPIRED_RELEASED]\<rparr>"
  have "ledger_inv ?s"
    by (simp add: demo_defs ledger_inv_def ledger_ok_def unique_by_def pool_ok_def held_def heldBy_def)
  moreover have "rowBy v_orderId ''order'' (reservations ?s) = Some (demo_resv V_EXPIRED_RELEASED)"
    and "\<not> active (v_status (demo_resv V_EXPIRED_RELEASED))"
    by (simp_all add: demo_defs)
  ultimately show ?thesis
    using closed_reservation_stays_closed[of ?s "''order''" "demo_resv V_EXPIRED_RELEASED" demo_cfg "[]"]
    by simp
qed

text \<open>
  Telemetry speaks exactly on changes of the alert state: an audit entry is written iff
  the class of the available balance differs from the remembered one, the new class is
  remembered, and a lower balance is never classified as less severe.
\<close>

theorem telemetry_speaks_on_change:
  fixes cfg :: config and p :: pool and s :: sys
  defines "before \<equiv> (case poolStates s (l_id p) of Some st \<Rightarrow> st | None \<Rightarrow> HEALTHY)"
    and "cls \<equiv> classify (usdc (l_available p)) (warnThresholdUsdc cfg) (criticalThresholdUsdc cfg)"
  shows "(audits (telemetry cfg p s) \<noteq> audits s \<longleftrightarrow> before \<noteq> cls)
    \<and> (before \<noteq> cls \<longrightarrow> poolStates (telemetry cfg p s) (l_id p) = Some cls)
    \<and> (before = cls \<longrightarrow> telemetry cfg p s = s)
    \<and> (criticalThresholdUsdc cfg \<le> warnThresholdUsdc cfg \<longrightarrow> l_available p \<le> l_available q \<longrightarrow>
           classify (usdc (l_available q)) (warnThresholdUsdc cfg) (criticalThresholdUsdc cfg) \<le> cls)"
    (is "?speaks \<and> ?stores \<and> ?silent \<and> ?mono")
proof -
  have ?mono unfolding cls_def by (auto intro: classify_antimono usdc_mono)
  moreover have "?speaks \<and> ?stores \<and> ?silent"
    by (auto simp: telemetry_def evaluatePoolBalance_def Let_def auditLog_def before_def cls_def
        split: alert_state.splits)
  ultimately show ?thesis by blast
qed

theorem telemetry_speaks_on_change_witness:
  "poolStates (telemetry demo_cfg demo_pool demo_ledger) ''pool'' = Some CRITICAL"
proof -
  have c: "classify (usdc (l_available demo_pool)) (warnThresholdUsdc demo_cfg)
      (criticalThresholdUsdc demo_cfg) = CRITICAL"
    by (simp add: demo_defs classify_def usdc_def ofColumn_def)
  have b: "(case poolStates demo_ledger (l_id demo_pool) of Some st \<Rightarrow> st | None \<Rightarrow> HEALTHY) \<noteq>
      classify (usdc (l_available demo_pool)) (warnThresholdUsdc demo_cfg) (criticalThresholdUsdc demo_cfg)"
    unfolding c by (simp add: demo_defs)
  show ?thesis
    using b conjunct1[OF conjunct2[OF telemetry_speaks_on_change[of demo_cfg demo_pool demo_ledger]]] c
    by (simp add: demo_pool_def)
qed

end
