(* ===== verification/Quotes.thy ===== *)
theory Quotes
  imports LiquidityProps
begin

text \<open>
  Quotes: \<^verbatim>\<open>quotes.service.ts\<close> and the two rate providers. Amounts are computed with the
  decimal.js package (\<open>Prisma.Decimal\<close>) and pass through JavaScript numbers; both are a
  parameter, the record \<open>dec_ops\<close>, and what the code relies on of them is the predicate
  \<open>decimal_laws\<close>. The HTTP answer of the FX service is a parameter of the live provider.
\<close>

subsection \<open>Decimal arithmetic\<close>

datatype rounding = ROUND_UP | ROUND_DOWN | ROUND_HALF_UP

text \<open>
  \<open>dnumber x\<close> is the decimal a number prints as: the value \<open>x.toNumber()\<close> has when Prisma or
  \<open>new Decimal(...)\<close> reads it back.
\<close>

record dec_ops =
  dmul :: "rat \<Rightarrow> rat \<Rightarrow> rat"
  ddiv :: "rat \<Rightarrow> rat \<Rightarrow> rat"
  dsub :: "rat \<Rightarrow> rat \<Rightarrow> rat"
  dplaces :: "nat \<Rightarrow> rounding \<Rightarrow> rat \<Rightarrow> rat"
  dnumber :: "rat \<Rightarrow> rat"

text \<open>
  Documented behaviour: \<open>toDecimalPlaces\<close> is exact for each rounding mode; products are
  rounded monotonically, do not change sign, and do not exceed a column value when scaled by
  at most 1; differences of columns are exact; reading back a number is monotone, and exact up to
  15 digits.
\<close>

definition decimal_laws :: "dec_ops \<Rightarrow> bool" where
  "decimal_laws D \<longleftrightarrow>
     (\<forall>n x. 0 \<le> x \<longrightarrow> dplaces D n ROUND_DOWN x = ofColumn n \<lfloor>x * 10 ^ n\<rfloor>)
     \<and> (\<forall>n x. 0 \<le> x \<longrightarrow> dplaces D n ROUND_UP x = ofColumn n \<lceil>x * 10 ^ n\<rceil>)
     \<and> (\<forall>n x. dplaces D n ROUND_HALF_UP x = ofColumn n (toColumn n x))
     \<and> (\<forall>a b a' b'. 0 \<le> a \<longrightarrow> a \<le> a' \<longrightarrow> 0 \<le> b \<longrightarrow> b \<le> b' \<longrightarrow> dmul D a b \<le> dmul D a' b')
     \<and> (\<forall>a b. 0 \<le> a \<longrightarrow> 0 \<le> b \<longrightarrow> 0 \<le> dmul D a b)
     \<and> (\<forall>v f. 0 \<le> v \<longrightarrow> v < 10 ^ 18 \<longrightarrow> 0 \<le> f \<longrightarrow> f \<le> 1 \<longrightarrow> dmul D (ofColumn 4 v) f \<le> ofColumn 4 v)
     \<and> (\<forall>b f. 0 \<le> b \<longrightarrow> 0 \<le> f \<longrightarrow> f \<le> 1 \<longrightarrow> dmul D b f \<le> b)
     \<and> (\<forall>v w. 0 \<le> w \<longrightarrow> w \<le> v \<longrightarrow> v < 10 ^ 18 \<longrightarrow> dsub D (ofColumn 4 v) (ofColumn 4 w) = ofColumn 4 (v - w))
     \<and> (\<forall>f. 0 \<le> f \<longrightarrow> f \<le> 1 \<longrightarrow> 0 \<le> dsub D 1 f \<and> dsub D 1 f \<le> 1)
     \<and> (\<forall>x y. 0 \<le> x \<longrightarrow> x \<le> y \<longrightarrow> 0 \<le> dnumber D x \<and> dnumber D x \<le> dnumber D y)
     \<and> (\<forall>n v. n \<le> 7 \<longrightarrow> 0 \<le> v \<longrightarrow> v < 10 ^ 15 \<longrightarrow> dnumber D (ofColumn n v) = ofColumn n v)"

text \<open>Exact rational arithmetic satisfies them.\<close>

definition exact_decimal :: dec_ops where
  "exact_decimal = \<lparr>dmul = (*), ddiv = (/), dsub = (-),
     dplaces = (\<lambda>n m x. case m of
        ROUND_DOWN \<Rightarrow> (if 0 \<le> x then ofColumn n \<lfloor>x * 10 ^ n\<rfloor> else ofColumn n \<lceil>x * 10 ^ n\<rceil>)
      | ROUND_UP \<Rightarrow> (if 0 \<le> x then ofColumn n \<lceil>x * 10 ^ n\<rceil> else ofColumn n \<lfloor>x * 10 ^ n\<rfloor>)
      | ROUND_HALF_UP \<Rightarrow> ofColumn n (toColumn n x)),
     dnumber = (\<lambda>x. x)\<rparr>"

lemma exact_decimal_laws: "decimal_laws exact_decimal"
  by (auto simp: decimal_laws_def exact_decimal_def mult_mono mult_left_le ofColumn_def
      diff_divide_distrib)

subsection \<open>The calculation\<close>

datatype side = Source | Destination

record quote_calc =
  c_sourceAmount :: rat
  c_destinationAmount :: rat
  c_grossUsdcAmount :: rat
  c_fee :: rat
  c_networkFeeUsdc :: rat
  c_spread :: rat
  c_baseFxRate :: rat
  c_appliedFxRate :: rat
  c_exchangeRate :: rat
  c_provider :: string
  c_rateTimestamp :: time

text \<open>
  The amounts, from a positive amount and a base rate. Both providers contain this block
  word for word: source amount, destination amount, gross amount and fee, in this order.
\<close>

definition quoteAmounts ::
  "dec_ops \<Rightarrow> rat \<Rightarrow> rat \<Rightarrow> rat \<Rightarrow> side \<Rightarrow> rat \<Rightarrow> rat \<times> rat \<times> rat \<times> rat" where
  "quoteAmounts D feePct baseFxRate appliedFxRate sd amount =
     (case sd of
        Source \<Rightarrow>
          let source = dplaces D 4 ROUND_HALF_UP amount;
              fee = dplaces D 4 ROUND_UP (dmul D source feePct);
              netSource = dsub D source fee;
              gross = dplaces D 7 ROUND_DOWN (dmul D source baseFxRate);
              destination = dplaces D 7 ROUND_DOWN (dmul D netSource appliedFxRate)
          in (source, destination, gross, fee)
      | Destination \<Rightarrow>
          let destination = dplaces D 7 ROUND_HALF_UP amount;
              netSourceNeeded = ddiv D destination appliedFxRate;
              source = dplaces D 4 ROUND_UP (ddiv D netSourceNeeded (dsub D 1 feePct));
              fee = dplaces D 4 ROUND_UP (dmul D source feePct);
              gross = dplaces D 7 ROUND_DOWN (dmul D source baseFxRate)
          in (source, destination, gross, fee))"

definition calculation ::
  "dec_ops \<Rightarrow> rat \<Rightarrow> rat \<Rightarrow> rat \<Rightarrow> side \<Rightarrow> rat \<Rightarrow> string \<Rightarrow> time \<Rightarrow> quote_calc" where
  "calculation D feePct spreadPct baseFxRate sd amount providerName ts =
     (let applied = dmul D baseFxRate (dsub D 1 spreadPct);
          (source, destination, gross, fee) = quoteAmounts D feePct baseFxRate applied sd amount
      in \<lparr>c_sourceAmount = dnumber D source, c_destinationAmount = dnumber D destination,
          c_grossUsdcAmount = dnumber D gross, c_fee = dnumber D fee, c_networkFeeUsdc = dnumber D 0,
          c_spread = dnumber D spreadPct, c_baseFxRate = dnumber D baseFxRate,
          c_appliedFxRate = dnumber D applied,
          c_exchangeRate = dnumber D (dplaces D 8 ROUND_HALF_UP applied),
          c_provider = providerName, c_rateTimestamp = ts\<rparr>)"

subsection \<open>The mock provider\<close>

definition mockRates :: "(string \<times> rat) list" where
  "mockRates =
     [(''NGN_USDC'', 66667 / 100000000), (''USDC_NGN'', 1500), (''USD_NGN'', 1500),
      (''NGN_USD'', 66667 / 100000000), (''XLM_NGN'', 150), (''NGN_XLM'', 666667 / 100000000),
      (''USDC_XLM'', 10), (''XLM_USDC'', 1 / 10)]"

definition pairKey :: "string \<Rightarrow> string \<Rightarrow> string" where
  "pairKey src dst = src @ ''_'' @ dst"

text \<open>An amount is \<open>None\<close> when \<open>new Decimal(amount)\<close> is NaN or infinite.\<close>

definition mockCalculate ::
  "dec_ops \<Rightarrow> config \<Rightarrow> time \<Rightarrow> string \<Rightarrow> string \<Rightarrow> rat option \<Rightarrow> side \<Rightarrow> app_error + quote_calc" where
  "mockCalculate D cfg now src dst amount sd =
     (case amount of
        None \<Rightarrow> Inl (AppError 400 ''INVALID_AMOUNT'')
      | Some a \<Rightarrow>
          if a \<le> 0 then Inl (AppError 400 ''INVALID_AMOUNT'')
          else
            let baseFxRate = (case map_of mockRates (pairKey src dst) of Some r \<Rightarrow> r | None \<Rightarrow> 1)
            in Inr (calculation D (feePercentage cfg) (spreadPercentage cfg) baseFxRate sd a
                 ''MOCK_QUOTE_PROVIDER'' now))"

subsection \<open>The live FX provider\<close>

text \<open>The NGN entry of the rates object, and the two candidates for the rates object.\<close>

datatype fx_number = NotANumber | NotFinite | Num rat

datatype fx_rates = RatesFalsy | RatesNotObject | Rates fx_number

record fx_payload =
  fx_rates :: fx_rates
  fx_conversionRates :: fx_rates
  fx_lastUpdateUnix :: "rat option"

datatype fx_response =
    FxAborted
  | FxNetworkError
  | FxHttp bool "fx_payload option"

definition fxTimestamp :: "time \<Rightarrow> rat option \<Rightarrow> rat" where
  "fxTimestamp now unix =
     (case unix of
        None \<Rightarrow> of_int now
      | Some u \<Rightarrow>
          if u = 0 then of_int now
          else let parsed = u * 1000; age = (of_int now - parsed) / 1000
               in if 0 \<le> age \<and> age \<le> 7 * 86400 then parsed else of_int now)"

definition fetchLiveNgnRate :: "time \<Rightarrow> fx_response \<Rightarrow> app_error + (rat \<times> rat)" where
  "fetchLiveNgnRate now response =
     (case response of
        FxAborted \<Rightarrow> Inl (AppError 504 ''FX_PROVIDER_TIMEOUT'')
      | FxNetworkError \<Rightarrow> Inl (AppError 502 ''FX_PROVIDER_ERROR'')
      | FxHttp ok body \<Rightarrow>
          if \<not> ok then Inl (AppError 502 ''FX_PROVIDER_HTTP_ERROR'')
          else case body of
            None \<Rightarrow> Inl (AppError 502 ''FX_PROVIDER_MALFORMED'')
          | Some data \<Rightarrow>
              (case (if fx_rates data = RatesFalsy then fx_conversionRates data else fx_rates data) of
                 RatesFalsy \<Rightarrow> Inl (AppError 502 ''FX_PROVIDER_MALFORMED'')
               | RatesNotObject \<Rightarrow> Inl (AppError 502 ''FX_PROVIDER_MALFORMED'')
               | Rates NotANumber \<Rightarrow> Inl (AppError 502 ''FX_PROVIDER_INVALID_RATE'')
               | Rates NotFinite \<Rightarrow> Inl (AppError 502 ''FX_PROVIDER_INVALID_RATE'')
               | Rates (Num rateNgn) \<Rightarrow>
                   if rateNgn \<le> 0 then Inl (AppError 502 ''FX_PROVIDER_INVALID_RATE'')
                   else Inr (rateNgn, fxTimestamp now (fx_lastUpdateUnix data))))"

definition fxBaseRate :: "dec_ops \<Rightarrow> string \<Rightarrow> string \<Rightarrow> rat \<Rightarrow> rat" where
  "fxBaseRate D src dst rateNgn =
     (if src = ''NGN'' \<and> (dst = ''USDC'' \<or> dst = ''USD'') then ddiv D 1 rateNgn
      else if (src = ''USDC'' \<or> src = ''USD'') \<and> dst = ''NGN'' then rateNgn
      else if src = dst then 1
      else ddiv D 1 rateNgn)"

definition fxCalculate ::
  "dec_ops \<Rightarrow> config \<Rightarrow> time \<Rightarrow> fx_response \<Rightarrow> string \<Rightarrow> string \<Rightarrow> rat option \<Rightarrow> side
    \<Rightarrow> app_error + quote_calc" where
  "fxCalculate D cfg now response src dst amount sd =
     (case amount of
        None \<Rightarrow> Inl (AppError 400 ''INVALID_AMOUNT'')
      | Some a \<Rightarrow>
          if a \<le> 0 then Inl (AppError 400 ''INVALID_AMOUNT'')
          else case fetchLiveNgnRate now response of
            Inl e \<Rightarrow> Inl e
          | Inr (rateNgn, ts) \<Rightarrow>
              let rateAgeSeconds = (of_int now - ts) / 1000 in
              if 0 < fxMaxAgeSeconds cfg \<and> of_int (fxMaxAgeSeconds cfg) < rateAgeSeconds
              then Inl (AppError 502 ''FX_PROVIDER_STALE_RATE'')
              else if rateNgn < 50 \<or> 500000 < rateNgn
              then Inl (AppError 502 ''FX_PROVIDER_UNREASONABLE_RATE'')
              else
                let rawRate = fxBaseRate D src dst rateNgn in
                if rawRate \<le> 0 then Inl (AppError 502 ''INVALID_EXCHANGE_RATE'')
                else Inr (calculation D (feePercentage cfg) (spreadPercentage cfg) rawRate sd a
                       ''REAL_FX_PROVIDER'' \<lfloor>ts\<rfloor>))"

subsection \<open>The service\<close>

datatype provider_kind = MockProvider | RealFxProvider

text \<open>\<open>chosen\<close> is the provider set or chosen before, \<open>envProvider\<close> is \<open>process.env.QUOTE_PROVIDER\<close>.\<close>

definition getProvider :: "config \<Rightarrow> string option \<Rightarrow> provider_kind option \<Rightarrow> provider_kind" where
  "getProvider cfg envProvider chosen =
     (case chosen of
        Some p \<Rightarrow> p
      | None \<Rightarrow>
          if quoteProvider cfg = ''mock'' \<or> (env cfg = ''test'' \<and> envProvider \<noteq> Some ''real'')
          then MockProvider else RealFxProvider)"

definition allowedPairs :: "string list" where
  "allowedPairs = [''NGN_USDC'', ''NGN_USD'', ''USDC_NGN'', ''USD_NGN'', ''NGN_XLM'', ''XLM_NGN'',
     ''USDC_XLM'', ''XLM_USDC'', ''NGN_NGN'', ''USDC_USDC'']"

record quote_input =
  qi_sourceCurrency :: string
  qi_destinationAsset :: string
  qi_amount :: "rat option"
  qi_side :: "side option"

text \<open>What the outside provides to one call: provider choice, FX answer, generated ids, clock.\<close>

record quote_env =
  qe_now :: time
  qe_active :: "provider_kind option"
  qe_envProvider :: "string option"
  qe_response :: fx_response
  qe_quoteId :: id
  qe_poolId :: id

definition calculate ::
  "dec_ops \<Rightarrow> config \<Rightarrow> quote_env \<Rightarrow> string \<Rightarrow> string \<Rightarrow> rat option \<Rightarrow> side \<Rightarrow> app_error + quote_calc" where
  "calculate D cfg e src dst amount sd =
     (case getProvider cfg (qe_envProvider e) (qe_active e) of
        MockProvider \<Rightarrow> mockCalculate D cfg (qe_now e) src dst amount sd
      | RealFxProvider \<Rightarrow> fxCalculate D cfg (qe_now e) (qe_response e) src dst amount sd)"

definition quoteTtl :: "config \<Rightarrow> int" where
  "quoteTtl cfg = (if ttlSeconds cfg \<noteq> 0 then ttlSeconds cfg
     else if expirySeconds cfg \<noteq> 0 then expirySeconds cfg else 300)"

text \<open>The row \<open>prisma.quote.create\<close> stores: every decimal is rounded to its column.\<close>

definition quoteRow ::
  "config \<Rightarrow> quote_env \<Rightarrow> string \<Rightarrow> string \<Rightarrow> quote_calc \<Rightarrow> bool \<Rightarrow> quote" where
  "quoteRow cfg e src dst calc liquid =
     \<lparr>q_id = qe_quoteId e, q_sourceCurrency = src, q_destinationAsset = dst,
      q_sourceAmount = toColumn 4 (c_sourceAmount calc),
      q_destinationAmount = toColumn 7 (c_destinationAmount calc),
      q_exchangeRate = toColumn 6 (c_exchangeRate calc),
      q_fee = toColumn 4 (c_fee calc),
      q_grossUsdcAmount = toColumn 7 (c_grossUsdcAmount calc),
      q_networkFeeUsdc = toColumn 7 (c_networkFeeUsdc calc),
      q_spread = toColumn 6 (c_spread calc),
      q_baseFxRate = toColumn 6 (c_baseFxRate calc),
      q_rateTimestamp = c_rateTimestamp calc, q_liquidityAvailable = liquid, q_version = 1,
      q_provider = c_provider calc, q_status = Q_ACTIVE,
      q_expiresAt = qe_now e + quoteTtl cfg * 1000\<rparr>"

text \<open>\<open>input.side || 'source'\<close>.\<close>

definition sideOf :: "quote_input \<Rightarrow> side" where
  "sideOf inp = (case qi_side inp of Some x \<Rightarrow> x | None \<Rightarrow> Source)"

definition createQuote ::
  "dec_ops \<Rightarrow> config \<Rightarrow> quote_env \<Rightarrow> quote_input \<Rightarrow> id option \<Rightarrow> quote op" where
  "createQuote D cfg e inp userId s =
     (case qi_amount inp of
        None \<Rightarrow> (s, Inl (BadRequestError ''Amount must be a positive number.''))
      | Some amount \<Rightarrow>
          if amount \<le> 0 then (s, Inl (BadRequestError ''Amount must be a positive number.''))
          else
            let src = toUpper (qi_sourceCurrency inp);
                dst = toUpper (qi_destinationAsset inp);
                sd = sideOf inp
            in if pairKey src dst \<notin> set allowedPairs
               then (s, Inl (BadRequestError ''Unsupported currency pair''))
               else if src = ''NGN'' \<and> sd = Source \<and> amount < minNgnAmount cfg
               then (s, Inl (BadRequestError ''Minimum transaction amount''))
               else if src = ''NGN'' \<and> sd = Source \<and> maxNgnAmount cfg < amount
               then (s, Inl (BadRequestError ''Maximum transaction amount''))
               else case calculate D cfg e src dst (Some amount) sd of
                 Inl err \<Rightarrow> (s, Inl err)
               | Inr calc \<Rightarrow>
                   if dst = ''USDC'' \<and> maxQuoteUsdcAmount cfg < c_destinationAmount calc
                   then (s, Inl (BadRequestError ''Requested output exceeds maximum allowed quote size''))
                   else andThen (getAvailableLiquidity cfg (qe_poolId e) dst (network cfg))
                     (\<lambda>available s1.
                        let q = quoteRow cfg e src dst calc (c_destinationAmount calc \<le> usdc available)
                        in (auditLog (Some (orDefault userId ''anonymous'')) userId ''QUOTE_CREATED'' ''Quote''
                              (Some (q_id q)) (s1\<lparr>quotes := quotes s1 @ [q]\<rparr>), Inr q)) s)"

definition getQuoteById :: "time \<Rightarrow> id \<Rightarrow> quote op" where
  "getQuoteById now quoteId s =
     (case rowBy q_id quoteId (quotes s) of
        None \<Rightarrow> (s, Inl (NotFoundError ''Quote not found.''))
      | Some q \<Rightarrow>
          if q_status q = Q_ACTIVE \<and> q_expiresAt q < now
          then (s\<lparr>quotes := setBy q_id quoteId (\<lambda>r. r\<lparr>q_status := Q_EXPIRED\<rparr>) (quotes s)\<rparr>,
                Inr (q\<lparr>q_status := Q_EXPIRED\<rparr>))
          else (s, Inr q))"

definition validateAndUseQuote :: "time \<Rightarrow> id \<Rightarrow> quote op" where
  "validateAndUseQuote now quoteId =
     andThen (getQuoteById now quoteId) (\<lambda>q s.
       if q_status q = Q_EXPIRED \<or> q_expiresAt q < now
       then (s, Inl (BadRequestError ''Quote has expired.''))
       else if q_status q = Q_USED
       then (s, Inl (BadRequestError ''Quote has already been used.''))
       else if q_status q = Q_CANCELLED
       then (s, Inl (BadRequestError ''Quote has been cancelled.''))
       else (s\<lparr>quotes := setBy q_id quoteId (\<lambda>r. r\<lparr>q_status := Q_USED\<rparr>) (quotes s)\<rparr>,
             Inr (q\<lparr>q_status := Q_USED\<rparr>)))"

end
