(* ===== verification/QuoteProps.thy ===== *)
theory QuoteProps
  imports Quotes
begin

text \<open>
  What the quote service promises: which requests it admits, that a quote never gives out more
  than its gross amount, that a quote is used at most once and never after its expiry, and
  which FX answers the live provider accepts.
\<close>

subsection \<open>Amounts\<close>

lemma decimal_lawsD:
  assumes "decimal_laws D"
  shows "0 \<le> x \<Longrightarrow> dplaces D n ROUND_DOWN x = ofColumn n \<lfloor>x * 10 ^ n\<rfloor>"
    and "0 \<le> x \<Longrightarrow> dplaces D n ROUND_UP x = ofColumn n \<lceil>x * 10 ^ n\<rceil>"
    and "dplaces D n ROUND_HALF_UP x = ofColumn n (toColumn n x)"
    and "0 \<le> a \<Longrightarrow> 0 \<le> b \<Longrightarrow> 0 \<le> dmul D a b"
    and "0 \<le> a \<Longrightarrow> a \<le> a' \<Longrightarrow> 0 \<le> b \<Longrightarrow> b \<le> b' \<Longrightarrow> dmul D a b \<le> dmul D a' b'"
    and "0 \<le> v \<Longrightarrow> v < 10 ^ 18 \<Longrightarrow> 0 \<le> f \<Longrightarrow> f \<le> 1 \<Longrightarrow> dmul D (ofColumn 4 v) f \<le> ofColumn 4 v"
    and "0 \<le> b \<Longrightarrow> 0 \<le> f \<Longrightarrow> f \<le> 1 \<Longrightarrow> dmul D b f \<le> b"
    and "0 \<le> w \<Longrightarrow> w \<le> v \<Longrightarrow> v < 10 ^ 18 \<Longrightarrow>
           dsub D (ofColumn 4 v) (ofColumn 4 w) = ofColumn 4 (v - w)"
    and "0 \<le> f \<Longrightarrow> f \<le> 1 \<Longrightarrow> 0 \<le> dsub D 1 f \<and> dsub D 1 f \<le> 1"
    and "0 \<le> x \<Longrightarrow> x \<le> y \<Longrightarrow> 0 \<le> dnumber D x \<and> dnumber D x \<le> dnumber D y"
    and "n \<le> 7 \<Longrightarrow> 0 \<le> v \<Longrightarrow> v < 10 ^ 15 \<Longrightarrow> dnumber D (ofColumn n v) = ofColumn n v"
  using assms by (simp_all add: decimal_laws_def)

text \<open>The source side: the fee is covered by the source, the destination by the gross amount.\<close>

lemma source_amounts:
  assumes D: "decimal_laws D" and fee: "0 \<le> fee" "fee \<le> 1" and a: "0 < a" "toColumn 4 a < 10 ^ 18"
    and rate: "0 \<le> applied" "applied \<le> base"
    and q: "quoteAmounts D fee base applied Source a = (source, destination, gross, feeAmount)"
  shows "source = ofColumn 4 (toColumn 4 a)" and "0 \<le> feeAmount" and "feeAmount \<le> source"
    and "0 \<le> destination" and "destination \<le> gross"
proof -
  let ?v = "toColumn 4 a"
  let ?w = "\<lceil>dmul D (ofColumn 4 ?v) fee * 10 ^ 4\<rceil>"
  have v: "0 \<le> ?v" using a(1) by (simp add: toColumn_nonneg)
  note law = decimal_lawsD[OF D]
  have m: "0 \<le> dmul D (ofColumn 4 ?v) fee" "dmul D (ofColumn 4 ?v) fee \<le> ofColumn 4 ?v"
    using law(4,6) v a(2) fee by simp_all
  then have w: "0 \<le> ?w" "?w \<le> ?v" by (simp_all add: ceiling_le_iff ofColumn_def)
  from q have src: "source = ofColumn 4 ?v" and f: "feeAmount = ofColumn 4 ?w"
    and g: "gross = dplaces D 7 ROUND_DOWN (dmul D (ofColumn 4 ?v) base)"
    and d: "destination = dplaces D 7 ROUND_DOWN (dmul D (dsub D (ofColumn 4 ?v) (ofColumn 4 ?w)) applied)"
    using law(2)[OF m(1), of 4] by (auto simp: quoteAmounts_def Let_def law(3))
  have net: "dsub D (ofColumn 4 ?v) (ofColumn 4 ?w) = ofColumn 4 (?v - ?w)"
    using law(8)[OF w a(2)] .
  have le: "0 \<le> dmul D (ofColumn 4 (?v - ?w)) applied"
    "dmul D (ofColumn 4 (?v - ?w)) applied \<le> dmul D (ofColumn 4 ?v) base"
    using law(4,5) w v rate by simp_all
  show "source = ofColumn 4 ?v" by (rule src)
  show "0 \<le> feeAmount" "feeAmount \<le> source" using w by (simp_all add: f src)
  have "0 \<le> dmul D (ofColumn 4 ?v) base" using le by linarith
  then have de: "destination = ofColumn 7 \<lfloor>dmul D (ofColumn 4 (?v - ?w)) applied * 10 ^ 7\<rfloor>"
    and ge: "gross = ofColumn 7 \<lfloor>dmul D (ofColumn 4 ?v) base * 10 ^ 7\<rfloor>"
    unfolding d net g using law(1) le(1) by blast+
  show "0 \<le> destination" using le(1) by (simp add: de)
  show "destination \<le> gross"
    unfolding de ge ofColumn_le_iff by (rule floor_mono) (use le(2) in simp)
qed

lemma source_columns:
  fixes name :: string and ts :: time
  assumes D: "decimal_laws D" and fee: "0 \<le> fee" "fee \<le> 1" and spread: "0 \<le> spread" "spread \<le> 1"
    and base: "0 \<le> base" and a: "0 < a" "toColumn 4 a < 10 ^ 15"
  defines "c \<equiv> calculation D fee spread base Source a name ts"
  shows "c_sourceAmount c = ofColumn 4 (toColumn 4 a)" and "0 \<le> toColumn 4 (c_fee c)"
    and "toColumn 4 (c_fee c) \<le> toColumn 4 a" and "0 \<le> toColumn 7 (c_destinationAmount c)"
    and "toColumn 7 (c_destinationAmount c) \<le> toColumn 7 (c_grossUsdcAmount c)"
proof -
  note law = decimal_lawsD[OF D]
  define applied where "applied = dmul D base (dsub D 1 spread)"
  have rate: "0 \<le> applied" "applied \<le> base"
    using law(4,7,9) base spread by (simp_all add: applied_def)
  obtain source destination gross feeAmount
    where q: "quoteAmounts D fee base applied Source a = (source, destination, gross, feeAmount)"
    by (cases "quoteAmounts D fee base applied Source a")
  have big: "toColumn 4 a < 10 ^ 18" using a(2) by simp
  note amounts = source_amounts[OF D fee a(1) big rate q]
  have c: "c_sourceAmount c = dnumber D source" "c_destinationAmount c = dnumber D destination"
    "c_grossUsdcAmount c = dnumber D gross" "c_fee c = dnumber D feeAmount"
    using q by (simp_all add: c_def calculation_def applied_def Let_def)
  have exact: "dnumber D source = source"
    unfolding amounts(1) by (rule law(11)) (use a in \<open>simp_all add: toColumn_nonneg\<close>)
  show "c_sourceAmount c = ofColumn 4 (toColumn 4 a)" unfolding c(1) exact by (rule amounts(1))
  have nn: "0 \<le> dnumber D feeAmount" "dnumber D feeAmount \<le> dnumber D source"
    "0 \<le> dnumber D destination" "dnumber D destination \<le> dnumber D gross"
    using law(10) amounts(2-5) by blast+
  show "0 \<le> toColumn 4 (c_fee c)" "0 \<le> toColumn 7 (c_destinationAmount c)"
    by (simp_all add: c toColumn_nonneg nn)
  show "toColumn 4 (c_fee c) \<le> toColumn 4 a"
    using toColumn_mono[OF nn(1,2), of 4] unfolding c exact by (simp add: amounts(1))
  show "toColumn 7 (c_destinationAmount c) \<le> toColumn 7 (c_grossUsdcAmount c)"
    using toColumn_mono[OF nn(3,4), of 7] by (simp add: c)
qed

text \<open>Either provider answers with a calculation from a non-negative base rate.\<close>

lemma calculate_shape:
  assumes "calculate D cfg e src dst (Some a) sd = Inr c"
  obtains base name ts where "0 \<le> base"
    and "c = calculation D (feePercentage cfg) (spreadPercentage cfg) base sd a name ts"
proof -
  have rates: "0 \<le> (case map_of mockRates k of Some r \<Rightarrow> r | None \<Rightarrow> 1)" for k
    by (auto simp: mockRates_def)
  show ?thesis
  proof (cases "getProvider cfg (qe_envProvider e) (qe_active e)")
    case MockProvider
    then show ?thesis
      using assms that[OF rates] by (auto simp: calculate_def mockCalculate_def Let_def split: if_splits)
  next
    case RealFxProvider
    then obtain rate ts where f: "fetchLiveNgnRate (qe_now e) (qe_response e) = Inr (rate, ts)"
      using assms by (auto simp: calculate_def fxCalculate_def split: if_splits sum.splits)
    then show ?thesis
      using assms RealFxProvider that[of "fxBaseRate D src dst rate"]
      by (auto simp: calculate_def fxCalculate_def Let_def split: if_splits)
  qed
qed

subsection \<open>Admission\<close>

lemma getAvailable_quotes [simp]:
  "quotes (fst (getAvailableLiquidity cfg i asset net s)) = quotes s"
  "orders (fst (getAvailableLiquidity cfg i asset net s)) = orders s"
  by (auto simp: getAvailableLiquidity_def andThen_eq getPool_def Let_def split: option.splits sum.splits)

lemma createQuote_returns:
  assumes run: "createQuote D cfg e inp userId s = (s1, Inr q)"
  defines "src \<equiv> toUpper (qi_sourceCurrency inp)" and "dst \<equiv> toUpper (qi_destinationAsset inp)"
  obtains a c s2 available where "qi_amount inp = Some a" and "0 < a"
    and "pairKey src dst \<in> set allowedPairs"
    and "src = ''NGN'' \<longrightarrow> sideOf inp = Source \<longrightarrow> minNgnAmount cfg \<le> a \<and> a \<le> maxNgnAmount cfg"
    and "calculate D cfg e src dst (Some a) (sideOf inp) = Inr c"
    and "dst = ''USDC'' \<longrightarrow> c_destinationAmount c \<le> maxQuoteUsdcAmount cfg"
    and "getAvailableLiquidity cfg (qe_poolId e) dst (network cfg) s = (s2, Inr available)"
    and "q = quoteRow cfg e src dst c (c_destinationAmount c \<le> usdc available)"
    and "quotes s1 = quotes s @ [q]"
proof -
  note def = createQuote_def Let_def src_def[symmetric] dst_def[symmetric]
  obtain a where a: "qi_amount inp = Some a" "0 < a"
    using run by (auto simp: createQuote_def split: option.splits if_splits)
  have pair: "pairKey src dst \<in> set allowedPairs"
    using run a by (simp add: def split: if_splits)
  have ngn: "src = ''NGN'' \<longrightarrow> sideOf inp = Source \<longrightarrow> minNgnAmount cfg \<le> a \<and> a \<le> maxNgnAmount cfg"
    using run a by (cases "src = ''NGN'' \<and> sideOf inp = Source") (auto simp: def split: if_splits)
  obtain c where c: "calculate D cfg e src dst (Some a) (sideOf inp) = Inr c"
    using run a pair by (cases "calculate D cfg e src dst (Some a) (sideOf inp)") (simp_all add: def split: if_splits)
  have maxi: "dst = ''USDC'' \<longrightarrow> c_destinationAmount c \<le> maxQuoteUsdcAmount cfg"
    using run a pair c by (cases "dst = ''USDC''") (auto simp: def split: if_splits)
  obtain s2 r where liq: "getAvailableLiquidity cfg (qe_poolId e) dst (network cfg) s = (s2, r)" by fastforce
  have q2: "quotes s2 = quotes s"
    using getAvailable_quotes(1)[of cfg "qe_poolId e" dst "network cfg" s] liq by simp
  have row: "case r of Inl err \<Rightarrow> False | Inr available \<Rightarrow>
      q = quoteRow cfg e src dst c (c_destinationAmount c \<le> usdc available) \<and> quotes s1 = quotes s @ [q]"
    using run a pair c liq q2 by (auto simp: def andThen_eq split: if_splits sum.splits)
  then obtain available where "r = Inr available" by (cases r) auto
  then show ?thesis using that a pair ngn c maxi liq row by auto
qed

lemma createQuote_throws:
  assumes "createQuote D cfg e inp userId s = (s1, Inl err)"
  shows "quotes s1 = quotes s"
proof (cases "qi_amount inp")
  case (Some a)
  note frame = getAvailable_quotes(1)[of cfg "qe_poolId e" _ _ s]
  show ?thesis
    using assms Some
    by (auto simp: createQuote_def Let_def andThen_eq frame split: if_splits sum.splits)
qed (use assms in \<open>simp add: createQuote_def\<close>)

subsection \<open>Runs of the quote service\<close>

datatype quote_event =
    QvCreate quote_env quote_input "id option"
  | QvGet time id
  | QvUse time id

fun quoteStep :: "dec_ops \<Rightarrow> config \<Rightarrow> quote_event \<Rightarrow> sys \<Rightarrow> sys" where
  "quoteStep D cfg (QvCreate e inp userId) s = fst (createQuote D cfg e inp userId s)"
| "quoteStep D cfg (QvGet now quoteId) s = fst (getQuoteById now quoteId s)"
| "quoteStep D cfg (QvUse now quoteId) s = fst (validateAndUseQuote now quoteId s)"

text \<open>A quote that left ACTIVE keeps its status.\<close>

definition spent :: "id \<Rightarrow> quote_status \<Rightarrow> sys \<Rightarrow> bool" where
  "spent quoteId st s \<longleftrightarrow> st \<noteq> Q_ACTIVE \<and>
     (\<exists>q. rowBy q_id quoteId (quotes s) = Some q \<and> q_status q = st)"

lemma setStatus_other:
  "quoteId \<noteq> k \<Longrightarrow> rowBy q_id quoteId (setBy q_id k (\<lambda>r. r\<lparr>q_status := st\<rparr>) qs) = rowBy q_id quoteId qs"
  by (simp add: rows)

lemma getQuoteById_spent:
  assumes "spent quoteId st s"
  shows "spent quoteId st (fst (getQuoteById now k s))"
  using assms by (cases "k = quoteId") (auto simp: spent_def getQuoteById_def setStatus_other split: option.splits)

lemma quoteStep_spent:
  assumes "spent quoteId st s"
  shows "spent quoteId st (quoteStep D cfg ev s)"
proof (cases ev)
  case (QvGet now k)
  with assms show ?thesis by (simp add: getQuoteById_spent)
next
  case (QvCreate e inp userId)
  obtain s1 r where run: "createQuote D cfg e inp userId s = (s1, r)" by fastforce
  have "quotes s1 = quotes s \<or> (\<exists>q. quotes s1 = quotes s @ [q])"
    using run createQuote_throws createQuote_returns by (cases r) blast+
  with assms QvCreate run show ?thesis by (auto simp: spent_def rows)
next
  case (QvUse now k)
  obtain s1 r where get: "getQuoteById now k s = (s1, r)" by fastforce
  have s1: "spent quoteId st s1" using getQuoteById_spent[OF assms, of now k] get by simp
  show ?thesis
  proof (cases r)
    case (Inl err)
    with QvUse get s1 show ?thesis by (simp add: validateAndUseQuote_def andThen_Inl)
  next
    case (Inr q)
    have same: "k = quoteId \<Longrightarrow> q_status q = st"
      using assms get Inr by (auto simp: spent_def getQuoteById_def split: if_splits)
    have "st \<noteq> Q_ACTIVE" using assms by (simp add: spent_def)
    with same have "k = quoteId \<Longrightarrow> q_status q = Q_EXPIRED \<or> q_status q = Q_USED \<or> q_status q = Q_CANCELLED"
      by (cases "q_status q") auto
    with QvUse get Inr s1 show ?thesis
      by (cases "k = quoteId")
        (auto simp: validateAndUseQuote_def andThen_Inr spent_def setStatus_other)
  qed
qed

interpretation spent_run: component "\<lambda>ev s. True" "quoteStep D cfg" "spent quoteId st" for D cfg quoteId st
  by unfold_locales (rule quoteStep_spent)

lemma always_admissible: "admissible (\<lambda>ev s. True) step es s"
  by (induction es arbitrary: s) auto

lemma use_spent:
  assumes "spent quoteId st s"
  shows "\<exists>err. snd (validateAndUseQuote now quoteId s) = Inl err"
proof -
  obtain q where q: "rowBy q_id quoteId (quotes s) = Some q" "q_status q = st" "st \<noteq> Q_ACTIVE"
    using assms by (auto simp: spent_def)
  then show ?thesis
    by (cases st) (auto simp: validateAndUseQuote_def getQuoteById_def andThen_eq)
qed

subsection \<open>Properties\<close>

text \<open>
  A quote request is admitted only for a positive amount, a supported pair, an NGN source
  amount within the configured bounds and a USDC output within the configured maximum; an
  admitted request stores exactly one new active quote that expires the configured time later
  and whose liquidity flag compares the output with the pool; a refused one stores none.
\<close>

theorem create_quote_admits:
  assumes run: "createQuote D cfg e inp userId s = (s1, r)"
  shows "case r of
      Inl err \<Rightarrow> quotes s1 = quotes s
    | Inr q \<Rightarrow> quotes s1 = quotes s @ [q] \<and> q_status q = Q_ACTIVE \<and> q_id q = qe_quoteId e
        \<and> q_expiresAt q = qe_now e + quoteTtl cfg * 1000
        \<and> pairKey (q_sourceCurrency q) (q_destinationAsset q) \<in> set allowedPairs
        \<and> (\<exists>a c available. qi_amount inp = Some a \<and> 0 < a
            \<and> (q_sourceCurrency q = ''NGN'' \<longrightarrow> sideOf inp = Source \<longrightarrow>
                  minNgnAmount cfg \<le> a \<and> a \<le> maxNgnAmount cfg)
            \<and> calculate D cfg e (q_sourceCurrency q) (q_destinationAsset q) (Some a) (sideOf inp) = Inr c
            \<and> q_destinationAmount q = toColumn 7 (c_destinationAmount c)
            \<and> (q_destinationAsset q = ''USDC'' \<longrightarrow> c_destinationAmount c \<le> maxQuoteUsdcAmount cfg)
            \<and> snd (getAvailableLiquidity cfg (qe_poolId e) (q_destinationAsset q) (network cfg) s) = Inr available
            \<and> q_liquidityAvailable q = (c_destinationAmount c \<le> usdc available))"
proof (cases r)
  case (Inl err)
  with run show ?thesis by (simp add: createQuote_throws)
next
  case (Inr q)
  with run have "createQuote D cfg e inp userId s = (s1, Inr q)" by simp
  then show ?thesis
    by (rule createQuote_returns) (simp add: Inr quoteRow_def)
qed

lemma floor_half [simp]: "\<lfloor>numeral k / (2 :: rat)\<rfloor> = numeral k div 2" "\<lfloor>1 / (2 :: rat)\<rfloor> = 0"
  using floor_divide_of_int_eq[of "numeral k" 2, where 'a = rat] by (simp_all add: floor_eq_iff)

definition demo_env :: "time \<Rightarrow> id \<Rightarrow> quote_env" where
  "demo_env now i = \<lparr>qe_now = now, qe_active = None, qe_envProvider = None, qe_response = FxAborted,
     qe_quoteId = i, qe_poolId = ''pool''\<rparr>"

definition demo_input :: quote_input where
  "demo_input = \<lparr>qi_sourceCurrency = ''NGN'', qi_destinationAsset = ''NGN'', qi_amount = Some 2000,
     qi_side = None\<rparr>"

text \<open>
  One successful request: 2000 NGN for NGN, fee 20, destination 1980, gross 2000.
\<close>

definition demo_quote :: "time \<Rightarrow> id \<Rightarrow> quote" where
  "demo_quote now i = \<lparr>q_id = i, q_sourceCurrency = ''NGN'', q_destinationAsset = ''NGN'',
     q_sourceAmount = 20000000, q_destinationAmount = 19800000000, q_exchangeRate = 1000000,
     q_fee = 200000, q_grossUsdcAmount = 20000000000, q_networkFeeUsdc = 0, q_spread = 0,
     q_baseFxRate = 1000000, q_rateTimestamp = now, q_liquidityAvailable = True, q_version = 1,
     q_provider = ''MOCK_QUOTE_PROVIDER'', q_status = Q_ACTIVE, q_expiresAt = now + 300000\<rparr>"

lemma demo_calculate:
  "calculate exact_decimal demo_cfg (demo_env now i) ''NGN'' ''NGN'' (Some 2000) Source =
     Inr \<lparr>c_sourceAmount = 2000, c_destinationAmount = 1980, c_grossUsdcAmount = 2000, c_fee = 20,
       c_networkFeeUsdc = 0, c_spread = 0, c_baseFxRate = 1, c_appliedFxRate = 1, c_exchangeRate = 1,
       c_provider = ''MOCK_QUOTE_PROVIDER'', c_rateTimestamp = now\<rparr>"
  by (simp add: calculate_def getProvider_def demo_cfg_def demo_env_def mockCalculate_def mockRates_def
      pairKey_def calculation_def quoteAmounts_def exact_decimal_def toColumn_def ofColumn_def Let_def)

lemma demo_createQuote:
  "snd (createQuote exact_decimal demo_cfg (demo_env now i) demo_input None empty_sys) = Inr (demo_quote now i)"
proof -
  have u: "toUpper ''NGN'' = ''NGN''" by (simp add: toUpper_def upper_char_def)
  have c: "calculate exact_decimal demo_cfg (demo_env now i) ''NGN'' ''NGN'' (Some 2000) Source =
     Inr \<lparr>c_sourceAmount = 2000, c_destinationAmount = 1980, c_grossUsdcAmount = 2000, c_fee = 20,
       c_networkFeeUsdc = 0, c_spread = 0, c_baseFxRate = 1, c_appliedFxRate = 1, c_exchangeRate = 1,
       c_provider = ''MOCK_QUOTE_PROVIDER'', c_rateTimestamp = now\<rparr>" by (rule demo_calculate)
  show ?thesis
    by (simp add: createQuote_def demo_input_def u sideOf_def c pairKey_def allowedPairs_def
        getAvailableLiquidity_def andThen_eq getPool_def empty_sys_def Let_def)
      (simp add: demo_cfg_def demo_env_def quoteRow_def demo_quote_def toColumn_def quoteTtl_def
        usdc_def ofColumn_def)
qed

theorem create_quote_admits_witness:
  "quotes (fst (createQuote exact_decimal demo_cfg (demo_env 5 ''q'') demo_input None empty_sys)) =
     quotes empty_sys @ [demo_quote 5 ''q'']"
proof -
  have "createQuote exact_decimal demo_cfg (demo_env 5 ''q'') demo_input None empty_sys =
      (fst (createQuote exact_decimal demo_cfg (demo_env 5 ''q'') demo_input None empty_sys),
       Inr (demo_quote 5 ''q''))"
    by (simp add: demo_createQuote prod_eq_iff)
  from create_quote_admits[OF this] show ?thesis by simp
qed

text \<open>
  C27. A quote priced from its source amount never gives out more than it takes in: the stored
  source is the requested amount, the fee lies between 0 and the source, and the destination
  between 0 and the gross amount, for any rate either provider answers with.
\<close>

theorem quote_creates_no_value:
  assumes laws: "decimal_laws D" and fee: "0 \<le> feePercentage cfg" "feePercentage cfg \<le> 1"
    and spread: "0 \<le> spreadPercentage cfg" "spreadPercentage cfg \<le> 1"
    and inp: "qi_amount inp = Some a" "sideOf inp = Source" "toColumn 4 a < 10 ^ 15"
    and run: "createQuote D cfg e inp userId s = (s1, Inr q)"
  shows "q_sourceAmount q = toColumn 4 a \<and> 0 \<le> q_fee q \<and> q_fee q \<le> q_sourceAmount q
    \<and> 0 \<le> q_destinationAmount q \<and> q_destinationAmount q \<le> q_grossUsdcAmount q"
  using run
proof (rule createQuote_returns)
  fix a' c s2 available
  assume a': "qi_amount inp = Some a'" "0 < a'"
    and c: "calculate D cfg e (toUpper (qi_sourceCurrency inp)) (toUpper (qi_destinationAsset inp)) (Some a')
        (sideOf inp) = Inr c"
    and q: "q = quoteRow cfg e (toUpper (qi_sourceCurrency inp)) (toUpper (qi_destinationAsset inp)) c
        (c_destinationAmount c \<le> usdc available)"
  have a: "a' = a" "0 < a" using a' inp(1) by simp_all
  obtain base name ts where "0 \<le> base"
    and "c = calculation D (feePercentage cfg) (spreadPercentage cfg) base Source a name ts"
    using calculate_shape[OF c] a inp(2) by metis
  with source_columns[OF laws fee spread _ a(2) inp(3), of base name ts] show ?thesis
    by (simp add: q quoteRow_def)
qed

theorem quote_creates_no_value_witness:
  "q_destinationAmount (demo_quote 5 ''q'') \<le> q_grossUsdcAmount (demo_quote 5 ''q'')"
proof -
  have run: "createQuote exact_decimal demo_cfg (demo_env 5 ''q'') demo_input None empty_sys =
      (fst (createQuote exact_decimal demo_cfg (demo_env 5 ''q'') demo_input None empty_sys),
       Inr (demo_quote 5 ''q''))"
    by (simp add: demo_createQuote prod_eq_iff)
  have cfg: "0 \<le> feePercentage demo_cfg" "feePercentage demo_cfg \<le> 1"
    "0 \<le> spreadPercentage demo_cfg" "spreadPercentage demo_cfg \<le> 1"
    by (simp_all add: demo_cfg_def)
  have inp: "qi_amount demo_input = Some 2000" "sideOf demo_input = Source" "toColumn 4 2000 < 10 ^ 15"
    by (simp_all add: demo_input_def sideOf_def toColumn_def)
  show ?thesis
    using quote_creates_no_value[OF exact_decimal_laws cfg inp run] by blast
qed

text \<open>
  \<open>validateAndUseQuote\<close>, which nothing in the program calls - an order marks its quote itself, see
  \<open>OrderProps\<close> -, succeeds for an active and unexpired quote only, and not again after any sequence of
  creations, reads and such uses, each run as a whole.
\<close>

theorem quote_used_at_most_once:
  assumes use: "validateAndUseQuote now quoteId s = (s1, Inr q)"
  shows "(\<exists>q0. rowBy q_id quoteId (quotes s) = Some q0 \<and> q_status q0 = Q_ACTIVE \<and> now \<le> q_expiresAt q0)
    \<and> (\<exists>err. snd (validateAndUseQuote later quoteId (runSteps (quoteStep D cfg) evs s1)) = Inl err)"
proof -
  obtain q0 where q0: "rowBy q_id quoteId (quotes s) = Some q0"
    using use by (auto simp: validateAndUseQuote_def getQuoteById_def andThen_eq split: option.splits)
  have act: "q_status q0 = Q_ACTIVE" "now \<le> q_expiresAt q0"
    using use q0 by (cases "q_status q0"; auto simp: validateAndUseQuote_def getQuoteById_def andThen_eq
        split: if_splits)+
  have "spent quoteId Q_USED s1"
    using use q0 act by (auto simp: validateAndUseQuote_def getQuoteById_def andThen_eq spent_def rows)
  then have "spent quoteId Q_USED (runSteps (quoteStep D cfg) evs s1)"
    by (rule spent_run.run_keeps) (rule always_admissible)
  then show ?thesis using q0 act use_spent by blast
qed

theorem quote_used_at_most_once_witness:
  "\<exists>err. snd (validateAndUseQuote 20 ''q'' (runSteps (quoteStep exact_decimal demo_cfg) [QvGet 15 ''q'']
     (fst (validateAndUseQuote 10 ''q'' (empty_sys\<lparr>quotes := [demo_quote 5 ''q'']\<rparr>))))) = Inl err"
proof -
  have "validateAndUseQuote 10 ''q'' (empty_sys\<lparr>quotes := [demo_quote 5 ''q'']\<rparr>) =
      (fst (validateAndUseQuote 10 ''q'' (empty_sys\<lparr>quotes := [demo_quote 5 ''q'']\<rparr>)),
       Inr (demo_quote 5 ''q''\<lparr>q_status := Q_USED\<rparr>))"
    by (simp add: validateAndUseQuote_def getQuoteById_def andThen_eq demo_quote_def)
  from quote_used_at_most_once[OF this] show ?thesis by blast
qed

text \<open>
  The live provider prices a quote only from an answer that is fresh and plausible: the
  NGN rate lies between 50 and 500000 and is not older than the configured age. It knows the
  dollar rate alone, and prices every pair with XLM as if XLM were a dollar or NGN: XLM to NGN
  is converted exactly like NGN to USDC.
\<close>

theorem fx_quote_fresh_and_bounded:
  shows "(fxCalculate D cfg now response src dst (Some a) sd = Inr c \<longrightarrow>
      (\<exists>rate ts. fetchLiveNgnRate now response = Inr (rate, ts) \<and> 50 \<le> rate \<and> rate \<le> 500000
        \<and> (0 < fxMaxAgeSeconds cfg \<longrightarrow> of_int now - ts \<le> of_int (fxMaxAgeSeconds cfg) * 1000)
        \<and> 0 < fxBaseRate D src dst rate \<and> c_baseFxRate c = dnumber D (fxBaseRate D src dst rate)))
    \<and> fxCalculate D cfg now response ''XLM'' ''NGN'' amount sd =
      fxCalculate D cfg now response ''NGN'' ''USDC'' amount sd"
proof (intro conjI impI)
  assume run: "fxCalculate D cfg now response src dst (Some a) sd = Inr c"
  then obtain rate ts where f: "fetchLiveNgnRate now response = Inr (rate, ts)"
    by (auto simp: fxCalculate_def split: if_splits sum.splits)
  have age: "0 < fxMaxAgeSeconds cfg \<longrightarrow> of_int now - ts \<le> of_int (fxMaxAgeSeconds cfg) * 1000"
    using run f by (auto simp: fxCalculate_def Let_def field_simps not_less split: if_splits)
  have "50 \<le> rate \<and> rate \<le> 500000 \<and> 0 < fxBaseRate D src dst rate"
    using run f by (simp add: fxCalculate_def Let_def not_less not_le split: if_splits)
  moreover have "c_baseFxRate c = dnumber D (fxBaseRate D src dst rate)"
    using run f by (auto simp: fxCalculate_def Let_def calculation_def split: if_splits prod.splits)
  ultimately show "\<exists>rate ts. fetchLiveNgnRate now response = Inr (rate, ts) \<and> 50 \<le> rate \<and> rate \<le> 500000
        \<and> (0 < fxMaxAgeSeconds cfg \<longrightarrow> of_int now - ts \<le> of_int (fxMaxAgeSeconds cfg) * 1000)
        \<and> 0 < fxBaseRate D src dst rate \<and> c_baseFxRate c = dnumber D (fxBaseRate D src dst rate)"
    using f age by blast
next
  show "fxCalculate D cfg now response ''XLM'' ''NGN'' amount sd =
      fxCalculate D cfg now response ''NGN'' ''USDC'' amount sd"
  proof -
    have eq: "fxBaseRate D ''XLM'' ''NGN'' r = fxBaseRate D ''NGN'' ''USDC'' r" for r
      by (simp add: fxBaseRate_def)
    show ?thesis unfolding fxCalculate_def eq by (rule refl)
  qed
qed

definition demo_fx :: "rat \<Rightarrow> fx_response" where
  "demo_fx rate = FxHttp True (Some \<lparr>fx_rates = Rates (Num rate), fx_conversionRates = RatesFalsy,
     fx_lastUpdateUnix = None\<rparr>)"

theorem fx_quote_fresh_and_bounded_witness:
  "c_baseFxRate (projr (fxCalculate exact_decimal demo_cfg 0 (demo_fx 1500) ''USDC'' ''NGN'' (Some 3) Source))
     = 1500"
proof -
  have f: "fetchLiveNgnRate 0 (demo_fx 1500) = Inr (1500, 0)"
    by (simp add: fetchLiveNgnRate_def demo_fx_def fxTimestamp_def)
  have "fxCalculate exact_decimal demo_cfg 0 (demo_fx 1500) ''USDC'' ''NGN'' (Some 3) Source =
      Inr (projr (fxCalculate exact_decimal demo_cfg 0 (demo_fx 1500) ''USDC'' ''NGN'' (Some 3) Source))"
    by (simp add: fxCalculate_def f Let_def fxBaseRate_def)
  from conjunct1[OF fx_quote_fresh_and_bounded, rule_format, OF this] f show ?thesis
    by (auto simp: fxBaseRate_def exact_decimal_def)
qed

end
