(* ===== verification/Orders.thy ===== *)
theory Orders
  imports QuoteProps
begin

text \<open>
  Orders: \<^verbatim>\<open>orders.service.ts\<close> and the handlers of \<^verbatim>\<open>orders/index.ts\<close> that compute something
  of their own. \<open>createOrder\<close> is split where the program may be interrupted by another request:
  the reads before the transaction (\<open>orderQuote\<close>, \<open>orderPool\<close>) and the transaction itself
  (\<open>commitOrder\<close>).
\<close>

record order_dto =
  d_quoteId :: id
  d_type :: "order_type option"
  d_walletAddress :: "string option"
  d_idempotencyKey :: "string option"

text \<open>Clock and generated ids of one request.\<close>

record order_env =
  oe_now :: time
  oe_orderId :: id
  oe_reservationId :: id
  oe_poolId :: id
  oe_transactionId :: id

subsection \<open>Creating an order\<close>

definition existingOrder :: "id \<Rightarrow> string option \<Rightarrow> order list \<Rightarrow> order option" where
  "existingOrder userId key os =
     (if truthy key then find (\<lambda>x. o_userId x = userId \<and> o_idempotencyKey x = key) os else None)"

definition orderQuote :: "time \<Rightarrow> id \<Rightarrow> quote op" where
  "orderQuote now quoteId =
     andThen (getQuoteById now quoteId) (\<lambda>q.
       if q_status q = Q_USED then throw (BadRequestError ''Quote has already been used.'')
       else if q_status q = Q_CANCELLED then throw (BadRequestError ''Quote has been cancelled.'')
       else if q_status q = Q_EXPIRED \<or> q_status q \<noteq> Q_ACTIVE \<or> q_expiresAt q < now
       then throw (BadRequestError ''Quote has expired.'')
       else ret q)"

definition orderPool :: "config \<Rightarrow> id \<Rightarrow> quote \<Rightarrow> pool op" where
  "orderPool cfg newPoolId q =
     andThen (getPool cfg newPoolId (q_destinationAsset q) (network cfg)) (\<lambda>p.
     andThen (getAvailableLiquidity cfg newPoolId (q_destinationAsset q) (network cfg)) (\<lambda>available.
       if available < q_destinationAmount q then throw insufficient else ret p))"

definition noneIfFalsy :: "string option \<Rightarrow> string option" where
  "noneIfFalsy v = (if truthy v then v else None)"

definition newOrder :: "id \<Rightarrow> order_dto \<Rightarrow> quote \<Rightarrow> id \<Rightarrow> order" where
  "newOrder userId dto q newId =
     \<lparr>o_id = newId, o_userId = userId, o_quoteId = q_id q,
      o_idempotencyKey = noneIfFalsy (d_idempotencyKey dto),
      o_type = (case d_type dto of Some t \<Rightarrow> t | None \<Rightarrow> ON_RAMP), o_status = O_CREATED,
      o_sourceCurrency = q_sourceCurrency q, o_destinationAsset = q_destinationAsset q,
      o_sourceAmount = q_sourceAmount q, o_destinationAmount = q_destinationAmount q,
      o_walletAddress = noneIfFalsy (d_walletAddress dto)\<rparr>"

text \<open>\<open>tx.order.create\<close>: the primary key and the idempotency key are unique.\<close>

definition insertOrder :: "order \<Rightarrow> unit op" where
  "insertOrder x s =
     (if rowBy o_id (o_id x) (orders s) \<noteq> None
         \<or> (o_idempotencyKey x \<noteq> None \<and> rowBy o_idempotencyKey (o_idempotencyKey x) (orders s) \<noteq> None)
      then (s, Inl PrismaP2002) else (s\<lparr>orders := orders s @ [x]\<rparr>, Inr ()))"

definition markQuoteUsed :: "id \<Rightarrow> unit op" where
  "markQuoteUsed quoteId s =
     (if rowBy q_id quoteId (quotes s) = None then (s, Inl PrismaP2025)
      else (s\<lparr>quotes := setBy q_id quoteId (\<lambda>r. r\<lparr>q_status := Q_USED\<rparr>) (quotes s)\<rparr>, Inr ()))"

definition commitBody ::
  "config \<Rightarrow> order_env \<Rightarrow> id \<Rightarrow> order_dto \<Rightarrow> quote \<Rightarrow> pool \<Rightarrow> order op" where
  "commitBody cfg e userId dto q p =
     andThen (markQuoteUsed (q_id q)) (\<lambda>_.
     let x = newOrder userId dto q (oe_orderId e) in
     andThen (insertOrder x) (\<lambda>_.
     andThen (reserveForOrderInTx cfg (oe_now e) (oe_reservationId e) (l_id p) (o_id x) (q_destinationAmount q) None)
       (\<lambda>_ s. (s\<lparr>transactions := transactions s @
           [\<lparr>x_id = oe_transactionId e, x_userId = userId, x_orderId = o_id x,
             x_type = (if d_type dto = Some OFF_RAMP then T_WITHDRAWAL else T_DEPOSIT), x_status = X_PENDING,
             x_amount = q_destinationAmount q, x_asset = q_destinationAsset q\<rparr>]\<rparr>, Inr x))))"

definition commitOrder ::
  "config \<Rightarrow> order_env \<Rightarrow> id \<Rightarrow> order_dto \<Rightarrow> quote \<Rightarrow> pool \<Rightarrow> order op" where
  "commitOrder cfg e userId dto q p = inTransaction (commitBody cfg e userId dto q p)"

definition createOrder :: "config \<Rightarrow> order_env \<Rightarrow> id \<Rightarrow> order_dto \<Rightarrow> (order \<times> bool) op" where
  "createOrder cfg e userId dto s =
     (case existingOrder userId (d_idempotencyKey dto) (orders s) of
        Some x \<Rightarrow> (s, Inr (x, True))
      | None \<Rightarrow>
          andThen (orderQuote (oe_now e) (d_quoteId dto)) (\<lambda>q.
          andThen (orderPool cfg (oe_poolId e) q) (\<lambda>p.
          andThen (commitOrder cfg e userId dto q p) (\<lambda>x s.
            (auditLog (Some userId) (Some userId) ''ORDER_CREATED'' ''Order'' (Some (o_id x)) s,
             Inr (x, False))))) s)"

text \<open>The route prefers the header over the body and answers 200 for a duplicate, 201 otherwise.\<close>

definition postOrder ::
  "config \<Rightarrow> order_env \<Rightarrow> id \<Rightarrow> string option \<Rightarrow> order_dto \<Rightarrow> (nat \<times> order) op" where
  "postOrder cfg e userId header body =
     andThen (createOrder cfg e userId (body\<lparr>d_idempotencyKey := orElse header (d_idempotencyKey body)\<rparr>))
       (\<lambda>(x, isDuplicate). ret (if isDuplicate then 200 else 201, x))"

subsection \<open>Reading orders\<close>

definition getUserOrders :: "id \<Rightarrow> nat \<Rightarrow> nat \<Rightarrow> sys \<Rightarrow> order list \<times> nat" where
  "getUserOrders userId limit offset s =
     (let mine = filter (\<lambda>x. o_userId x = userId) (orders s)
      in (take limit (drop offset (rev mine)), length mine))"

definition getOrderById :: "id \<Rightarrow> id \<Rightarrow> bool \<Rightarrow> order op" where
  "getOrderById userId orderId isAdmin s =
     (case rowBy o_id orderId (orders s) of
        None \<Rightarrow> (s, Inl (NotFoundError ''Order not found.''))
      | Some x \<Rightarrow>
          if \<not> isAdmin \<and> o_userId x \<noteq> userId
          then (s, Inl (ForbiddenError ''Unauthorized access to this order.''))
          else (s, Inr x))"

definition adminRole :: "role \<Rightarrow> bool" where
  "adminRole r = (r = ADMIN \<or> r = SUPER_ADMIN)"

definition getOrderRoute :: "id \<Rightarrow> role \<Rightarrow> id \<Rightarrow> order op" where
  "getOrderRoute userId r orderId = getOrderById userId orderId (adminRole r)"

subsection \<open>Changing orders\<close>

definition setOrder :: "id \<Rightarrow> (order \<Rightarrow> order) \<Rightarrow> sys \<Rightarrow> sys" where
  "setOrder orderId f s = s\<lparr>orders := setBy o_id orderId f (orders s)\<rparr>"

definition transitionOrderStatus :: "id \<Rightarrow> order_status \<Rightarrow> id \<Rightarrow> order op" where
  "transitionOrderStatus orderId target actorId s =
     (case rowBy o_id orderId (orders s) of
        None \<Rightarrow> (s, Inl (NotFoundError ''Order not found.''))
      | Some x \<Rightarrow>
          if o_status x = target then (s, Inr x)
          else (auditLog (Some actorId) (Some (o_userId x)) ''ORDER_STATUS_CHANGED'' ''Order'' (Some (o_id x))
                  (setOrder orderId (\<lambda>r. r\<lparr>o_status := target\<rparr>) s),
                Inr (x\<lparr>o_status := target\<rparr>)))"

definition paymentsOf :: "id \<Rightarrow> sys \<Rightarrow> payment list" where
  "paymentsOf orderId s = filter (\<lambda>p. p_orderId p = orderId) (payments s)"

definition walletStatus :: "order \<Rightarrow> payment list \<Rightarrow> order_status" where
  "walletStatus x ps =
     (let isAlreadyCompleted = (o_status x = O_COMPLETED \<or> o_status x = O_SETTLEMENT_COMPLETED);
          hasSucceededPayment = (list_ex (\<lambda>p. p_status p = P_SUCCEEDED) ps \<or> o_status x = O_PAYMENT_CONFIRMED)
      in if isAlreadyCompleted then o_status x
         else if hasSucceededPayment then O_SETTLEMENT_PENDING else o_status x)"

definition updateOrderWallet :: "id \<Rightarrow> id \<Rightarrow> string \<Rightarrow> bool \<Rightarrow> order op" where
  "updateOrderWallet orderId userId wallet isAdmin =
     andThen (getOrderById userId orderId isAdmin) (\<lambda>x s.
       let newStatus = walletStatus x (paymentsOf orderId s);
           write = (\<lambda>r. r\<lparr>o_walletAddress := Some wallet, o_status := newStatus\<rparr>)
       in (auditLog (Some userId) (Some (o_userId x)) ''ORDER_WALLET_ATTACHED'' ''Order'' (Some (o_id x))
             (setOrder orderId write s), Inr (write x)))"

definition walletRoute :: "id \<Rightarrow> role \<Rightarrow> id \<Rightarrow> string \<Rightarrow> order op" where
  "walletRoute userId r orderId wallet = updateOrderWallet orderId userId wallet (adminRole r)"

lemma setOrder_frame [simp]:
  "quotes (setOrder i f s) = quotes s" "payments (setOrder i f s) = payments s"
  "providerTxs (setOrder i f s) = providerTxs s" "settlements (setOrder i f s) = settlements s"
  "refunds (setOrder i f s) = refunds s" "pools (setOrder i f s) = pools s"
  "reservations (setOrder i f s) = reservations s" "treasuryTxs (setOrder i f s) = treasuryTxs s"
  "transactions (setOrder i f s) = transactions s" "webhookEvents (setOrder i f s) = webhookEvents s"
  "mockStore (setOrder i f s) = mockStore s" "ngnStore (setOrder i f s) = ngnStore s"
  "audits (setOrder i f s) = audits s" "poolStates (setOrder i f s) = poolStates s"
  "orders (setOrder i f s) = setBy o_id i f (orders s)"
  by (simp_all add: setOrder_def)

subsection \<open>What the steps of createOrder return\<close>

lemma orderQuote_returns:
  assumes "orderQuote now quoteId s = (s1, Inr q)"
  shows "s1 = s" and "rowBy q_id quoteId (quotes s) = Some q" and "q_status q = Q_ACTIVE"
    and "now \<le> q_expiresAt q" and "q_id q = quoteId"
proof -
  obtain q0 where q0: "rowBy q_id quoteId (quotes s) = Some q0"
    using assms by (auto simp: orderQuote_def getQuoteById_def andThen_eq split: option.splits)
  from assms show "s1 = s" and "rowBy q_id quoteId (quotes s) = Some q" and "q_status q = Q_ACTIVE"
    and "now \<le> q_expiresAt q"
    by (auto simp: orderQuote_def getQuoteById_def andThen_eq q0 not_less split: if_splits)
  with rowBy_SomeD show "q_id q = quoteId" by fastforce
qed

lemma getPool_again:
  assumes "getPool cfg i asset net s = (s1, Inr p)"
  shows "find (\<lambda>p. l_asset p = asset \<and> l_network p = net) (pools s1) = Some p"
  using assms by (auto simp: getPool_def Let_def rows split: option.splits if_splits)

end
