(* ===== verification/OrderProps.thy ===== *)
theory OrderProps
  imports Orders
begin

text \<open>
  What the order service promises: creation is all or nothing and idempotent per user and
  key, keeps the pool ledger, and is not protected against two requests that validated the
  same quote; attaching a wallet respects ownership but not the status machine.
\<close>

subsection \<open>The steps of createOrder\<close>

lemma getPool_frame:
  "quotes (fst (getPool cfg i asset net s)) = quotes s"
  "orders (fst (getPool cfg i asset net s)) = orders s"
  "payments (fst (getPool cfg i asset net s)) = payments s"
  "reservations (fst (getPool cfg i asset net s)) = reservations s"
  "transactions (fst (getPool cfg i asset net s)) = transactions s"
  by (auto simp: getPool_def Let_def split: option.splits)

lemma getPool_ids:
  assumes "rowBy l_id i (pools s) = None \<or> (\<exists>p. find (\<lambda>p. l_asset p = asset \<and> l_network p = net) (pools s) = Some p)"
  shows "ledger_inv s \<Longrightarrow> ledger_inv (fst (getPool cfg i asset net s))"
  using assms by (auto simp: getPool_def ledger_inv_def Let_def intro: ledger_new_pool split: option.splits)

lemma orderPool_frame:
  "quotes (fst (orderPool cfg i q s)) = quotes s"
  "orders (fst (orderPool cfg i q s)) = orders s"
  "reservations (fst (orderPool cfg i q s)) = reservations s"
  "transactions (fst (orderPool cfg i q s)) = transactions s"
  by (auto simp: orderPool_def getAvailableLiquidity_def andThen_eq getPool_frame split: sum.splits)

lemma orderPool_ledger:
  assumes "ledger_inv s" and "rowBy l_id i (pools s) = None"
  shows "ledger_inv (fst (orderPool cfg i q s))"
proof -
  obtain s1 r where g: "getPool cfg i (q_destinationAsset q) (network cfg) s = (s1, r)" by fastforce
  have l1: "ledger_inv s1" using getPool_ledger[OF assms] g by (metis fst_conv)
  show ?thesis
  proof (cases r)
    case (Inl err)
    with g l1 show ?thesis by (simp add: orderPool_def andThen_eq)
  next
    case (Inr p)
    with getPool_again g have "find (\<lambda>p. l_asset p = q_destinationAsset q \<and> l_network p = network cfg) (pools s1) = Some p"
      by blast
    with l1 have "ledger_inv (fst (getPool cfg i (q_destinationAsset q) (network cfg) s1))"
      by (intro getPool_ids) auto
    with g Inr show ?thesis
      by (auto simp: orderPool_def getAvailableLiquidity_def andThen_eq split: sum.splits)
  qed
qed

text \<open>The transaction: what it requires and what it does.\<close>

lemma reserve_frame:
  "quotes (fst (reserveForOrderInTx cfg now i pid oid amount mins s)) = quotes s"
  "orders (fst (reserveForOrderInTx cfg now i pid oid amount mins s)) = orders s"
  "transactions (fst (reserveForOrderInTx cfg now i pid oid amount mins s)) = transactions s"
  by (auto simp: reserveForOrderInTx_def Let_def split: option.splits)

lemma reserve_returns:
  assumes "reserveForOrderInTx cfg now i pid oid amount None s = (s1, Inr v)"
  shows "reservations s1 = reservations s @ [v]" and "v_orderId v = oid" and "v_amount v = amount"
    and "v_status v = V_RESERVED"
  using assms by (auto simp: reserveForOrderInTx_def Let_def split: option.splits if_splits)

lemma reserve_iff:
  "(\<exists>v. snd (reserveForOrderInTx cfg now i pid oid amount None s) = Inr v) \<longleftrightarrow> 0 < amount
     \<and> rowBy v_orderId oid (reservations s) = None
     \<and> (\<exists>p. rowBy l_id pid (pools s) = Some p \<and> amount \<le> l_total p - l_reserved p)"
  by (auto simp: reserveForOrderInTx_def Let_def split: option.splits)

lemma reserve_cong:
  assumes "pools s = pools s'" and "reservations s = reservations s'"
  shows "(\<exists>v. snd (reserveForOrderInTx cfg now i pid oid amount None s) = Inr v) =
    (\<exists>v. snd (reserveForOrderInTx cfg now i pid oid amount None s') = Inr v)"
  by (simp add: reserve_iff assms)

text \<open>The state the reservation of the transaction starts from.\<close>

definition midway :: "order_env \<Rightarrow> id \<Rightarrow> order_dto \<Rightarrow> quote \<Rightarrow> sys \<Rightarrow> sys" where
  "midway e userId dto q s =
     s\<lparr>quotes := setBy q_id (q_id q) (\<lambda>r. r\<lparr>q_status := Q_USED\<rparr>) (quotes s),
       orders := orders s @ [newOrder userId dto q (oe_orderId e)]\<rparr>"

definition orderRowFits :: "order \<Rightarrow> sys \<Rightarrow> bool" where
  "orderRowFits x s \<longleftrightarrow> rowBy o_id (o_id x) (orders s) = None
     \<and> (o_idempotencyKey x \<noteq> None \<longrightarrow> rowBy o_idempotencyKey (o_idempotencyKey x) (orders s) = None)"

lemma commit_first:
  assumes "rowBy q_id (q_id q) (quotes s) \<noteq> None" and "orderRowFits (newOrder userId dto q (oe_orderId e)) s"
  shows "snd (andThen (markQuoteUsed (q_id q)) (\<lambda>_. andThen (insertOrder (newOrder userId dto q (oe_orderId e))) k) s)
    = snd (k () (midway e userId dto q s))"
  using assms by (auto simp: andThen_eq markQuoteUsed_def insertOrder_def orderRowFits_def midway_def)

lemma commit_refuses:
  assumes "\<not> (rowBy q_id (q_id q) (quotes s) \<noteq> None \<and> orderRowFits (newOrder userId dto q (oe_orderId e)) s)"
  shows "isl (snd (andThen (markQuoteUsed (q_id q)) (\<lambda>_. andThen (insertOrder (newOrder userId dto q (oe_orderId e))) k) s))"
  using assms by (auto simp: andThen_eq markQuoteUsed_def insertOrder_def orderRowFits_def)

lemma commit_iff:
  "(\<exists>x. snd (commitOrder cfg e userId dto q p s) = Inr x) \<longleftrightarrow>
     rowBy q_id (q_id q) (quotes s) \<noteq> None \<and> orderRowFits (newOrder userId dto q (oe_orderId e)) s
     \<and> (\<exists>v. snd (reserveForOrderInTx cfg (oe_now e) (oe_reservationId e) (l_id p) (oe_orderId e)
            (q_destinationAmount q) None (midway e userId dto q s)) = Inr v)"
proof (cases "rowBy q_id (q_id q) (quotes s) \<noteq> None \<and> orderRowFits (newOrder userId dto q (oe_orderId e)) s")
  case True
  have "o_id (newOrder userId dto q (oe_orderId e)) = oe_orderId e" by (simp add: newOrder_def)
  with True show ?thesis
    by (simp add: commitOrder_def inTransaction_eq commitBody_def Let_def commit_first andThen_eq[of "reserveForOrderInTx _ _ _ _ _ _ _"]
        split: sum.split)
next
  case False
  have "isl (snd (commitBody cfg e userId dto q p s))"
    unfolding commitBody_def Let_def by (rule commit_refuses[OF False])
  then obtain err where "snd (commitBody cfg e userId dto q p s) = Inl err" by (auto simp: isl_def)
  then have "\<nexists>x. snd (commitOrder cfg e userId dto q p s) = Inr x" by (simp add: commitOrder_def inTransaction_eq)
  with False show ?thesis by blast
qed

lemma commit_returns:
  assumes "commitOrder cfg e userId dto q p s = (s1, Inr x)"
  obtains v where "x = newOrder userId dto q (oe_orderId e)" and "orders s1 = orders s @ [x]"
    and "quotes s1 = setBy q_id (q_id q) (\<lambda>r. r\<lparr>q_status := Q_USED\<rparr>) (quotes s)"
    and "reservations s1 = reservations s @ [v]" and "v_orderId v = o_id x"
    and "v_amount v = q_destinationAmount q" and "v_status v = V_RESERVED"
    and "length (transactions s1) = Suc (length (transactions s))"
    and "reserveForOrderInTx cfg (oe_now e) (oe_reservationId e) (l_id p) (oe_orderId e)
      (q_destinationAmount q) None (midway e userId dto q s) =
      (s1\<lparr>transactions := transactions s\<rparr>, Inr v)"
proof -
  let ?res = "reserveForOrderInTx cfg (oe_now e) (oe_reservationId e) (l_id p) (oe_orderId e)
      (q_destinationAmount q) None (midway e userId dto q s)"
  have fits: "rowBy q_id (q_id q) (quotes s) \<noteq> None" "orderRowFits (newOrder userId dto q (oe_orderId e)) s"
    and ok: "\<exists>v. snd ?res = Inr v"
    using commit_iff[of cfg e userId dto q p s] assms by auto
  then obtain s2 v where res: "?res = (s2, Inr v)" by (metis prod.collapse)
  have s2: "quotes s2 = quotes (midway e userId dto q s)" "orders s2 = orders (midway e userId dto q s)"
    "transactions s2 = transactions (midway e userId dto q s)"
    using reserve_frame[of cfg "oe_now e" "oe_reservationId e" "l_id p" "oe_orderId e"
        "q_destinationAmount q" None "midway e userId dto q s"] res by simp_all
  note v = reserve_returns[OF res]
  have oid: "o_id (newOrder userId dto q (oe_orderId e)) = oe_orderId e" by (simp add: newOrder_def)
  have s1: "x = newOrder userId dto q (oe_orderId e)"
    "\<exists>t. s1 = s2\<lparr>transactions := transactions s2 @ [t]\<rparr>"
    using assms fits res oid
    by (auto simp: commitOrder_def inTransaction_eq commitBody_def andThen_eq markQuoteUsed_def
      insertOrder_def orderRowFits_def midway_def Let_def)
  show ?thesis
    by (rule that[of v]) (use s1 s2 v res oid in \<open>auto simp: midway_def\<close>)
qed

lemma commit_throws:
  assumes "commitOrder cfg e userId dto q p s = (s1, Inl err)"
  shows "orders s1 = orders s" and "quotes s1 = quotes s" and "reservations s1 = reservations s"
    and "transactions s1 = transactions s" and "pools s1 = pools s"
  using inTransaction_throws[OF assms[unfolded commitOrder_def]] by simp_all

lemma commit_ledger:
  assumes inv: "ledger_inv s" and fresh: "rowBy v_id (oe_reservationId e) (reservations s) = None"
  shows "ledger_inv (fst (commitOrder cfg e userId dto q p s))"
proof (cases "snd (commitOrder cfg e userId dto q p s)")
  case (Inl err)
  then have run: "commitOrder cfg e userId dto q p s = (fst (commitOrder cfg e userId dto q p s), Inl err)"
    by (simp add: prod_eq_iff)
  from commit_throws(3,5)[OF run] inv show ?thesis by (simp add: ledger_inv_def)
next
  case (Inr x)
  then have run: "commitOrder cfg e userId dto q p s = (fst (commitOrder cfg e userId dto q p s), Inr x)"
    by (simp add: prod_eq_iff)
  obtain v where res: "reserveForOrderInTx cfg (oe_now e) (oe_reservationId e) (l_id p) (oe_orderId e)
      (q_destinationAmount q) None (midway e userId dto q s) =
      (fst (commitOrder cfg e userId dto q p s)\<lparr>transactions := transactions s\<rparr>, Inr v)"
    using commit_returns[OF run] by blast
  have mid: "ledger_inv (midway e userId dto q s)" using inv by (simp add: ledger_inv_def midway_def)
  have fresh': "rowBy v_id (oe_reservationId e) (reservations (midway e userId dto q s)) = None"
    using fresh by (simp add: midway_def)
  have "ledger_inv (fst (commitOrder cfg e userId dto q p s)\<lparr>transactions := transactions s\<rparr>)"
    using reserve_ledger[OF mid fresh'] res by (metis fst_conv snd_conv)
  then show ?thesis by (simp add: ledger_inv_def)
qed

subsection \<open>createOrder as a whole\<close>


lemma createOrder_commits:
  assumes run: "createOrder cfg e userId dto s = (s1, Inr (x, False))"
  obtains q p s2 s3 where "existingOrder userId (d_idempotencyKey dto) (orders s) = None"
    and "orderQuote (oe_now e) (d_quoteId dto) s = (s, Inr q)"
    and "orderPool cfg (oe_poolId e) q s = (s2, Inr p)"
    and "commitOrder cfg e userId dto q p s2 = (s3, Inr x)"
    and "s1 = auditLog (Some userId) (Some userId) ''ORDER_CREATED'' ''Order'' (Some (o_id x)) s3"
proof -
  have none: "existingOrder userId (d_idempotencyKey dto) (orders s) = None"
    using run by (auto simp: createOrder_def split: option.splits)
  have run': "andThen (orderQuote (oe_now e) (d_quoteId dto)) (\<lambda>q.
          andThen (orderPool cfg (oe_poolId e) q) (\<lambda>p.
          andThen (commitOrder cfg e userId dto q p) (\<lambda>x s.
            (auditLog (Some userId) (Some userId) ''ORDER_CREATED'' ''Order'' (Some (o_id x)) s,
             Inr (x, False))))) s = (s1, Inr (x, False))"
    using run none by (simp add: createOrder_def)
  then obtain sq q where q: "orderQuote (oe_now e) (d_quoteId dto) s = (sq, Inr q)"
    and k1: "andThen (orderPool cfg (oe_poolId e) q) (\<lambda>p.
          andThen (commitOrder cfg e userId dto q p) (\<lambda>x s.
            (auditLog (Some userId) (Some userId) ''ORDER_CREATED'' ''Order'' (Some (o_id x)) s,
             Inr (x, False)))) sq = (s1, Inr (x, False))"
    by (rule andThen_returns)
  have sq: "sq = s" by (rule orderQuote_returns(1)[OF q])
  from k1 obtain s2 p where p: "orderPool cfg (oe_poolId e) q s = (s2, Inr p)"
    and k2: "andThen (commitOrder cfg e userId dto q p) (\<lambda>x s.
            (auditLog (Some userId) (Some userId) ''ORDER_CREATED'' ''Order'' (Some (o_id x)) s,
             Inr (x, False))) s2 = (s1, Inr (x, False))"
    unfolding sq by (rule andThen_returns)
  from k2 obtain s3 y where c: "commitOrder cfg e userId dto q p s2 = (s3, Inr y)"
    and k3: "(auditLog (Some userId) (Some userId) ''ORDER_CREATED'' ''Order'' (Some (o_id y)) s3,
        Inr (y, False)) = (s1, (Inr (x, False) :: app_error + order \<times> bool))"
    by (rule andThen_returns)
  from k3 have "y = x" and "s1 = auditLog (Some userId) (Some userId) ''ORDER_CREATED'' ''Order'' (Some (o_id x)) s3"
    by auto
  then show ?thesis using that[OF none q[unfolded sq] p] c by blast
qed

lemma orderQuote_frame:
  "orders (fst (orderQuote now k s)) = orders s"
  "reservations (fst (orderQuote now k s)) = reservations s"
  "transactions (fst (orderQuote now k s)) = transactions s"
  "pools (fst (orderQuote now k s)) = pools s"
  by (auto simp: orderQuote_def getQuoteById_def andThen_eq split: option.splits sum.splits)

lemma createOrder_throws:
  assumes "createOrder cfg e userId dto s = (s1, Inl err)"
  shows "orders s1 = orders s \<and> reservations s1 = reservations s \<and> transactions s1 = transactions s"
proof -
  note qf = orderQuote_frame[of "oe_now e" "d_quoteId dto" s]
  have none: "existingOrder userId (d_idempotencyKey dto) (orders s) = None"
    using assms by (auto simp: createOrder_def split: option.splits)
  obtain sq rq where q: "orderQuote (oe_now e) (d_quoteId dto) s = (sq, rq)" by fastforce
  show ?thesis
  proof (cases rq)
    case (Inl e1)
    with assms none q qf show ?thesis by (simp add: createOrder_def andThen_eq)
  next
    case (Inr quote)
    obtain sp rp where p: "orderPool cfg (oe_poolId e) quote sq = (sp, rp)" by fastforce
    note pf = orderPool_frame[of cfg "oe_poolId e" quote sq]
    show ?thesis
    proof (cases rp)
      case (Inl e1)
      with assms none q qf Inr p pf show ?thesis by (simp add: createOrder_def andThen_eq)
    next
      case (Inr pool)
      obtain sc rc where c: "commitOrder cfg e userId dto quote pool sp = (sc, rc)" by fastforce
      with assms none q \<open>rq = Inr quote\<close> p Inr obtain e2 where "rc = Inl e2" "s1 = sc"
        by (cases rc) (auto simp: createOrder_def andThen_eq)
      with commit_throws[of cfg e userId dto quote pool sp sc] c qf pf q p show ?thesis by auto
    qed
  qed
qed












subsection \<open>A concrete shop\<close>

definition demo_shop :: sys where
  "demo_shop = demo_ledger\<lparr>quotes := [demo_quote 5 ''q'']\<rparr>"

definition demo_pool_ngn :: pool where
  "demo_pool_ngn = \<lparr>l_id = ''ngn'', l_asset = ''NGN'', l_network = ''testnet'', l_total = 100000000000,
     l_reserved = 0, l_available = 100000000000, l_minThreshold = 10000000000\<rparr>"

definition demo_shop_ngn :: sys where
  "demo_shop_ngn = empty_sys\<lparr>quotes := [demo_quote 5 ''q''], pools := [demo_pool_ngn]\<rparr>"

definition demo_oe :: "time \<Rightarrow> id \<Rightarrow> order_env" where
  "demo_oe now i = \<lparr>oe_now = now, oe_orderId = i, oe_reservationId = ''v-'' @ i, oe_poolId = ''pool2'',
     oe_transactionId = ''x-'' @ i\<rparr>"

definition demo_dto :: order_dto where
  "demo_dto = \<lparr>d_quoteId = ''q'', d_type = None, d_walletAddress = None, d_idempotencyKey = Some ''key''\<rparr>"

definition demo_order :: "id \<Rightarrow> id \<Rightarrow> order_dto \<Rightarrow> order" where
  "demo_order userId i dto = newOrder userId dto (demo_quote 5 ''q'') i"

definition demo_payment :: payment where
  "demo_payment = \<lparr>p_id = ''pay'', p_orderId = ''o'', p_userId = ''u'', p_provider = ''NGN_PROVIDER'',
     p_providerPaymentId = Some ''ref'', p_type = DEPOSIT, p_amount = 20000000, p_grossAmount = 20000000,
     p_providerFee = 0, p_platformFee = 0, p_netAmount = 20000000, p_currency = ''NGN'',
     p_status = P_SUCCEEDED, p_reference = ''ref'', p_idempotencyKey = None, p_createdAt = 11\<rparr>"

definition demo_cancelled_paid :: sys where
  "demo_cancelled_paid = empty_sys\<lparr>payments := [demo_payment],
     orders := [demo_order ''u'' ''o'' demo_dto\<lparr>o_status := O_CANCELLED\<rparr>]\<rparr>"

lemmas shop_defs = demo_shop_def demo_oe_def demo_dto_def demo_order_def demo_quote_def

lemma demo_createOrder:
  "createOrder demo_cfg (demo_oe 10 ''o'') ''u'' demo_dto demo_shop =
     (fst (createOrder demo_cfg (demo_oe 10 ''o'') ''u'' demo_dto demo_shop),
      Inr (demo_order ''u'' ''o'' demo_dto, False))"
proof -
  have "snd (createOrder demo_cfg (demo_oe 10 ''o'') ''u'' demo_dto demo_shop) = Inr (demo_order ''u'' ''o'' demo_dto, False)"
    by code_simp
  then show ?thesis by (simp add: prod_eq_iff)
qed

subsection \<open>Properties\<close>



text \<open>
  Order creation is idempotent: after a request with an idempotency key succeeded, any
  later request of the same user with the same key - whatever quote it names - answers the
  same order, flags it as a duplicate and changes nothing.
\<close>

theorem create_order_idempotent:
  assumes run: "createOrder cfg e userId dto s = (s1, Inr (x, dup))"
    and key: "d_idempotencyKey dto = Some k" "k \<noteq> []" and same: "d_idempotencyKey dto' = Some k"
  shows "createOrder cfg' e' userId dto' s1 = (s1, Inr (x, True))"
proof (cases dup)
  case True
  with run have "existingOrder userId (d_idempotencyKey dto) (orders s) = Some x \<and> s1 = s"
    by (auto simp: createOrder_def andThen_eq split: option.splits sum.splits)
  with key same show ?thesis by (simp add: createOrder_def)
next
  case False
  with run have "createOrder cfg e userId dto s = (s1, Inr (x, False))" by simp
  then obtain q p s2 s3 where none: "existingOrder userId (d_idempotencyKey dto) (orders s) = None"
    and p: "orderPool cfg (oe_poolId e) q s = (s2, Inr p)"
    and c: "commitOrder cfg e userId dto q p s2 = (s3, Inr x)"
    and s1: "s1 = auditLog (Some userId) (Some userId) ''ORDER_CREATED'' ''Order'' (Some (o_id x)) s3"
    by (rule createOrder_commits)
  from c have eff: "x = newOrder userId dto q (oe_orderId e)" "orders s3 = orders s2 @ [x]"
    by (auto elim: commit_returns)
  have "orders s2 = orders s" using orderPool_frame(2)[of cfg "oe_poolId e" q s] p by simp
  with none key eff have "existingOrder userId (Some k) (orders s1) = Some x"
    by (simp add: s1 existingOrder_def rows newOrder_def noneIfFalsy_def)
  with same show ?thesis by (simp add: createOrder_def)
qed

theorem create_order_idempotent_witness:
  "snd (createOrder demo_cfg (demo_oe 99 ''o9'') ''u'' (demo_dto\<lparr>d_quoteId := ''gone''\<rparr>)
     (fst (createOrder demo_cfg (demo_oe 10 ''o'') ''u'' demo_dto demo_shop))) =
     Inr (demo_order ''u'' ''o'' demo_dto, True)"
proof -
  have "d_idempotencyKey demo_dto = Some ''key''" "''key'' \<noteq> []"
    "d_idempotencyKey (demo_dto\<lparr>d_quoteId := ''gone''\<rparr>) = Some ''key''"
    by (simp_all add: demo_dto_def)
  from create_order_idempotent[OF demo_createOrder this] show ?thesis by simp
qed

text \<open>
  Order creation keeps the pool ledger: in whatever state the ledger invariant holds, it
  holds after the request, refused or not.
\<close>

theorem create_order_keeps_ledger:
  assumes inv: "ledger_inv s" and fresh: "rowBy l_id (oe_poolId e) (pools s) = None"
    "rowBy v_id (oe_reservationId e) (reservations s) = None"
  shows "ledger_inv (fst (createOrder cfg e userId dto s))"
proof (cases "existingOrder userId (d_idempotencyKey dto) (orders s)")
  case (Some x)
  with inv show ?thesis by (simp add: createOrder_def)
next
  case None
  note qf = orderQuote_frame[of "oe_now e" "d_quoteId dto" s]
  have 1: "ledger_inv (fst (orderQuote (oe_now e) (d_quoteId dto) s))"
    using inv qf by (simp add: ledger_inv_def)
  have 2: "ledger_inv (fst (orderPool cfg (oe_poolId e) q (fst (orderQuote (oe_now e) (d_quoteId dto) s))))" for q
    using 1 fresh(1) qf by (intro orderPool_ledger) simp_all
  have 3: "ledger_inv (fst (commitOrder cfg e userId dto q p
      (fst (orderPool cfg (oe_poolId e) q (fst (orderQuote (oe_now e) (d_quoteId dto) s))))))" for q p
    using 2 fresh(2) qf by (intro commit_ledger) (simp_all add: orderPool_frame)
  have cong: "ledger_inv (auditLog a u ac rs i t) = ledger_inv t" for a u ac rs i t
    by (simp add: ledger_inv_def)
  show ?thesis
    using None 1 2 3 by (simp add: createOrder_def andThen_eq cong split: sum.split)
qed

theorem create_order_keeps_ledger_witness:
  "ledger_inv (fst (createOrder demo_cfg (demo_oe 10 ''o'') ''u'' demo_dto demo_shop))"
proof -
  have "ledger_inv demo_shop" using demo_ledger_inv by (simp add: ledger_inv_def demo_shop_def)
  moreover have "rowBy l_id (oe_poolId (demo_oe 10 ''o'')) (pools demo_shop) = None"
    "rowBy v_id (oe_reservationId (demo_oe 10 ''o'')) (reservations demo_shop) = None"
    by (simp_all add: demo_shop_def demo_oe_def demo_defs)
  ultimately show ?thesis by (rule create_order_keeps_ledger)
qed

subsection \<open>What becomes of a quote\<close>

text \<open>
  The writes of the quote and the order service as events: what \<open>QuoteService\<close> does, the reads of
  an order's creation, and its transaction, for a quote and a pool that were read at any time
  before.
\<close>

datatype order_event =
    OvQuote quote_event
  | OvRead time id
  | OvPool id quote
  | OvCommit order_env id order_dto quote pool

fun orderStep :: "dec_ops \<Rightarrow> config \<Rightarrow> order_event \<Rightarrow> sys \<Rightarrow> sys" where
  "orderStep D cfg (OvQuote ev) s = quoteStep D cfg ev s"
| "orderStep D cfg (OvRead now k) s = fst (orderQuote now k s)"
| "orderStep D cfg (OvPool i q) s = fst (orderPool cfg i q s)"
| "orderStep D cfg (OvCommit e u dto q p) s = fst (commitOrder cfg e u dto q p s)"

lemma orderQuote_spent: "spent k st s \<Longrightarrow> spent k st (fst (orderQuote now i s))"
  by (auto simp: orderQuote_def andThen_eq getQuoteById_spent split: sum.split)

lemma commit_spent:
  assumes "spent k Q_USED s"
  shows "spent k Q_USED (fst (commitOrder cfg e u dto q p s))"
proof (cases "commitOrder cfg e u dto q p s")
  case (Pair s1 r)
  show ?thesis
  proof (cases r)
    case (Inl err)
    with Pair commit_throws(2) assms show ?thesis by (fastforce simp: spent_def)
  next
    case (Inr x)
    then have "quotes s1 = setBy q_id (q_id q) (\<lambda>r. r\<lparr>q_status := Q_USED\<rparr>) (quotes s)"
      using Pair by (auto elim: commit_returns)
    with assms Pair show ?thesis by (cases "q_id q = k") (auto simp: spent_def rows)
  qed
qed

lemma orderStep_spent: "spent k Q_USED s \<Longrightarrow> spent k Q_USED (orderStep D cfg ev s)"
  by (cases ev) (simp_all add: quoteStep_spent orderQuote_spent commit_spent, simp add: spent_def orderPool_frame)

interpretation spent_orders: component "\<lambda>ev s. True" "orderStep D cfg" "spent quoteId Q_USED" for D cfg quoteId
  by unfold_locales (rule orderStep_spent)

lemma createOrder_spent:
  assumes "spent (d_quoteId dto) Q_USED s"
  shows "snd (createOrder cfg e u dto s) \<noteq> Inr (x, False)"
proof
  assume "snd (createOrder cfg e u dto s) = Inr (x, False)"
  then obtain q where "orderQuote (oe_now e) (d_quoteId dto) s = (s, Inr q)"
    by (metis createOrder_commits prod.collapse)
  with orderQuote_returns[OF this] assms show False by (simp add: spent_def)
qed

text \<open>
  C28. A quote that was ordered is spent for whoever reads it afterwards: once an order of a quote
  was committed, and through any sequence of reads, creations of quotes and commits of other
  orders - of quotes read long before, too -, reading the quote for an order throws and no request
  naming it makes a new order. This protects nobody who read the quote before: as the second part
  says, the transaction of such a request does not look at the status again, and commits a second
  order of the quote whenever the pool has room and its keys are free.
\<close>

theorem ordered_quote_is_spent:
  fixes D :: dec_ops
  assumes first: "commitOrder cfg e u dto q p s = (s1, Inr x)"
  defines "later \<equiv> \<lambda>evs. runSteps (orderStep D cfg) evs s1"
  shows "(\<exists>err. snd (orderQuote now (q_id q) (later evs)) = Inl err)
    \<and> (d_quoteId dto' = q_id q \<longrightarrow> snd (createOrder cfg e' u' dto' (later evs)) \<noteq> Inr (x', False))
    \<and> ((\<exists>x2. snd (commitOrder cfg e2 u2 dto2 q p2 (later evs)) = Inr x2) \<longleftrightarrow>
         orderRowFits (newOrder u2 dto2 q (oe_orderId e2)) (later evs)
         \<and> 0 < q_destinationAmount q \<and> rowBy v_orderId (oe_orderId e2) (reservations (later evs)) = None
         \<and> (\<exists>pr. rowBy l_id (l_id p2) (pools (later evs)) = Some pr
              \<and> q_destinationAmount q \<le> l_total pr - l_reserved pr))"
proof -
  have "rowBy q_id (q_id q) (quotes s) \<noteq> None"
    using commit_iff[of cfg e u dto q p s] first by auto
  moreover have "quotes s1 = setBy q_id (q_id q) (\<lambda>r. r\<lparr>q_status := Q_USED\<rparr>) (quotes s)"
    using first by (auto elim: commit_returns)
  ultimately have "spent (q_id q) Q_USED s1" by (auto simp: spent_def rows)
  then have sp: "spent (q_id q) Q_USED (later evs)"
    unfolding later_def by (rule spent_orders.run_keeps) (rule always_admissible)
  have "\<exists>err. snd (orderQuote now (q_id q) (later evs)) = Inl err"
  proof (cases "snd (orderQuote now (q_id q) (later evs))")
    case (Inr q')
    then have "orderQuote now (q_id q) (later evs) = (fst (orderQuote now (q_id q) (later evs)), Inr q')"
      by (simp add: prod_eq_iff)
    from orderQuote_returns[OF this] sp show ?thesis by (simp add: spent_def)
  qed simp
  moreover have "d_quoteId dto' = q_id q \<longrightarrow> snd (createOrder cfg e' u' dto' (later evs)) \<noteq> Inr (x', False)"
    using createOrder_spent[of dto' "later evs"] sp by simp
  moreover have "rowBy q_id (q_id q) (quotes (later evs)) \<noteq> None" using sp by (auto simp: spent_def)
  ultimately show ?thesis
    using commit_iff[of cfg e2 u2 dto2 q p2 "later evs"] by (auto simp: reserve_iff midway_def)
qed

theorem ordered_quote_is_spent_witness:
  "(\<exists>err. snd (orderQuote 12 ''q'' (fst (commitOrder demo_cfg (demo_oe 10 ''o1'') ''u1'' demo_dto (demo_quote 5 ''q'')
      demo_pool_ngn demo_shop_ngn))) = Inl err)
   \<and> (\<exists>x2. snd (commitOrder demo_cfg (demo_oe 12 ''o2'') ''u2'' (demo_dto\<lparr>d_idempotencyKey := None\<rparr>)
      (demo_quote 5 ''q'') demo_pool_ngn (fst (commitOrder demo_cfg (demo_oe 10 ''o1'') ''u1'' demo_dto
        (demo_quote 5 ''q'') demo_pool_ngn demo_shop_ngn))) = Inr x2)"
proof -
  let ?s1 = "fst (commitOrder demo_cfg (demo_oe 10 ''o1'') ''u1'' demo_dto (demo_quote 5 ''q'')
        demo_pool_ngn demo_shop_ngn)"
  note simps = commitOrder_def inTransaction_eq commitBody_def markQuoteUsed_def insertOrder_def
      reserveForOrderInTx_def andThen_eq newOrder_def noneIfFalsy_def shop_defs demo_defs Let_def
      demo_pool_ngn_def demo_shop_ngn_def
  have first: "commitOrder demo_cfg (demo_oe 10 ''o1'') ''u1'' demo_dto (demo_quote 5 ''q'') demo_pool_ngn demo_shop_ngn
      = (?s1, Inr (demo_order ''u1'' ''o1'' demo_dto))"
    by (simp add: prod_eq_iff simps)
  have q: "q_id (demo_quote 5 ''q'') = ''q''" "0 < q_destinationAmount (demo_quote 5 ''q'')"
    by (simp_all add: demo_quote_def)
  have fits: "orderRowFits (newOrder ''u2'' (demo_dto\<lparr>d_idempotencyKey := None\<rparr>) (demo_quote 5 ''q'')
      (oe_orderId (demo_oe 12 ''o2''))) ?s1"
    "rowBy v_orderId (oe_orderId (demo_oe 12 ''o2'')) (reservations ?s1) = None"
    "\<exists>pr. rowBy l_id (l_id demo_pool_ngn) (pools ?s1) = Some pr
      \<and> q_destinationAmount (demo_quote 5 ''q'') \<le> l_total pr - l_reserved pr"
    by (simp_all add: orderRowFits_def simps)
  note rule = ordered_quote_is_spent[OF first, where evs = "[]" and ?e2.0 = "demo_oe 12 ''o2''" and ?u2.0 = "''u2''"
      and ?dto2.0 = "demo_dto\<lparr>d_idempotencyKey := None\<rparr>" and ?p2.0 = demo_pool_ngn and now = 12, unfolded q(1)]
  show ?thesis using rule fits q(2) by simp
qed

text \<open>
  The transaction does not look at the quote's status again: of two requests that both
  validated the same active quote, the second commits after the first whenever the pool still
  covers its amount, and the quote ends up with two orders.
\<close>

theorem quote_shared_by_racing_orders:
  assumes both: "orderQuote now1 quoteId s = (s, Inr q)" "orderQuote now2 quoteId s = (s, Inr q)"
    and first: "commitOrder cfg e1 u1 dto1 q p s = (s1, Inr x1)"
    and room: "rowBy l_id (l_id p) (pools s1) = Some p1" "0 < q_destinationAmount q"
      "q_destinationAmount q \<le> l_total p1 - l_reserved p1"
    and fresh: "orderRowFits (newOrder u2 dto2 q (oe_orderId e2)) s1"
      "rowBy v_orderId (oe_orderId e2) (reservations s1) = None"
  shows "\<exists>s2 x2. commitOrder cfg e2 u2 dto2 q p s1 = (s2, Inr x2) \<and> x1 \<noteq> x2
    \<and> x1 \<in> set (orders s2) \<and> x2 \<in> set (orders s2) \<and> o_quoteId x1 = quoteId \<and> o_quoteId x2 = quoteId"
proof -
  from first obtain v where eff: "x1 = newOrder u1 dto1 q (oe_orderId e1)" "orders s1 = orders s @ [x1]"
    "quotes s1 = setBy q_id (q_id q) (\<lambda>r. r\<lparr>q_status := Q_USED\<rparr>) (quotes s)"
    by (rule commit_returns)
  note q = orderQuote_returns[OF both(1)]
  have row: "rowBy q_id (q_id q) (quotes s1) \<noteq> None" using q(2,5) by (simp add: eff(3) rows)
  have res: "\<exists>v. snd (reserveForOrderInTx cfg (oe_now e2) (oe_reservationId e2) (l_id p) (oe_orderId e2)
      (q_destinationAmount q) None (midway e2 u2 dto2 q s1)) = Inr v"
    unfolding reserve_iff using room fresh(2) by (simp add: midway_def)
  obtain x2 where "snd (commitOrder cfg e2 u2 dto2 q p s1) = Inr x2"
    using iffD2[OF commit_iff[of cfg e2 u2 dto2 q p s1]] row fresh(1) res by blast
  then obtain s2 where second: "commitOrder cfg e2 u2 dto2 q p s1 = (s2, Inr x2)"
    by (metis prod.collapse)
  then have eff2: "x2 = newOrder u2 dto2 q (oe_orderId e2)" "orders s2 = orders s1 @ [x2]"
    by (auto elim: commit_returns)
  have "x1 \<notin> set []" by simp
  have "o_id x1 \<noteq> o_id x2"
    using fresh(1) eff(2) by (auto simp: orderRowFits_def eff2(1) rows split: option.splits)
  then have "x1 \<noteq> x2" by auto
  with second eff eff2 q(5) show ?thesis by (auto simp: newOrder_def)
qed

theorem quote_shared_by_racing_orders_witness:
  "\<exists>s2 x2. commitOrder demo_cfg (demo_oe 12 ''o2'') ''u2'' (demo_dto\<lparr>d_idempotencyKey := None\<rparr>) (demo_quote 5 ''q'')
      demo_pool_ngn (fst (commitOrder demo_cfg (demo_oe 10 ''o1'') ''u1'' demo_dto (demo_quote 5 ''q'')
        demo_pool_ngn demo_shop_ngn)) = (s2, Inr x2)
    \<and> demo_order ''u1'' ''o1'' demo_dto \<noteq> x2 \<and> demo_order ''u1'' ''o1'' demo_dto \<in> set (orders s2)
    \<and> x2 \<in> set (orders s2) \<and> o_quoteId (demo_order ''u1'' ''o1'' demo_dto) = ''q'' \<and> o_quoteId x2 = ''q''"
proof -
  let ?s1 = "fst (commitOrder demo_cfg (demo_oe 10 ''o1'') ''u1'' demo_dto (demo_quote 5 ''q'')
        demo_pool_ngn demo_shop_ngn)"
  note simps = commitOrder_def inTransaction_eq commitBody_def markQuoteUsed_def insertOrder_def
      reserveForOrderInTx_def andThen_eq newOrder_def noneIfFalsy_def shop_defs demo_defs Let_def
      demo_pool_ngn_def demo_shop_ngn_def
  have q: "orderQuote 10 ''q'' demo_shop_ngn = (demo_shop_ngn, Inr (demo_quote 5 ''q''))"
    "orderQuote 12 ''q'' demo_shop_ngn = (demo_shop_ngn, Inr (demo_quote 5 ''q''))"
    by (simp_all add: orderQuote_def getQuoteById_def andThen_eq demo_shop_ngn_def demo_quote_def)
  have first: "commitOrder demo_cfg (demo_oe 10 ''o1'') ''u1'' demo_dto (demo_quote 5 ''q'') demo_pool_ngn demo_shop_ngn
      = (?s1, Inr (demo_order ''u1'' ''o1'' demo_dto))"
    by (simp add: prod_eq_iff simps)
  obtain p1 where p1: "rowBy l_id (l_id demo_pool_ngn) (pools ?s1) = Some p1"
    "q_destinationAmount (demo_quote 5 ''q'') \<le> l_total p1 - l_reserved p1"
    by (simp add: simps)
  have amount: "0 < q_destinationAmount (demo_quote 5 ''q'')" by (simp add: demo_quote_def)
  have fits: "orderRowFits (newOrder ''u2'' (demo_dto\<lparr>d_idempotencyKey := None\<rparr>) (demo_quote 5 ''q'')
      (oe_orderId (demo_oe 12 ''o2''))) ?s1"
    "rowBy v_orderId (oe_orderId (demo_oe 12 ''o2'')) (reservations ?s1) = None"
    by (simp_all add: orderRowFits_def simps)
  show ?thesis
    by (rule quote_shared_by_racing_orders[OF q first p1(1) amount p1(2) fits])
qed

text \<open>
  Attaching a wallet is refused to everyone but the owner and administrators and never
  reopens a completed order; but it does not consult the status machine: an order with a
  succeeded payment is put back to settlement from every other status, including cancelled,
  expired, refund-pending and refunded ones that the machine never lets return there.
\<close>

theorem wallet_update_effect:
  fixes userId :: id and wallet :: string and isAdmin :: bool
  assumes x: "rowBy o_id orderId (orders s) = Some x"
  defines "run \<equiv> updateOrderWallet orderId userId wallet isAdmin s"
  shows "if \<not> isAdmin \<and> o_userId x \<noteq> userId
    then fst run = s \<and> snd run = Inl (ForbiddenError ''Unauthorized access to this order.'')
    else \<exists>y. snd run = Inr y \<and> rowBy o_id orderId (orders (fst run)) = Some y \<and> o_walletAddress y = Some wallet
      \<and> (o_status x = O_COMPLETED \<or> o_status x = O_SETTLEMENT_COMPLETED \<longrightarrow> o_status y = o_status x)
      \<and> ((\<exists>p \<in> set (payments s). p_orderId p = orderId \<and> p_status p = P_SUCCEEDED) \<and>
          o_status x \<notin> {O_COMPLETED, O_SETTLEMENT_COMPLETED} \<longrightarrow>
          o_status y = O_SETTLEMENT_PENDING
          \<and> (o_status x \<in> {O_CANCELLED, O_EXPIRED, O_FAILED, O_REFUND_PENDING, O_REFUND_FAILED, O_REFUNDED} \<longrightarrow>
               \<not> canOrder (o_status x) (o_status y)))"
proof (cases "\<not> isAdmin \<and> o_userId x \<noteq> userId")
  case True
  with x show ?thesis
    by (simp add: run_def updateOrderWallet_def getOrderById_def andThen_eq)
next
  case False
  define y where "y = x\<lparr>o_walletAddress := Some wallet, o_status := walletStatus x (paymentsOf orderId s)\<rparr>"
  have ret: "snd run = Inr y"
    using False x by (auto simp: run_def updateOrderWallet_def getOrderById_def andThen_eq Let_def y_def)
  have row: "rowBy o_id orderId (orders (fst run)) = Some y"
    using False x by (auto simp: run_def updateOrderWallet_def getOrderById_def andThen_eq Let_def y_def rows)
  have paid: "(\<exists>p \<in> set (payments s). p_orderId p = orderId \<and> p_status p = P_SUCCEEDED) =
      list_ex (\<lambda>p. p_status p = P_SUCCEEDED) (paymentsOf orderId s)"
    by (auto simp: paymentsOf_def list_ex_iff)
  have st: "o_status y = walletStatus x (paymentsOf orderId s)" by (simp add: y_def)
  have "\<not> canOrder st O_SETTLEMENT_PENDING"
    if "st \<in> {O_CANCELLED, O_EXPIRED, O_FAILED, O_REFUND_PENDING, O_REFUND_FAILED, O_REFUNDED}" for st
    using that by (auto simp: canOrder_def)
  then show ?thesis
    using False ret row unfolding paid st
    by (auto simp: walletStatus_def Let_def y_def)
qed

theorem wallet_update_effect_witness:
  "\<exists>y. snd (updateOrderWallet ''o'' ''u'' ''GWALLET'' False demo_cancelled_paid) = Inr y
     \<and> o_status y = O_SETTLEMENT_PENDING \<and> \<not> canOrder O_CANCELLED (o_status y)"
proof -
  have x: "rowBy o_id ''o'' (orders demo_cancelled_paid) = Some (demo_order ''u'' ''o'' demo_dto\<lparr>o_status := O_CANCELLED\<rparr>)"
    by (simp add: demo_cancelled_paid_def demo_order_def newOrder_def)
  have paid: "\<exists>p \<in> set (payments demo_cancelled_paid). p_orderId p = ''o'' \<and> p_status p = P_SUCCEEDED"
    by (simp add: demo_cancelled_paid_def demo_payment_def)
  have own: "o_userId (demo_order ''u'' ''o'' demo_dto\<lparr>o_status := O_CANCELLED\<rparr>) = ''u''"
    by (simp add: demo_order_def newOrder_def)
  show ?thesis
    using wallet_update_effect[OF x, of False "''u''" "''GWALLET''"] paid own by auto
qed

end
