(* ===== verification/Providers.thy ===== *)
theory Providers
  imports OrderProps "HOL-Library.Word"
begin

text \<open>
  The payment providers: \<^verbatim>\<open>provider.registry.ts\<close>, \<^verbatim>\<open>mock.provider.ts\<close>, \<^verbatim>\<open>ngn.provider.ts\<close>,
  \<^verbatim>\<open>paystack.provider.ts\<close> and its HTTP client \<^verbatim>\<open>paystack.client.ts\<close>. Generated provider ids,
  the answers of Paystack's HTTP API, HMAC and SHA-256 are parameters (\<open>provider_env\<close>).
\<close>

unbundle bit_operations_syntax

subsection \<open>Requests, answers, environment\<close>

record pay_request =
  pq_amount :: rat
  pq_currency :: string
  pq_reference :: string

record verify_params =
  vp_simulateSuccess :: bool
  vp_simulateFailure :: bool
  vp_status :: "string option"
  vp_expectedAmount :: "rat option"

definition no_params :: verify_params where
  "no_params = \<lparr>vp_simulateSuccess = False, vp_simulateFailure = False, vp_status = None,
     vp_expectedAmount = None\<rparr>"

record refund_request =
  rq_paymentReference :: string
  rq_amount :: rat
  rq_currency :: string
  rq_reason :: string

record refund_response =
  rr_providerRefundId :: string
  rr_status :: refund_status
  rr_failureReason :: "string option"
  rr_ambiguous :: bool
  rr_transactionReference :: "string option"

text \<open>An HTTP exchange: the fetch fails, or an answer arrives whose body may not be JSON.\<close>

datatype 'a http_answer = NetError string | Answer bool nat "'a option"

record ps_init_body =
  pi_status :: bool
  pi_message :: "string option"
  pi_data :: "(string option) option"

record ps_verify_data =
  pd_status :: "string option"
  pd_reference :: "string option"
  pd_amount :: "int option"
  pd_currency :: "string option"

record ps_verify_body =
  pv_status :: bool
  pv_message :: "string option"
  pv_data :: "ps_verify_data option"

record ps_refund_body =
  pf_status :: bool
  pf_message :: "string option"
  pf_id :: "string option"
  pf_dataStatus :: "string option"
  pf_dataRefundStatus :: "string option"
  pf_transactionReference :: "string option"

text \<open>
  What the outside provides: the ids the sandbox providers generate, the Paystack API, the
  secrets of the process environment and the two hash functions of node's crypto.
\<close>

record provider_env =
  pe_newId :: string
  pe_stamp :: string
  pe_init :: "int \<Rightarrow> string \<Rightarrow> ps_init_body http_answer"
  pe_verify :: "string \<Rightarrow> ps_verify_body http_answer"
  pe_refund :: "string \<Rightarrow> int \<Rightarrow> ps_refund_body http_answer"
  pe_ngnSecret :: "string option"
  pe_paystackSecret :: "string option"
  pe_hmac :: "string \<Rightarrow> string \<Rightarrow> string"
  pe_sha256 :: "string \<Rightarrow> string"

text \<open>A header is one string or several of which the first counts.\<close>

datatype header = One string | Many "string list"

type_synonym headers = "string \<Rightarrow> header option"

fun headerTruthy :: "header option \<Rightarrow> bool" where
  "headerTruthy None = False"
| "headerTruthy (Some (One v)) = (v \<noteq> [])"
| "headerTruthy (Some (Many vs)) = True"

fun headerValue :: "header \<Rightarrow> string option" where
  "headerValue (One v) = Some v"
| "headerValue (Many []) = None"
| "headerValue (Many (v # vs)) = Some v"

definition firstHeader :: "headers \<Rightarrow> string list \<Rightarrow> header option" where
  "firstHeader hs names = Option.bind (find (\<lambda>n. headerTruthy (hs n)) names) hs"

text \<open>
  The parts of a webhook body the providers read, and the body serialised again by
  \<open>JSON.stringify\<close>, which need not be the raw body that was received.
\<close>

record webhook_body =
  wb_event_id :: "string option"
  wb_eventId :: "string option"
  wb_id :: "string option"
  wb_event_type :: "string option"
  wb_eventType :: "string option"
  wb_event :: "string option"
  wb_status :: "string option"
  wb_providerPaymentId :: "string option"
  wb_data_id :: "string option"
  wb_data_status :: "string option"
  wb_data_provider_payment_id :: "string option"
  wb_data_providerPaymentId :: "string option"
  wb_data_reference :: "string option"
  wb_data_paid_at :: "string option"
  wb_data_createdAt :: "string option"
  wb_data_amount :: "string option"
  wb_stringified :: string

record webhook_payload =
  we_eventId :: string
  we_eventType :: string
  we_providerPaymentId :: "string option"
  we_status :: payment_status

subsection \<open>The stores of the sandbox providers\<close>

definition storeObj :: "pay_store \<Rightarrow> nat option \<Rightarrow> pay_response option" where
  "storeObj st a = (case a of Some i \<Rightarrow> (if i < length (objs st) then Some (objs st ! i) else None) | None \<Rightarrow> None)"

text \<open>\<open>storeById.get(k) || storeByReference.get(k)\<close>, as an address.\<close>

definition storeFind :: "pay_store \<Rightarrow> string \<Rightarrow> nat option" where
  "storeFind st k = (case byId st k of Some a \<Rightarrow> Some a | None \<Rightarrow> byRef st k)"

definition storePut :: "string \<Rightarrow> pay_response \<Rightarrow> pay_store \<Rightarrow> pay_store" where
  "storePut reference r st = st\<lparr>objs := objs st @ [r],
     byRef := (byRef st)(reference \<mapsto> length (objs st)),
     byId := (byId st)(pr_providerPaymentId r \<mapsto> length (objs st))\<rparr>"

definition storeStatus :: "nat \<Rightarrow> payment_status \<Rightarrow> pay_store \<Rightarrow> pay_store" where
  "storeStatus a status st = st\<lparr>objs := (objs st)[a := (objs st ! a)\<lparr>pr_status := status\<rparr>]\<rparr>"

subsection \<open>The mock provider\<close>

definition mockCreate ::
  "provider_env \<Rightarrow> pay_request \<Rightarrow> pay_store \<Rightarrow> pay_store \<times> pay_response" where
  "mockCreate e rq st =
     (case storeObj st (byRef st (pq_reference rq)) of
        Some r \<Rightarrow> (st, r)
      | None \<Rightarrow>
          let r = \<lparr>pr_providerPaymentId = pe_newId e,
                   pr_status = (if contains (pq_reference rq) ''fail_'' then P_FAILED else P_PENDING),
                   pr_amount = pq_amount rq, pr_currency = pq_currency rq,
                   pr_reference = Some (pq_reference rq), pr_accountNumber = Some ''9982014821''\<rparr>
          in (storePut (pq_reference rq) r st, r))"

definition mockVerify :: "string \<Rightarrow> pay_store \<Rightarrow> pay_response" where
  "mockVerify k st =
     (let stored = storeObj st (storeFind st k);
          failure = (contains k ''fail_'' \<or> (case stored of Some r \<Rightarrow> pr_status r = P_FAILED | None \<Rightarrow> False))
      in \<lparr>pr_providerPaymentId = k, pr_status = (if failure then P_FAILED else P_SUCCEEDED),
          pr_amount = (case stored of Some r \<Rightarrow> pr_amount r | None \<Rightarrow> 0),
          pr_currency = (case stored of Some r \<Rightarrow> orDefault (Some (pr_currency r)) ''NGN'' | None \<Rightarrow> ''NGN''),
          pr_reference = None, pr_accountNumber = None\<rparr>)"

definition mockGetStatus :: "string \<Rightarrow> pay_store \<Rightarrow> pay_response" where
  "mockGetStatus k st =
     (let stored = storeObj st (storeFind st k)
      in \<lparr>pr_providerPaymentId = k,
          pr_status = (if (case stored of Some r \<Rightarrow> pr_status r = P_FAILED | None \<Rightarrow> False) \<or> contains k ''fail_''
            then P_FAILED else P_SUCCEEDED),
          pr_amount = (case stored of Some r \<Rightarrow> pr_amount r | None \<Rightarrow> 0),
          pr_currency = (case stored of Some r \<Rightarrow> orDefault (Some (pr_currency r)) ''NGN'' | None \<Rightarrow> ''NGN''),
          pr_reference = None, pr_accountNumber = None\<rparr>)"

definition mockRefund :: "provider_env \<Rightarrow> refund_request \<Rightarrow> refund_response" where
  "mockRefund e rq =
     (if contains (rq_reason rq) ''simulated_network_error'' then
        \<lparr>rr_providerRefundId = ''mock_ambiguous_'' @ pe_stamp e, rr_status = R_PROCESSING,
         rr_failureReason = Some ''Paystack Refund Network Error: Connection timed out'', rr_ambiguous = True, rr_transactionReference = None\<rparr>
      else if contains (rq_reason rq) ''simulated_failure'' then
        \<lparr>rr_providerRefundId = ''mock_ref_failed_'' @ pe_stamp e, rr_status = R_FAILED,
         rr_failureReason = Some ''Paystack Refund Rejected: Transaction ineligible for refund'',
         rr_ambiguous = False, rr_transactionReference = None\<rparr>
      else \<lparr>rr_providerRefundId = ''mock_ref_'' @ pe_stamp e, rr_status = R_SUCCEEDED,
            rr_failureReason = None, rr_ambiguous = False, rr_transactionReference = None\<rparr>)"

definition mockSignature :: "headers \<Rightarrow> bool" where
  "mockSignature hs =
     (case firstHeader hs [''x-mock-signature'', ''X-Mock-Signature''] of
        None \<Rightarrow> False
      | Some h \<Rightarrow> headerValue h = Some ''mock_valid_signature'' \<or> headerValue h = Some ''valid_mock_sig'')"

definition mockParse :: "provider_env \<Rightarrow> headers \<Rightarrow> webhook_body \<Rightarrow> app_error + webhook_payload" where
  "mockParse e hs b =
     (if \<not> mockSignature hs then Inl (WebhookVerificationError ''Invalid mock webhook signature header'')
      else Inr \<lparr>
        we_eventId = orDefault (orElse (wb_event_id b) (wb_eventId b)) (''evt_'' @ pe_stamp e),
        we_eventType = orDefault (orElse (wb_event_type b) (wb_eventType b)) ''payment.updated'',
        we_providerPaymentId =
          orElse (wb_data_provider_payment_id b) (orElse (wb_data_providerPaymentId b) (wb_providerPaymentId b)),
        we_status =
          (if wb_data_status b = Some ''SUCCEEDED'' \<or> wb_status b = Some ''SUCCEEDED'' then P_SUCCEEDED
           else if wb_data_status b = Some ''FAILED'' \<or> wb_status b = Some ''FAILED'' then P_FAILED
           else P_PENDING)\<rparr>)"

subsection \<open>The NGN provider\<close>

text \<open>\<open>hashCode\<close>: 32-bit arithmetic, \<open>hash << 5\<close> and \<open>hash |= 0\<close> wrap.\<close>

fun hashLoop :: "32 word \<Rightarrow> string \<Rightarrow> 32 word" where
  "hashLoop h [] = h"
| "hashLoop h (c # cs) = hashLoop (push_bit 5 h - h + word_of_nat (of_char c)) cs"

definition hashCode :: "string \<Rightarrow> int" where
  "hashCode v = sint (hashLoop 0 v)"

definition digitChar :: "nat \<Rightarrow> char" where
  "digitChar d = char_of (48 + d)"

fun decimalString :: "nat \<Rightarrow> string" where
  "decimalString n = (if n < 10 then [digitChar n] else decimalString (n div 10) @ [digitChar (n mod 10)])"

declare decimalString.simps [simp del]

definition padStart :: "nat \<Rightarrow> char \<Rightarrow> string \<Rightarrow> string" where
  "padStart n c v = replicate (n - length v) c @ v"

definition accountNumber :: "string \<Rightarrow> string" where
  "accountNumber reference =
     ''99'' @ padStart 8 (CHR ''0'') (take 8 (decimalString (nat \<bar>hashCode reference\<bar>)))"

definition ngnCreate ::
  "provider_env \<Rightarrow> pay_request \<Rightarrow> pay_store \<Rightarrow> pay_store \<times> (app_error + pay_response)" where
  "ngnCreate e rq st =
     (if pq_currency rq \<noteq> ''NGN''
      then (st, Inl (BadRequestError (''NgnPaymentProvider only supports NGN currency, received: '' @ pq_currency rq)))
      else case storeObj st (byRef st (pq_reference rq)) of
        Some r \<Rightarrow> (st, Inr r)
      | None \<Rightarrow>
          let r = \<lparr>pr_providerPaymentId = pe_newId e,
                   pr_status = (if contains (pq_reference rq) ''fail_'' then P_FAILED else P_PENDING),
                   pr_amount = pq_amount rq, pr_currency = pq_currency rq,
                   pr_reference = Some (pq_reference rq),
                   pr_accountNumber = Some (accountNumber (pq_reference rq))\<rparr>
          in (storePut (pq_reference rq) r st, Inr r))"

definition ngnGetStatus :: "string \<Rightarrow> pay_store \<Rightarrow> pay_response" where
  "ngnGetStatus k st =
     (case storeObj st (storeFind st k) of
        Some r \<Rightarrow> r
      | None \<Rightarrow> \<lparr>pr_providerPaymentId = k, pr_status = P_PENDING, pr_amount = 0, pr_currency = ''NGN'',
                 pr_reference = None, pr_accountNumber = None\<rparr>)"

definition ngnVerifyStatus :: "string \<Rightarrow> verify_params \<Rightarrow> pay_response option \<Rightarrow> payment_status" where
  "ngnVerifyStatus k ps stored =
     (if vp_simulateSuccess ps \<or> vp_status ps = Some ''SUCCEEDED'' \<or> vp_status ps = Some ''SUCCESSFUL''
      then P_SUCCEEDED
      else if vp_simulateFailure ps \<or> vp_status ps = Some ''FAILED'' \<or> contains k ''fail_'' then P_FAILED
      else case stored of
        None \<Rightarrow> P_PENDING
      | Some r \<Rightarrow> (if pr_status r = P_PENDING then P_SUCCEEDED else pr_status r))"

definition ngnVerify ::
  "string \<Rightarrow> verify_params \<Rightarrow> pay_store \<Rightarrow> pay_store \<times> pay_response" where
  "ngnVerify k ps st =
     (let a = storeFind st k; stored = storeObj st a;
          status = ngnVerifyStatus k ps stored;
          updated = \<lparr>pr_providerPaymentId = orDefault (map_option pr_providerPaymentId stored) k,
                     pr_status = status,
                     pr_amount = (case stored of Some r \<Rightarrow> pr_amount r | None \<Rightarrow> 0),
                     pr_currency = orDefault (map_option pr_currency stored) ''NGN'',
                     pr_reference = Option.bind stored pr_reference,
                     pr_accountNumber = Option.bind stored pr_accountNumber\<rparr>
      in case (a, stored) of
           (Some i, Some r) \<Rightarrow>
             let st1 = storeStatus i status st;
                 st2 = st1\<lparr>byId := (byId st1)(pr_providerPaymentId updated \<mapsto> i)\<rparr>;
                 st3 = (case pr_reference r of
                          Some v \<Rightarrow> (if v = [] then st2 else st2\<lparr>byRef := (byRef st2)(v \<mapsto> i)\<rparr>)
                        | None \<Rightarrow> st2)
             in (st3, updated)
         | _ \<Rightarrow> (st, updated))"

definition ngnRefund :: "provider_env \<Rightarrow> refund_request \<Rightarrow> refund_response" where
  "ngnRefund e rq =
     (if contains (rq_reason rq) ''simulated_network_error'' then
        \<lparr>rr_providerRefundId = ''ngn_ambiguous_'' @ pe_stamp e, rr_status = R_PROCESSING,
         rr_failureReason = Some ''NGN Provider Network Timeout'', rr_ambiguous = True, rr_transactionReference = None\<rparr>
      else if contains (rq_reason rq) ''simulated_failure'' then
        \<lparr>rr_providerRefundId = ''ngn_ref_fail_'' @ pe_stamp e, rr_status = R_FAILED,
         rr_failureReason = Some ''NGN Provider Refund Rejected'', rr_ambiguous = False, rr_transactionReference = None\<rparr>
      else \<lparr>rr_providerRefundId = ''ngn_ref_'' @ pe_stamp e, rr_status = R_SUCCEEDED,
            rr_failureReason = None, rr_ambiguous = False, rr_transactionReference = None\<rparr>)"

definition ngnSignature :: "provider_env \<Rightarrow> headers \<Rightarrow> string \<Rightarrow> bool" where
  "ngnSignature e hs rawBody =
     (case firstHeader hs [''x-ngn-signature'', ''X-NGN-Signature'', ''x-paystack-signature'', ''X-Paystack-Signature''] of
        None \<Rightarrow> False
      | Some h \<Rightarrow>
          if headerValue h = Some ''ngn_valid_signature'' \<or> headerValue h = Some ''valid_mock_sig'' then True
          else case orElse (pe_ngnSecret e) (pe_paystackSecret e) of
            None \<Rightarrow> False
          | Some secret \<Rightarrow> secret \<noteq> [] \<and> headerValue h = Some (pe_hmac e secret rawBody))"

definition ngnWebhookStatus :: "string \<Rightarrow> webhook_body \<Rightarrow> payment_status" where
  "ngnWebhookStatus eventType b =
     (let rawStatus = toUpper (orDefault (orElse (wb_data_status b) (wb_status b)) [])
      in if rawStatus = ''SUCCESS'' \<or> rawStatus = ''SUCCEEDED'' \<or> rawStatus = ''SUCCESSFUL''
            \<or> eventType = ''charge.success''
         then P_SUCCEEDED
         else if rawStatus = ''FAILED'' \<or> rawStatus = ''CANCELLED'' \<or> eventType = ''charge.failed''
         then P_FAILED else P_PENDING)"

definition ngnParse ::
  "provider_env \<Rightarrow> headers \<Rightarrow> webhook_body \<Rightarrow> pay_store \<Rightarrow> pay_store \<times> (app_error + webhook_payload)" where
  "ngnParse e hs b st =
     (if \<not> ngnSignature e hs (wb_stringified b)
      then (st, Inl (WebhookVerificationError ''Invalid NGN webhook signature header''))
      else
        let eventType = orDefault (orElse (wb_event_type b) (wb_event b)) ''charge.success'';
            pid = orElse (wb_data_provider_payment_id b) (orElse (wb_data_providerPaymentId b)
                    (orElse (wb_data_reference b) (wb_providerPaymentId b)));
            status = ngnWebhookStatus eventType b;
            st1 = (if truthy pid then
                     (case storeFind st (the pid) of
                        Some i \<Rightarrow> (if i < length (objs st) then storeStatus i status st else st)
                      | None \<Rightarrow> st)
                   else st)
        in (st1, Inr \<lparr>we_eventId = orDefault (orElse (wb_event_id b) (wb_id b)) (''evt_'' @ pe_stamp e),
                      we_eventType = eventType, we_providerPaymentId = pid, we_status = status\<rparr>))"

subsection \<open>Paystack: the HTTP client\<close>

text \<open>\<open>Math.round\<close>, of a number that is taken to be the decimal it denotes.\<close>

definition jsRound :: "rat \<Rightarrow> int" where
  "jsRound x = \<lfloor>x + 1 / 2\<rfloor>"

definition missingKey :: app_error where
  "missingKey = BadRequestError ''Paystack API secret key is missing. Set PAYSTACK_SECRET_KEY in environment.''"

definition requestFailed :: "string \<Rightarrow> string \<Rightarrow> nat \<Rightarrow> string option \<Rightarrow> app_error" where
  "requestFailed what call code msg =
     ProviderError (''Paystack Transaction '' @ what @ '' Failed: '' @
       orDefault msg (''Paystack '' @ call @ '' request failed with status '' @ decimalString code))"

definition initializeTransaction ::
  "config \<Rightarrow> provider_env \<Rightarrow> int \<Rightarrow> string \<Rightarrow> app_error + string" where
  "initializeTransaction cfg e kobo reference =
     (if paystackSecretKey cfg = [] then Inl missingKey
      else case pe_init e kobo reference of
        NetError m \<Rightarrow> Inl (ProviderError (''Paystack Network Error: '' @ m))
      | Answer ok code body \<Rightarrow>
          (case (ok, body) of
             (True, Some b) \<Rightarrow>
               if pi_status b \<and> pi_data b \<noteq> None then Inr (orDefault (the (pi_data b)) reference)
               else Inl (requestFailed ''Initialization'' ''initialize'' code (pi_message b))
           | _ \<Rightarrow> Inl (requestFailed ''Initialization'' ''initialize'' code (Option.bind body pi_message))))"

record ps_verified =
  vr_status :: string
  vr_reference :: string
  vr_amountInKobo :: int
  vr_currency :: string

definition verifyTransaction ::
  "config \<Rightarrow> provider_env \<Rightarrow> string \<Rightarrow> app_error + ps_verified" where
  "verifyTransaction cfg e reference =
     (if paystackSecretKey cfg = [] then Inl missingKey
      else case pe_verify e reference of
        NetError m \<Rightarrow> Inl (ProviderError (''Paystack Network Error: '' @ m))
      | Answer ok code body \<Rightarrow>
          (case body of
             None \<Rightarrow> Inl (requestFailed ''Verification'' ''verify'' code None)
           | Some b \<Rightarrow>
               (case (ok \<and> pv_status b, pv_data b) of
                  (True, Some d) \<Rightarrow>
                    Inr \<lparr>vr_status = toLower (orDefault (pd_status d) []),
                         vr_reference = orDefault (pd_reference d) reference,
                         vr_amountInKobo = (case pd_amount d of Some n \<Rightarrow> n | None \<Rightarrow> 0),
                         vr_currency = toUpper (orDefault (pd_currency d) ''NGN'')\<rparr>
                | _ \<Rightarrow> Inl (requestFailed ''Verification'' ''verify'' code (pv_message b)))))"

record ps_refunded =
  pr2_id :: string
  pr2_status :: string
  pr2_transactionReference :: string

definition refundTransaction ::
  "config \<Rightarrow> provider_env \<Rightarrow> string \<Rightarrow> int \<Rightarrow> app_error + ps_refunded" where
  "refundTransaction cfg e transaction kobo =
     (if paystackSecretKey cfg = [] then Inl missingKey
      else case pe_refund e transaction kobo of
        NetError m \<Rightarrow> Inl (ProviderError (''Paystack Refund Network Error: '' @ m))
      | Answer ok code body \<Rightarrow>
          (case (ok, body) of
             (True, Some b) \<Rightarrow>
               Inr \<lparr>pr2_id = orDefault (pf_id b) (''ref_'' @ pe_stamp e),
                    pr2_status = toLower (orDefault (orElse (pf_dataStatus b) (pf_dataRefundStatus b))
                      (if pf_status b then ''processed'' else ''failed'')),
                    pr2_transactionReference = orDefault (pf_transactionReference b) transaction\<rparr>
           | _ \<Rightarrow>
               let msg = orDefault (Option.bind body pf_message) (''Paystack refund request failed with status '' @ decimalString code)
               in if 400 \<le> code \<and> code < 500 then Inl (ProviderError (''Paystack Refund Rejected: '' @ msg))
                  else Inl (ProviderError (''Paystack Refund Request Failed: '' @ msg))))"

subsection \<open>Paystack: the provider\<close>

definition paystackCreate ::
  "config \<Rightarrow> provider_env \<Rightarrow> pay_request \<Rightarrow> app_error + pay_response" where
  "paystackCreate cfg e rq =
     (if pq_currency rq \<noteq> ''NGN''
      then Inl (BadRequestError (''PaystackNgnPaymentProvider only supports NGN currency, received: '' @ pq_currency rq))
      else if pq_amount rq \<le> 0 then Inl (BadRequestError ''Invalid payment amount for NGN deposit'')
      else case initializeTransaction cfg e (jsRound (pq_amount rq * 100)) (pq_reference rq) of
        Inl err \<Rightarrow> Inl err
      | Inr reference \<Rightarrow>
          Inr \<lparr>pr_providerPaymentId = reference, pr_status = P_PENDING, pr_amount = pq_amount rq,
               pr_currency = pq_currency rq, pr_reference = Some (pq_reference rq),
               pr_accountNumber = None\<rparr>)"

definition paystackVerify ::
  "config \<Rightarrow> provider_env \<Rightarrow> string \<Rightarrow> verify_params \<Rightarrow> app_error + pay_response" where
  "paystackVerify cfg e k ps =
     (case verifyTransaction cfg e k of
        Inl err \<Rightarrow> Inl err
      | Inr v \<Rightarrow>
          let st0 = (if vr_status v = ''success'' then P_SUCCEEDED
                     else if vr_status v = ''failed'' \<or> vr_status v = ''abandoned'' then P_FAILED
                     else P_PENDING);
              st1 = (case vp_expectedAmount ps of
                       Some x \<Rightarrow> (if x \<noteq> 0 \<and> vr_amountInKobo v \<noteq> jsRound (x * 100) then P_FAILED else st0)
                     | None \<Rightarrow> st0);
              st2 = (if vr_currency v \<noteq> ''NGN'' then P_FAILED else st1)
          in Inr \<lparr>pr_providerPaymentId = orDefault (Some (vr_reference v)) k, pr_status = st2,
                  pr_amount = of_int (vr_amountInKobo v) / 100, pr_currency = vr_currency v,
                  pr_reference = None, pr_accountNumber = None\<rparr>)"

definition paystackRefundStatus :: "string \<Rightarrow> refund_status" where
  "paystackRefundStatus v =
     (if v = ''processed'' \<or> v = ''success'' \<or> v = ''successful'' then R_SUCCEEDED
      else if v = ''pending'' \<or> v = ''processing'' then R_PROCESSING
      else if v = ''failed'' then R_FAILED
      else R_PROCESSING)"

definition paystackRefund ::
  "config \<Rightarrow> provider_env \<Rightarrow> refund_request \<Rightarrow> app_error + refund_response" where
  "paystackRefund cfg e rq =
     (if rq_amount rq \<le> 0 then Inl (BadRequestError ''Invalid refund amount'')
      else case refundTransaction cfg e (rq_paymentReference rq) (jsRound (rq_amount rq * 100)) of
        Inr r \<Rightarrow> Inr \<lparr>rr_providerRefundId = pr2_id r, rr_status = paystackRefundStatus (pr2_status r),
                      rr_failureReason = None, rr_ambiguous = False,
                      rr_transactionReference = Some (pr2_transactionReference r)\<rparr>
      | Inl (ProviderError m) \<Rightarrow>
          (if contains m ''Network Error''
           then Inr \<lparr>rr_providerRefundId = ''ambiguous_'' @ pe_stamp e, rr_status = R_PROCESSING,
                     rr_failureReason = Some m, rr_ambiguous = True, rr_transactionReference = None\<rparr>
           else Inr \<lparr>rr_providerRefundId = ''failed_'' @ pe_stamp e, rr_status = R_FAILED,
                     rr_failureReason = Some m, rr_ambiguous = False, rr_transactionReference = None\<rparr>)
      | Inl err \<Rightarrow> Inl err)"

definition paystackSignature :: "config \<Rightarrow> provider_env \<Rightarrow> headers \<Rightarrow> string \<Rightarrow> bool" where
  "paystackSignature cfg e hs rawBody =
     (case firstHeader hs [''x-paystack-signature'', ''X-Paystack-Signature'', ''x-ngn-signature'', ''X-NGN-Signature''] of
        None \<Rightarrow> False
      | Some h \<Rightarrow>
          if \<not> truthy (headerValue h) then False
          else
            let secret = orDefault (pe_paystackSecret e) (paystackSecretKey cfg)
            in secret \<noteq> [] \<and> pe_hmac e secret rawBody = the (headerValue h))"

definition present :: "string option \<Rightarrow> bool" where
  "present v = (case v of Some x \<Rightarrow> trim x \<noteq> [] | None \<Rightarrow> False)"

definition paystackEventId :: "provider_env \<Rightarrow> webhook_body \<Rightarrow> string" where
  "paystackEventId e b =
     (if present (wb_id b) then the (wb_id b)
      else if present (wb_data_id b) then the (wb_data_id b)
      else ''evt_pstk_'' @ take 16 (pe_sha256 e
        (orDefault (wb_event b) ''charge.success'' @ '':''
         @ orDefault (orElse (wb_data_reference b) (wb_data_provider_payment_id b)) ''unknown_ref'' @ '':''
         @ orDefault (orElse (wb_data_paid_at b) (wb_data_createdAt b)) [] @ '':''
         @ orDefault (wb_data_amount b) [])))"

definition paystackParse ::
  "config \<Rightarrow> provider_env \<Rightarrow> headers \<Rightarrow> webhook_body \<Rightarrow> string \<Rightarrow> app_error + webhook_payload" where
  "paystackParse cfg e hs b rawBody =
     (if \<not> paystackSignature cfg e hs (if rawBody = [] then wb_stringified b else rawBody)
      then Inl (WebhookVerificationError ''Invalid Paystack webhook signature'')
      else
        let eventType = orDefault (wb_event b) ''charge.success'';
            rawStatus = toLower (orDefault (orElse (wb_data_status b) (wb_status b)) [])
        in Inr \<lparr>we_eventId = paystackEventId e b, we_eventType = eventType,
             we_providerPaymentId = orElse (wb_data_reference b) (wb_data_provider_payment_id b),
             we_status = (if eventType = ''charge.success'' \<and> rawStatus = ''success'' then P_SUCCEEDED
               else if eventType = ''charge.failed'' \<or> rawStatus = ''failed'' then P_FAILED
               else P_PENDING)\<rparr>)"

subsection \<open>The registry\<close>

datatype provider = MockProv | NgnProv | PaystackProv

fun providerId :: "provider \<Rightarrow> string" where
  "providerId MockProv = ''MOCK''"
| "providerId NgnProv = ''NGN_BANK_TRANSFER''"
| "providerId PaystackProv = ''PAYSTACK_NGN_BANK_TRANSFER''"

text \<open>All three providers register themselves when the module is loaded.\<close>

definition registered :: "string \<Rightarrow> provider option" where
  "registered k = find (\<lambda>p. toUpper (providerId p) = k) [MockProv, NgnProv, PaystackProv]"

definition registryGet :: "config \<Rightarrow> string \<Rightarrow> app_error + provider" where
  "registryGet cfg name =
     (let normId = toUpper (if name = [] then ''MOCK'' else name)
      in if (normId = ''NGN'' \<or> normId = ''NGN_BANK_TRANSFER'')
             \<and> (if ngnProvider cfg = [] then ''sandbox'' else ngnProvider cfg) = ''paystack''
         then Inr PaystackProv
         else if normId = ''NGN'' \<or> normId = ''NGN_BANK_TRANSFER'' then Inr NgnProv
         else if normId = ''PAYSTACK'' then Inr PaystackProv
         else if normId = ''SANDBOX'' then Inr NgnProv
         else case registered normId of
           Some p \<Rightarrow> Inr p
         | None \<Rightarrow> Inl (NotFoundError (''Payment provider '' @ CHR 0x27 # name @ CHR 0x27 # '' is not registered or supported.'')))"

subsection \<open>The operations of a provider\<close>

definition lift :: "('e + 'a) \<Rightarrow> ('s, 'e, 'a) oper" where
  "lift r s = (s, r)"

fun providerCreate :: "config \<Rightarrow> provider_env \<Rightarrow> provider \<Rightarrow> pay_request \<Rightarrow> pay_response op" where
  "providerCreate cfg e MockProv rq s =
     (let (st, r) = mockCreate e rq (mockStore s) in (s\<lparr>mockStore := st\<rparr>, Inr r))"
| "providerCreate cfg e NgnProv rq s =
     (let (st, r) = ngnCreate e rq (ngnStore s) in (s\<lparr>ngnStore := st\<rparr>, r))"
| "providerCreate cfg e PaystackProv rq s = (s, paystackCreate cfg e rq)"

fun providerVerify ::
  "config \<Rightarrow> provider_env \<Rightarrow> provider \<Rightarrow> string \<Rightarrow> verify_params \<Rightarrow> pay_response op" where
  "providerVerify cfg e MockProv k ps s = (s, Inr (mockVerify k (mockStore s)))"
| "providerVerify cfg e NgnProv k ps s =
     (let (st, r) = ngnVerify k ps (ngnStore s) in (s\<lparr>ngnStore := st\<rparr>, Inr r))"
| "providerVerify cfg e PaystackProv k ps s = (s, paystackVerify cfg e k ps)"

fun providerGetStatus :: "config \<Rightarrow> provider_env \<Rightarrow> provider \<Rightarrow> string \<Rightarrow> pay_response op" where
  "providerGetStatus cfg e MockProv k s = (s, Inr (mockGetStatus k (mockStore s)))"
| "providerGetStatus cfg e NgnProv k s = (s, Inr (ngnGetStatus k (ngnStore s)))"
| "providerGetStatus cfg e PaystackProv k s = (s, paystackVerify cfg e k no_params)"

fun providerRefund :: "config \<Rightarrow> provider_env \<Rightarrow> provider \<Rightarrow> refund_request \<Rightarrow> app_error + refund_response" where
  "providerRefund cfg e MockProv rq = Inr (mockRefund e rq)"
| "providerRefund cfg e NgnProv rq = Inr (ngnRefund e rq)"
| "providerRefund cfg e PaystackProv rq = paystackRefund cfg e rq"

fun providerSignature :: "config \<Rightarrow> provider_env \<Rightarrow> provider \<Rightarrow> headers \<Rightarrow> string \<Rightarrow> bool" where
  "providerSignature cfg e MockProv hs rawBody = mockSignature hs"
| "providerSignature cfg e NgnProv hs rawBody = ngnSignature e hs rawBody"
| "providerSignature cfg e PaystackProv hs rawBody = paystackSignature cfg e hs rawBody"

fun providerParse ::
  "config \<Rightarrow> provider_env \<Rightarrow> provider \<Rightarrow> headers \<Rightarrow> webhook_body \<Rightarrow> string \<Rightarrow> webhook_payload op" where
  "providerParse cfg e MockProv hs b rawBody s = (s, mockParse e hs b)"
| "providerParse cfg e NgnProv hs b rawBody s =
     (let (st, r) = ngnParse e hs b (ngnStore s) in (s\<lparr>ngnStore := st\<rparr>, r))"
| "providerParse cfg e PaystackProv hs b rawBody s = (s, paystackParse cfg e hs b rawBody)"

end
