(* ===== verification/ProviderProps.thy ===== *)
theory ProviderProps
  imports Providers
begin

text \<open>
  The contract of a payment provider, the locale \<open>payment_provider\<close>, and the proof that each
  registered provider meets it; then what the sandbox and the Paystack adapters do with the
  cases that matter for money: account numbers, refund outcomes and unverified statuses.
\<close>

subsection \<open>The contract\<close>

definition settledOrPending :: "payment_status \<Rightarrow> bool" where
  "settledOrPending st = (st = P_PENDING \<or> st = P_SUCCEEDED \<or> st = P_FAILED)"

lemma settledOrPending_simps [simp]:
  "settledOrPending P_PENDING" "settledOrPending P_SUCCEEDED" "settledOrPending P_FAILED"
  "settledOrPending (if b then x else y) = (if b then settledOrPending x else settledOrPending y)"
  by (simp_all add: settledOrPending_def)

text \<open>A provider call touches nothing of the state but the provider's own store.\<close>

definition storesOnly :: "sys \<Rightarrow> sys \<Rightarrow> bool" where
  "storesOnly s s1 \<longleftrightarrow> s1 = s\<lparr>mockStore := mockStore s1, ngnStore := ngnStore s1\<rparr>"

text \<open>The sandbox stores hold only the three statuses.\<close>

definition stores_ok :: "sys \<Rightarrow> bool" where
  "stores_ok s \<longleftrightarrow> (\<forall>r \<in> set (objs (mockStore s)). settledOrPending (pr_status r))
     \<and> (\<forall>r \<in> set (objs (ngnStore s)). settledOrPending (pr_status r))"

locale payment_provider =
  fixes create :: "pay_request \<Rightarrow> pay_response op"
    and verify :: "string \<Rightarrow> verify_params \<Rightarrow> pay_response op"
    and refund :: "refund_request \<Rightarrow> app_error + refund_response"
    and parse :: "headers \<Rightarrow> webhook_body \<Rightarrow> string \<Rightarrow> webhook_payload op"
    and wf :: "sys \<Rightarrow> bool"
  assumes create_stores: "storesOnly s (fst (create cq s))"
    and create_wf: "wf s \<Longrightarrow> wf (fst (create cq s))"
    and create_status: "wf s \<Longrightarrow> snd (create cq s) = Inr r \<Longrightarrow> settledOrPending (pr_status r)"
    and verify_stores: "storesOnly s (fst (verify k ps s))"
    and verify_wf: "wf s \<Longrightarrow> wf (fst (verify k ps s))"
    and verify_status: "wf s \<Longrightarrow> snd (verify k ps s) = Inr r \<Longrightarrow> settledOrPending (pr_status r)"
    and refund_status: "refund rq = Inr rr \<Longrightarrow> rr_status rr \<in> {R_PROCESSING, R_SUCCEEDED, R_FAILED}"
    and parse_stores: "storesOnly s (fst (parse hs b raw s))"
    and parse_wf: "wf s \<Longrightarrow> wf (fst (parse hs b raw s))"
    and parse_status: "snd (parse hs b raw s) = Inr p \<Longrightarrow> settledOrPending (we_status p)"
begin

text \<open>A refund in progress may take any status a provider answers.\<close>

lemma refund_transition: "refund rq = Inr rr \<Longrightarrow> canRefund R_PROCESSING (rr_status rr)"
  using refund_status by (fastforce simp: canRefund_def)

text \<open>A pending payment may take any status a provider answers; a captured one only its own.\<close>

lemma verify_transition:
  "wf s \<Longrightarrow> snd (verify k ps s) = Inr r \<Longrightarrow> canPayment P_PENDING (pr_status r)"
  using verify_status by (fastforce simp: canPayment_def settledOrPending_def)

lemma verify_captured:
  "wf s \<Longrightarrow> snd (verify k ps s) = Inr r \<Longrightarrow> canPayment P_SUCCEEDED (pr_status r) \<Longrightarrow> pr_status r = P_SUCCEEDED"
  using verify_status by (fastforce simp: canPayment_def settledOrPending_def split: if_splits)

lemma parse_transition:
  "snd (parse hs b raw s) = Inr p \<Longrightarrow> canPayment P_PENDING (we_status p)"
  using parse_status by (fastforce simp: canPayment_def settledOrPending_def)

end

subsection \<open>The registered providers meet it\<close>

lemma storesOnly_refl [simp]: "storesOnly s s"
  by (simp add: storesOnly_def)

lemma storesOnly_mock [simp]: "storesOnly s (s\<lparr>mockStore := st\<rparr>)"
  by (simp add: storesOnly_def)

lemma storesOnly_ngn [simp]: "storesOnly s (s\<lparr>ngnStore := st\<rparr>)"
  by (simp add: storesOnly_def)

lemma storesOnlyD:
  assumes "storesOnly s s1"
  shows "quotes s1 = quotes s" "orders s1 = orders s" "payments s1 = payments s"
    "providerTxs s1 = providerTxs s" "settlements s1 = settlements s" "refunds s1 = refunds s"
    "pools s1 = pools s" "reservations s1 = reservations s" "treasuryTxs s1 = treasuryTxs s"
    "transactions s1 = transactions s" "webhookEvents s1 = webhookEvents s" "audits s1 = audits s"
  by (subst assms[unfolded storesOnly_def], simp)+

lemma set_storePut: "set (objs (storePut k r st)) = insert r (set (objs st))"
  by (simp add: storePut_def)

lemma storeObj_in: "storeObj st a = Some r \<Longrightarrow> r \<in> set (objs st)"
  by (auto simp: storeObj_def split: option.splits if_splits)

lemma objs_storeStatus: "objs (storeStatus a status st) = (objs st)[a := (objs st ! a)\<lparr>pr_status := status\<rparr>]"
  by (simp add: storeStatus_def)

lemma in_update: "x \<in> set (xs[a := y]) \<Longrightarrow> x = y \<or> x \<in> set xs"
  by (meson insertE set_update_subset_insert subsetD)

lemma storeStatus_ok:
  assumes "\<forall>r \<in> set (objs st). settledOrPending (pr_status r)" and "settledOrPending status"
  shows "\<forall>r \<in> set (objs (storeStatus a status st)). settledOrPending (pr_status r)"
  using assms by (auto simp: objs_storeStatus dest: in_update)

lemma ngnVerify_objs:
  "objs (fst (ngnVerify k ps st)) = (case (storeFind st k, storeObj st (storeFind st k)) of
     (Some i, Some r) \<Rightarrow> objs (storeStatus i (ngnVerifyStatus k ps (Some r)) st) | _ \<Rightarrow> objs st)"
  by (auto simp: ngnVerify_def Let_def split: option.splits)

lemma ngnVerify_status:
  "pr_status (snd (ngnVerify k ps st)) = ngnVerifyStatus k ps (storeObj st (storeFind st k))"
  by (auto simp: ngnVerify_def Let_def split: option.splits)

lemma ngnVerifyStatus_ok:
  "(\<And>r. stored = Some r \<Longrightarrow> settledOrPending (pr_status r)) \<Longrightarrow> settledOrPending (ngnVerifyStatus k ps stored)"
  by (auto simp: ngnVerifyStatus_def settledOrPending_def split: option.splits)

lemma ngnVerify_ok:
  assumes ok: "\<forall>r \<in> set (objs st). settledOrPending (pr_status r)"
  shows "\<forall>r \<in> set (objs (fst (ngnVerify k ps st))). settledOrPending (pr_status r)"
proof (cases "storeFind st k")
  case (Some i)
  show ?thesis
  proof (cases "storeObj st (Some i)")
    case (Some r)
    with ok have "settledOrPending (ngnVerifyStatus k ps (Some r))"
      by (auto intro!: ngnVerifyStatus_ok dest: storeObj_in)
    from storeStatus_ok[OF ok this] Some \<open>storeFind st k = Some i\<close> show ?thesis
      by (simp add: ngnVerify_objs)
  qed (use ok Some in \<open>simp add: ngnVerify_objs\<close>)
qed (use ok in \<open>simp add: ngnVerify_objs\<close>)

lemma ngnWebhookStatus_ok: "settledOrPending (ngnWebhookStatus ty b)"
  by (simp add: ngnWebhookStatus_def settledOrPending_def Let_def)

lemma ngnParse_objs:
  assumes "\<forall>r \<in> set (objs st). settledOrPending (pr_status r)"
  shows "\<forall>r \<in> set (objs (fst (ngnParse e hs b st))). settledOrPending (pr_status r)"
  using assms storeStatus_ok[OF assms ngnWebhookStatus_ok]
  by (auto simp: ngnParse_def Let_def split: option.splits)

interpretation provider: payment_provider "providerCreate cfg e pv" "providerVerify cfg e pv"
    "providerRefund cfg e pv" "providerParse cfg e pv" stores_ok for cfg e pv
proof unfold_locales
  fix s rq
  show "storesOnly s (fst (providerCreate cfg e pv rq s))"
    by (cases pv) (auto split: prod.split)
  show "stores_ok s \<Longrightarrow> stores_ok (fst (providerCreate cfg e pv rq s))"
    by (cases pv) (auto simp: stores_ok_def mockCreate_def ngnCreate_def set_storePut settledOrPending_def
        Let_def split: option.splits prod.splits)
  show "stores_ok s \<Longrightarrow> snd (providerCreate cfg e pv rq s) = Inr r \<Longrightarrow> settledOrPending (pr_status r)" for r
    by (cases pv) (auto simp: stores_ok_def mockCreate_def ngnCreate_def paystackCreate_def
        settledOrPending_def Let_def dest!: storeObj_in split: option.splits if_splits sum.splits)
next
  fix s k ps
  show "storesOnly s (fst (providerVerify cfg e pv k ps s))"
    by (cases pv) (auto split: prod.split)
  show "stores_ok s \<Longrightarrow> stores_ok (fst (providerVerify cfg e pv k ps s))"
  proof (cases pv)
    case NgnProv
    assume ok: "stores_ok s"
    have ngn: "\<forall>r \<in> set (objs (ngnStore s)). settledOrPending (pr_status r)"
      using ok by (simp add: stores_ok_def)
    from ngnVerify_ok[OF ngn, of k ps] ok NgnProv show ?thesis
      by (cases "ngnVerify k ps (ngnStore s)") (simp add: stores_ok_def)
  qed simp_all
  show "stores_ok s \<Longrightarrow> snd (providerVerify cfg e pv k ps s) = Inr r \<Longrightarrow> settledOrPending (pr_status r)" for r
  proof (cases pv)
    case NgnProv
    assume "stores_ok s" "snd (providerVerify cfg e pv k ps s) = Inr r"
    with NgnProv ngnVerify_status[of k ps "ngnStore s"] show ?thesis
      by (auto simp: stores_ok_def intro!: ngnVerifyStatus_ok dest!: storeObj_in split: prod.splits)
  qed (auto simp: mockVerify_def paystackVerify_def Let_def split: sum.splits option.splits)
next
  fix rq rr
  show "providerRefund cfg e pv rq = Inr rr \<Longrightarrow> rr_status rr \<in> {R_PROCESSING, R_SUCCEEDED, R_FAILED}"
    by (cases pv) (auto simp: mockRefund_def ngnRefund_def paystackRefund_def paystackRefundStatus_def
        split: if_splits sum.splits app_error.splits)
next
  fix s hs b raw
  show "storesOnly s (fst (providerParse cfg e pv hs b raw s))"
    by (cases pv) (auto split: prod.split)
  show "stores_ok s \<Longrightarrow> stores_ok (fst (providerParse cfg e pv hs b raw s))"
  proof (cases pv)
    case NgnProv
    assume "stores_ok s"
    with NgnProv ngnParse_objs[of "ngnStore s" e hs b] show ?thesis
      by (auto simp: stores_ok_def split: prod.split)
  qed simp_all
  show "snd (providerParse cfg e pv hs b raw s) = Inr p \<Longrightarrow> settledOrPending (we_status p)" for p
    using ngnWebhookStatus_ok
    by (cases pv) (auto simp: mockParse_def ngnParse_def paystackParse_def Let_def split: if_splits)
qed

subsection \<open>Account numbers\<close>

definition isDigit :: "char \<Rightarrow> bool" where
  "isDigit c \<longleftrightarrow> 48 \<le> (of_char c :: nat) \<and> (of_char c :: nat) \<le> 57"

lemma digitChar_digit: "d < 10 \<Longrightarrow> isDigit (digitChar d)"
  by (simp add: isDigit_def digitChar_def)

lemma decimalString_digits: "list_all isDigit (decimalString n)"
proof (induction n rule: decimalString.induct)
  case (1 n)
  then show ?case by (subst decimalString.simps) (auto simp: digitChar_digit)
qed

lemma not_contains: "c \<in> set w \<Longrightarrow> c \<notin> set v \<Longrightarrow> \<not> contains v w"
  by (auto simp: contains_def sublist_def)

lemma padStart_length: "length v \<le> n \<Longrightarrow> length (padStart n c v) = n"
  by (simp add: padStart_def)

text \<open>
  Every virtual account number of the NGN rail is a ten-digit number starting with 99,
  whatever the reference: the 32-bit hash may be negative or wrap, its magnitude is cut to
  eight digits and padded with zeros.
\<close>

theorem account_number_ten_digits:
  "length (accountNumber reference) = 10 \<and> list_all isDigit (accountNumber reference)
     \<and> take 2 (accountNumber reference) = ''99'' \<and> \<bar>hashCode reference\<bar> \<le> 2 ^ 31"
proof (intro conjI)
  let ?d = "take 8 (decimalString (nat \<bar>hashCode reference\<bar>))"
  show "length (accountNumber reference) = 10"
    by (simp add: accountNumber_def padStart_length)
  have "list_all isDigit ?d"
    using decimalString_digits by (auto simp: list_all_iff dest: in_set_takeD)
  then show "list_all isDigit (accountNumber reference)"
    by (auto simp: accountNumber_def padStart_def list_all_iff isDigit_def)
  show "take 2 (accountNumber reference) = ''99''" by (simp add: accountNumber_def)
  show "\<bar>hashCode reference\<bar> \<le> 2 ^ 31"
    using sint_ge[of "hashLoop 0 reference"] sint_lt[of "hashLoop 0 reference"] by (auto simp: hashCode_def)
qed

subsection \<open>Refund outcomes\<close>

text \<open>
  How the Paystack adapter classifies a refund attempt: a transport failure leaves the
  refund in progress and marked ambiguous, a definite answer is mapped by its status, and
  every refused HTTP answer is a definite failure - also a 5xx answer, after which the
  provider may still execute the refund.
\<close>

theorem paystack_refund_outcome:
  fixes e :: provider_env
  assumes key: "paystackSecretKey cfg \<noteq> []" and amount: "0 < rq_amount rq"
  defines "answer \<equiv> pe_refund e (rq_paymentReference rq) (jsRound (rq_amount rq * 100))"
  shows "case answer of
      NetError m \<Rightarrow> (\<exists>rr. paystackRefund cfg e rq = Inr rr \<and> rr_status rr = R_PROCESSING \<and> rr_ambiguous rr)
    | Answer ok code body \<Rightarrow> \<exists>rr. paystackRefund cfg e rq = Inr rr
        \<and> (ok \<and> body \<noteq> None \<longrightarrow> \<not> rr_ambiguous rr
             \<and> (pf_dataStatus (the body) = Some ''failed'' \<longrightarrow> rr_status rr = R_FAILED)
             \<and> (pf_dataStatus (the body) = Some ''processed'' \<longrightarrow> rr_status rr = R_SUCCEEDED)
             \<and> (pf_dataStatus (the body) = Some ''pending'' \<longrightarrow> rr_status rr = R_PROCESSING))
        \<and> (\<not> ok \<and> 500 \<le> code \<and> body = None \<longrightarrow> rr_status rr = R_FAILED \<and> \<not> rr_ambiguous rr)"
proof (cases answer)
  case (NetError m)
  have "contains (''Paystack Refund Network Error: '' @ m) ''Network Error''"
    unfolding contains_def sublist_def
    by (rule exI[of _ "''Paystack Refund ''"], rule exI[of _ "'': '' @ m"]) simp
  with NetError key amount show ?thesis
    by (simp add: paystackRefund_def refundTransaction_def answer_def[symmetric])
next
  case (Answer ok code body)
  have plain: "\<not> contains (''Paystack Refund Request Failed: Paystack refund request failed with status '' @ decimalString code)
      ''Network Error''"
    by (rule not_contains[of "CHR ''N''"]) (use decimalString_digits[of code] in \<open>auto simp: list_all_iff isDigit_def\<close>)
  have low: "toLower ''failed'' = ''failed''" "toLower ''processed'' = ''processed''" "toLower ''pending'' = ''pending''"
    by (simp_all add: toLower_def lower_char_def)
  show ?thesis
  proof (cases "ok \<and> body \<noteq> None")
    case True
    with Answer key amount show ?thesis
      by (auto simp: paystackRefund_def refundTransaction_def answer_def[symmetric] orElse_def orDefault_def
          paystackRefundStatus_def low)
  next
    case False
    then have err: "\<exists>m. refundTransaction cfg e (rq_paymentReference rq) (jsRound (rq_amount rq * 100)) = Inl (ProviderError m)
        \<and> (\<not> ok \<and> 500 \<le> code \<and> body = None \<longrightarrow> m = ''Paystack Refund Request Failed: Paystack refund request failed with status '' @ decimalString code)"
      using Answer key by (auto simp: refundTransaction_def answer_def[symmetric] Let_def orDefault_def
          split: option.splits bool.splits)
    then obtain m where m: "refundTransaction cfg e (rq_paymentReference rq) (jsRound (rq_amount rq * 100)) = Inl (ProviderError m)"
      "\<not> ok \<and> 500 \<le> code \<and> body = None \<longrightarrow> m = ''Paystack Refund Request Failed: Paystack refund request failed with status '' @ decimalString code"
      by blast
    with Answer amount False plain show ?thesis
      by (auto simp: paystackRefund_def)
  qed
qed

definition demo_penv :: provider_env where
  "demo_penv = \<lparr>pe_newId = ''prov-1'', pe_stamp = ''1'', pe_init = (\<lambda>_ _. NetError ''down''),
     pe_verify = (\<lambda>_. NetError ''down''), pe_refund = (\<lambda>_ _. Answer False 503 None),
     pe_ngnSecret = Some ''secret'', pe_paystackSecret = Some ''secret'',
     pe_hmac = (\<lambda>k b. k @ b), pe_sha256 = (\<lambda>v. v)\<rparr>"

definition demo_refund_request :: refund_request where
  "demo_refund_request = \<lparr>rq_paymentReference = ''ref'', rq_amount = 10, rq_currency = ''NGN'', rq_reason = ''r''\<rparr>"

theorem paystack_refund_outcome_witness:
  "\<exists>rr. paystackRefund (demo_cfg\<lparr>paystackSecretKey := ''sk''\<rparr>) demo_penv demo_refund_request = Inr rr
     \<and> rr_status rr = R_FAILED \<and> \<not> rr_ambiguous rr"
proof -
  have "paystackSecretKey (demo_cfg\<lparr>paystackSecretKey := ''sk''\<rparr>) \<noteq> []" "0 < rq_amount demo_refund_request"
    by (simp_all add: demo_refund_request_def)
  from paystack_refund_outcome[OF this, of demo_penv] show ?thesis
    by (auto simp: demo_penv_def)
qed

end
