(* ===== verification/Stroops.thy ===== *)
theory Stroops
  imports ProviderProps
begin

text \<open>
  Amounts and ids on the chain: \<open>parseAmountToStroops\<close> and \<open>parseSettlementIdToU64\<close> of
  \<^verbatim>\<open>src/stellar/soroban/transaction.service.ts\<close>. What decimal.js prints for a column is the
  contract \<open>decimal_text\<close>, met by \<open>decimalText\<close>.
\<close>

subsection \<open>Digits\<close>

definition digitsValue :: "string \<Rightarrow> nat" where
  "digitsValue ds = foldl (\<lambda>a c. 10 * a + ((of_char c :: nat) - 48)) 0 ds"

text \<open>
  \<open>BigInt(s)\<close> on decimal text: white space around it, a sign; the empty text is 0. \<open>None\<close> is the
  SyntaxError. The texts of the program have none of the other forms (\<open>0x\<close>, \<open>0o\<close>, \<open>0b\<close>).
\<close>

definition bigInt :: "string \<Rightarrow> int option" where
  "bigInt s =
     (case trim s of
        [] \<Rightarrow> Some 0
      | c # ds \<Rightarrow>
          if c = CHR ''-'' \<or> c = CHR ''+'' then
            (if ds \<noteq> [] \<and> list_all isDigit ds
             then Some ((if c = CHR ''-'' then -1 else 1) * int (digitsValue ds)) else None)
          else if list_all isDigit (c # ds) then Some (int (digitsValue (c # ds))) else None)"

text \<open>\<open>s.split('.')\<close>, of which the code reads the first two parts.\<close>

definition part0 :: "string \<Rightarrow> string" where
  "part0 s = takeWhile (\<lambda>c. c \<noteq> CHR ''.'') s"

definition part1 :: "string \<Rightarrow> string option" where
  "part1 s = (case dropWhile (\<lambda>c. c \<noteq> CHR ''.'') s of [] \<Rightarrow> None | _ # r \<Rightarrow> Some (part0 r))"

definition padEnd :: "nat \<Rightarrow> char \<Rightarrow> string \<Rightarrow> string" where
  "padEnd n c v = v @ replicate (n - length v) c"

definition parseAmountToStroops :: "string \<Rightarrow> int option" where
  "parseAmountToStroops amount =
     (let integerPart = orDefault (Some (part0 amount)) ''0'';
          d = orDefault (part1 amount) [];
          decimalPart = (if length d > 7 then take 7 d else padEnd 7 (CHR ''0'') d)
      in bigInt (integerPart @ decimalPart))"

subsection \<open>Settlement ids\<close>

definition fnv1a :: "string \<Rightarrow> 64 word" where
  "fnv1a s = foldl (\<lambda>h c. Bit_Operations.xor h (of_nat (of_char c)) * 1099511628211) 14695981039346656037 s"

definition parseSettlementIdToU64 :: "string \<Rightarrow> 64 word" where
  "parseSettlementIdToU64 sid =
     (let numericPart = filter isDigit sid
      in if length numericPart \<ge> 8 then of_nat (digitsValue (take 18 numericPart)) else fnv1a sid)"

subsection \<open>Reading digits\<close>

lemma digitsValue_Nil [simp]: "digitsValue [] = 0"
  by (simp add: digitsValue_def)

lemma digitsValue_snoc: "digitsValue (ds @ [c]) = 10 * digitsValue ds + (of_char c - 48)"
  by (simp add: digitsValue_def)

lemma digitsValue_append: "digitsValue (a @ b) = digitsValue a * 10 ^ length b + digitsValue b"
proof (induction b rule: rev_induct)
  case (snoc c b)
  have "digitsValue (a @ b @ [c]) = 10 * digitsValue (a @ b) + (of_char c - 48)"
    using digitsValue_snoc[of "a @ b" c] by simp
  with snoc show ?case by (simp add: digitsValue_snoc algebra_simps)
qed simp

lemma digitsValue_zeros: "digitsValue (replicate n (CHR ''0'')) = 0"
proof (induction n)
  case (Suc n)
  have "replicate (Suc n) (CHR ''0'') = replicate n (CHR ''0'') @ [CHR ''0'']"
    by (simp add: replicate_append_same)
  with Suc show ?case by (simp only: digitsValue_snoc) simp
qed simp

lemma digitsValue_padEnd: "length v \<le> n \<Longrightarrow> digitsValue (padEnd n (CHR ''0'') v) = digitsValue v * 10 ^ (n - length v)"
  by (simp add: padEnd_def digitsValue_append digitsValue_zeros)

lemma digitsValue_lt: "list_all isDigit ds \<Longrightarrow> digitsValue ds < 10 ^ length ds"
proof (induction ds rule: rev_induct)
  case (snoc c ds)
  then have ds: "digitsValue ds < 10 ^ length ds" by simp
  from snoc have "(of_char c :: nat) - 48 \<le> 9" by (auto simp: isDigit_def)
  with ds show ?case by (simp add: digitsValue_snoc)
qed simp

lemma digitsValue_decimalString: "digitsValue (decimalString n) = n"
proof (induction n rule: decimalString.induct)
  case (1 n)
  show ?case
  proof (cases "n < 10")
    case True
    then show ?thesis
      by (subst decimalString.simps) (simp add: digitsValue_def digitChar_def)
  next
    case False
    have "digitsValue (decimalString n) = 10 * (n div 10) + n mod 10"
      by (subst decimalString.simps) (use False 1 in \<open>simp add: digitsValue_snoc digitChar_def\<close>)
    then show ?thesis by simp
  qed
qed

lemma digit_char: "isDigit c \<Longrightarrow> c \<noteq> CHR ''.'' \<and> c \<noteq> CHR ''-'' \<and> c \<noteq> CHR ''+'' \<and> \<not> is_space c"
  by (auto simp: isDigit_def is_space_def)

lemma trim_digits: "list_all isDigit ds \<Longrightarrow> trim ds = ds"
proof -
  assume d: "list_all isDigit ds"
  have keep: "dropWhile is_space xs = xs" if "list_all isDigit xs" for xs
    using that digit_char by (cases xs) auto
  show ?thesis using keep[of ds] keep[of "rev ds"] d by (simp add: trim_def)
qed

lemma bigInt_digits: "list_all isDigit ds \<Longrightarrow> bigInt ds = Some (int (digitsValue ds))"
  using digit_char by (cases ds) (auto simp: bigInt_def trim_digits)

lemma part0_digits: "list_all isDigit i \<Longrightarrow> part0 i = i \<and> part0 (i @ CHR ''.'' # r) = i"
  unfolding part0_def using digit_char by (induction i) auto

lemma part1_digits:
  "list_all isDigit i \<Longrightarrow> part1 i = None \<and> part1 (i @ CHR ''.'' # r) = Some (part0 r)"
proof -
  assume i: "list_all isDigit i"
  have a: "dropWhile (\<lambda>c. c \<noteq> CHR ''.'') i = []"
    using i digit_char by (induction i) auto
  have b: "dropWhile (\<lambda>c. c \<noteq> CHR ''.'') (i @ CHR ''.'' # r) = CHR ''.'' # r"
    using i digit_char by (induction i) auto
  show ?thesis unfolding part1_def a b by simp
qed

text \<open>An integer part and at most seven decimals.\<close>

lemma parse_plain:
  assumes "list_all isDigit i" "i \<noteq> []" "list_all isDigit f" "length f \<le> 7"
  shows "parseAmountToStroops (if f = [] then i else i @ ''.'' @ f) =
    Some (int (digitsValue i * 10 ^ 7 + digitsValue f * 10 ^ (7 - length f)))"
proof -
  have p: "part0 (if f = [] then i else i @ ''.'' @ f) = i"
    "orDefault (part1 (if f = [] then i else i @ ''.'' @ f)) [] = f"
    using assms part0_digits[of i] part1_digits[of i] part0_digits[of f]
    by (auto simp: orDefault_def)
  have d: "list_all isDigit (i @ padEnd 7 (CHR ''0'') f)"
    using assms by (auto simp: padEnd_def list_all_iff isDigit_def)
  have "length (padEnd 7 (CHR ''0'') f) = 7" using assms by (simp add: padEnd_def)
  then have v: "digitsValue (i @ padEnd 7 (CHR ''0'') f) = digitsValue i * 10 ^ 7 + digitsValue f * 10 ^ (7 - length f)"
    using digitsValue_padEnd[OF assms(4)] by (simp only: digitsValue_append)
  have "parseAmountToStroops (if f = [] then i else i @ ''.'' @ f) = bigInt (i @ padEnd 7 (CHR ''0'') f)"
    using p assms(2,4) by (simp add: parseAmountToStroops_def Let_def orDefault_def)
  also have "\<dots> = Some (int (digitsValue (i @ padEnd 7 (CHR ''0'') f)))" by (rule bigInt_digits[OF d])
  finally show ?thesis unfolding v .
qed

subsection \<open>What decimal.js prints\<close>

text \<open>
  \<open>text n v\<close> is the text of a column of scale \<open>n\<close> that holds \<open>v\<close>: plain notation from one
  millionth up, an integer part and the decimals that are not trailing zeros. Smaller values are
  printed with an exponent.
\<close>

definition plainRange :: "nat \<Rightarrow> nat \<Rightarrow> bool" where
  "plainRange n v \<longleftrightarrow> v = 0 \<or> 10 ^ n \<le> v * 10 ^ 6"

locale decimal_text =
  fixes dec :: "nat \<Rightarrow> nat \<Rightarrow> string"
  assumes plain: "plainRange n v \<Longrightarrow> \<exists>i f. dec n v = (if f = [] then i else i @ ''.'' @ f)
    \<and> list_all isDigit i \<and> i \<noteq> [] \<and> list_all isDigit f \<and> length f \<le> n
    \<and> digitsValue i * 10 ^ n + digitsValue f * 10 ^ (n - length f) = v"
begin

lemma roundtrip:
  assumes "plainRange n v" and "n \<le> 7"
  shows "parseAmountToStroops (dec n v) = Some (int (v * 10 ^ (7 - n)))"
proof -
  from plain[OF assms(1)] obtain i f where t: "dec n v = (if f = [] then i else i @ ''.'' @ f)"
    and d: "list_all isDigit i" "i \<noteq> []" "list_all isDigit f" and f: "length f \<le> n"
    and v: "digitsValue i * 10 ^ n + digitsValue f * 10 ^ (n - length f) = v" by blast
  have e: "(10::nat) ^ 7 = 10 ^ n * 10 ^ (7 - n)" "(10::nat) ^ (7 - length f) = 10 ^ (n - length f) * 10 ^ (7 - n)"
    using assms(2) f by (simp_all flip: power_add)
  have "digitsValue i * 10 ^ 7 + digitsValue f * 10 ^ (7 - length f) = v * 10 ^ (7 - n)"
    unfolding e by (simp add: v[symmetric] algebra_simps)
  moreover have "length f \<le> 7" using f assms(2) by simp
  ultimately show ?thesis using parse_plain[OF d] by (simp add: t)
qed

lemma injective:
  assumes "plainRange n v" "plainRange n w" "n \<le> 7" "dec n v = dec n w"
  shows "v = w"
proof -
  have "Some (int (v * 10 ^ (7 - n))) = Some (int (w * 10 ^ (7 - n)))"
    using roundtrip[OF assms(1,3)] roundtrip[OF assms(2,3)] unfolding assms(4) by (rule trans[OF sym])
  then have "v * 10 ^ (7 - n) = w * 10 ^ (7 - n)" by (simp only: option.inject of_nat_eq_iff)
  moreover have "(0::nat) < 10 ^ (7 - n)" by simp
  ultimately show ?thesis by (simp only: mult_cancel2) simp
qed

end

definition stripZeros :: "string \<Rightarrow> string" where
  "stripZeros v = rev (dropWhile (\<lambda>c. c = CHR ''0'') (rev v))"

definition decimalText :: "nat \<Rightarrow> nat \<Rightarrow> string" where
  "decimalText n v =
     (let f = stripZeros (padStart n (CHR ''0'') (decimalString (v mod 10 ^ n)))
      in if v mod 10 ^ n = 0 then decimalString (v div 10 ^ n)
         else decimalString (v div 10 ^ n) @ ''.'' @ f)"

lemma stripZeros_split: "\<exists>k. v = stripZeros v @ replicate k (CHR ''0'')"
proof -
  have "rev v = takeWhile (\<lambda>c. c = CHR ''0'') (rev v) @ dropWhile (\<lambda>c. c = CHR ''0'') (rev v)" by simp
  then have a: "v = stripZeros v @ rev (takeWhile (\<lambda>c. c = CHR ''0'') (rev v))"
    unfolding stripZeros_def by (subst rev_append[symmetric]) (simp only: takeWhile_dropWhile_id rev_rev_ident)
  have "takeWhile (\<lambda>c. c = CHR ''0'') (rev v) =
      replicate (length (takeWhile (\<lambda>c. c = CHR ''0'') (rev v))) (CHR ''0'')"
    by (rule replicate_length_same[symmetric]) (auto dest: set_takeWhileD)
  then obtain k where "takeWhile (\<lambda>c. c = CHR ''0'') (rev v) = replicate k (CHR ''0'')" by blast
  then have "v = stripZeros v @ replicate k (CHR ''0'')" using a by simp
  then show ?thesis ..
qed

lemma decimalString_length:
  "v < 10 ^ n \<Longrightarrow> 0 < n \<Longrightarrow> length (decimalString v) \<le> n"
proof (induction v arbitrary: n rule: decimalString.induct)
  case (1 v)
  show ?case
  proof (cases "v < 10")
    case True
    then show ?thesis using 1(3) by (subst decimalString.simps) simp
  next
    case False
    then obtain m where m: "n = Suc m" "0 < m" using 1(2,3) by (cases n; cases "n - 1") auto
    have "v div 10 < 10 ^ m" using 1(2) m by (simp add: less_mult_imp_div_less mult.commute)
    from 1(1)[OF False this m(2)] show ?thesis using False m by (subst decimalString.simps) simp
  qed
qed

lemma decimalString_nonempty: "decimalString v \<noteq> []"
  by (subst decimalString.simps) simp

lemma digitsValue_padStart: "digitsValue (padStart n (CHR ''0'') v) = digitsValue v"
  by (simp add: padStart_def digitsValue_append digitsValue_zeros)

interpretation plain_text: decimal_text decimalText
proof
  fix n v :: nat
  assume "plainRange n v"
  let ?p = "padStart n (CHR ''0'') (decimalString (v mod 10 ^ n))"
  let ?f = "stripZeros ?p" and ?i = "decimalString (v div 10 ^ n)"
  have split: "v div 10 ^ n * 10 ^ n + v mod 10 ^ n = v" by (rule div_mult_mod_eq)
  show "\<exists>i f. decimalText n v = (if f = [] then i else i @ ''.'' @ f)
    \<and> list_all isDigit i \<and> i \<noteq> [] \<and> list_all isDigit f \<and> length f \<le> n
    \<and> digitsValue i * 10 ^ n + digitsValue f * 10 ^ (n - length f) = v"
  proof (cases "v mod 10 ^ n = 0")
    case True
    with split show ?thesis
      by (intro exI[of _ ?i] exI[of _ "[]"])
        (simp add: decimalText_def decimalString_digits decimalString_nonempty digitsValue_decimalString)
  next
    case False
    then have n: "0 < n" by (cases n) auto
    have len: "length ?p = n"
      using decimalString_length[of "v mod 10 ^ n" n] n by (simp add: padStart_length)
    obtain k where k: "?p = ?f @ replicate k (CHR ''0'')" using stripZeros_split by blast
    have lk: "n = length ?f + k" using arg_cong[OF k, of length] len by simp
    then have kn: "n - length ?f = k" "length ?f \<le> n" by simp_all
    have "digitsValue ?p = digitsValue ?f * 10 ^ k"
      by (subst k) (simp add: digitsValue_append digitsValue_zeros)
    then have val: "digitsValue ?f * 10 ^ (n - length ?f) = v mod 10 ^ n"
      unfolding kn(1) digitsValue_padStart digitsValue_decimalString by simp
    then have "?f \<noteq> []" using False by auto
    moreover have "list_all isDigit ?f"
    proof -
      have "list_all isDigit ?p"
        using decimalString_digits by (auto simp: padStart_def list_all_iff isDigit_def)
      then have "list_all isDigit (?f @ replicate k (CHR ''0''))" by (subst k[symmetric])
      then show ?thesis by (simp only: list_all_append)
    qed
    ultimately have "decimalText n v = (if ?f = [] then ?i else ?i @ ''.'' @ ?f)
        \<and> list_all isDigit ?i \<and> ?i \<noteq> [] \<and> list_all isDigit ?f \<and> length ?f \<le> n
        \<and> digitsValue ?i * 10 ^ n + digitsValue ?f * 10 ^ (n - length ?f) = v"
      unfolding val using False kn(2) split
      by (simp add: decimalText_def Let_def decimalString_digits decimalString_nonempty digitsValue_decimalString)
    then show ?thesis by blast
  qed
qed

text \<open>
  C25. Parsing an amount into stroops inverts printing it: for the text of a column of at most
  seven decimals, of any value that is printed in plain notation, the result is exactly the
  column's value in units of the seventh decimal; no digit is lost.
\<close>

theorem stroops_roundtrip:
  assumes "decimal_text dec" and "plainRange n v" and "n \<le> 7"
  shows "parseAmountToStroops (dec n v) = Some (int (v * 10 ^ (7 - n)))"
  using decimal_text.roundtrip[OF assms(1) assms(2,3)] .

theorem stroops_roundtrip_witness:
  "parseAmountToStroops (decimalText 4 15000) = Some 15000000"
  using stroops_roundtrip[OF plain_text.decimal_text_axioms, of 4 15000] by (simp add: plainRange_def)

text \<open>
  The id a settlement gets on the chain depends on its first eighteen digits only once it has
  eight digits: ids that agree on them collide. The ids the services generate carry the digits of
  the time and of the random suffix, so two settlements of the same millisecond whose suffixes
  differ in letters only get the same id.
\<close>

theorem settlement_ids_collide:
  assumes "8 \<le> length (filter isDigit a)" and "take 18 (filter isDigit a) = take 18 (filter isDigit b)"
    and "8 \<le> length (filter isDigit b)"
  shows "parseSettlementIdToU64 a = parseSettlementIdToU64 b
    \<and> unat (parseSettlementIdToU64 a) = digitsValue (take 18 (filter isDigit a))"
proof -
  let ?d = "take 18 (filter isDigit a)"
  have "list_all isDigit ?d" by (auto simp: list_all_iff dest: in_set_takeD)
  then have "digitsValue ?d < 10 ^ length ?d" by (rule digitsValue_lt)
  also have "(10::nat) ^ length ?d \<le> 10 ^ 18" by (intro power_increasing) simp_all
  also have "(10::nat) ^ 18 < 2 ^ 64" by simp
  finally have "unat (of_nat (digitsValue ?d) :: 64 word) = digitsValue ?d"
    by (simp add: unat_of_nat take_bit_nat_eq_self)
  with assms show ?thesis by (simp add: parseSettlementIdToU64_def Let_def)
qed

theorem settlement_ids_collide_witness:
  "parseSettlementIdToU64 ''STL_1700000000000_abc1ef'' = parseSettlementIdToU64 ''STL_1700000000000_xy1zuv''"
  by (rule conjunct1[OF settlement_ids_collide]) (simp_all add: isDigit_def)

end
