(* ===== verification/Payments.thy ===== *)
theory Payments
  imports ProviderProps
begin

text \<open>
  Payments and webhooks: \<^verbatim>\<open>payments.service.ts\<close>, \<^verbatim>\<open>payments.controller.ts\<close>,
  \<^verbatim>\<open>webhooks.service.ts\<close> and \<^verbatim>\<open>webhooks/index.ts\<close>. Where another request may run in between, an
  operation is split: \<open>verifyPayment\<close> into the reads with the provider call (\<open>verifyRead\<close>) and
  the writes (\<open>verifyCommit\<close>), which start with the optimistic \<open>updateMany\<close>; \<open>createPayment\<close> into
  the inserted row (\<open>establishPayment\<close>), the provider call, and the writes after its answer
  (\<open>answerPayment\<close>), which are not conditional on the row's status (\<open>create_is_call_answer\<close>).
\<close>

subsection \<open>Creating a payment\<close>

record payment_input =
  ci_orderId :: id
  ci_currency :: "string option"
  ci_type :: "payment_type option"
  ci_provider :: "string option"

record payment_env =
  ye_now :: time
  ye_paymentId :: id
  ye_reference :: string

text \<open>
  The amounts follow from the order alone. Decimal products and differences of columns are
  exact; the columns round them to four decimals.
\<close>

definition platformFee :: "int \<Rightarrow> int" where
  "platformFee gross = toColumn 4 (ofColumn 4 gross * (1 / 100))"

definition netAmount :: "int \<Rightarrow> int" where
  "netAmount gross = toColumn 4 (ofColumn 4 gross - ofColumn 4 gross * (1 / 100))"

definition initialPayment ::
  "payment_env \<Rightarrow> id \<Rightarrow> payment_input \<Rightarrow> string option \<Rightarrow> order \<Rightarrow> provider \<Rightarrow> payment" where
  "initialPayment e userId inp key x pv =
     \<lparr>p_id = ye_paymentId e, p_orderId = o_id x, p_userId = userId, p_provider = providerId pv,
      p_providerPaymentId = None, p_type = (case ci_type inp of Some t \<Rightarrow> t | None \<Rightarrow> DEPOSIT),
      p_amount = o_sourceAmount x, p_grossAmount = o_sourceAmount x, p_providerFee = 0,
      p_platformFee = platformFee (o_sourceAmount x), p_netAmount = netAmount (o_sourceAmount x),
      p_currency = orDefault (ci_currency inp) ''NGN'', p_status = P_CREATED,
      p_reference = ye_reference e, p_idempotencyKey = noneIfFalsy key, p_createdAt = ye_now e\<rparr>"

definition paymentByKey :: "string option \<Rightarrow> sys \<Rightarrow> payment option" where
  "paymentByKey key s = (if truthy key then rowBy p_idempotencyKey key (payments s) else None)"

definition insertPayment :: "payment \<Rightarrow> unit op" where
  "insertPayment p s =
     (if rowBy p_id (p_id p) (payments s) \<noteq> None \<or> rowBy p_reference (p_reference p) (payments s) \<noteq> None
         \<or> (p_idempotencyKey p \<noteq> None \<and> rowBy p_idempotencyKey (p_idempotencyKey p) (payments s) \<noteq> None)
      then (s, Inl PrismaP2002) else (s\<lparr>payments := payments s @ [p]\<rparr>, Inr ()))"

text \<open>
  Step 3: the row is inserted, or, when a unique key is taken, the payment of the same user
  and order is answered (\<open>Some\<close>), every other one is a conflict.
\<close>

definition establishPayment :: "payment \<Rightarrow> id \<Rightarrow> id \<Rightarrow> string option \<Rightarrow> payment option op" where
  "establishPayment p userId orderId key =
     catching (andThen (insertPayment p) (\<lambda>_. ret None))
       (\<lambda>err s. if err = PrismaP2002 then
            (case paymentByKey key s of
               Some dup \<Rightarrow>
                 if p_userId dup = userId \<and> p_orderId dup = orderId then (s, Inr (Some dup))
                 else (s, Inl (ConflictError ''Idempotency key conflict detected.''))
             | None \<Rightarrow> (s, Inl (ConflictError ''Idempotency key conflict detected.'')))
          else (s, Inl err))"

definition setPayment :: "id \<Rightarrow> (payment \<Rightarrow> payment) \<Rightarrow> sys \<Rightarrow> sys" where
  "setPayment pid f s = s\<lparr>payments := setBy p_id pid f (payments s)\<rparr>"

definition persistBody ::
  "payment \<Rightarrow> provider \<Rightarrow> pay_response \<Rightarrow> payment op" where
  "persistBody p pv resp s =
     (if rowBy pt_paymentId (p_id p) (providerTxs s) \<noteq> None
         \<or> (\<exists>t \<in> set (providerTxs s). pt_provider t = providerId pv
              \<and> pt_providerTransactionId t = pr_providerPaymentId resp)
      then (s, Inl PrismaP2002)
      else
        let t = \<lparr>pt_paymentId = p_id p, pt_provider = providerId pv,
                 pt_providerTransactionId = pr_providerPaymentId resp, pt_status = pr_status resp,
                 pt_amount = p_grossAmount p, pt_currency = p_currency p\<rparr>;
            write = (\<lambda>r. r\<lparr>p_providerPaymentId := Some (pr_providerPaymentId resp), p_status := pr_status resp\<rparr>)
        in (setOrder (p_orderId p) (\<lambda>r. r\<lparr>o_status := O_AWAITING_PAYMENT\<rparr>)
              (setPayment (p_id p) write (s\<lparr>providerTxs := providerTxs s @ [t]\<rparr>)),
            Inr (write p)))"

definition persistPayment :: "id \<Rightarrow> payment \<Rightarrow> provider \<Rightarrow> pay_response \<Rightarrow> (payment \<times> bool) op" where
  "persistPayment userId p pv resp =
     catching
       (andThen (inTransaction (persistBody p pv resp)) (\<lambda>r s.
          (auditLog (Some userId) (Some userId) ''PAYMENT_CREATED'' ''Payment'' (Some (p_id r)) s, Inr (r, False))))
       (\<lambda>_. ret (p, False))"

definition callProvider ::
  "config \<Rightarrow> provider_env \<Rightarrow> provider \<Rightarrow> payment \<Rightarrow> pay_response op" where
  "callProvider cfg pe pv p =
     catching
       (providerCreate cfg pe pv \<lparr>pq_amount = ofColumn 4 (p_grossAmount p), pq_currency = p_currency p,
          pq_reference = p_reference p\<rparr>)
       (\<lambda>err s. (setPayment (p_id p) (\<lambda>r. r\<lparr>p_status := P_FAILED\<rparr>) s, Inl err))"

definition createPayment ::
  "config \<Rightarrow> provider_env \<Rightarrow> payment_env \<Rightarrow> id \<Rightarrow> payment_input \<Rightarrow> string option \<Rightarrow> (payment \<times> bool) op" where
  "createPayment cfg pe e userId inp key s =
     (case rowBy o_id (ci_orderId inp) (orders s) of
        None \<Rightarrow> (s, Inl (NotFoundError ''Order not found''))
      | Some x \<Rightarrow>
          if o_userId x \<noteq> userId then (s, Inl (ForbiddenError ''Unauthorized access to this order.''))
          else case paymentByKey key s of
            Some p \<Rightarrow>
              if p_userId p \<noteq> userId \<or> p_orderId p \<noteq> ci_orderId inp
              then (s, Inl (ConflictError ''Idempotency key has already been used for another payment request.''))
              else (s, Inr (p, True))
          | None \<Rightarrow>
              andThen (lift (registryGet cfg (toUpper (orDefault (ci_provider inp) ''MOCK'')))) (\<lambda>pv.
              let p = initialPayment e userId inp key x pv in
              andThen (establishPayment p userId (ci_orderId inp) key) (\<lambda>dup.
                case dup of
                  Some d \<Rightarrow> ret (d, True)
                | None \<Rightarrow>
                    andThen (callProvider cfg pe pv p) (\<lambda>resp. persistPayment userId p pv resp))) s)"

text \<open>
  What is done with the provider's answer \<open>a\<close>, whenever it arrives: the payment's row is
  written by its id alone, whatever its status has become since it was inserted.
\<close>

definition answerPayment ::
  "id \<Rightarrow> payment \<Rightarrow> provider \<Rightarrow> app_error + pay_response \<Rightarrow> (payment \<times> bool) op" where
  "answerPayment userId p pv a =
     (case a of
        Inl err \<Rightarrow> (\<lambda>s. (setPayment (p_id p) (\<lambda>r. r\<lparr>p_status := P_FAILED\<rparr>) s, Inl err))
      | Inr resp \<Rightarrow> persistPayment userId p pv resp)"

definition createRequest :: "payment \<Rightarrow> pay_request" where
  "createRequest p =
     \<lparr>pq_amount = ofColumn 4 (p_grossAmount p), pq_currency = p_currency p, pq_reference = p_reference p\<rparr>"

lemma create_is_call_answer:
  "andThen (callProvider cfg pe pv p) (persistPayment userId p pv) s =
     (case providerCreate cfg pe pv (createRequest p) s of (s1, a) \<Rightarrow> answerPayment userId p pv a s1)"
  by (auto simp: callProvider_def answerPayment_def createRequest_def andThen_eq catching_eq
      split: sum.splits prod.splits)

subsection \<open>Reading and verifying a payment\<close>

definition getPaymentById :: "id \<Rightarrow> id \<Rightarrow> bool \<Rightarrow> payment op" where
  "getPaymentById paymentId userId isAdmin s =
     (case rowBy p_id paymentId (payments s) of
        None \<Rightarrow> (s, Inl PaymentNotFoundError)
      | Some p \<Rightarrow>
          if \<not> isAdmin \<and> p_userId p \<noteq> userId
          then (s, Inl (ForbiddenError ''Unauthorized access to this payment.''))
          else (s, Inr p))"

definition hasValidWallet :: "order \<Rightarrow> bool" where
  "hasValidWallet x = (truthy (o_walletAddress x) \<and> trim (the (o_walletAddress x)) \<noteq> [])"

definition orderPaid :: "id \<Rightarrow> sys \<Rightarrow> sys" where
  "orderPaid orderId s =
     (case rowBy o_id orderId (orders s) of
        None \<Rightarrow> s
      | Some x \<Rightarrow>
          if o_status x = O_COMPLETED \<or> o_status x = O_SETTLEMENT_COMPLETED \<or> o_status x = O_SETTLEMENT_PENDING
             \<or> o_status x = O_CANCELLED \<or> o_status x = O_REFUNDED
          then s
          else setOrder orderId (\<lambda>r. r\<lparr>o_status :=
                 (if hasValidWallet x then O_SETTLEMENT_PENDING else O_PAYMENT_CONFIRMED)\<rparr>) s)"

definition orderUnpaid :: "id \<Rightarrow> sys \<Rightarrow> sys" where
  "orderUnpaid orderId s =
     (case rowBy o_id orderId (orders s) of
        None \<Rightarrow> s
      | Some x \<Rightarrow>
          if o_status x = O_COMPLETED \<or> o_status x = O_SETTLEMENT_COMPLETED
             \<or> o_status x = O_CANCELLED \<or> o_status x = O_REFUNDED
          then s
          else setOrder orderId (\<lambda>r. r\<lparr>o_status := O_FAILED\<rparr>) s)"

text \<open>What a final payment status means for reservation and order, in verification and webhook alike.\<close>

definition paymentEffects :: "config \<Rightarrow> id \<Rightarrow> payment_status \<Rightarrow> unit op" where
  "paymentEffects cfg orderId status =
     (if status = P_SUCCEEDED then
        andThen (confirmReservation orderId) (\<lambda>_ s. (orderPaid orderId s, Inr ()))
      else if status = P_FAILED then
        andThen (releaseReservation cfg orderId V_CANCELLED_RELEASED) (\<lambda>_ s. (orderUnpaid orderId s, Inr ()))
      else ret ())"

definition setProviderTx :: "id \<Rightarrow> payment_status \<Rightarrow> sys \<Rightarrow> sys" where
  "setProviderTx pid status s =
     s\<lparr>providerTxs := setBy pt_paymentId pid (\<lambda>t. t\<lparr>pt_status := status\<rparr>) (providerTxs s)\<rparr>"

text \<open>The payment as read, the provider's status, and whether a provider transaction was read along.\<close>

definition verifyRead ::
  "config \<Rightarrow> provider_env \<Rightarrow> id \<Rightarrow> id \<Rightarrow> bool \<Rightarrow> verify_params \<Rightarrow> (payment \<times> payment_status \<times> bool) op" where
  "verifyRead cfg pe paymentId userId isAdmin ps =
     andThen (getPaymentById paymentId userId isAdmin) (\<lambda>p s.
       let hasTx = (rowBy pt_paymentId (p_id p) (providerTxs s) \<noteq> None) in
       andThen (lift (registryGet cfg (p_provider p))) (\<lambda>pv.
       andThen (providerVerify cfg pe pv (orDefault (p_providerPaymentId p) (p_reference p)) ps) (\<lambda>resp.
       andThen (validatePaymentTransition (p_status p) (pr_status resp)) (\<lambda>_.
         ret (p, pr_status resp, hasTx)))) s)"

definition verifyAudit :: "id \<Rightarrow> payment \<Rightarrow> payment \<Rightarrow> sys \<Rightarrow> sys" where
  "verifyAudit userId p updated s =
     (let s1 = auditLog (Some userId) (Some (p_userId p)) ''PAYMENT_VERIFIED'' ''Payment'' (Some (p_id p)) s
      in if p_status updated = P_SUCCEEDED
         then auditLog (Some userId) (Some (p_userId p)) ''PAYMENT_SUCCEEDED'' ''Payment'' (Some (p_id p)) s1
         else if p_status updated = P_FAILED
         then auditLog (Some userId) (Some (p_userId p)) ''PAYMENT_FAILED'' ''Payment'' (Some (p_id p)) s1
         else s1)"

definition verifyCommit :: "config \<Rightarrow> id \<Rightarrow> payment \<times> payment_status \<times> bool \<Rightarrow> payment op" where
  "verifyCommit cfg userId read s =
     (let (p, status, hasTx) = read in
      case rowBy p_id (p_id p) (payments s) of
        None \<Rightarrow> (s, Inl InvalidPaymentStateError)
      | Some current \<Rightarrow>
          if p_status current \<noteq> p_status p then
            (if p_status current = status then (s, Inr current) else (s, Inl InvalidPaymentStateError))
          else
            let s1 = setPayment (p_id p) (\<lambda>r. r\<lparr>p_status := status\<rparr>) s;
                s2 = (if hasTx then setProviderTx (p_id p) status s1 else s1)
            in andThen (paymentEffects cfg (p_orderId p) status) (\<lambda>_ s3.
                 case rowBy p_id (p_id p) (payments s3) of
                   None \<Rightarrow> (s3, Inl PrismaP2025)
                 | Some updated \<Rightarrow> (verifyAudit userId p updated s3, Inr updated)) s2)"

definition verifyPayment ::
  "config \<Rightarrow> provider_env \<Rightarrow> id \<Rightarrow> id \<Rightarrow> bool \<Rightarrow> verify_params \<Rightarrow> payment op" where
  "verifyPayment cfg pe paymentId userId isAdmin ps =
     andThen (verifyRead cfg pe paymentId userId isAdmin ps) (verifyCommit cfg userId)"

text \<open>The route passes the request body to the provider as parameters.\<close>

definition verifyRoute ::
  "config \<Rightarrow> provider_env \<Rightarrow> id \<Rightarrow> id \<Rightarrow> role \<Rightarrow> verify_params \<Rightarrow> payment op" where
  "verifyRoute cfg pe paymentId userId r body = verifyPayment cfg pe paymentId userId (adminRole r) body"

definition createPaymentRoute ::
  "config \<Rightarrow> provider_env \<Rightarrow> payment_env \<Rightarrow> id \<Rightarrow> string option \<Rightarrow> payment_input \<Rightarrow> (nat \<times> payment) op" where
  "createPaymentRoute cfg pe e userId header inp =
     andThen (createPayment cfg pe e userId inp header) (\<lambda>(p, isDuplicate). ret (if isDuplicate then 200 else 201, p))"

definition getPaymentRoute :: "id \<Rightarrow> id \<Rightarrow> role \<Rightarrow> payment op" where
  "getPaymentRoute paymentId userId r = getPaymentById paymentId userId (adminRole r)"

subsection \<open>Webhooks\<close>

datatype webhook_outcome = AlreadyProcessed | BeingProcessed | Processed

record webhook_result =
  wr_outcome :: webhook_outcome
  wr_duplicate :: bool
  wr_eventId :: string

definition findEvent :: "string \<Rightarrow> string \<Rightarrow> sys \<Rightarrow> webhook_event option" where
  "findEvent prov eventId s = find (\<lambda>w. w_provider w = prov \<and> w_eventId w = eventId) (webhookEvents s)"

text \<open>Step 3: claim the event; \<open>None\<close> when the claim succeeded.\<close>

definition claimEvent :: "id \<Rightarrow> provider \<Rightarrow> webhook_payload \<Rightarrow> webhook_result option op" where
  "claimEvent newId pv ev s =
     (case findEvent (providerId pv) (we_eventId ev) s of
        None \<Rightarrow>
          (s\<lparr>webhookEvents := webhookEvents s @
             [\<lparr>w_id = newId, w_provider = providerId pv, w_eventId = we_eventId ev, w_eventType = we_eventType ev,
               w_signatureVerified = True, w_processed = False, w_processedAt = None\<rparr>]\<rparr>, Inr None)
      | Some w \<Rightarrow>
          if w_processed w
          then (auditLog None None ''WEBHOOK_DUPLICATE'' ''WebhookEvent'' (Some (w_id w)) s,
                Inr (Some \<lparr>wr_outcome = AlreadyProcessed, wr_duplicate = True, wr_eventId = we_eventId ev\<rparr>))
          else (s, Inr (Some \<lparr>wr_outcome = BeingProcessed, wr_duplicate = True, wr_eventId = we_eventId ev\<rparr>)))"

definition webhookPayment :: "provider \<Rightarrow> webhook_payload \<Rightarrow> sys \<Rightarrow> payment option" where
  "webhookPayment pv ev s =
     (if truthy (we_providerPaymentId ev) then
        find (\<lambda>p. p_provider p = providerId pv
          \<and> (p_providerPaymentId p = we_providerPaymentId ev \<or> Some (p_reference p) = we_providerPaymentId ev))
          (payments s)
      else None)"

text \<open>
  Step 4 runs in a transaction of its own, but confirming and releasing the reservation uses
  the global client: when the body throws, the rows it wrote through the transaction are
  restored and the pool, reservations and treasury keep what was done.
\<close>

definition webhookTransaction :: "unit op \<Rightarrow> unit op" where
  "webhookTransaction body s =
     (case body s of
        (s1, Inr x) \<Rightarrow> (s1, Inr x)
      | (s1, Inl err) \<Rightarrow>
          (s1\<lparr>payments := payments s, providerTxs := providerTxs s, orders := orders s\<rparr>, Inl err))"

definition applyWebhookBody :: "config \<Rightarrow> payment \<Rightarrow> payment_status \<Rightarrow> unit op" where
  "applyWebhookBody cfg p status s =
     (case rowBy p_id (p_id p) (payments s) of
        None \<Rightarrow> (s, Inr ())
      | Some current \<Rightarrow>
          if p_status current \<noteq> p_status p then (s, Inr ())
          else paymentEffects cfg (p_orderId p) status
                 (setProviderTx (p_id p) status (setPayment (p_id p) (\<lambda>r. r\<lparr>p_status := status\<rparr>) s)))"

definition applyWebhook :: "config \<Rightarrow> provider \<Rightarrow> webhook_payload \<Rightarrow> unit op" where
  "applyWebhook cfg pv ev s =
     (case webhookPayment pv ev s of
        None \<Rightarrow> (s, Inr ())
      | Some p \<Rightarrow>
          if canPayment (p_status p) (we_status ev)
          then webhookTransaction (applyWebhookBody cfg p (we_status ev)) s
          else (s, Inr ()))"

definition finishEvent :: "time \<Rightarrow> id \<Rightarrow> sys \<Rightarrow> sys" where
  "finishEvent now wid s =
     auditLog None None ''WEBHOOK_PROCESSED'' ''WebhookEvent'' (Some wid)
       (s\<lparr>webhookEvents := setBy w_id wid (\<lambda>w. w\<lparr>w_processed := True, w_processedAt := Some now\<rparr>) (webhookEvents s)\<rparr>)"

definition processWebhook ::
  "config \<Rightarrow> provider_env \<Rightarrow> time \<Rightarrow> id \<Rightarrow> string \<Rightarrow> headers \<Rightarrow> webhook_body \<Rightarrow> string \<Rightarrow> webhook_result op" where
  "processWebhook cfg pe now newId providerName hs body rawBody =
     andThen (lift (registryGet cfg providerName)) (\<lambda>pv s.
       let valid = providerSignature cfg pe pv hs rawBody;
           s1 = auditLog None None ''WEBHOOK_RECEIVED'' ''WebhookEvent'' None s
       in if \<not> valid then (s1, Inl (WebhookVerificationError ''Invalid webhook signature for provider''))
          else
            andThen (providerParse cfg pe pv hs body rawBody) (\<lambda>ev.
            andThen (claimEvent newId pv ev) (\<lambda>dup.
              case dup of
                Some r \<Rightarrow> ret r
              | None \<Rightarrow>
                  andThen (applyWebhook cfg pv ev) (\<lambda>_ s.
                    (finishEvent now newId s,
                     Inr \<lparr>wr_outcome = Processed, wr_duplicate = False, wr_eventId = we_eventId ev\<rparr>)))) s1)"

definition webhookRoute ::
  "config \<Rightarrow> provider_env \<Rightarrow> time \<Rightarrow> id \<Rightarrow> string \<Rightarrow> headers \<Rightarrow> webhook_body \<Rightarrow> string \<Rightarrow> webhook_result op" where
  "webhookRoute cfg pe now newId providerName hs body rawBody =
     (if rawBody = [] then throw (WebhookVerificationError ''Raw request body is missing for webhook verification'')
      else processWebhook cfg pe now newId providerName hs body rawBody)"

lemma setPayment_frame [simp]:
  "orders (setPayment i f s) = orders s" "providerTxs (setPayment i f s) = providerTxs s"
  "pools (setPayment i f s) = pools s" "reservations (setPayment i f s) = reservations s"
  "webhookEvents (setPayment i f s) = webhookEvents s" "mockStore (setPayment i f s) = mockStore s"
  "ngnStore (setPayment i f s) = ngnStore s" "settlements (setPayment i f s) = settlements s"
  "refunds (setPayment i f s) = refunds s" "treasuryTxs (setPayment i f s) = treasuryTxs s"
  "payments (setPayment i f s) = setBy p_id i f (payments s)"
  by (simp_all add: setPayment_def)

lemma setProviderTx_frame [simp]:
  "orders (setProviderTx i st s) = orders s" "payments (setProviderTx i st s) = payments s"
  "pools (setProviderTx i st s) = pools s" "reservations (setProviderTx i st s) = reservations s"
  "webhookEvents (setProviderTx i st s) = webhookEvents s" "settlements (setProviderTx i st s) = settlements s"
  "refunds (setProviderTx i st s) = refunds s" "treasuryTxs (setProviderTx i st s) = treasuryTxs s"
  by (simp_all add: setProviderTx_def)

end
