(* ===== verification/PaymentProps.thy ===== *)
theory PaymentProps
  imports Payments
begin

text \<open>
  What payments and webhooks promise: amounts derived from the order, idempotent creation,
  one application per verification and per webhook event, captured payments that stay
  captured; and where the code lets an unpaid or a closed order into settlement.
\<close>

subsection \<open>Frames\<close>

lemma confirm_frame [simp]:
  "payments (fst (confirmReservation i s)) = payments s" "orders (fst (confirmReservation i s)) = orders s"
  "webhookEvents (fst (confirmReservation i s)) = webhookEvents s"
  "pools (fst (confirmReservation i s)) = pools s"
  "providerTxs (fst (confirmReservation i s)) = providerTxs s"
  by (auto simp: confirmReservation_eq confirmReservationInTx_def split: option.splits)

lemma confirm_returns: "\<exists>r. snd (confirmReservation i s) = Inr r"
  by (auto simp: confirmReservation_eq confirmReservationInTx_def split: option.splits)

lemma release_frame [simp]:
  "payments (fst (releaseReservation cfg i st s)) = payments s"
  "orders (fst (releaseReservation cfg i st s)) = orders s"
  "webhookEvents (fst (releaseReservation cfg i st s)) = webhookEvents s"
  "providerTxs (fst (releaseReservation cfg i st s)) = providerTxs s"
  by (auto simp: releaseReservation_def inTransaction_eq releaseReservationInTx_def Let_def
      split: option.splits sum.splits)

lemma orderPaid_frame [simp]:
  "payments (orderPaid i s) = payments s" "webhookEvents (orderPaid i s) = webhookEvents s"
  "pools (orderPaid i s) = pools s" "reservations (orderPaid i s) = reservations s"
  by (auto simp: orderPaid_def split: option.splits)

lemma orderUnpaid_frame [simp]:
  "payments (orderUnpaid i s) = payments s" "webhookEvents (orderUnpaid i s) = webhookEvents s"
  "pools (orderUnpaid i s) = pools s" "reservations (orderUnpaid i s) = reservations s"
  by (auto simp: orderUnpaid_def split: option.splits)

lemma paymentEffects_frame [simp]:
  "payments (fst (paymentEffects cfg i st s)) = payments s"
  "webhookEvents (fst (paymentEffects cfg i st s)) = webhookEvents s"
  by (auto simp: paymentEffects_def andThen_eq split: sum.splits)

lemma paymentEffects_succeeded:
  "paymentEffects cfg i P_SUCCEEDED s = (orderPaid i (fst (confirmReservation i s)), Inr ())"
  using confirm_returns[of i s] by (auto simp: paymentEffects_def andThen_eq)

lemma verifyAudit_frame [simp]:
  "payments (verifyAudit u p q s) = payments s" "orders (verifyAudit u p q s) = orders s"
  "pools (verifyAudit u p q s) = pools s" "reservations (verifyAudit u p q s) = reservations s"
  by (simp_all add: verifyAudit_def Let_def)

subsection \<open>Amounts\<close>

lemma fee_div: "0 \<le> g \<Longrightarrow> platformFee g = (g + 50) div 100"
proof -
  assume g: "0 \<le> g"
  have "ofColumn 4 g * (1 / 100) * 10 ^ 4 + 1 / 2 = (of_int (g + 50) :: rat) / of_int 100"
    by (simp add: ofColumn_def add_divide_distrib)
  moreover have "(0 :: rat) \<le> ofColumn 4 g * (1 / 100)" using g by simp
  ultimately show ?thesis
    unfolding platformFee_def toColumn_def by (simp only: floor_divide_of_int_eq if_True)
qed

lemma net_div: "0 \<le> g \<Longrightarrow> netAmount g = (99 * g + 50) div 100"
proof -
  assume g: "0 \<le> g"
  have "(ofColumn 4 g - ofColumn 4 g * (1 / 100)) * 10 ^ 4 + 1 / 2 = (of_int (99 * g + 50) :: rat) / of_int 100"
    by (simp add: ofColumn_def add_divide_distrib left_diff_distrib)
  moreover have "(0 :: rat) \<le> ofColumn 4 g - ofColumn 4 g * (1 / 100)" using g by (simp add: ofColumn_def)
  ultimately show ?thesis
    unfolding netAmount_def toColumn_def by (simp only: floor_divide_of_int_eq if_True)
qed

text \<open>
  The platform fee of a payment is one percent of its gross amount, rounded to the column,
  and fee and net amount add up to the gross amount - except when the fee falls exactly
  between two column values: then both are rounded up and exceed it by one unit (0.0001).
\<close>

theorem payment_amounts_split:
  assumes "0 \<le> gross"
  shows "0 \<le> platformFee gross \<and> 0 \<le> netAmount gross
    \<and> platformFee gross + netAmount gross = (if gross mod 100 = 50 then gross + 1 else gross)"
proof -
  define q r where "q = gross div 100" and "r = gross mod 100"
  have g: "gross = 100 * q + r" "0 \<le> r" "r < 100" by (simp_all add: q_def r_def)
  have fee: "(gross + 50) div 100 = (if r < 50 then q else q + 1)"
    by (rule int_div_pos_eq[where r = "if r < 50 then r + 50 else r - 50"]) (use g in auto)
  have net: "(99 * gross + 50) div 100 = (if r \<le> 50 then 99 * q + r else 99 * q + r - 1)"
    by (rule int_div_pos_eq[where r = "if r \<le> 50 then 50 - r else 150 - r"]) (use g in auto)
  have "(if r < 50 then q else q + 1) + (if r \<le> 50 then 99 * q + r else 99 * q + r - 1) =
      (if r = 50 then 100 * q + r + 1 else 100 * q + r)"
    by auto
  then have "(gross + 50) div 100 + (99 * gross + 50) div 100 =
      (if gross mod 100 = 50 then gross + 1 else gross)"
    unfolding fee net r_def[symmetric] g(1)[symmetric] .
  moreover have "0 \<le> (gross + 50) div 100" "0 \<le> (99 * gross + 50) div 100"
    using assms by simp_all
  ultimately show ?thesis using assms by (simp add: fee_div net_div)
qed

theorem payment_amounts_split_witness:
  "platformFee 20000050 + netAmount 20000050 = 20000051"
  using payment_amounts_split[of 20000050] by simp

subsection \<open>Creating a payment\<close>

lemma establish_dup:
  assumes "establishPayment p userId orderId key s = (s1, Inr (Some d))"
  shows "s1 = s" and "d \<in> set (payments s)" and "p_userId d = userId" and "p_orderId d = orderId"
    and "p_idempotencyKey d = key"
  using assms by (auto simp: establishPayment_def catching_eq andThen_eq insertPayment_def paymentByKey_def
      dest: rowBy_SomeD split: option.splits if_splits)

lemma establish_fresh:
  assumes "establishPayment p userId orderId key s = (s1, Inr None)"
  shows "s1 = s\<lparr>payments := payments s @ [p]\<rparr>" and "rowBy p_id (p_id p) (payments s) = None"
  using assms by (auto simp: establishPayment_def catching_eq andThen_eq insertPayment_def
      split: option.splits if_splits)

lemma callProvider_returns:
  assumes "callProvider cfg pe pv p s = (s1, Inr resp)"
  shows "storesOnly s s1"
proof -
  have "s1 = fst (providerCreate cfg pe pv \<lparr>pq_amount = ofColumn 4 (p_grossAmount p), pq_currency = p_currency p,
      pq_reference = p_reference p\<rparr> s)"
    using assms by (auto simp: callProvider_def catching_eq split: sum.splits)
  then show ?thesis by (simp add: provider.create_stores)
qed

lemma persist_cases:
  assumes "persistPayment userId p pv resp s = (s1, Inr (q, dup))"
  shows "\<not> dup \<and> (q = p \<and> orders s1 = orders s \<and> payments s1 = payments s
    \<or> q = p\<lparr>p_providerPaymentId := Some (pr_providerPaymentId resp), p_status := pr_status resp\<rparr>
      \<and> orders s1 = setBy o_id (p_orderId p) (\<lambda>r. r\<lparr>o_status := O_AWAITING_PAYMENT\<rparr>) (orders s)
      \<and> payments s1 = setBy p_id (p_id p) (\<lambda>r. r\<lparr>p_providerPaymentId := Some (pr_providerPaymentId resp),
          p_status := pr_status resp\<rparr>) (payments s))"
  using assms by (auto simp: persistPayment_def catching_eq andThen_eq inTransaction_eq persistBody_def Let_def
      split: if_splits sum.splits)

lemma persist_never_throws: "snd (persistPayment userId p pv resp s) \<noteq> Inl err"
  by (auto simp: persistPayment_def catching_eq andThen_eq split: sum.splits)

text \<open>The shape of a successful createPayment.\<close>

lemma createPayment_returns:
  assumes run: "createPayment cfg pe e userId inp key s = (s1, Inr (p, dup))"
  obtains (Existing) x where "rowBy o_id (ci_orderId inp) (orders s) = Some x" and "o_userId x = userId"
      and "dup" and "s1 = s" and "p \<in> set (payments s)" and "p_userId p = userId"
      and "p_orderId p = ci_orderId inp" and "p_idempotencyKey p = key"
  | (New) x pv resp s2 where "rowBy o_id (ci_orderId inp) (orders s) = Some x" and "o_userId x = userId"
      and "\<not> dup" and "rowBy p_id (ye_paymentId e) (payments s) = None"
      and "callProvider cfg pe pv (initialPayment e userId inp key x pv)
             (s\<lparr>payments := payments s @ [initialPayment e userId inp key x pv]\<rparr>) = (s2, Inr resp)"
      and "persistPayment userId (initialPayment e userId inp key x pv) pv resp s2 = (s1, Inr (p, dup))"
proof -
  obtain x where x: "rowBy o_id (ci_orderId inp) (orders s) = Some x" "o_userId x = userId"
    using run by (auto simp: createPayment_def split: option.splits if_splits)
  show ?thesis
  proof (cases "paymentByKey key s")
    case (Some q)
    with run x have "q = p" "dup" "s1 = s" "p_userId p = userId" "p_orderId p = ci_orderId inp"
      by (auto simp: createPayment_def split: if_splits)
    moreover have "q \<in> set (payments s)" "p_idempotencyKey q = key"
      using Some by (auto simp: paymentByKey_def dest: rowBy_SomeD split: if_splits)
    ultimately show ?thesis using x by (intro Existing) auto
  next
    case None
    obtain pv where pv: "registryGet cfg (toUpper (orDefault (ci_provider inp) ''MOCK'')) = Inr pv"
      using run x None by (auto simp: createPayment_def andThen_eq lift_def split: sum.splits)
    let ?p = "initialPayment e userId inp key x pv"
    have pid: "p_id ?p = ye_paymentId e" by (simp add: initialPayment_def)
    obtain se r where est: "establishPayment ?p userId (ci_orderId inp) key s = (se, r)" by fastforce
    note eq = createPayment_def andThen_eq lift_def
    show ?thesis
    proof (cases r)
      case (Inl err)
      with run x None pv est show ?thesis by (simp add: eq Let_def)
    next
      case (Inr d)
      show ?thesis
      proof (cases d)
        case (Some q)
        with run x None pv est Inr have "q = p" "dup" "s1 = se" by (simp_all add: eq Let_def)
        with establish_dup[of ?p userId "ci_orderId inp" key s se q] est Inr Some x show ?thesis
          by (intro Existing) auto
      next
        case None
        note fresh = establish_fresh[OF est[unfolded Inr None]]
        obtain s2 rc where call: "callProvider cfg pe pv ?p se = (s2, rc)" by fastforce
        show ?thesis
        proof (cases rc)
          case (Inl err)
          with run x \<open>paymentByKey key s = None\<close> pv est Inr \<open>r = Inr d\<close> None call show ?thesis
            by (simp add: eq Let_def)
        next
          case (Inr resp)
          with run x \<open>paymentByKey key s = None\<close> pv est \<open>r = Inr d\<close> None call
          have "persistPayment userId ?p pv resp s2 = (s1, Inr (p, dup))"
            by (simp add: eq Let_def)
          moreover from persist_cases[OF this] have "\<not> dup" by simp
          ultimately show ?thesis
            using x fresh call Inr pid by (intro New[of x pv s2 resp]) auto
        qed
      qed
    qed
  qed
qed

text \<open>
  A payment is created only for the caller's own order, with the gross amount of the order;
  a repeated key answers the earlier payment of the same user and order and changes nothing.
  When the provider's answer is stored the order goes to AWAITING_PAYMENT from whatever status
  it had - a completed or refunded order included, which the status machine forbids.
\<close>

theorem create_payment_effect:
  assumes run: "createPayment cfg pe e userId inp key s = (s1, Inr (p, dup))"
  shows "\<exists>x. rowBy o_id (ci_orderId inp) (orders s) = Some x \<and> o_userId x = userId
    \<and> p_userId p = userId \<and> p_orderId p = ci_orderId inp
    \<and> (dup \<longrightarrow> s1 = s \<and> p \<in> set (payments s) \<and> p_idempotencyKey p = key)
    \<and> (\<not> dup \<longrightarrow> p_grossAmount p = o_sourceAmount x
        \<and> (p_providerPaymentId p = None \<longrightarrow> p_status p = P_CREATED \<and> orders s1 = orders s)
        \<and> (p_providerPaymentId p \<noteq> None \<longrightarrow>
             rowBy o_id (ci_orderId inp) (orders s1) = Some (x\<lparr>o_status := O_AWAITING_PAYMENT\<rparr>)
             \<and> (o_status x \<notin> {O_CREATED, O_AWAITING_PAYMENT} \<longrightarrow> \<not> canOrder (o_status x) O_AWAITING_PAYMENT)))"
  using run
proof (cases rule: createPayment_returns)
  case (Existing x)
  then show ?thesis by blast
next
  case (New x pv resp s2)
  let ?p = "initialPayment e userId inp key x pv"
  have xid: "o_id x = ci_orderId inp" using rowBy_SomeD[OF New(1)] by simp
  have p: "p_userId ?p = userId" "p_orderId ?p = ci_orderId inp" "p_grossAmount ?p = o_sourceAmount x"
    "p_status ?p = P_CREATED" "p_providerPaymentId ?p = None"
    by (simp_all add: initialPayment_def xid)
  have "orders s2 = orders s" using storesOnlyD(2)[OF callProvider_returns[OF New(5)]] by simp
  moreover have "\<not> canOrder st O_AWAITING_PAYMENT" if "st \<notin> {O_CREATED, O_AWAITING_PAYMENT}" for st
    using that by (cases st) (simp_all add: canOrder_def)
  ultimately show ?thesis
    using New(1,2,3) p persist_cases[OF New(6)] by (auto simp: rows)
qed

subsection \<open>Verification\<close>

lemma commit_same_status:
  assumes row: "rowBy p_id (p_id p) (payments s) = Some current" and st: "p_status current = p_status p"
    and run: "verifyCommit cfg u (p, status, tx) s = (s1, Inr q)"
  shows "q = current\<lparr>p_status := status\<rparr>" and "rowBy p_id (p_id p) (payments s1) = Some q"
proof -
  have pid: "p_id current = p_id p" using rowBy_SomeD[OF row] by simp
  define s2 where "s2 = (if tx then setProviderTx (p_id p) status
      (setPayment (p_id p) (\<lambda>r. r\<lparr>p_status := status\<rparr>) s)
    else setPayment (p_id p) (\<lambda>r. r\<lparr>p_status := status\<rparr>) s)"
  have s2: "payments s2 = setBy p_id (p_id p) (\<lambda>r. r\<lparr>p_status := status\<rparr>) (payments s)"
    by (simp add: s2_def)
  obtain s3 r where eff: "paymentEffects cfg (p_orderId p) status s2 = (s3, r)" by fastforce
  have s3: "payments s3 = payments s2"
    using paymentEffects_frame(1)[of cfg "p_orderId p" status s2] eff by simp
  have row3: "rowBy p_id (p_id p) (payments s3) = Some (current\<lparr>p_status := status\<rparr>)"
    unfolding s3 s2 using row by (simp add: rows)
  from run row st eff row3 show "q = current\<lparr>p_status := status\<rparr>"
    and "rowBy p_id (p_id p) (payments s1) = Some q"
    by (cases r; auto simp: verifyCommit_def andThen_eq Let_def s2_def[symmetric])+
qed

text \<open>
  Of concurrent verifications that read a payment in the same status, only the first one
  applies: once it moved the payment, every other one changes nothing and answers the payment
  if it saw the same result, and a state conflict otherwise.
\<close>

theorem verification_applies_once:
  assumes row: "rowBy p_id (p_id p) (payments s) = Some p" and moved: "status \<noteq> p_status p"
    and first: "verifyCommit cfg u1 (p, status, tx) s = (s1, Inr q)"
  shows "p_status q = status
    \<and> verifyCommit cfg u2 (p, status', tx') s1 =
        (s1, if status' = status then Inr q else Inl InvalidPaymentStateError)"
proof -
  note q = commit_same_status[OF row refl first]
  have "p_status q = status" by (simp add: q(1))
  with q(2) moved show ?thesis by (auto simp: verifyCommit_def)
qed

definition demo_deposit :: payment where
  "demo_deposit = demo_payment\<lparr>p_status := P_PENDING, p_provider := ''NGN_BANK_TRANSFER''\<rparr>"

definition demo_awaiting :: sys where
  "demo_awaiting = demo_ledger\<lparr>payments := [demo_deposit],
     orders := [demo_order ''u'' ''o'' (demo_dto\<lparr>d_walletAddress := Some ''GWALLET''\<rparr>)
       \<lparr>o_status := O_AWAITING_PAYMENT\<rparr>]\<rparr>"

lemmas pay_defs = demo_deposit_def demo_awaiting_def demo_payment_def demo_order_def newOrder_def demo_dto_def
  noneIfFalsy_def demo_quote_def

lemma demo_commit:
  "verifyCommit demo_cfg ''u'' (demo_deposit, P_SUCCEEDED, False) demo_awaiting =
     (fst (verifyCommit demo_cfg ''u'' (demo_deposit, P_SUCCEEDED, False) demo_awaiting),
      Inr (demo_deposit\<lparr>p_status := P_SUCCEEDED\<rparr>))"
  by (simp add: prod_eq_iff verifyCommit_def andThen_eq Let_def paymentEffects_succeeded demo_awaiting_def)

theorem verification_applies_once_witness:
  "verifyCommit demo_cfg ''u'' (demo_deposit, P_FAILED, False)
     (fst (verifyCommit demo_cfg ''u'' (demo_deposit, P_SUCCEEDED, False) demo_awaiting)) =
     (fst (verifyCommit demo_cfg ''u'' (demo_deposit, P_SUCCEEDED, False) demo_awaiting),
      Inl InvalidPaymentStateError)"
proof -
  have "rowBy p_id (p_id demo_deposit) (payments demo_awaiting) = Some demo_deposit"
    by (simp add: demo_awaiting_def)
  moreover have "P_SUCCEEDED \<noteq> p_status demo_deposit" by (simp add: demo_deposit_def)
  ultimately show ?thesis using verification_applies_once[OF _ _ demo_commit] by simp
qed

theorem create_payment_effect_witness:
  "\<exists>x. rowBy o_id ''o'' (orders demo_awaiting) = Some x \<and> o_userId x = ''u''"
proof -
  let ?inp = "\<lparr>ci_orderId = ''o'', ci_currency = None, ci_type = None, ci_provider = None\<rparr>"
  let ?e = "\<lparr>ye_now = 0, ye_paymentId = ''pay2'', ye_reference = ''PAY_1''\<rparr>"
  have "\<not> contains ''PAY_1'' ''fail_''" by code_simp
  then have "snd (createPayment demo_cfg demo_penv ?e ''u'' ?inp None demo_awaiting) =
      Inr (projr (snd (createPayment demo_cfg demo_penv ?e ''u'' ?inp None demo_awaiting)))"
    by (auto simp: createPayment_def paymentByKey_def andThen_eq lift_def registryGet_def registered_def
        orDefault_def toUpper_def upper_char_def establishPayment_def catching_eq insertPayment_def
        callProvider_def mockCreate_def persistPayment_def persistBody_def inTransaction_eq initialPayment_def
        pay_defs demo_defs demo_penv_def empty_store_def storeObj_def Let_def)
  then obtain p dup s1 where "createPayment demo_cfg demo_penv ?e ''u'' ?inp None demo_awaiting = (s1, Inr (p, dup))"
    by (metis prod.collapse)
  from create_payment_effect[OF this] show ?thesis by auto
qed

subsection \<open>Captured payments\<close>

text \<open>
  The writes of the operations on payments as events, so that events of other requests come
  between them: the row a creation inserts, from an order read earlier; the call of the
  provider; the writes with its answer; the read of a verification and its commit; a webhook
  as a whole, and the transaction of a webhook that read the payment earlier. A commit and
  a webhook transaction may be stale, but the transition they make was validated on what they
  read. An answer is taken here as long as its payment is still as it was inserted.
\<close>

datatype pay_event =
    PvInsert payment_env id payment_input "string option" order provider
  | PvCall provider_env provider pay_request
  | PvAnswer id payment provider "app_error + pay_response"
  | PvRead provider_env id id bool verify_params
  | PvCommit id payment payment_status bool
  | PvWebhook provider_env time id string headers webhook_body string
  | PvApply payment payment_status

fun payStep :: "config \<Rightarrow> pay_event \<Rightarrow> sys \<Rightarrow> sys" where
  "payStep cfg (PvInsert e u inp key x pv) s =
     fst (establishPayment (initialPayment e u inp key x pv) u (ci_orderId inp) key s)"
| "payStep cfg (PvCall pe pv rq) s = fst (providerCreate cfg pe pv rq s)"
| "payStep cfg (PvAnswer u p pv a) s = fst (answerPayment u p pv a s)"
| "payStep cfg (PvRead pe pid u adm ps) s = fst (verifyRead cfg pe pid u adm ps s)"
| "payStep cfg (PvCommit u p st tx) s = fst (verifyCommit cfg u (p, st, tx) s)"
| "payStep cfg (PvWebhook pe now i name hs b raw) s = fst (processWebhook cfg pe now i name hs b raw s)"
| "payStep cfg (PvApply p st) s = fst (webhookTransaction (applyWebhookBody cfg p st) s)"

fun payEnabled :: "pay_event \<Rightarrow> sys \<Rightarrow> bool" where
  "payEnabled (PvAnswer u p pv a) s =
     (case rowBy p_id (p_id p) (payments s) of None \<Rightarrow> True | Some q \<Rightarrow> p_status q = P_CREATED)"
| "payEnabled (PvCommit u p st tx) s = canPayment (p_status p) st"
| "payEnabled (PvApply p st) s = canPayment (p_status p) st"
| "payEnabled _ s = True"

definition captured :: "id \<Rightarrow> sys \<Rightarrow> bool" where
  "captured pid s \<longleftrightarrow> (\<exists>p. rowBy p_id pid (payments s) = Some p \<and> p_status p \<in> {P_SUCCEEDED, P_REFUNDED})"

text \<open>Every write to an existing payment is an allowed step of the status machine.\<close>

lemma captured_write:
  assumes "captured pid s" and "payments s1 = setBy p_id k (\<lambda>r. r\<lparr>p_status := st\<rparr>) (payments s)"
    and "\<And>p. k = pid \<Longrightarrow> rowBy p_id pid (payments s) = Some p \<Longrightarrow> canPayment (p_status p) st"
  shows "captured pid s1"
proof -
  obtain p where p: "rowBy p_id pid (payments s) = Some p" "p_status p \<in> {P_SUCCEEDED, P_REFUNDED}"
    using assms(1) by (auto simp: captured_def)
  show ?thesis
  proof (cases "k = pid")
    case True
    with p assms(3) have "st \<in> {P_SUCCEEDED, P_REFUNDED}"
      using captured_sm.final_closed by blast
    with True p assms(2) show ?thesis by (simp add: captured_def rows)
  next
    case False
    with p assms(2) show ?thesis by (simp add: captured_def rows)
  qed
qed

lemma captured_cong: "payments s1 = payments s \<Longrightarrow> captured pid s \<Longrightarrow> captured pid s1"
  by (simp add: captured_def)

lemma captured_append: "captured pid s \<Longrightarrow> payments s1 = payments s @ [p] \<Longrightarrow> captured pid s1"
  by (auto simp: captured_def rows)

lemma captured_other:
  assumes "captured pid s" and "payments s1 = setBy p_id k f (payments s)" and "k \<noteq> pid"
    and "\<And>r. p_id (f r) = p_id r"
  shows "captured pid s1"
  using assms by (auto simp: captured_def rows)

lemma establish_captured:
  assumes "captured pid s"
  shows "captured pid (fst (establishPayment p u oid key s))"
  using assms captured_append[OF assms, of _ p]
  by (auto simp: establishPayment_def catching_eq andThen_eq insertPayment_def split: option.splits)

lemma persist_captured:
  assumes cap: "captured pid s" and ne: "p_id p \<noteq> pid"
  shows "captured pid (fst (persistPayment u p pv resp s))"
proof -
  obtain s1 q dup where run: "persistPayment u p pv resp s = (s1, Inr (q, dup))"
    using persist_never_throws[of u p pv resp s] by (metis prod.collapse sum.exhaust)
  from persist_cases[OF run] show ?thesis
    using captured_cong[OF _ cap, of s1] captured_other[OF cap _ ne, of s1] run by auto
qed

lemma call_captured: "captured pid s \<Longrightarrow> captured pid (fst (providerCreate cfg pe pv rq s))"
  by (rule captured_cong[OF storesOnlyD(3)[OF provider.create_stores]])

lemma answer_captured:
  assumes cap: "captured pid s" and ok: "payEnabled (PvAnswer u p pv a) s"
  shows "captured pid (fst (answerPayment u p pv a s))"
proof -
  have ne: "p_id p \<noteq> pid" using cap ok by (auto simp: captured_def)
  have "captured pid (setPayment (p_id p) (\<lambda>r. r\<lparr>p_status := P_FAILED\<rparr>) s)"
    by (rule captured_other[where f = "\<lambda>r. r\<lparr>p_status := P_FAILED\<rparr>", OF cap _ ne]) simp_all
  then show ?thesis
    using persist_captured[OF cap ne] by (simp add: answerPayment_def split: sum.split)
qed

lemma effects_captured: "captured pid s \<Longrightarrow> captured pid (fst (paymentEffects cfg i st s))"
  by (rule captured_cong) simp_all

lemma read_captured:
  assumes "captured pid s"
  shows "captured pid (fst (verifyRead cfg pe k u adm ps s))"
  using assms storesOnlyD(3)[OF provider.verify_stores]
  by (auto simp: verifyRead_def andThen_eq getPaymentById_def lift_def Let_def captured_def
      validatePaymentTransition_def split: option.splits sum.splits)

lemma commit_captured:
  assumes cap: "captured pid s" and ok: "canPayment (p_status p) st"
  shows "captured pid (fst (verifyCommit cfg u (p, st, tx) s))"
proof (cases "rowBy p_id (p_id p) (payments s)")
  case (Some current)
  show ?thesis
  proof (cases "p_status current = p_status p")
    case True
    let ?s2 = "if tx then setProviderTx (p_id p) st (setPayment (p_id p) (\<lambda>r. r\<lparr>p_status := st\<rparr>) s)
      else setPayment (p_id p) (\<lambda>r. r\<lparr>p_status := st\<rparr>) s"
    have "captured pid ?s2"
      by (rule captured_write[OF cap]) (use Some True ok in auto)
    then have "captured pid (fst (paymentEffects cfg (p_orderId p) st ?s2))" by (rule effects_captured)
    moreover have "captured pid (verifyAudit u p q t) = captured pid t" for q t by (simp add: captured_def)
    ultimately show ?thesis
      using Some True by (auto simp: verifyCommit_def Let_def andThen_eq split: sum.splits option.splits)
  next
    case False
    with Some cap show ?thesis by (auto simp: verifyCommit_def)
  qed
qed (use cap in \<open>simp add: verifyCommit_def\<close>)

lemma apply_captured:
  assumes cap: "captured pid s" and ok: "canPayment (p_status p) st"
  shows "captured pid (fst (webhookTransaction (applyWebhookBody cfg p st) s))"
proof -
  have body: "captured pid (fst (applyWebhookBody cfg p st s))"
  proof (cases "rowBy p_id (p_id p) (payments s)")
    case (Some current)
    show ?thesis
    proof (cases "p_status current = p_status p")
      case True
      have "captured pid (setProviderTx (p_id p) st (setPayment (p_id p) (\<lambda>r. r\<lparr>p_status := st\<rparr>) s))"
        by (rule captured_write[OF cap]) (use Some True ok in auto)
      then show ?thesis using Some True by (simp add: applyWebhookBody_def effects_captured)
    qed (use Some cap in \<open>simp add: applyWebhookBody_def\<close>)
  qed (use cap in \<open>simp add: applyWebhookBody_def\<close>)
  have "captured pid (t\<lparr>payments := payments s, providerTxs := pt, orders := os\<rparr>)" for t pt os
    using cap by (simp add: captured_def)
  with body show ?thesis by (auto simp: webhookTransaction_def split: prod.splits sum.splits)
qed

lemma applyWebhook_captured:
  "captured pid s \<Longrightarrow> captured pid (fst (applyWebhook cfg pv ev s))"
  using apply_captured by (auto simp: applyWebhook_def split: option.split)

lemma claim_payments: "payments (fst (claimEvent i pv ev s)) = payments s"
  by (auto simp: claimEvent_def split: option.splits)

lemma parse_payments: "payments (fst (providerParse cfg pe pv hs b raw s)) = payments s"
  by (rule storesOnlyD(3)[OF provider.parse_stores])

lemma webhook_captured:
  assumes cap: "captured pid s"
  shows "captured pid (fst (processWebhook cfg pe now i name hs b raw s))"
proof -
  define s1 where "s1 = auditLog None None ''WEBHOOK_RECEIVED'' ''WebhookEvent'' None s"
  have s1: "captured pid s1" using cap by (simp add: s1_def captured_def)
  have parse: "captured pid (fst (providerParse cfg pe pv hs b raw s1))" for pv
    by (rule captured_cong[OF parse_payments s1])
  have claim: "captured pid (fst (claimEvent i pv ev (fst (providerParse cfg pe pv hs b raw s1))))" for pv ev
    by (rule captured_cong[OF claim_payments parse])
  have fin: "captured pid (finishEvent now i t) = captured pid t" for t
    by (simp add: captured_def finishEvent_def)
  show ?thesis
    using cap s1 parse claim applyWebhook_captured[OF claim]
    by (auto simp: processWebhook_def lift_def andThen_eq Let_def fin s1_def[symmetric]
        split: sum.splits option.splits)
qed

lemma payStep_captured:
  "captured pid s \<Longrightarrow> payEnabled ev s \<Longrightarrow> captured pid (payStep cfg ev s)"
  using answer_captured
  by (cases ev) (auto intro: establish_captured call_captured read_captured commit_captured
      webhook_captured apply_captured simp del: payEnabled.simps(1))

interpretation captured_run: component payEnabled "payStep cfg" "captured pid" for cfg pid
  by unfold_locales (rule payStep_captured)

text \<open>
  A whole creation is a run of these events: nothing, an insertion, or an insertion, the call
  and the answer, which finds the row as it was inserted.
\<close>

lemma create_is_run:
  assumes "createPayment cfg pe e u inp key s = (s1, r)"
  shows "s1 = s \<or> (\<exists>x pv a. s1 = payStep cfg (PvInsert e u inp key x pv) s
    \<or> s1 = runSteps (payStep cfg) [PvInsert e u inp key x pv,
             PvCall pe pv (createRequest (initialPayment e u inp key x pv)),
             PvAnswer u (initialPayment e u inp key x pv) pv a] s)"
proof (cases "\<exists>x pv. rowBy o_id (ci_orderId inp) (orders s) = Some x \<and> o_userId x = u \<and> paymentByKey key s = None
    \<and> registryGet cfg (toUpper (orDefault (ci_provider inp) ''MOCK'')) = Inr pv")
  case True
  then obtain x pv where x: "rowBy o_id (ci_orderId inp) (orders s) = Some x" "o_userId x = u"
    "paymentByKey key s = None" "registryGet cfg (toUpper (orDefault (ci_provider inp) ''MOCK'')) = Inr pv"
    by blast
  let ?p = "initialPayment e u inp key x pv"
  obtain se re where est: "establishPayment ?p u (ci_orderId inp) key s = (se, re)" by fastforce
  obtain sc a where call: "providerCreate cfg pe pv (createRequest ?p) se = (sc, a)" by fastforce
  have "s1 = se \<or> s1 = fst (answerPayment u ?p pv a sc)"
    using assms x est call
    by (auto simp: createPayment_def andThen_eq[of "lift _"] andThen_eq[of "establishPayment _ _ _ _"]
        lift_def Let_def create_is_call_answer split: sum.splits option.splits)
  with est call show ?thesis by (metis fst_conv payStep.simps(1-3) runSteps.simps)
next
  case False
  with assms show ?thesis
    by (auto simp: createPayment_def andThen_eq lift_def split: option.splits if_splits sum.splits)
qed

text \<open>
  C10. A captured payment stays captured through creations, verifications and webhooks, in any
  order of their writes, stale commits of verifications and webhooks included: it can only
  become refunded. The one order of writes left out, which the code does not rule out, is a
  creation whose provider answers after a webhook or a verification has already moved the
  payment on: the answer is then written over the captured status, as the second part says of
  an answer that is an error.
\<close>

theorem captured_payment_stays_captured:
  assumes "rowBy p_id pid (payments s) = Some p" and "p_status p = P_SUCCEEDED"
    and "admissible payEnabled (payStep cfg) evs s"
  shows "\<exists>q. rowBy p_id pid (payments (runSteps (payStep cfg) evs s)) = Some q
    \<and> p_status q \<in> {P_SUCCEEDED, P_REFUNDED}
    \<and> (\<forall>u c pv err. p_id c = pid \<longrightarrow>
         rowBy p_id pid (payments (fst (answerPayment u c pv (Inl err) (runSteps (payStep cfg) evs s)))) =
           Some (q\<lparr>p_status := P_FAILED\<rparr>))"
proof -
  have "captured pid s" using assms(1,2) by (simp add: captured_def)
  from captured_run.run_keeps[OF this assms(3)] show ?thesis
    by (auto simp: captured_def answerPayment_def rows)
qed

theorem captured_payment_stays_captured_witness:
  "\<exists>q. rowBy p_id ''pay'' (payments (runSteps (payStep demo_cfg)
       [PvCommit ''u'' demo_deposit P_FAILED False, PvApply demo_deposit P_FAILED,
        PvRead demo_penv ''pay'' ''u'' False no_params] demo_cancelled_paid)) = Some q
     \<and> p_status q \<in> {P_SUCCEEDED, P_REFUNDED}"
proof -
  have "rowBy p_id ''pay'' (payments demo_cancelled_paid) = Some demo_payment" "p_status demo_payment = P_SUCCEEDED"
    by (simp_all add: demo_cancelled_paid_def demo_payment_def)
  moreover have "admissible payEnabled (payStep demo_cfg)
      [PvCommit ''u'' demo_deposit P_FAILED False, PvApply demo_deposit P_FAILED,
       PvRead demo_penv ''pay'' ''u'' False no_params] demo_cancelled_paid"
    by (simp add: canPayment_def demo_deposit_def)
  ultimately show ?thesis using captured_payment_stays_captured by blast
qed

text \<open>
  So does an answer that is not an error, unless storing it fails: a provider that answers
  PENDING takes a captured payment back to PENDING.
\<close>

lemma late_answer_overwrites:
  assumes row: "rowBy p_id (p_id c) (payments s) = Some q"
    and stored: "snd (persistPayment u c pv resp s) = Inr (c', dup)" "p_providerPaymentId c = None"
      "p_providerPaymentId c' \<noteq> None"
  shows "rowBy p_id (p_id c) (payments (fst (answerPayment u c pv (Inr resp) s))) =
    Some (q\<lparr>p_providerPaymentId := Some (pr_providerPaymentId resp), p_status := pr_status resp\<rparr>)"
proof -
  obtain s1 where "persistPayment u c pv resp s = (s1, Inr (c', dup))"
    using stored(1) by (metis prod.collapse)
  with persist_cases[OF this] stored(2,3) row show ?thesis by (auto simp: answerPayment_def rows)
qed

subsection \<open>Webhook events\<close>

lemma claim_found:
  assumes "findEvent (providerId pv) (we_eventId ev) s = Some w"
  shows "\<exists>r. snd (claimEvent i pv ev s) = Inr (Some r) \<and> wr_duplicate r \<and> wr_outcome r \<noteq> Processed"
    and "\<exists>au. fst (claimEvent i pv ev s) = s\<lparr>audits := au\<rparr>"
proof -
  show "\<exists>au. fst (claimEvent i pv ev s) = s\<lparr>audits := au\<rparr>"
    using assms by (cases "w_processed w") (auto simp: claimEvent_def auditLog_def intro: exI[of _ "audits s"])
qed (use assms in \<open>auto simp: claimEvent_def\<close>)

lemma claim_new:
  assumes "snd (claimEvent i pv ev s) = Inr None"
  shows "\<exists>w. findEvent (providerId pv) (we_eventId ev) (fst (claimEvent i pv ev s)) = Some w"
  using assms by (auto simp: claimEvent_def findEvent_def rows split: option.splits if_splits)

lemma find_setBy:
  "(\<And>w. P (f w) = P w) \<Longrightarrow> (find P (setBy key k f ws) \<noteq> None) = (find P ws \<noteq> None)"
  by (induction ws) auto

lemma findEvent_finish:
  "(findEvent prov ev (finishEvent now i s) \<noteq> None) = (findEvent prov ev s \<noteq> None)"
proof -
  have w: "webhookEvents (finishEvent now i s) =
      setBy w_id i (\<lambda>w. w\<lparr>w_processed := True, w_processedAt := Some now\<rparr>) (webhookEvents s)"
    by (simp add: finishEvent_def)
  show ?thesis unfolding findEvent_def w by (rule find_setBy) simp
qed

lemma applyWebhook_events: "webhookEvents (fst (applyWebhook cfg pv ev s)) = webhookEvents s"
  by (auto simp: applyWebhook_def webhookTransaction_def applyWebhookBody_def
      split: option.splits prod.splits sum.splits)
    (metis fst_conv paymentEffects_frame(2) setPayment_frame(5) setProviderTx_frame(5))+

text \<open>
  C17. A webhook event is applied at most once: after a delivery that got as far as claiming
  its event - whether the processing then succeeded or threw - the event is on record, and
  every later delivery that parses to it is answered as a duplicate and changes nothing but
  the audit log and the provider's own store. An event whose processing threw is therefore
  never applied: its redeliveries are told that it is being processed.
\<close>

theorem webhook_applied_at_most_once:
  assumes parse1: "providerParse cfg pe pv hs b raw s = (s0, Inr ev)"
    and claim: "claimEvent i pv ev s0 = (s1, Inr None)"
    and after: "s2 = fst (applyWebhook cfg pv ev s1) \<or> s2 = finishEvent now i (fst (applyWebhook cfg pv ev s1))"
    and later: "registryGet cfg name = Inr pv" "providerSignature cfg pe' pv hs' raw'"
    and parse2: "snd (providerParse cfg pe' pv hs' b' raw'
      (auditLog None None ''WEBHOOK_RECEIVED'' ''WebhookEvent'' None s2)) = Inr ev'"
    and same: "we_eventId ev' = we_eventId ev"
  shows "\<exists>r s3 au. processWebhook cfg pe' now' i' name hs' b' raw' s2 = (s3, Inr r)
    \<and> wr_duplicate r \<and> wr_outcome r \<noteq> Processed
    \<and> s3 = s2\<lparr>audits := au, mockStore := mockStore s3, ngnStore := ngnStore s3\<rparr>"
proof -
  have "findEvent (providerId pv) (we_eventId ev) s1 \<noteq> None"
    using claim_new[of i pv ev s0] claim by auto
  then have rec: "findEvent (providerId pv) (we_eventId ev) s2 \<noteq> None"
    using after applyWebhook_events[of cfg pv ev s1] findEvent_finish
    by (auto simp: findEvent_def finishEvent_def find_setBy)
  define t where "t = auditLog None None ''WEBHOOK_RECEIVED'' ''WebhookEvent'' None s2"
  obtain t1 where p2: "providerParse cfg pe' pv hs' b' raw' t = (t1, Inr ev')"
    using parse2 unfolding t_def by (metis prod.collapse)
  have t1: "storesOnly t t1" using provider.parse_stores[of t cfg pe' pv hs' b' raw'] p2 by simp
  have "findEvent (providerId pv) (we_eventId ev') t1 = findEvent (providerId pv) (we_eventId ev) s2"
    using storesOnlyD(11)[OF t1] same by (simp add: findEvent_def t_def)
  with rec obtain w where w: "findEvent (providerId pv) (we_eventId ev') t1 = Some w" by auto
  obtain r where r: "snd (claimEvent i' pv ev' t1) = Inr (Some r)" "wr_duplicate r" "wr_outcome r \<noteq> Processed"
    using claim_found(1)[OF w] by blast
  obtain au where au: "fst (claimEvent i' pv ev' t1) = t1\<lparr>audits := au\<rparr>" using claim_found(2)[OF w] by blast
  have run: "processWebhook cfg pe' now' i' name hs' b' raw' s2 = (t1\<lparr>audits := au\<rparr>, Inr r)"
    using later p2 r(1) au by (simp add: processWebhook_def lift_def andThen_eq Let_def t_def)
  have "t1\<lparr>audits := au\<rparr> = s2\<lparr>audits := au, mockStore := mockStore t1, ngnStore := ngnStore t1\<rparr>"
    by (subst t1[unfolded storesOnly_def]) (simp add: t_def auditLog_def)
  with run r show ?thesis by (intro exI[of _ r] exI[of _ "t1\<lparr>audits := au\<rparr>"] exI[of _ au]) simp
qed

definition demo_headers :: headers where
  "demo_headers = (\<lambda>n. if n = ''x-ngn-signature'' then Some (One ''ngn_valid_signature'') else None)"

definition demo_body :: webhook_body where
  "demo_body = \<lparr>wb_event_id = Some ''evt'', wb_eventId = None, wb_id = None, wb_event_type = None,
     wb_eventType = None, wb_event = None, wb_status = Some ''FAILED'', wb_providerPaymentId = None,
     wb_data_id = None, wb_data_status = None, wb_data_provider_payment_id = None,
     wb_data_providerPaymentId = None, wb_data_reference = Some ''ref'', wb_data_paid_at = None,
     wb_data_createdAt = None, wb_data_amount = None, wb_stringified = ''{}''\<rparr>"

definition demo_event :: webhook_payload where
  "demo_event = \<lparr>we_eventId = ''evt'', we_eventType = ''charge.success'', we_providerPaymentId = Some ''ref'',
     we_status = P_SUCCEEDED\<rparr>"

lemma demo_parse:
  assumes "ngnStore s = empty_store"
  shows "providerParse demo_cfg demo_penv NgnProv demo_headers demo_body raw s = (s, Inr demo_event)"
  using assms
  by (simp add: ngnParse_def ngnSignature_def firstHeader_def demo_headers_def demo_body_def demo_event_def
      orElse_def orDefault_def storeFind_def empty_store_def ngnWebhookStatus_def Let_def)

theorem webhook_applied_at_most_once_witness:
  "\<exists>r s3 au. processWebhook demo_cfg demo_penv 9 ''w2'' ''NGN'' demo_headers demo_body ''{}''
       (fst (applyWebhook demo_cfg NgnProv demo_event (fst (claimEvent ''w'' NgnProv demo_event empty_sys)))) = (s3, Inr r)
    \<and> wr_duplicate r \<and> wr_outcome r \<noteq> Processed
    \<and> s3 = (fst (applyWebhook demo_cfg NgnProv demo_event (fst (claimEvent ''w'' NgnProv demo_event empty_sys))))
        \<lparr>audits := au, mockStore := mockStore s3, ngnStore := ngnStore s3\<rparr>"
proof -
  let ?s1 = "fst (claimEvent ''w'' NgnProv demo_event empty_sys)"
  have e: "ngnStore empty_sys = empty_store" by (simp add: empty_sys_def)
  have claim: "claimEvent ''w'' NgnProv demo_event empty_sys = (?s1, Inr None)"
    by (simp add: prod_eq_iff claimEvent_def findEvent_def empty_sys_def)
  have reg: "registryGet demo_cfg ''NGN'' = Inr NgnProv"
    by (simp add: registryGet_def toUpper_def upper_char_def demo_cfg_def)
  have sig: "providerSignature demo_cfg demo_penv NgnProv demo_headers ''{}''"
    by (simp add: ngnSignature_def firstHeader_def demo_headers_def)
  have "ngnStore (fst (applyWebhook demo_cfg NgnProv demo_event ?s1)) = empty_store"
    by (simp add: applyWebhook_def webhookPayment_def claimEvent_def findEvent_def empty_sys_def demo_event_def)
  then have p2: "snd (providerParse demo_cfg demo_penv NgnProv demo_headers demo_body ''{}''
      (auditLog None None ''WEBHOOK_RECEIVED'' ''WebhookEvent'' None
        (fst (applyWebhook demo_cfg NgnProv demo_event ?s1)))) = Inr demo_event"
    by (simp add: demo_parse del: providerParse.simps)
  show ?thesis
    by (rule webhook_applied_at_most_once[OF demo_parse[OF e, of "''{}''"] claim _ reg sig p2 refl]) simp
qed

subsection \<open>What the sandbox paths let through\<close>

lemma orderPaid_awaiting:
  assumes "rowBy o_id i (orders s) = Some x" and "hasValidWallet x"
    and "o_status x \<notin> {O_COMPLETED, O_SETTLEMENT_COMPLETED, O_SETTLEMENT_PENDING, O_CANCELLED, O_REFUNDED}"
  shows "rowBy o_id i (orders (orderPaid i s)) = Some (x\<lparr>o_status := O_SETTLEMENT_PENDING\<rparr>)"
  using assms by (auto simp: orderPaid_def rows)

text \<open>
  A user pays without paying: the verification route hands the request body to the
  provider, and the NGN provider takes \<open>simulateSuccess\<close> from it. In sandbox mode, whatever
  the environment, the owner of an open NGN payment makes it succeed, and the order with a
  wallet goes to settlement.
\<close>

theorem client_declares_payment_succeeded:
  assumes p: "rowBy p_id paymentId (payments s) = Some p" and own: "p_userId p = userId"
    and ngn: "p_provider p = ''NGN_BANK_TRANSFER''" "ngnProvider cfg = ''sandbox''"
    and open_: "p_status p \<in> {P_CREATED, P_PENDING, P_PROCESSING}" and body: "vp_simulateSuccess body"
    and x: "rowBy o_id (p_orderId p) (orders s) = Some x" "hasValidWallet x" "o_status x = O_AWAITING_PAYMENT"
  shows "\<exists>s1 q. verifyRoute cfg pe paymentId userId USER body s = (s1, Inr q) \<and> p_status q = P_SUCCEEDED
    \<and> rowBy o_id (p_orderId p) (orders s1) = Some (x\<lparr>o_status := O_SETTLEMENT_PENDING\<rparr>)"
proof -
  have pid: "p_id p = paymentId" using rowBy_SomeD[OF p] by simp
  have reg: "registryGet cfg (p_provider p) = Inr NgnProv"
    by (simp add: registryGet_def ngn toUpper_def upper_char_def)
  let ?k = "orDefault (p_providerPaymentId p) (p_reference p)"
  have st: "pr_status (snd (ngnVerify ?k body (ngnStore s))) = P_SUCCEEDED"
    using body by (simp add: ngnVerify_status ngnVerifyStatus_def)
  have ok: "canPayment (p_status p) P_SUCCEEDED" using open_ by (auto simp: canPayment_def)
  define s0 where "s0 = s\<lparr>ngnStore := fst (ngnVerify ?k body (ngnStore s))\<rparr>"
  define tx where "tx = (rowBy pt_paymentId (p_id p) (providerTxs s) \<noteq> None)"
  have read: "verifyRead cfg pe paymentId userId False body s = (s0, Inr (p, P_SUCCEEDED, tx))"
    using p own reg st ok
    by (cases "ngnVerify ?k body (ngnStore s)")
      (simp add: verifyRead_def getPaymentById_def andThen_eq lift_def Let_def validatePaymentTransition_def
        s0_def tx_def pid)
  define s2 where "s2 = (if tx then setProviderTx (p_id p) P_SUCCEEDED
      (setPayment (p_id p) (\<lambda>r. r\<lparr>p_status := P_SUCCEEDED\<rparr>) s0)
    else setPayment (p_id p) (\<lambda>r. r\<lparr>p_status := P_SUCCEEDED\<rparr>) s0)"
  have row2: "rowBy p_id paymentId (payments s2) = Some (p\<lparr>p_status := P_SUCCEEDED\<rparr>)"
    using p by (simp add: s2_def s0_def pid rows)
  have ord2: "orders s2 = orders s"
    by (simp add: s2_def s0_def)
  let ?s3 = "orderPaid (p_orderId p) (fst (confirmReservation (p_orderId p) s2))"
  have commit: "verifyCommit cfg userId (p, P_SUCCEEDED, tx) s0 =
      (verifyAudit userId p (p\<lparr>p_status := P_SUCCEEDED\<rparr>) ?s3, Inr (p\<lparr>p_status := P_SUCCEEDED\<rparr>))"
  proof -
    have eff: "paymentEffects cfg (p_orderId p) P_SUCCEEDED s2 = (?s3, Inr ())"
      by (rule paymentEffects_succeeded)
    have row3: "rowBy p_id paymentId (payments ?s3) = Some (p\<lparr>p_status := P_SUCCEEDED\<rparr>)"
      using row2 by simp
    have row0: "rowBy p_id paymentId (payments s0) = Some p" using p by (simp add: s0_def)
    show ?thesis
      unfolding verifyCommit_def Let_def prod.case s2_def[symmetric]
      using row0 row3 by (simp add: andThen_eq eff pid)
  qed
  have "rowBy o_id (p_orderId p) (orders ?s3) = Some (x\<lparr>o_status := O_SETTLEMENT_PENDING\<rparr>)"
    using x by (intro orderPaid_awaiting) (simp_all add: ord2)
  with read commit show ?thesis
    by (simp add: verifyRoute_def adminRole_def verifyPayment_def andThen_eq)
qed

theorem client_declares_payment_succeeded_witness:
  "\<exists>s1 q. verifyRoute demo_cfg demo_penv ''pay'' ''u'' USER (no_params\<lparr>vp_simulateSuccess := True\<rparr>) demo_awaiting = (s1, Inr q)
     \<and> p_status q = P_SUCCEEDED"
proof -
  let ?x = "demo_order ''u'' ''o'' (demo_dto\<lparr>d_walletAddress := Some ''GWALLET''\<rparr>)\<lparr>o_status := O_AWAITING_PAYMENT\<rparr>"
  have "rowBy p_id ''pay'' (payments demo_awaiting) = Some demo_deposit" "p_userId demo_deposit = ''u''"
    "p_provider demo_deposit = ''NGN_BANK_TRANSFER''" "ngnProvider demo_cfg = ''sandbox''"
    "p_status demo_deposit \<in> {P_CREATED, P_PENDING, P_PROCESSING}"
    "vp_simulateSuccess (no_params\<lparr>vp_simulateSuccess := True\<rparr>)"
    "rowBy o_id (p_orderId demo_deposit) (orders demo_awaiting) = Some ?x"
    "hasValidWallet ?x" "o_status ?x = O_AWAITING_PAYMENT"
    by (simp_all add: pay_defs demo_cfg_def hasValidWallet_def trim_def is_space_def)
  from client_declares_payment_succeeded[OF this, of demo_penv] show ?thesis by blast
qed

text \<open>
  C22. Webhook authenticity. A Paystack webhook is accepted only with the HMAC of exactly the
  received bytes under a configured secret. The NGN adapter, always registered, also accepts
  a constant signature whatever the secret, and reads a body without an event type as a
  success, even when its status says FAILED.
\<close>

theorem webhook_authenticity:
  shows "(providerSignature cfg pe PaystackProv hs raw \<longrightarrow>
      (\<exists>h secret. firstHeader hs [''x-paystack-signature'', ''X-Paystack-Signature'', ''x-ngn-signature'', ''X-NGN-Signature''] = Some h
        \<and> secret \<noteq> [] \<and> (Some secret = pe_paystackSecret pe \<or> secret = paystackSecretKey cfg)
        \<and> headerValue h = Some (pe_hmac pe secret raw)))
    \<and> (hs ''x-ngn-signature'' = Some (One ''ngn_valid_signature'') \<longrightarrow>
        providerSignature cfg pe NgnProv hs raw
        \<and> (\<exists>s1 ev. providerParse cfg pe NgnProv hs b raw s = (s1, Inr ev)
            \<and> we_providerPaymentId ev = orElse (wb_data_provider_payment_id b)
                (orElse (wb_data_providerPaymentId b) (orElse (wb_data_reference b) (wb_providerPaymentId b)))
            \<and> (wb_event_type b = None \<and> wb_event b = None \<longrightarrow> we_status ev = P_SUCCEEDED)))"
proof (intro conjI impI)
  assume acc: "providerSignature cfg pe PaystackProv hs raw"
  then obtain h where h: "firstHeader hs [''x-paystack-signature'', ''X-Paystack-Signature'', ''x-ngn-signature'',
      ''X-NGN-Signature''] = Some h" "truthy (headerValue h)"
    "orDefault (pe_paystackSecret pe) (paystackSecretKey cfg) \<noteq> []"
    "pe_hmac pe (orDefault (pe_paystackSecret pe) (paystackSecretKey cfg)) raw = the (headerValue h)"
    by (auto simp: paystackSignature_def Let_def split: option.splits if_splits)
  then show "\<exists>h secret. firstHeader hs [''x-paystack-signature'', ''X-Paystack-Signature'', ''x-ngn-signature'', ''X-NGN-Signature''] = Some h
        \<and> secret \<noteq> [] \<and> (Some secret = pe_paystackSecret pe \<or> secret = paystackSecretKey cfg)
        \<and> headerValue h = Some (pe_hmac pe secret raw)"
    by (intro exI[of _ h] exI[of _ "orDefault (pe_paystackSecret pe) (paystackSecretKey cfg)"])
      (auto simp: truthy_iff orDefault_def split: option.splits)
next
  assume "hs ''x-ngn-signature'' = Some (One ''ngn_valid_signature'')"
  then have sig: "ngnSignature pe hs r" for r by (simp add: ngnSignature_def firstHeader_def)
  then show "providerSignature cfg pe NgnProv hs raw" by simp
  show "\<exists>s1 ev. providerParse cfg pe NgnProv hs b raw s = (s1, Inr ev)
      \<and> we_providerPaymentId ev = orElse (wb_data_provider_payment_id b)
          (orElse (wb_data_providerPaymentId b) (orElse (wb_data_reference b) (wb_providerPaymentId b)))
      \<and> (wb_event_type b = None \<and> wb_event b = None \<longrightarrow> we_status ev = P_SUCCEEDED)"
    using sig by (simp add: ngnParse_def Let_def orElse_def orDefault_def ngnWebhookStatus_def)
qed

theorem webhook_authenticity_witness:
  "providerSignature (demo_cfg\<lparr>paystackSecretKey := ''sk_live''\<rparr>) demo_penv NgnProv demo_headers ''{}''"
proof -
  have "demo_headers ''x-ngn-signature'' = Some (One ''ngn_valid_signature'')" by (simp add: demo_headers_def)
  with webhook_authenticity[of _ demo_penv demo_headers "''{}''"] show ?thesis by blast
qed

definition demo_expired :: sys where
  "demo_expired = empty_sys\<lparr>reservations := [(demo_resv V_EXPIRED_RELEASED)\<lparr>v_orderId := ''o''\<rparr>],
     orders := [demo_order ''u'' ''o'' (demo_dto\<lparr>d_walletAddress := Some ''GWALLET''\<rparr>)\<lparr>o_status := O_EXPIRED\<rparr>]\<rparr>"

text \<open>
  C30. A late success reopens a closed order: when a payment succeeds after its order expired,
  failed or entered the refund path, the order still goes to settlement, which the status
  machine forbids, while its released reservation stays released - settling it books nothing.
\<close>

theorem late_payment_reopens_order:
  assumes x: "rowBy o_id orderId (orders s) = Some x" "hasValidWallet x"
    and closed: "o_status x \<in> {O_EXPIRED, O_FAILED, O_REFUND_PENDING, O_REFUND_FAILED}"
    and v: "rowBy v_orderId orderId (reservations s) = Some v" "\<not> active (v_status v)"
    and run: "paymentEffects cfg orderId P_SUCCEEDED s = (s1, r)"
  shows "r = Inr () \<and> rowBy o_id orderId (orders s1) = Some (x\<lparr>o_status := O_SETTLEMENT_PENDING\<rparr>)
    \<and> \<not> canOrder (o_status x) O_SETTLEMENT_PENDING
    \<and> consumeReservation cfg now orderId ref h s1 = (s1, Inr (Some v))"
proof -
  have s1: "s1 = orderPaid orderId (fst (confirmReservation orderId s))" "r = Inr ()"
    using run paymentEffects_succeeded[of cfg orderId s] by simp_all
  have "rowBy o_id orderId (orders s1) = Some (x\<lparr>o_status := O_SETTLEMENT_PENDING\<rparr>)"
    unfolding s1(1) by (rule orderPaid_awaiting) (use x closed in auto)
  moreover have "\<not> canOrder (o_status x) O_SETTLEMENT_PENDING"
    using closed by (auto simp: canOrder_def)
  moreover have "reservations (fst (confirmReservation orderId s)) = reservations s"
    using v by (auto simp: confirmReservation_eq confirmReservationInTx_def active_iff)
  then have "consumeReservation cfg now orderId ref h s1 = (s1, Inr (Some v))"
    using v by (intro consume_inactive) (simp_all add: s1(1))
  ultimately show ?thesis using s1(2) by blast
qed

theorem late_payment_reopens_order_witness:
  "\<exists>s1. paymentEffects demo_cfg ''o'' P_SUCCEEDED demo_expired = (s1, Inr ())
     \<and> (\<exists>x. rowBy o_id ''o'' (orders s1) = Some x \<and> o_status x = O_SETTLEMENT_PENDING)"
proof -
  let ?x = "demo_order ''u'' ''o'' (demo_dto\<lparr>d_walletAddress := Some ''GWALLET''\<rparr>)\<lparr>o_status := O_EXPIRED\<rparr>"
  let ?v = "(demo_resv V_EXPIRED_RELEASED)\<lparr>v_orderId := ''o''\<rparr>"
  have "rowBy o_id ''o'' (orders demo_expired) = Some ?x" "hasValidWallet ?x"
    "o_status ?x \<in> {O_EXPIRED, O_FAILED, O_REFUND_PENDING, O_REFUND_FAILED}"
    "rowBy v_orderId ''o'' (reservations demo_expired) = Some ?v" "\<not> active (v_status ?v)"
    by (simp_all add: demo_expired_def pay_defs hasValidWallet_def trim_def is_space_def demo_resv_def)
  note late = late_payment_reopens_order[OF this]
  obtain s1 r where run: "paymentEffects demo_cfg ''o'' P_SUCCEEDED demo_expired = (s1, r)" by fastforce
  from late[OF run] run show ?thesis by auto
qed

end
