(* ===== verification/Refunds.thy ===== *)
theory Refunds
  imports PaymentProps
begin

text \<open>
  Refunds: \<^verbatim>\<open>refunds.service.ts\<close> and \<^verbatim>\<open>refunds.controller.ts\<close>. Both operations are split where
  another request may run in between: \<open>createRefund\<close> into its reads (\<open>refundPlan\<close>, made under a
  lock of the order's row and of no other) and its writes (\<open>openRefund\<close>), \<open>executeRefund\<close> into the reads (\<open>executeRead\<close>), the optimistic claim
  (\<open>executeClaim\<close>), the provider call (\<open>executeCall\<close>) and the writes (\<open>executeSettle\<close>). The
  distributed lock enters as what the code sees of it: how the acquisition ended and what
  \<open>isOwned\<close> answered at the two places that ask.
\<close>

subsection \<open>Creating a refund\<close>

text \<open>
  The amount of the request: absent (undefined or empty), a string \<open>new Decimal\<close> refuses
  (\<open>Some None\<close>), or the number it denotes.
\<close>

record refund_input =
  ri_orderId :: id
  ri_paymentId :: "id option"
  ri_amount :: "rat option option"
  ri_reason :: string
  ri_idempotencyKey :: "string option"

record refund_env =
  fe_now :: time
  fe_stamp :: string
  fe_refundId :: id

definition userRefundStates :: "order_status list" where
  "userRefundStates = [O_FAILED, O_EXPIRED, O_CANCELLED, O_REFUND_FAILED, O_REFUND_PENDING]"

definition blocksRefund :: "settlement_status \<Rightarrow> bool" where
  "blocksRefund st = (st = S_SUBMITTING \<or> st = S_SUBMITTED \<or> st = S_CONFIRMING
     \<or> st = S_REQUIRES_RECONCILIATION \<or> st = S_COMPLETED)"

definition settlementsOf :: "id \<Rightarrow> sys \<Rightarrow> settlement list" where
  "settlementsOf orderId s = filter (\<lambda>t. s_orderId t = orderId) (settlements s)"

definition refundPayment :: "refund_input \<Rightarrow> payment list \<Rightarrow> payment option" where
  "refundPayment inp ps =
     (if truthy (ri_paymentId inp) then find (\<lambda>p. p_id p = the (ri_paymentId inp)) ps
      else case find (\<lambda>p. p_status p = P_SUCCEEDED) ps of
        Some p \<Rightarrow> Some p
      | None \<Rightarrow> (case ps of [] \<Rightarrow> None | p # _ \<Rightarrow> Some p))"

definition countsAsRefund :: "refund_status \<Rightarrow> bool" where
  "countsAsRefund st = (st = R_PENDING \<or> st = R_PROCESSING \<or> st = R_SUCCEEDED)"

definition alreadyRefunded :: "id \<Rightarrow> sys \<Rightarrow> int" where
  "alreadyRefunded orderId s =
     sum_list (map r_amount (filter (\<lambda>r. r_orderId r = orderId \<and> countsAsRefund (r_status r)) (refunds s)))"

definition refundAmount :: "refund_input \<Rightarrow> int \<Rightarrow> int \<Rightarrow> app_error + rat" where
  "refundAmount inp paid refunded =
     (if paid - refunded \<le> 0 then Inl (BadRequestError ''Order has already been fully refunded'')
      else case (case ri_amount inp of None \<Rightarrow> Some (ofColumn 4 (paid - refunded)) | Some a \<Rightarrow> a) of
        None \<Rightarrow> Inl (PlainError ''[DecimalError] Invalid argument'')
      | Some a \<Rightarrow>
          if a \<le> 0 then Inl (BadRequestError ''Refund amount must be a positive number.'')
          else if ofColumn 4 refunded + a > ofColumn 4 paid
          then Inl (BadRequestError ''Requested refund amount exceeds remaining refundable payment balance'')
          else Inr a)"

definition newRefund ::
  "refund_env \<Rightarrow> id \<Rightarrow> refund_input \<Rightarrow> string \<Rightarrow> order \<Rightarrow> payment \<Rightarrow> rat \<Rightarrow> refund" where
  "newRefund e userId inp key x p a =
     \<lparr>r_id = fe_refundId e, r_orderId = o_id x, r_paymentId = Some (p_id p), r_userId = o_userId x,
      r_amount = toColumn 4 a, r_currency = orDefault (Some (p_currency p)) ''NGN'',
      r_reason = orDefault (Some (ri_reason inp)) ''Requested refund'', r_status = R_PENDING,
      r_idempotencyKey = key, r_providerRefundId = None, r_providerReference = None,
      r_failureReason = None, r_ambiguousResponse = False, r_ambiguousNetworkFailure = False,
      r_initiatedBy = userId, r_completedAt = None, r_failedAt = None\<rparr>"

definition insertRefund :: "refund \<Rightarrow> unit op" where
  "insertRefund r s =
     (if rowBy r_id (r_id r) (refunds s) \<noteq> None
         \<or> rowBy r_idempotencyKey (r_idempotencyKey r) (refunds s) \<noteq> None
      then (s, Inl PrismaP2002) else (s\<lparr>refunds := refunds s @ [r]\<rparr>, Inr ()))"

text \<open>Step 5: the status check, the order update and the insertion.\<close>

definition openRefund :: "id \<Rightarrow> order \<Rightarrow> refund \<Rightarrow> (refund \<times> bool) op" where
  "openRefund userId x r =
     andThen (validateOrderTransition (o_status x) O_REFUND_PENDING) (\<lambda>_ s.
     andThen (insertRefund r) (\<lambda>_ s2.
       (auditLog (Some userId) (Some (o_userId x)) ''REFUND_CREATED'' ''Refund'' (Some (r_id r)) s2,
        Inr (r, False)))
       (setOrder (o_id x) (\<lambda>y. y\<lparr>o_status := O_REFUND_PENDING\<rparr>) s))"

text \<open>The guards before the payment is looked at.\<close>

definition refundRefused :: "id \<Rightarrow> bool \<Rightarrow> order \<Rightarrow> sys \<Rightarrow> app_error option" where
  "refundRefused userId isAdmin x s =
     (if \<not> isAdmin \<and> o_userId x \<noteq> userId
      then Some (ForbiddenError ''Unauthorized access to this order for refund creation.'')
      else if \<not> isAdmin \<and> o_status x \<notin> set userRefundStates
      then Some (ForbiddenError ''Regular users may only request refunds for failed, expired, or cancelled orders'')
      else if o_status x = O_COMPLETED \<or> o_status x = O_SETTLEMENT_COMPLETED
      then Some (BadRequestError ''Cannot refund an order that has already been successfully settled.'')
      else if \<exists>t \<in> set (settlementsOf (o_id x) s). blocksRefund (s_status t)
      then Some (BadRequestError ''Cannot initiate refund: an active or completed settlement exists'')
      else None)"

definition refundKey :: "refund_env \<Rightarrow> refund_input \<Rightarrow> string option \<Rightarrow> string" where
  "refundKey e inp header =
     orDefault (orElse (ri_idempotencyKey inp) header) (''REF_KEY_'' @ ri_orderId inp @ ''_'' @ fe_stamp e)"

text \<open>Steps 1 to 4, the reads: the refund there is under the key, or the order and the row to insert.\<close>

definition refundPlan ::
  "refund_env \<Rightarrow> id \<Rightarrow> refund_input \<Rightarrow> bool \<Rightarrow> string option \<Rightarrow> sys \<Rightarrow> app_error + (refund + order \<times> refund)" where
  "refundPlan e userId inp isAdmin header s =
     (case rowBy o_id (ri_orderId inp) (orders s) of
        None \<Rightarrow> Inl (NotFoundError ''Order not found'')
      | Some x \<Rightarrow>
          (case refundRefused userId isAdmin x s of
             Some err \<Rightarrow> Inl err
           | None \<Rightarrow>
               (case refundPayment inp (paymentsOf (o_id x) s) of
                  None \<Rightarrow> Inl (BadRequestError ''No eligible payment record found'')
                | Some p \<Rightarrow>
                    let key = refundKey e inp header in
                    (case rowBy r_idempotencyKey key (refunds s) of
                       Some old \<Rightarrow>
                         if \<not> isAdmin \<and> r_userId old \<noteq> userId
                         then Inl (ConflictError ''Idempotency key has already been used for another refund request.'')
                         else Inr (Inl old)
                     | None \<Rightarrow>
                         (case refundAmount inp (p_amount p) (alreadyRefunded (o_id x) s) of
                            Inl err \<Rightarrow> Inl err
                          | Inr a \<Rightarrow> Inr (Inr (x, newRefund e userId inp key x p a)))))))"

definition createRefundBody ::
  "refund_env \<Rightarrow> id \<Rightarrow> refund_input \<Rightarrow> bool \<Rightarrow> string option \<Rightarrow> (refund \<times> bool) op" where
  "createRefundBody e userId inp isAdmin header s =
     (case refundPlan e userId inp isAdmin header s of
        Inl err \<Rightarrow> (s, Inl err)
      | Inr (Inl old) \<Rightarrow> (s, Inr (old, True))
      | Inr (Inr (x, r)) \<Rightarrow> openRefund userId x r s)"

definition createRefund ::
  "refund_env \<Rightarrow> id \<Rightarrow> refund_input \<Rightarrow> bool \<Rightarrow> string option \<Rightarrow> (refund \<times> bool) op" where
  "createRefund e userId inp isAdmin header = inTransaction (createRefundBody e userId inp isAdmin header)"

subsection \<open>Executing a refund\<close>

text \<open>The lock as the code sees it: the error of the acquisition, and whether the lock was absent or still owned at the two checks.\<close>

record refund_lock =
  rl_error :: "app_error option"
  rl_first :: bool
  rl_second :: bool

type_synonym loaded = "refund \<times> order \<times> payment option"

datatype refund_gate = Done refund | Go loaded

text \<open>\<open>findUnique\<close> with the order, which the schema requires, and the payment.\<close>

definition loadRefund :: "id \<Rightarrow> sys \<Rightarrow> app_error + loaded option" where
  "loadRefund rid s =
     (case rowBy r_id rid (refunds s) of
        None \<Rightarrow> Inr None
      | Some r \<Rightarrow>
          (case rowBy o_id (r_orderId r) (orders s) of
             None \<Rightarrow> Inl (PlainError ''Inconsistent query result: Field order is required to return data'')
           | Some x \<Rightarrow> Inr (Some (r, x, Option.bind (r_paymentId r) (\<lambda>i. rowBy p_id i (payments s))))))"

definition lockLost :: app_error where
  "lockLost = PlainError ''Distributed lock lost for refund''"

definition executeRead :: "id \<Rightarrow> bool \<Rightarrow> refund_gate op" where
  "executeRead rid owned =
     andThen (\<lambda>s. (s, loadRefund rid s)) (\<lambda>found.
       case found of
         None \<Rightarrow> throw RefundNotFoundError
       | Some (r, x, p) \<Rightarrow>
           if isTerminalRefund (r_status r) then ret (Done r)
           else if r_status r = R_PROCESSING \<and> (r_ambiguousResponse r \<or> r_ambiguousNetworkFailure r)
           then ret (Done r)
           else if \<not> owned then throw lockLost
           else andThen (validateRefundTransition (r_status r) R_PROCESSING) (\<lambda>_. ret (Go (r, x, p))))"

definition setRefund :: "id \<Rightarrow> (refund \<Rightarrow> refund) \<Rightarrow> sys \<Rightarrow> sys" where
  "setRefund rid f s = s\<lparr>refunds := setBy r_id rid f (refunds s)\<rparr>"

text \<open>The optimistic update: it matches the row only while it has the status that was read.\<close>

definition executeClaim :: "refund_gate \<Rightarrow> refund_gate op" where
  "executeClaim g s =
     (case g of
        Done r \<Rightarrow> (s, Inr (Done r))
      | Go (r, x, p) \<Rightarrow>
          (case rowBy r_id (r_id r) (refunds s) of
             None \<Rightarrow> (s, Inl PrismaP2025)
           | Some now \<Rightarrow>
               if r_status now \<noteq> r_status r then (s, Inr (Done now))
               else
                 let s1 = setRefund (r_id r) (\<lambda>y. y\<lparr>r_status := R_PROCESSING\<rparr>) s in
                 (case loadRefund (r_id r) s1 of
                    Inl err \<Rightarrow> (s1, Inl err)
                  | Inr None \<Rightarrow> (s1, Inl PrismaP2025)
                  | Inr (Some c) \<Rightarrow> (s1, Inr (Go c)))))"

definition refundRequest :: "loaded \<Rightarrow> refund_request" where
  "refundRequest c =
     (let (r, x, p) = c in
      \<lparr>rq_paymentReference =
         orDefault (orElse (Option.bind p p_providerPaymentId) (map_option p_reference p)) (r_orderId r),
       rq_amount = ofColumn 4 (r_amount r), rq_currency = r_currency r, rq_reason = r_reason r\<rparr>)"

definition refundProvider :: "config \<Rightarrow> payment option \<Rightarrow> app_error + provider" where
  "refundProvider cfg p = registryGet cfg (orDefault (map_option p_provider p) ''MOCK'')"

definition executeCall :: "config \<Rightarrow> provider_env \<Rightarrow> bool \<Rightarrow> loaded \<Rightarrow> app_error + refund_response" where
  "executeCall cfg pe owned c =
     (case refundProvider cfg (snd (snd c)) of
        Inl err \<Rightarrow> Inl err
      | Inr pv \<Rightarrow> if \<not> owned then Inl lockLost else providerRefund cfg pe pv (refundRequest c))"

text \<open>\<open>tx.<table>.update\<close> on one row: a missing row is the error P2025.\<close>

definition updateRefund :: "id \<Rightarrow> (refund \<Rightarrow> refund) \<Rightarrow> refund op" where
  "updateRefund rid f s =
     (case rowBy r_id rid (refunds s) of
        None \<Rightarrow> (s, Inl PrismaP2025)
      | Some r \<Rightarrow> (setRefund rid f s, Inr (f r)))"

definition moveOrder :: "id \<Rightarrow> order_status \<Rightarrow> order_status \<Rightarrow> unit op" where
  "moveOrder orderId current target =
     andThen (validateOrderTransition current target) (\<lambda>_ s.
       case rowBy o_id orderId (orders s) of
         None \<Rightarrow> (s, Inl PrismaP2025)
       | Some _ \<Rightarrow> (setOrder orderId (\<lambda>y. y\<lparr>o_status := target\<rparr>) s, Inr ()))"

definition markPaymentRefunded :: "id option \<Rightarrow> unit op" where
  "markPaymentRefunded pid s =
     (case pid of
        None \<Rightarrow> (s, Inr ())
      | Some i \<Rightarrow>
          if i = [] then (s, Inr ())
          else if rowBy p_id i (payments s) = None then (s, Inl PrismaP2025)
          else (setPayment i (\<lambda>y. y\<lparr>p_status := P_REFUNDED\<rparr>) s, Inr ()))"

definition refundSucceeded :: "time \<Rightarrow> loaded \<Rightarrow> refund_response \<Rightarrow> refund op" where
  "refundSucceeded now c resp =
     (let (r, x, p) = c in
      andThen (updateRefund (r_id r) (\<lambda>y. y\<lparr>r_status := R_SUCCEEDED,
          r_providerRefundId := Some (rr_providerRefundId resp),
          r_providerReference := noneIfFalsy (rr_transactionReference resp), r_completedAt := Some now,
          r_ambiguousResponse := False, r_ambiguousNetworkFailure := False\<rparr>)) (\<lambda>fin.
      andThen (markPaymentRefunded (r_paymentId r)) (\<lambda>_.
      andThen (moveOrder (r_orderId r) (o_status x) O_REFUNDED) (\<lambda>_. ret fin))))"

definition refundFailed :: "time \<Rightarrow> loaded \<Rightarrow> refund_response \<Rightarrow> refund op" where
  "refundFailed now c resp =
     (let (r, x, p) = c in
      andThen (updateRefund (r_id r) (\<lambda>y. y\<lparr>r_status := R_FAILED,
          r_failureReason := Some (orDefault (rr_failureReason resp) ''Provider rejected refund''),
          r_failedAt := Some now, r_ambiguousResponse := False, r_ambiguousNetworkFailure := False\<rparr>)) (\<lambda>fin.
      andThen (moveOrder (r_orderId r) (o_status x) O_REFUND_FAILED) (\<lambda>_. ret fin)))"

definition refundAmbiguous :: "loaded \<Rightarrow> refund_response \<Rightarrow> refund op" where
  "refundAmbiguous c resp =
     updateRefund (r_id (fst c)) (\<lambda>y. y\<lparr>r_status := R_PROCESSING,
       r_failureReason := Some (orDefault (rr_failureReason resp) ''Ambiguous provider network response''),
       r_ambiguousResponse := True, r_ambiguousNetworkFailure := rr_ambiguous resp\<rparr>)"

definition refundAudit :: "id \<Rightarrow> loaded \<Rightarrow> string \<Rightarrow> refund \<Rightarrow> refund op" where
  "refundAudit actor c action fin s =
     (auditLog (Some actor) (Some (r_userId (fst c))) action ''Refund'' (Some (r_id fin)) s, Inr fin)"

definition executeSettle :: "config \<Rightarrow> time \<Rightarrow> id \<Rightarrow> loaded \<Rightarrow> refund_response \<Rightarrow> refund op" where
  "executeSettle cfg now actor c resp =
     (if rr_status resp = R_SUCCEEDED then
        andThen (inTransaction (refundSucceeded now c resp)) (\<lambda>fin.
        andThen (releaseReservation cfg (r_orderId (fst c)) V_CANCELLED_RELEASED) (\<lambda>_.
          refundAudit actor c ''REFUND_SUCCEEDED'' fin))
      else if rr_status resp = R_FAILED then
        andThen (inTransaction (refundFailed now c resp)) (refundAudit actor c ''REFUND_FAILED'')
      else andThen (refundAmbiguous c resp) (refundAudit actor c ''REFUND_PROCESSING_AMBIGUOUS''))"

text \<open>What one execution does after its claim: nothing more, or the provider call and its writes.\<close>

definition executeRest ::
  "config \<Rightarrow> provider_env \<Rightarrow> time \<Rightarrow> id \<Rightarrow> bool \<Rightarrow> refund_gate \<Rightarrow> refund op" where
  "executeRest cfg pe now actor owned g =
     (case g of
        Done r \<Rightarrow> ret r
      | Go c \<Rightarrow> andThen (lift (executeCall cfg pe owned c)) (executeSettle cfg now actor c))"

definition executeRefund ::
  "config \<Rightarrow> provider_env \<Rightarrow> time \<Rightarrow> refund_lock \<Rightarrow> id \<Rightarrow> id \<Rightarrow> refund op" where
  "executeRefund cfg pe now lk rid actor =
     (case rl_error lk of
        Some err \<Rightarrow> throw err
      | None \<Rightarrow>
          andThen (andThen (executeRead rid (rl_first lk)) executeClaim)
            (executeRest cfg pe now actor (rl_second lk)))"

subsection \<open>The automatic refund, reading and the routes\<close>

record auto_refund =
  ar_orderId :: id
  ar_paymentId :: "id option"
  ar_reason :: string
  ar_actorId :: "string option"

definition autoRefundInput :: "auto_refund \<Rightarrow> refund_input" where
  "autoRefundInput a =
     \<lparr>ri_orderId = ar_orderId a, ri_paymentId = ar_paymentId a, ri_amount = None, ri_reason = ar_reason a,
      ri_idempotencyKey = Some (''AUTO_REF_'' @ ar_orderId a @ ''_'' @ orDefault (ar_paymentId a) ''def'')\<rparr>"

definition processAutomaticRefund ::
  "config \<Rightarrow> provider_env \<Rightarrow> refund_env \<Rightarrow> refund_lock \<Rightarrow> auto_refund \<Rightarrow> refund option op" where
  "processAutomaticRefund cfg pe e lk a s =
     (let actor = orDefault (ar_actorId a) ''system-auto-refund''; inp = autoRefundInput a in
      case rowBy o_id (ar_orderId a) (orders s) of
        None \<Rightarrow> (s, Inr None)
      | Some x \<Rightarrow>
          catching
            (andThen (createRefund e (o_userId x) inp True (ri_idempotencyKey inp)) (\<lambda>(r, _).
             andThen (executeRefund cfg pe (fe_now e) lk (r_id r) actor) (\<lambda>fin. ret (Some fin))))
            (\<lambda>err s1. (auditLog (Some actor) None ''AUTOMATIC_REFUND_TRIGGER_ERROR'' ''Order''
                         (Some (ar_orderId a)) s1, Inr None)) s)"

definition getRefundById :: "id \<Rightarrow> string option \<Rightarrow> bool \<Rightarrow> refund op" where
  "getRefundById rid userId isAdmin s =
     (case loadRefund rid s of
        Inl err \<Rightarrow> (s, Inl err)
      | Inr None \<Rightarrow> (s, Inl RefundNotFoundError)
      | Inr (Some (r, _)) \<Rightarrow>
          if \<not> isAdmin \<and> truthy userId \<and> Some (r_userId r) \<noteq> userId
          then (s, Inl (ForbiddenError ''Unauthorized access to this refund.''))
          else (s, Inr r))"

text \<open>Newest first; the creation order of the rows is the order of \<open>createdAt\<close>.\<close>

definition listRefunds :: "string option \<Rightarrow> bool \<Rightarrow> nat \<Rightarrow> nat \<Rightarrow> sys \<Rightarrow> refund list \<times> nat" where
  "listRefunds userId isAdmin limit offset s =
     (let rs = filter (\<lambda>r. if \<not> isAdmin \<and> truthy userId then Some (r_userId r) = userId else True) (refunds s)
      in (take limit (drop offset (rev rs)), length rs))"

definition executeIfNew ::
  "config \<Rightarrow> provider_env \<Rightarrow> refund_env \<Rightarrow> refund_lock \<Rightarrow> id \<Rightarrow> refund \<times> bool \<Rightarrow> (nat \<times> refund) op" where
  "executeIfNew cfg pe e lk userId c =
     (let (r, isDuplicate) = c in
      if \<not> isDuplicate \<and> r_status r = R_PENDING
      then andThen (executeRefund cfg pe (fe_now e) lk (r_id r) userId) (\<lambda>fin. ret (201, fin))
      else ret (if isDuplicate then 200 else 201, r))"

definition createRefundRoute ::
  "config \<Rightarrow> provider_env \<Rightarrow> refund_env \<Rightarrow> refund_lock \<Rightarrow> id \<Rightarrow> role \<Rightarrow> refund_input \<Rightarrow> string option
    \<Rightarrow> (nat \<times> refund) op" where
  "createRefundRoute cfg pe e lk userId rl inp header =
     andThen (createRefund e userId inp (adminRole rl) header) (executeIfNew cfg pe e lk userId)"

definition refundPaymentRoute ::
  "config \<Rightarrow> provider_env \<Rightarrow> refund_env \<Rightarrow> refund_lock \<Rightarrow> id \<Rightarrow> role \<Rightarrow> id \<Rightarrow> rat option option
    \<Rightarrow> string option \<Rightarrow> string option \<Rightarrow> (nat \<times> refund) op" where
  "refundPaymentRoute cfg pe e lk userId rl paymentId amount reason header =
     andThen (getPaymentById paymentId userId (adminRole rl)) (\<lambda>p.
     andThen (createRefund e userId
         \<lparr>ri_orderId = p_orderId p, ri_paymentId = Some (p_id p), ri_amount = amount,
          ri_reason = orDefault reason ''Admin initiated refund'', ri_idempotencyKey = header\<rparr>
         (adminRole rl) header)
       (executeIfNew cfg pe e lk userId))"

definition getRefundRoute :: "id \<Rightarrow> role \<Rightarrow> id \<Rightarrow> refund op" where
  "getRefundRoute userId rl rid = getRefundById rid (Some userId) (adminRole rl)"

end
