(* ===== verification/RefundProps.thy ===== *)
theory RefundProps
  imports Refunds
begin

text \<open>
  What refunds promise: the refunds of an order never exceed its payment, a refund is claimed
  by one execution only and a returned execution is final; and where the outcome of the
  provider is lost or a payment that was never captured is refunded.
\<close>

subsection \<open>The refunded total\<close>

definition refundWeight :: "id \<Rightarrow> refund \<Rightarrow> int" where
  "refundWeight orderId r =
     (if r_orderId r = orderId \<and> countsAsRefund (r_status r) then r_amount r else 0)"

lemma alreadyRefunded_sum: "alreadyRefunded orderId s = sum_list (map (refundWeight orderId) (refunds s))"
  by (simp add: alreadyRefunded_def refundWeight_def[abs_def] sum_list_map_filter_int)

text \<open>Rewriting one row that counts, with its order and amount, never raises a total.\<close>

lemma total_setBy_le:
  assumes u: "unique_by r_id (refunds s)" and row: "rowBy r_id rid (refunds s) = Some r"
    and s1: "refunds s1 = setBy r_id rid f (refunds s)"
    and f: "r_orderId (f r) = r_orderId r" "r_amount (f r) = r_amount r"
    and r: "0 \<le> r_amount r" "countsAsRefund (r_status r)"
  shows "alreadyRefunded orderId s1 \<le> alreadyRefunded orderId s"
    and "countsAsRefund (r_status (f r)) \<Longrightarrow> alreadyRefunded orderId s1 = alreadyRefunded orderId s"
  using sum_setBy[OF u row, of "refundWeight orderId" f] f r
  by (auto simp: alreadyRefunded_sum s1 refundWeight_def)

lemma alreadyRefunded_frame: "refunds s1 = refunds s \<Longrightarrow> alreadyRefunded orderId s1 = alreadyRefunded orderId s"
  by (simp add: alreadyRefunded_def)

lemma release_refunds [simp]: "refunds (fst (releaseReservation cfg i st s)) = refunds s"
  by (auto simp: releaseReservation_def inTransaction_eq rollback_def releaseReservationInTx_def Let_def
      split: option.splits sum.splits)

lemma setOrder_refunds [simp]: "refunds (setOrder i f s) = refunds s" "payments (setOrder i f s) = payments s"
  by (simp_all add: setOrder_def)

lemma setPayment_refunds [simp]: "refunds (setPayment i f s) = refunds s" "orders (setPayment i f s) = orders s"
  by (simp_all add: setPayment_def)

lemma setRefund_frame [simp]:
  "orders (setRefund i f s) = orders s" "payments (setRefund i f s) = payments s"
  "refunds (setRefund i f s) = setBy r_id i f (refunds s)"
  "pools (setRefund i f s) = pools s" "reservations (setRefund i f s) = reservations s"
  "settlements (setRefund i f s) = settlements s"
  by (simp_all add: setRefund_def)

subsection \<open>Creating\<close>

lemma refundAmount_within:
  assumes "refundAmount inp paid refunded = Inr a"
  shows "0 < a" and "toColumn 4 a \<le> paid - refunded" and "0 \<le> toColumn 4 a"
proof -
  show a: "0 < a" using assms by (auto simp: refundAmount_def split: if_splits option.splits)
  have "a \<le> ofColumn 4 (paid - refunded)"
    using assms by (auto simp: refundAmount_def ofColumn_def diff_divide_distrib split: if_splits option.splits)
  with a show "toColumn 4 a \<le> paid - refunded" by (simp add: toColumn_le)
  show "0 \<le> toColumn 4 a" using a by (simp add: toColumn_nonneg)
qed

lemma refundPayment_of:
  "refundPayment inp ps = Some p \<Longrightarrow> p \<in> set ps"
  by (auto simp: refundPayment_def dest: find_SomeD split: if_splits option.splits list.splits)

lemma paymentsOf_member: "p \<in> set (paymentsOf i s) \<longleftrightarrow> p \<in> set (payments s) \<and> p_orderId p = i"
  by (auto simp: paymentsOf_def)

text \<open>The shape of a createRefund that returns.\<close>

lemma createRefund_returns:
  assumes run: "createRefund e userId inp adm h s = (s1, Inr (r, dup))"
  obtains (Existing) "dup" and "s1 = s" and "r \<in> set (refunds s)"
      and "r_idempotencyKey r = refundKey e inp h" and "adm \<or> r_userId r = userId"
  | (New) x p a where "\<not> dup" and "rowBy o_id (ri_orderId inp) (orders s) = Some x"
      and "refundRefused userId adm x s = None" and "refundPayment inp (paymentsOf (o_id x) s) = Some p"
      and "refundAmount inp (p_amount p) (alreadyRefunded (o_id x) s) = Inr a"
      and "canOrder (o_status x) O_REFUND_PENDING"
      and "r = newRefund e userId inp (refundKey e inp h) x p a"
      and "rowBy r_id (r_id r) (refunds s) = None"
      and "rowBy r_idempotencyKey (r_idempotencyKey r) (refunds s) = None"
      and "refunds s1 = refunds s @ [r]" and "payments s1 = payments s" and "settlements s1 = settlements s"
      and "orders s1 = setBy o_id (o_id x) (\<lambda>y. y\<lparr>o_status := O_REFUND_PENDING\<rparr>) (orders s)"
proof -
  have body: "createRefundBody e userId inp adm h s = (s1, Inr (r, dup))"
    using run by (cases "createRefundBody e userId inp adm h s")
      (auto simp: createRefund_def inTransaction_def split: sum.splits)
  then obtain x where x: "rowBy o_id (ri_orderId inp) (orders s) = Some x" "refundRefused userId adm x s = None"
    by (auto simp: createRefundBody_def refundPlan_def split: option.splits)
  with body obtain p where p: "refundPayment inp (paymentsOf (o_id x) s) = Some p"
    by (auto simp: createRefundBody_def refundPlan_def split: option.splits)
  show ?thesis
  proof (cases "rowBy r_idempotencyKey (refundKey e inp h) (refunds s)")
    case (Some old)
    with body x p show ?thesis
      using rowBy_SomeD[OF Some] by (intro Existing) (auto simp: createRefundBody_def refundPlan_def Let_def split: if_splits)
  next
    case None
    with body x p obtain a where a: "refundAmount inp (p_amount p) (alreadyRefunded (o_id x) s) = Inr a"
      by (auto simp: createRefundBody_def refundPlan_def Let_def split: sum.splits)
    with body x p None have
      "openRefund userId x (newRefund e userId inp (refundKey e inp h) x p a) s = (s1, Inr (r, dup))"
      by (simp add: createRefundBody_def refundPlan_def Let_def)
    then show ?thesis
      using x p a
      by (intro New[of x p a])
        (auto simp: openRefund_def ops insertRefund_def setOrder_def split: if_splits)
  qed
qed

text \<open>
  A new refund belongs to a payment of its order and fits under it: with the refunds of the
  order that are pending, in progress or succeeded it does not exceed the payment's amount, also
  after rounding to the column. It is only created while no settlement of the order is under way
  or completed and the order is not completed; the order is then REFUND_PENDING. A repeated key
  changes nothing.
\<close>

theorem refund_fits_payment:
  assumes run: "createRefund e userId inp adm h s = (s1, Inr (r, dup))"
  shows "if dup then s1 = s \<and> r \<in> set (refunds s) \<and> r_idempotencyKey r = refundKey e inp h
    else \<exists>x p. rowBy o_id (ri_orderId inp) (orders s) = Some x \<and> (adm \<or> o_userId x = userId)
      \<and> o_status x \<noteq> O_COMPLETED \<and> o_status x \<noteq> O_SETTLEMENT_COMPLETED
      \<and> (\<forall>t \<in> set (settlements s). s_orderId t = o_id x \<longrightarrow> s_status t = S_PENDING \<or> s_status t = S_FAILED)
      \<and> p \<in> set (payments s) \<and> p_orderId p = o_id x \<and> r_paymentId r = Some (p_id p)
      \<and> r_status r = R_PENDING \<and> 0 \<le> r_amount r
      \<and> alreadyRefunded (o_id x) s1 = alreadyRefunded (o_id x) s + r_amount r
      \<and> alreadyRefunded (o_id x) s1 \<le> p_amount p
      \<and> rowBy o_id (o_id x) (orders s1) = Some (x\<lparr>o_status := O_REFUND_PENDING\<rparr>)
      \<and> rowBy r_id (r_id r) (refunds s1) = Some r"
  using run
proof (cases rule: createRefund_returns)
  case Existing
  then show ?thesis by simp
next
  case (New x p a)
  have r: "r_orderId r = o_id x" "r_amount r = toColumn 4 a" "r_status r = R_PENDING"
    "r_paymentId r = Some (p_id p)"
    by (simp_all add: New(7) newRefund_def)
  have sum: "alreadyRefunded (o_id x) s1 = alreadyRefunded (o_id x) s + r_amount r"
    using New(10) r by (simp add: alreadyRefunded_sum refundWeight_def countsAsRefund_def)
  have free: "s_status t = S_PENDING \<or> s_status t = S_FAILED" if "t \<in> set (settlements s)" "s_orderId t = o_id x" for t
    using New(3) that
    by (cases "s_status t") (auto simp: refundRefused_def settlementsOf_def blocksRefund_def split: if_splits)
  have pay: "p \<in> set (payments s)" "p_orderId p = o_id x"
    using refundPayment_of[OF New(4)] by (simp_all add: paymentsOf_member)
  have own: "(adm \<or> o_userId x = userId) \<and> o_status x \<noteq> O_COMPLETED \<and> o_status x \<noteq> O_SETTLEMENT_COMPLETED"
    using New(3) by (auto simp: refundRefused_def split: if_splits)
  have xid: "o_id x = ri_orderId inp" using rowBy_SomeD[OF New(2)] by simp
  show ?thesis
    using New(1,2,8,10,13) r sum free pay own refundAmount_within[OF New(5)] xid by (auto simp: rows)
qed

subsection \<open>Executing\<close>

lemma loadRefund_row:
  assumes "loadRefund rid s = Inr (Some (r, x, p))"
  shows "rowBy r_id rid (refunds s) = Some r" and "r_id r = rid" and "rowBy o_id (r_orderId r) (orders s) = Some x"
  using assms by (auto simp: loadRefund_def dest: rowBy_SomeD split: option.splits)

lemma executeRead_go:
  assumes "executeRead rid owned s = (s1, Inr (Go c))"
  shows "s1 = s" and "loadRefund rid s = Inr (Some c)" and "owned"
    and "\<not> isTerminalRefund (r_status (fst c))" and "canRefund (r_status (fst c)) R_PROCESSING"
    and "\<not> (r_status (fst c) = R_PROCESSING \<and> (r_ambiguousResponse (fst c) \<or> r_ambiguousNetworkFailure (fst c)))"
  using assms
  by (auto simp: executeRead_def ops split: sum.splits option.splits if_splits)

lemma executeRead_done:
  assumes "executeRead rid owned s = (s1, Inr (Done r))"
  shows "s1 = s" and "\<exists>x p. loadRefund rid s = Inr (Some (r, x, p))"
    and "isTerminalRefund (r_status r) \<or> r_ambiguousResponse r \<or> r_ambiguousNetworkFailure r"
  using assms
  by (auto simp: executeRead_def ops split: sum.splits option.splits if_splits)

lemma executeClaim_go:
  assumes "executeClaim (Go c) s = (s1, Inr (Go c1))"
  shows "s1 = setRefund (r_id (fst c)) (\<lambda>y. y\<lparr>r_status := R_PROCESSING\<rparr>) s"
    and "loadRefund (r_id (fst c)) s1 = Inr (Some c1)" and "r_status (fst c1) = R_PROCESSING"
    and "\<exists>now. rowBy r_id (r_id (fst c)) (refunds s) = Some now \<and> r_status now = r_status (fst c)
           \<and> fst c1 = now\<lparr>r_status := R_PROCESSING\<rparr>"
proof -
  obtain now where now: "rowBy r_id (r_id (fst c)) (refunds s) = Some now" "r_status now = r_status (fst c)"
    using assms by (cases c) (auto simp: executeClaim_def split: option.splits if_splits)
  let ?s1 = "setRefund (r_id (fst c)) (\<lambda>y. y\<lparr>r_status := R_PROCESSING\<rparr>) s"
  have go: "s1 = ?s1 \<and> loadRefund (r_id (fst c)) ?s1 = Inr (Some c1)"
    using assms now by (cases c) (auto simp: executeClaim_def Let_def split: option.splits sum.splits)
  then show "s1 = ?s1" and load: "loadRefund (r_id (fst c)) s1 = Inr (Some c1)" by simp_all
  obtain r1 x1 p1 where c1: "c1 = (r1, x1, p1)" by (cases c1)
  have "rowBy r_id (r_id (fst c)) (refunds s1) = Some r1"
    using loadRefund_row(1) load c1 by blast
  moreover have "rowBy r_id (r_id (fst c)) (refunds s1) = Some (now\<lparr>r_status := R_PROCESSING\<rparr>)"
    using go now by (simp add: rows)
  ultimately have r1: "r1 = now\<lparr>r_status := R_PROCESSING\<rparr>" by simp
  then show "r_status (fst c1) = R_PROCESSING" by (simp add: c1)
  show "\<exists>now. rowBy r_id (r_id (fst c)) (refunds s) = Some now \<and> r_status now = r_status (fst c)
           \<and> fst c1 = now\<lparr>r_status := R_PROCESSING\<rparr>"
    using now r1 c1 by simp
qed

text \<open>What a settled execution did to the refund: one rewrite of its row to a final state.\<close>

definition finalRefund :: "refund \<Rightarrow> bool" where
  "finalRefund r \<longleftrightarrow> r_status r = R_SUCCEEDED \<or> r_status r = R_FAILED \<or> (r_status r = R_PROCESSING \<and> r_ambiguousResponse r)"

lemma updateRefund_eq:
  "rowBy r_id rid (refunds s) = Some r \<Longrightarrow> updateRefund rid f s = (setRefund rid f s, Inr (f r))"
  by (simp add: updateRefund_def)

lemma moveOrder_frame [simp]:
  "refunds (fst (moveOrder i a b s)) = refunds s" "payments (fst (moveOrder i a b s)) = payments s"
  "map o_id (orders (fst (moveOrder i a b s))) = map o_id (orders s)"
  by (auto simp: moveOrder_def ops setOrder_def rows split: option.splits)

lemma markPaymentRefunded_frame [simp]:
  "refunds (fst (markPaymentRefunded i s)) = refunds s" "orders (fst (markPaymentRefunded i s)) = orders s"
  "map p_orderId (payments (fst (markPaymentRefunded i s))) = map p_orderId (payments s)"
  "map p_amount (payments (fst (markPaymentRefunded i s))) = map p_amount (payments s)"
  by (auto simp: markPaymentRefunded_def setPayment_def rows split: option.splits)

definition settles :: "id \<Rightarrow> refund \<Rightarrow> sys \<Rightarrow> sys \<Rightarrow> bool" where
  "settles rid fin s s1 \<longleftrightarrow> (\<exists>f. refunds s1 = setBy r_id rid f (refunds s)
       \<and> (\<forall>r. rowBy r_id rid (refunds s) = Some r \<longrightarrow> fin = f r \<and> finalRefund (f r))
       \<and> (\<forall>y. r_id (f y) = r_id y \<and> r_orderId (f y) = r_orderId y \<and> r_amount (f y) = r_amount y))
     \<and> map o_id (orders s1) = map o_id (orders s)
     \<and> map p_orderId (payments s1) = map p_orderId (payments s)
     \<and> map p_amount (payments s1) = map p_amount (payments s)"

lemma refundSucceeded_settles:
  assumes "refundSucceeded now c resp s = (s1, Inr fin)"
  shows "settles (r_id (fst c)) fin s s1"
proof -
  obtain r x p where c: "c = (r, x, p)" by (cases c)
  let ?f = "\<lambda>y. y\<lparr>r_status := R_SUCCEEDED,
          r_providerRefundId := Some (rr_providerRefundId resp),
          r_providerReference := noneIfFalsy (rr_transactionReference resp), r_completedAt := Some now,
          r_ambiguousResponse := False, r_ambiguousNetworkFailure := False\<rparr>"
  let ?s0 = "setRefund (r_id r) ?f s"
  let ?sp = "fst (markPaymentRefunded (r_paymentId r) ?s0)"
  obtain r0 where r0: "rowBy r_id (r_id r) (refunds s) = Some r0"
    using assms by (auto simp: refundSucceeded_def c ops updateRefund_def split: option.splits)
  have "s1 = fst (moveOrder (r_orderId r) (o_status x) O_REFUNDED ?sp)" and "fin = ?f r0"
    using assms by (auto simp: refundSucceeded_def c andThen_eq updateRefund_eq[OF r0] split: sum.splits)
  then show ?thesis
    unfolding settles_def using r0 by (intro conjI exI[of _ ?f]) (simp_all add: c finalRefund_def)
qed

lemma refundFailed_settles:
  assumes "refundFailed now c resp s = (s1, Inr fin)"
  shows "settles (r_id (fst c)) fin s s1"
proof -
  obtain r x p where c: "c = (r, x, p)" by (cases c)
  let ?f = "\<lambda>y. y\<lparr>r_status := R_FAILED,
          r_failureReason := Some (orDefault (rr_failureReason resp) ''Provider rejected refund''),
          r_failedAt := Some now, r_ambiguousResponse := False, r_ambiguousNetworkFailure := False\<rparr>"
  let ?s0 = "setRefund (r_id r) ?f s"
  obtain r0 where r0: "rowBy r_id (r_id r) (refunds s) = Some r0"
    using assms by (auto simp: refundFailed_def c ops updateRefund_def split: option.splits)
  have "s1 = fst (moveOrder (r_orderId r) (o_status x) O_REFUND_FAILED ?s0)" and "fin = ?f r0"
    using assms by (auto simp: refundFailed_def c andThen_eq updateRefund_eq[OF r0] split: sum.splits)
  then show ?thesis
    unfolding settles_def using r0 by (intro conjI exI[of _ ?f]) (simp_all add: c finalRefund_def)
qed

lemma refundAmbiguous_settles:
  assumes "refundAmbiguous c resp s = (s1, Inr fin)"
  shows "settles (r_id (fst c)) fin s s1"
proof -
  let ?f = "\<lambda>y. y\<lparr>r_status := R_PROCESSING,
       r_failureReason := Some (orDefault (rr_failureReason resp) ''Ambiguous provider network response''),
       r_ambiguousResponse := True, r_ambiguousNetworkFailure := rr_ambiguous resp\<rparr>"
  obtain r0 where r0: "rowBy r_id (r_id (fst c)) (refunds s) = Some r0"
    using assms by (auto simp: refundAmbiguous_def updateRefund_def split: option.splits)
  have "s1 = setRefund (r_id (fst c)) ?f s" and "fin = ?f r0"
    using assms by (auto simp: refundAmbiguous_def updateRefund_eq[OF r0])
  then show ?thesis
    unfolding settles_def using r0 by (intro conjI exI[of _ ?f]) (simp_all add: finalRefund_def)
qed

lemma settles_frame:
  "settles rid fin s s1 \<Longrightarrow> refunds s2 = refunds s1 \<Longrightarrow> orders s2 = orders s1 \<Longrightarrow> payments s2 = payments s1 \<Longrightarrow>
     settles rid fin s s2"
  by (simp add: settles_def)

lemma inTransaction_Inr: "inTransaction body s = (s1, Inr x) \<longleftrightarrow> body s = (s1, Inr x)"
  by (cases "body s") (auto simp: inTransaction_def split: sum.splits)

lemma release_result:
  assumes "releaseReservation cfg i st s = (s1, r)"
  shows "refunds s1 = refunds s \<and> orders s1 = orders s \<and> payments s1 = payments s"
  using release_refunds[of cfg i st s] release_frame[of cfg i st s] assms by simp_all

lemma executeSettle_settles:
  assumes run: "executeSettle cfg now actor c resp s = (s1, Inr fin)"
  shows "settles (r_id (fst c)) fin s s1"
proof (cases "rr_status resp = R_SUCCEEDED")
  case True
  then obtain s2 where "refundSucceeded now c resp s = (s2, Inr fin)"
    and "refunds s1 = refunds s2" "orders s1 = orders s2" "payments s1 = payments s2"
    using run by (auto simp: executeSettle_def refundAudit_def inTransaction_Inr
        dest!: release_result elim!: andThen_returns)
  then show ?thesis using refundSucceeded_settles settles_frame by blast
next
  case False
  show ?thesis
  proof (cases "rr_status resp = R_FAILED")
    case True
    then obtain s2 where "refundFailed now c resp s = (s2, Inr fin)"
      and "refunds s1 = refunds s2" "orders s1 = orders s2" "payments s1 = payments s2"
      using run by (auto simp: executeSettle_def refundAudit_def inTransaction_Inr elim!: andThen_returns)
    then show ?thesis using refundFailed_settles settles_frame by blast
  next
    case False
    then obtain s2 where "refundAmbiguous c resp s = (s2, Inr fin)"
      and "refunds s1 = refunds s2" "orders s1 = orders s2" "payments s1 = payments s2"
      using run \<open>rr_status resp \<noteq> R_SUCCEEDED\<close>
      by (auto simp: executeSettle_def refundAudit_def elim!: andThen_returns)
    then show ?thesis using refundAmbiguous_settles settles_frame by blast
  qed
qed

lemma loadRefund_cong:
  "refunds s1 = refunds s \<Longrightarrow> orders s1 = orders s \<Longrightarrow> payments s1 = payments s \<Longrightarrow>
     loadRefund rid s1 = loadRefund rid s"
  by (simp add: loadRefund_def cong: option.case_cong)

text \<open>The shape of an execution that returns.\<close>

lemma executeRefund_returns:
  assumes run: "executeRefund cfg pe now lk rid actor s = (s1, Inr fin)"
  obtains (Stop) x p where "s1 = s" and "loadRefund rid s = Inr (Some (fin, x, p))"
      and "isTerminalRefund (r_status fin) \<or> r_ambiguousResponse fin \<or> r_ambiguousNetworkFailure fin"
  | (Ran) r c resp where "rowBy r_id rid (refunds s) = Some r" and "\<not> isTerminalRefund (r_status r)"
      and "loadRefund rid (setRefund rid (\<lambda>y. y\<lparr>r_status := R_PROCESSING\<rparr>) s) = Inr (Some c)"
      and "executeCall cfg pe (rl_second lk) c = Inr resp"
      and "executeSettle cfg now actor c resp (setRefund rid (\<lambda>y. y\<lparr>r_status := R_PROCESSING\<rparr>) s) = (s1, Inr fin)"
proof -
  from run obtain s0 g s2 g2 where read: "executeRead rid (rl_first lk) s = (s0, Inr g)"
    and claim: "executeClaim g s0 = (s2, Inr g2)" and rest: "executeRest cfg pe now actor (rl_second lk) g2 s2 = (s1, Inr fin)"
    by (auto simp: executeRefund_def split: option.splits elim!: andThen_returns)
  show ?thesis
  proof (cases g)
    case (Done r)
    with claim rest have "s1 = s0" "fin = r" by (auto simp: executeClaim_def executeRest_def)
    with executeRead_done[OF read[unfolded Done]] show ?thesis by (auto intro: Stop)
  next
    case (Go c0)
    note rd = executeRead_go[OF read[unfolded Go]]
    obtain r x p where c0: "c0 = (r, x, p)" by (cases c0)
    note row = loadRefund_row[OF rd(2)[unfolded c0]]
    show ?thesis
    proof (cases g2)
      case (Done d)
      with claim Go c0 row rd(1) show ?thesis
        by (auto simp: executeClaim_def Let_def split: sum.splits option.splits if_splits)
    next
      case (Go c1)
      note cl = executeClaim_go[OF claim[unfolded \<open>g = Go c0\<close> Go]]
      from rest Go obtain resp where "executeCall cfg pe (rl_second lk) c1 = Inr resp"
        and "executeSettle cfg now actor c1 resp s2 = (s1, Inr fin)"
        by (auto simp: executeRest_def lift_def elim!: andThen_returns)
      with cl(1,2) rd(1,4) row c0 show ?thesis by (intro Ran[of r c1 resp]) auto
    qed
  qed
qed

subsection \<open>Executed once\<close>

text \<open>The refund is there, with its order, and it is in a state no execution leaves again.\<close>

definition settled :: "id \<Rightarrow> refund \<Rightarrow> sys \<Rightarrow> bool" where
  "settled rid r s \<longleftrightarrow> (\<exists>x p. loadRefund rid s = Inr (Some (r, x, p)))
     \<and> (isTerminalRefund (r_status r) \<or> r_status r = R_PROCESSING \<and> (r_ambiguousResponse r \<or> r_ambiguousNetworkFailure r))"

lemma settled_execute:
  assumes "settled rid r s" and "rl_error lk = None"
  shows "executeRefund cfg pe now lk rid actor s = (s, Inr r)"
  using assms
  by (auto simp: settled_def executeRefund_def executeRead_def ops executeClaim_def executeRest_def)

lemma rowBy_some_iff: "(\<exists>r. rowBy key k rs = Some r) \<longleftrightarrow> k \<in> set (map key rs)"
  using rowBy_None_iff[of key k rs] by (cases "rowBy key k rs") auto

lemma loadRefund_some:
  assumes "rowBy r_id rid (refunds s) = Some r" and "r_orderId r \<in> set (map o_id (orders s))"
  shows "\<exists>x p. loadRefund rid s = Inr (Some (r, x, p))"
proof -
  obtain x where "rowBy o_id (r_orderId r) (orders s) = Some x"
    using assms(2) rowBy_some_iff[of o_id "r_orderId r" "orders s"] by blast
  with assms(1) show ?thesis by (simp add: loadRefund_def)
qed

lemma ran_settled:
  assumes load: "loadRefund rid s = Inr (Some c)"
    and run: "executeSettle cfg now actor c resp s = (s1, Inr fin)"
  shows "settled rid fin s1"
proof -
  obtain r x p where c: "c = (r, x, p)" by (cases c)
  note row = loadRefund_row[OF load[unfolded c]]
  from executeSettle_settles[OF run] obtain f where f: "refunds s1 = setBy r_id rid f (refunds s)"
    "fin = f r" "finalRefund (f r)" "\<And>y. r_id (f y) = r_id y" "r_orderId (f r) = r_orderId r"
    and ord: "map o_id (orders s1) = map o_id (orders s)"
    unfolding settles_def c using row by auto
  have "rowBy r_id rid (refunds s1) = Some fin" using row f by (simp add: rows)
  moreover have "r_orderId fin \<in> set (map o_id (orders s1))"
    unfolding ord using row(3) f(2,5) rowBy_some_iff[of o_id "r_orderId r" "orders s"] by auto
  ultimately show ?thesis
    using loadRefund_some f(2,3) by (auto simp: settled_def finalRefund_def isTerminalRefund_def)
qed

text \<open>
  C18. An execution that returns is final: the refund is then succeeded, failed, cancelled or in
  progress with an ambiguous answer, and every later execution - whatever provider, lock holder
  and actor - answers the same refund, changes nothing and does not reach the provider. So
  neither a definite nor an ambiguous answer is ever followed by a second provider call.
\<close>

theorem refund_execution_is_final:
  assumes run: "executeRefund cfg pe now lk rid actor s = (s1, Inr r)"
    and wf: "\<And>y. rowBy r_id rid (refunds s) = Some y \<Longrightarrow>
      r_ambiguousResponse y \<or> r_ambiguousNetworkFailure y \<Longrightarrow> r_status y = R_PROCESSING"
    and lock: "rl_error lk' = None"
  shows "executeRefund cfg' pe' now' lk' rid actor' s1 = (s1, Inr r)
    \<and> r_status r \<noteq> R_PENDING
    \<and> (\<forall>g s2 c. executeRead rid (rl_first lk') s1 \<noteq> (s2, Inr (Go c)))"
proof -
  have "settled rid r s1"
    using run
  proof (cases rule: executeRefund_returns)
    case (Stop x p)
    with wf loadRefund_row[OF Stop(2)] show ?thesis by (auto simp: settled_def)
  next
    case (Ran r0 c resp)
    then show ?thesis by (intro ran_settled)
  qed
  then show ?thesis
    using settled_execute[OF _ lock] executeRead_go[of rid "rl_first lk'" s1]
    by (auto simp: settled_def isTerminalRefund_def)
qed

text \<open>
  A pending refund is claimed by one execution: of two that both read it pending - the lock
  lost or not held - only the first update matches; the other one returns the refund it finds and
  never reaches the provider. Only an execution that reads the refund between the claim and the
  provider's answer could still reach it, which is what the lock is there for.
\<close>

theorem refund_claimed_once:
  assumes r1: "executeRead rid own1 s = (s, Inr (Go c1))" and r2: "executeRead rid own2 s = (s, Inr (Go c2))"
    and pending: "r_status (fst c1) = R_PENDING"
    and first: "executeClaim (Go c1) s = (s1, Inr (Go c))"
  shows "executeClaim (Go c2) s1 = (s1, Inr (Done (fst c)))
    \<and> executeRest cfg pe now actor own (Done (fst c)) s1 = (s1, Inr (fst c))
    \<and> (\<not> r_ambiguousResponse (fst c) \<and> \<not> r_ambiguousNetworkFailure (fst c) \<longrightarrow>
         (\<exists>c3. executeRead rid True s1 = (s1, Inr (Go c3))))"
proof -
  have same: "c2 = c1" using executeRead_go(2)[OF r1] executeRead_go(2)[OF r2] by simp
  obtain r x p where c1: "c1 = (r, x, p)" by (cases c1)
  have rid: "r_id r = rid" using loadRefund_row(2) executeRead_go(2)[OF r1] c1 by blast
  obtain r' x' p' where c: "c = (r', x', p')" by (cases c)
  note cl = executeClaim_go[OF first, unfolded c1 fst_conv rid c]
  note row' = loadRefund_row[OF cl(2)]
  have "executeClaim (Go c2) s1 = (s1, Inr (Done r'))"
    using same c1 rid row'(1) cl(3) pending by (simp add: executeClaim_def)
  moreover have "\<not> r_ambiguousResponse r' \<and> \<not> r_ambiguousNetworkFailure r' \<longrightarrow> (\<exists>c3. executeRead rid True s1 = (s1, Inr (Go c3)))"
    using cl(2,3) by (simp add: executeRead_def ops isTerminalRefund_def canRefund_def)
  ultimately show ?thesis by (simp add: executeRest_def c)
qed

subsection \<open>Runs of refunds\<close>

text \<open>Whatever an execution ends with, it rewrites at most the row of its refund.\<close>

definition touches :: "id \<Rightarrow> sys \<Rightarrow> sys \<Rightarrow> bool" where
  "touches rid s s1 \<longleftrightarrow> (\<exists>f. refunds s1 = setBy r_id rid f (refunds s)
       \<and> (\<forall>y. r_id (f y) = r_id y \<and> r_orderId (f y) = r_orderId y \<and> r_amount (f y) = r_amount y))
     \<and> map p_orderId (payments s1) = map p_orderId (payments s)
     \<and> map p_amount (payments s1) = map p_amount (payments s)"

lemma setBy_same: "setBy key k (\<lambda>y. y) rs = rs"
  by (simp add: setBy_def)

lemma setBy_twice:
  "(\<And>r. key (f r) = key r) \<Longrightarrow> setBy key k g (setBy key k f rs) = setBy key k (\<lambda>y. g (f y)) rs"
  by (auto simp: setBy_def)

lemma touches_same: "refunds s1 = refunds s \<Longrightarrow> payments s1 = payments s \<Longrightarrow> touches rid s s1"
  unfolding touches_def by (intro conjI exI[of _ "\<lambda>y. y"]) (simp_all add: setBy_same)

lemma touches_trans: "touches rid s s1 \<Longrightarrow> touches rid s1 s2 \<Longrightarrow> touches rid s s2"
  unfolding touches_def by (elim conjE exE, intro conjI) (auto simp: setBy_twice intro!: exI)

lemma touches_claim: "touches rid s (setRefund rid (\<lambda>y. y\<lparr>r_status := st\<rparr>) s)"
  unfolding touches_def by (intro conjI exI[of _ "\<lambda>y. y\<lparr>r_status := st\<rparr>"]) simp_all

lemma settles_touches: "settles rid fin s s1 \<Longrightarrow> touches rid s s1"
  by (auto simp: settles_def touches_def)

lemma transaction_touches:
  assumes "\<And>s1 fin. body s = (s1, Inr fin) \<Longrightarrow> settles rid fin s s1"
  shows "touches rid s (fst (inTransaction body s))"
proof (cases "snd (inTransaction body s)")
  case (Inl err)
  then have "inTransaction body s = (fst (inTransaction body s), Inl err)" by (simp add: prod_eq_iff)
  from inTransaction_throws[OF this] show ?thesis by (intro touches_same) simp_all
next
  case (Inr x)
  then have "inTransaction body s = (fst (inTransaction body s), Inr x)" by (simp add: prod_eq_iff)
  then have "body s = (fst (inTransaction body s), Inr x)" unfolding inTransaction_Inr .
  from settles_touches[OF assms[OF this]] show ?thesis .
qed

lemma executeSettle_touches: "touches (r_id (fst c)) s (fst (executeSettle cfg now actor c resp s))"
proof -
  have tx1: "touches (r_id (fst c)) s (fst (inTransaction (refundSucceeded now c resp) s))"
    by (rule transaction_touches) (rule refundSucceeded_settles)
  have tx2: "touches (r_id (fst c)) s (fst (inTransaction (refundFailed now c resp) s))"
    by (rule transaction_touches) (rule refundFailed_settles)
  have keep: "touches (r_id (fst c)) s (fst (refundAudit actor c a fin s1))"
    if "touches (r_id (fst c)) s s1" for s1 a fin
    using that by (rule touches_trans) (auto simp: refundAudit_def intro: touches_same)
  have rel: "touches (r_id (fst c)) s (fst (releaseReservation cfg i st s1))"
    if "touches (r_id (fst c)) s s1" for s1 i st
    using that by (rule touches_trans) (auto intro: touches_same)
  have amb: "touches (r_id (fst c)) s (fst (refundAmbiguous c resp s))"
  proof (cases "refundAmbiguous c resp s")
    case (Pair s1 r)
    then show ?thesis
      using refundAmbiguous_settles[of c resp s s1] settles_touches
      by (cases r) (auto simp: refundAmbiguous_def updateRefund_def intro: touches_same split: option.splits)
  qed
  show ?thesis
    by (simp add: executeSettle_def andThen_eq tx1 tx2 amb keep rel split: sum.splits)
qed

lemma executeRefund_touches:
  shows "touches rid s (fst (executeRefund cfg pe now lk rid actor s))"
    and "refunds (fst (executeRefund cfg pe now lk rid actor s)) \<noteq> refunds s \<Longrightarrow>
      \<exists>r. rowBy r_id rid (refunds s) = Some r \<and> \<not> isTerminalRefund (r_status r)"
proof -
  let ?run = "executeRefund cfg pe now lk rid actor s"
  have "touches rid s (fst ?run) \<and> (fst ?run = s \<or> (\<exists>r. rowBy r_id rid (refunds s) = Some r \<and> \<not> isTerminalRefund (r_status r)))"
  proof (cases "fst ?run = s")
    case True
    then show ?thesis by (simp add: touches_same)
  next
    case False
    let ?s1 = "setRefund rid (\<lambda>y. y\<lparr>r_status := R_PROCESSING\<rparr>) s"
    have no: "rl_error lk = None" using False by (auto simp: executeRefund_def split: option.splits)
    obtain s0 g where read: "executeRead rid (rl_first lk) s = (s0, g)" by fastforce
    have s0: "s0 = s"
      using read by (auto simp: executeRead_def ops split: sum.splits option.splits if_splits)
    obtain c where g: "g = Inr (Go c)"
    proof (cases g)
      case (Inl e)
      then show ?thesis using False no read s0 by (simp add: executeRefund_def andThen_eq)
    next
      case (Inr gate)
      then show ?thesis
        using False no read s0 that
        by (cases gate) (auto simp: executeRefund_def andThen_eq executeClaim_def executeRest_def)
    qed
    note rd = executeRead_go[OF read[unfolded g]]
    obtain r x p where c: "c = (r, x, p)" by (cases c)
    note row = loadRefund_row[OF rd(2)[unfolded c]]
    obtain s2 g2 where claim: "executeClaim (Go c) s = (s2, g2)" by fastforce
    have s2: "s2 = ?s1" and nd: "\<And>d. g2 \<noteq> Inr (Done d)"
      using claim row(1,2) c by (auto simp: executeClaim_def Let_def split: sum.splits option.splits)
    have rid: "r_id (fst c1) = rid" if "g2 = Inr (Go c1)" for c1
      using claim that row(1,2) c loadRefund_row(2)[of rid ?s1]
      by (cases c1) (auto simp: executeClaim_def Let_def split: sum.splits option.splits)
    have run: "fst ?run = (case g2 of Inl e \<Rightarrow> ?s1 | Inr gate \<Rightarrow> fst (executeRest cfg pe now actor (rl_second lk) gate ?s1))"
      using no read s0 g claim s2 by (simp add: executeRefund_def andThen_eq split: sum.splits)
    have "touches rid ?s1 (fst ?run)"
    proof (cases g2)
      case (Inl e)
      then show ?thesis by (simp add: run touches_same)
    next
      case (Inr gate)
      then obtain c1 where gate: "gate = Go c1" using nd by (cases gate) auto
      show ?thesis
        using executeSettle_touches[of c1 ?s1] rid[of c1] Inr gate
        by (auto simp: run executeRest_def andThen_eq lift_def intro: touches_same split: sum.splits)
    qed
    with touches_claim touches_trans row(1) rd(4) c show ?thesis by (metis fst_conv)
  qed
  then show "touches rid s (fst ?run)" and "refunds (fst ?run) \<noteq> refunds s \<Longrightarrow>
      \<exists>r. rowBy r_id rid (refunds s) = Some r \<and> \<not> isTerminalRefund (r_status r)" by auto
qed

text \<open>
  The accesses of the refund service as events. \<open>RfRead\<close> makes the checks of a request and remembers
  what it is going to write; it holds the lock of the order's row (\<open>FOR UPDATE\<close>) until \<open>RfOpen\<close>
  writes. \<open>RfClaim\<close> is the conditional update with which an execution begins, of a refund read any
  time before, \<open>RfSettle\<close> writes a provider's answer. \<open>RfOther\<close> is whatever else runs in between:
  it leaves refunds alone and neither drops a payment nor changes its order or amount.
\<close>

datatype refund_event =
    RfRead refund_env id refund_input bool "string option"
  | RfOpen "id \<times> order \<times> refund"
  | RfClaim loaded
  | RfSettle time id loaded refund_response
  | RfOther "sys \<Rightarrow> sys"

type_synonym refunding = "sys \<times> (id \<times> order \<times> refund) list"

fun refundStep :: "config \<Rightarrow> refund_event \<Rightarrow> refunding \<Rightarrow> refunding" where
  "refundStep cfg (RfRead e u inp adm h) (s, ps) =
     (case refundPlan e u inp adm h s of Inr (Inr (x, r)) \<Rightarrow> (s, (u, x, r) # ps) | _ \<Rightarrow> (s, ps))"
| "refundStep cfg (RfOpen p) (s, ps) = (fst (inTransaction (case p of (u, x, r) \<Rightarrow> openRefund u x r) s), remove1 p ps)"
| "refundStep cfg (RfClaim c) (s, ps) = (fst (executeClaim (Go c) s), ps)"
| "refundStep cfg (RfSettle now actor c resp) (s, ps) = (fst (executeSettle cfg now actor c resp s), ps)"
| "refundStep cfg (RfOther f) (s, ps) = (f s, ps)"

text \<open>The refund still has the status it was loaded with.\<close>

definition asLoaded :: "loaded \<Rightarrow> sys \<Rightarrow> bool" where
  "asLoaded c s \<longleftrightarrow> (\<forall>r. rowBy r_id (r_id (fst c)) (refunds s) = Some r \<longrightarrow> r_status r = r_status (fst c))"

definition paymentTerms :: "sys \<Rightarrow> (id \<times> int) list" where
  "paymentTerms s = map (\<lambda>p. (p_orderId p, p_amount p)) (payments s)"

fun refundEnabled :: "refund_event \<Rightarrow> refunding \<Rightarrow> bool" where
  "refundEnabled (RfRead e u inp adm h) (s, ps) = (ri_orderId inp \<notin> set (map (\<lambda>(u, x, r). o_id x) ps))"
| "refundEnabled (RfOpen p) (s, ps) = (p \<in> set ps)"
| "refundEnabled (RfClaim c) (s, ps) = (\<not> isTerminalRefund (r_status (fst c)))"
| "refundEnabled (RfSettle now actor c resp) (s, ps) = (r_status (fst c) = R_PROCESSING \<and> asLoaded c s)"
| "refundEnabled (RfOther f) (s, ps) = (refunds (f s) = refunds s \<and> (\<exists>more. paymentTerms (f s) = paymentTerms s @ more))"

definition covers :: "int \<Rightarrow> id \<Rightarrow> sys \<Rightarrow> bool" where
  "covers n orderId s \<longleftrightarrow> (\<exists>a. (orderId, a) \<in> set (paymentTerms s) \<and> n \<le> a)"

definition refunds_ok :: "refunding \<Rightarrow> bool" where
  "refunds_ok = (\<lambda>(s, ps). unique_by r_id (refunds s) \<and> (\<forall>r \<in> set (refunds s). 0 \<le> r_amount r)
     \<and> (\<forall>i. alreadyRefunded i s = 0 \<or> covers (alreadyRefunded i s) i s)
     \<and> distinct (map (\<lambda>(u, x, r). o_id x) ps)
     \<and> (\<forall>(u, x, r) \<in> set ps. r_orderId r = o_id x \<and> 0 \<le> r_amount r \<and> r_status r = R_PENDING
          \<and> covers (alreadyRefunded (o_id x) s + r_amount r) (o_id x) s))"

lemma refunds_okD:
  assumes "refunds_ok (s, ps)"
  shows "unique_by r_id (refunds s)" and "r \<in> set (refunds s) \<Longrightarrow> 0 \<le> r_amount r"
    and "alreadyRefunded i s = 0 \<or> covers (alreadyRefunded i s) i s" and "distinct (map (\<lambda>(u, x, r). o_id x) ps)"
    and "(u, x, q) \<in> set ps \<Longrightarrow> r_orderId q = o_id x \<and> 0 \<le> r_amount q \<and> r_status q = R_PENDING
          \<and> covers (alreadyRefunded (o_id x) s + r_amount q) (o_id x) s"
  using assms by (auto simp: refunds_ok_def)

lemma alreadyRefunded_nonneg: "\<forall>r \<in> set (refunds s). 0 \<le> r_amount r \<Longrightarrow> 0 \<le> alreadyRefunded i s"
  unfolding alreadyRefunded_sum by (intro sum_list_nonneg) (auto simp: refundWeight_def)

lemma covers_mono:
  "covers a i s \<Longrightarrow> b \<le> a \<Longrightarrow> set (paymentTerms s) \<subseteq> set (paymentTerms s1) \<Longrightarrow> covers b i s1"
  unfolding covers_def by (meson order_trans subsetD)

lemma map_pair:
  assumes f: "map f xs = map f ys" and g: "map g xs = map g ys"
  shows "map (\<lambda>p. (f p, g p)) xs = map (\<lambda>p. (f p, g p)) ys"
proof (rule nth_equalityI)
  have len: "length xs = length ys" using f by (rule map_eq_imp_length_eq)
  then show "length (map (\<lambda>p. (f p, g p)) xs) = length (map (\<lambda>p. (f p, g p)) ys)" by simp
  fix i assume "i < length (map (\<lambda>p. (f p, g p)) xs)"
  then have i: "i < length xs" "i < length ys" using len by simp_all
  then have "f (xs ! i) = f (ys ! i)" "g (xs ! i) = g (ys ! i)"
    using arg_cong[OF f, of "\<lambda>l. l ! i"] arg_cong[OF g, of "\<lambda>l. l ! i"] by simp_all
  with i show "map (\<lambda>p. (f p, g p)) xs ! i = map (\<lambda>p. (f p, g p)) ys ! i" by simp
qed

lemma touches_terms: "touches rid s s1 \<Longrightarrow> paymentTerms s1 = paymentTerms s"
  unfolding touches_def paymentTerms_def by (intro map_pair) simp_all

text \<open>Rewriting the row of a refund that has not ended keeps every total within bounds.\<close>

lemma touched_ok:
  assumes ok: "refunds_ok (s, ps)" and t: "touches rid s s1"
    and row: "refunds s1 = refunds s \<or> (\<exists>r. rowBy r_id rid (refunds s) = Some r \<and> \<not> isTerminalRefund (r_status r))"
  shows "refunds_ok (s1, ps)"
proof -
  note d = refunds_okD[OF ok]
  obtain f where f: "refunds s1 = setBy r_id rid f (refunds s)"
    "\<And>y. r_id (f y) = r_id y" "\<And>y. r_orderId (f y) = r_orderId y" "\<And>y. r_amount (f y) = r_amount y"
    using t unfolding touches_def by blast
  have nn: "\<forall>r \<in> set (refunds s1). 0 \<le> r_amount r" using d(2) f(1,4) by (auto dest!: in_setBy)
  have le: "alreadyRefunded i s1 \<le> alreadyRefunded i s" for i
    using row
  proof
    assume "\<exists>r. rowBy r_id rid (refunds s) = Some r \<and> \<not> isTerminalRefund (r_status r)"
    then obtain r where r: "rowBy r_id rid (refunds s) = Some r" "\<not> isTerminalRefund (r_status r)" by blast
    have cnt: "countsAsRefund (r_status r)"
      using r(2) by (cases "r_status r") (simp_all add: countsAsRefund_def isTerminalRefund_def)
    have "0 \<le> r_amount r" using rowBy_SomeD[OF r(1)] d(2) by blast
    then show ?thesis using total_setBy_le(1)[OF d(1) r(1) f(1) f(3,4) _ cnt] by blast
  qed (simp add: alreadyRefunded_def)
  have terms: "set (paymentTerms s) \<subseteq> set (paymentTerms s1)" using touches_terms[OF t] by simp
  have "alreadyRefunded i s1 = 0 \<or> covers (alreadyRefunded i s1) i s1" for i
    using d(3)[of i] le[of i] alreadyRefunded_nonneg[OF nn, of i] covers_mono[OF _ le[of i] terms] by auto
  moreover have "covers (alreadyRefunded (o_id x) s1 + r_amount q) (o_id x) s1" if "(u, x, q) \<in> set ps" for u x q
    using d(5)[OF that] covers_mono[OF _ _ terms] le[of "o_id x"] by (meson add_right_mono)
  ultimately show ?thesis
    using d(1,4,5) nn f(1,2) by (auto simp: refunds_ok_def rows)
qed

lemma openRefund_cases:
  obtains (Refused) "refunds (fst (inTransaction (openRefund u x r) s)) = refunds s"
      and "payments (fst (inTransaction (openRefund u x r) s)) = payments s"
  | (Opened) "refunds (fst (inTransaction (openRefund u x r) s)) = refunds s @ [r]"
      and "payments (fst (inTransaction (openRefund u x r) s)) = payments s" and "rowBy r_id (r_id r) (refunds s) = None"
proof (cases "snd (inTransaction (openRefund u x r) s)")
  case (Inl err)
  then have "inTransaction (openRefund u x r) s = (fst (inTransaction (openRefund u x r) s), Inl err)" by (simp add: prod_eq_iff)
  from inTransaction_throws[OF this] show ?thesis by (intro Refused) simp_all
next
  case (Inr v)
  then have "inTransaction (openRefund u x r) s = (fst (inTransaction (openRefund u x r) s), Inr v)" by (simp add: prod_eq_iff)
  then have "openRefund u x r s = (fst (inTransaction (openRefund u x r) s), Inr v)" unfolding inTransaction_Inr .
  then show ?thesis by (intro Opened) (auto simp: openRefund_def ops insertRefund_def setOrder_def split: if_splits)
qed

lemma refundPlan_new:
  assumes "refundPlan e u inp adm h s = Inr (Inr (x, r))"
  obtains p a where "rowBy o_id (ri_orderId inp) (orders s) = Some x" and "refundRefused u adm x s = None"
    and "refundPayment inp (paymentsOf (o_id x) s) = Some p"
    and "refundAmount inp (p_amount p) (alreadyRefunded (o_id x) s) = Inr a"
    and "r = newRefund e u inp (refundKey e inp h) x p a"
  using assms by (auto simp: refundPlan_def Let_def split: option.splits sum.splits if_splits)

lemma read_ok:
  assumes ok: "refunds_ok (s, ps)" and en: "refundEnabled (RfRead e u inp adm h) (s, ps)"
    and plan: "refundPlan e u inp adm h s = Inr (Inr (x, r))"
  shows "refunds_ok (s, (u, x, r) # ps)"
proof -
  obtain p a where p: "rowBy o_id (ri_orderId inp) (orders s) = Some x"
    "refundPayment inp (paymentsOf (o_id x) s) = Some p" "refundAmount inp (p_amount p) (alreadyRefunded (o_id x) s) = Inr a"
    "r = newRefund e u inp (refundKey e inp h) x p a"
    using refundPlan_new[OF plan] by metis
  have r: "r_orderId r = o_id x" "r_amount r = toColumn 4 a" "r_status r = R_PENDING" by (simp_all add: p(4) newRefund_def)
  have "o_id x = ri_orderId inp" using rowBy_SomeD[OF p(1)] by simp
  moreover have "covers (alreadyRefunded (o_id x) s + r_amount r) (o_id x) s"
    using refundAmount_within(2)[OF p(3)] refundPayment_of[OF p(2)]
    by (auto simp: covers_def r paymentTerms_def paymentsOf_member image_iff intro!: exI[of _ "p_amount p"] bexI[of _ p])
  ultimately show ?thesis using ok en r refundAmount_within(3)[OF p(3)] by (auto simp: refunds_ok_def)
qed

lemma open_ok:
  assumes ok: "refunds_ok (s, ps)" and plan: "(u, x, r) \<in> set ps"
  shows "refunds_ok (fst (inTransaction (openRefund u x r) s), remove1 (u, x, r) ps)"
proof -
  note d = refunds_okD[OF ok]
  let ?s1 = "fst (inTransaction (openRefund u x r) s)" and ?ps = "remove1 (u, x, r) ps"
  have dis: "distinct (map (\<lambda>(u, x, r). o_id x) ?ps)" and less: "set ?ps \<subseteq> set ps"
    using d(4) by (auto simp: distinct_map distinct_remove1 inj_on_def dest: notin_set_remove1)
  have other: "o_id y \<noteq> o_id x" if "(v, y, q) \<in> set ?ps" for v y q
  proof -
    have "(v, y, q) \<in> set ps" "(v, y, q) \<noteq> (u, x, r)" using that d(4) by (auto simp: distinct_map)
    then show ?thesis using d(4) plan by (auto simp: distinct_map inj_on_def)
  qed
  show ?thesis
  proof (cases rule: openRefund_cases[of u x r s])
    case Refused
    then have "alreadyRefunded i ?s1 = alreadyRefunded i s" "paymentTerms ?s1 = paymentTerms s" for i
      by (simp_all add: alreadyRefunded_def paymentTerms_def)
    with Refused dis less d show ?thesis by (auto simp: refunds_ok_def covers_def)
  next
    case Opened
    note r = d(5)[OF plan]
    have sum: "alreadyRefunded i ?s1 = alreadyRefunded i s + (if i = o_id x then r_amount r else 0)" for i
      using Opened(1) r by (simp add: alreadyRefunded_sum refundWeight_def countsAsRefund_def)
    have terms: "paymentTerms ?s1 = paymentTerms s" using Opened(2) by (simp add: paymentTerms_def)
    have "alreadyRefunded i ?s1 = 0 \<or> covers (alreadyRefunded i ?s1) i ?s1" for i
      using d(3)[of i] r sum[of i] terms by (cases "i = o_id x") (simp_all add: covers_def)
    moreover have "covers (alreadyRefunded (o_id y) ?s1 + r_amount q) (o_id y) ?s1" if "(v, y, q) \<in> set ?ps" for v y q
      using d(5)[of v y q] less that other[OF that] sum[of "o_id y"] terms by (auto simp: covers_def)
    moreover have "unique_by r_id (refunds ?s1)" using d(1) Opened(1,3) by (simp add: unique_append_one)
    ultimately show ?thesis
      using dis less d(2,5) r by (auto simp: refunds_ok_def Opened(1))
  qed
qed

lemma refundStep_keeps:
  assumes ok: "refunds_ok c" and en: "refundEnabled ev c"
  shows "refunds_ok (refundStep cfg ev c)"
proof -
  obtain s ps where c: "c = (s, ps)" by (cases c)
  note ok = ok[unfolded c] and en = en[unfolded c]
  show ?thesis
  proof (cases ev)
    case (RfRead e u inp adm h)
    then show ?thesis
      using ok en read_ok[of s ps e u inp adm h] by (auto simp: c split: sum.splits)
  next
    case (RfOpen p)
    obtain u x r where p: "p = (u, x, r)" by (cases p)
    then show ?thesis using RfOpen ok en open_ok[of s ps u x r] by (simp add: c)
  next
    case (RfClaim l)
    obtain r x p where l: "l = (r, x, p)" by (cases l)
    have "touches (r_id r) s (fst (executeClaim (Go l) s))
      \<and> (fst (executeClaim (Go l) s) = s \<or> (\<exists>q. rowBy r_id (r_id r) (refunds s) = Some q \<and> \<not> isTerminalRefund (r_status q)))"
      using en RfClaim touches_claim[of "r_id r" s R_PROCESSING] touches_same[of s s "r_id r"]
      by (auto simp: executeClaim_def Let_def l split: option.splits sum.splits if_splits)
    then show ?thesis using touched_ok[OF ok, of "r_id r"] RfClaim by (auto simp: c)
  next
    case (RfSettle now actor l resp)
    let ?s1 = "fst (executeSettle cfg now actor l resp s)"
    have t: "touches (r_id (fst l)) s ?s1" by (rule executeSettle_touches)
    have "refunds ?s1 = refunds s \<or> (\<exists>r. rowBy r_id (r_id (fst l)) (refunds s) = Some r \<and> \<not> isTerminalRefund (r_status r))"
    proof (cases "rowBy r_id (r_id (fst l)) (refunds s)")
      case None
      with t show ?thesis by (auto simp: touches_def setBy_absent)
    next
      case (Some r)
      with en RfSettle show ?thesis by (simp add: asLoaded_def isTerminalRefund_def)
    qed
    from touched_ok[OF ok t this] show ?thesis using RfSettle by (simp add: c)
  next
    case (RfOther f)
    then obtain more where f: "refunds (f s) = refunds s" "paymentTerms (f s) = paymentTerms s @ more" using en by auto
    then have "alreadyRefunded i (f s) = alreadyRefunded i s" for i by (simp add: alreadyRefunded_def)
    with ok f show ?thesis by (fastforce simp: c RfOther refunds_ok_def covers_def)
  qed
qed

interpretation refund_runs: component refundEnabled "refundStep cfg" refunds_ok for cfg
  by unfold_locales (rule refundStep_keeps)

text \<open>
  C9. The refunds of an order that are pending, in progress or succeeded add up to at most the amount
  of one payment of that order. The reads and writes of any number of requests and executions, also
  of executions of the same refund, come in any order, with anything in between that leaves refunds
  and the terms of payments alone; the row lock of the order keeps two requests for one order apart.
  One order of events is excluded: that an answer is written to a refund another execution has
  ended meanwhile. The code does not exclude it - \<open>executeRefund\<close> goes on without its lock when
  another process holds it - and \<open>overtaken_refund_counts_again\<close> shows that it breaks the bound.
\<close>

theorem refunds_never_exceed_payment:
  assumes "refunds s = []" and "admissible refundEnabled (refundStep cfg) evs (s, [])"
    and "runSteps (refundStep cfg) evs (s, []) = (s1, ps)" and "alreadyRefunded orderId s1 \<noteq> 0"
  shows "\<exists>p \<in> set (payments s1). p_orderId p = orderId \<and> alreadyRefunded orderId s1 \<le> p_amount p"
proof -
  have "refunds_ok (s, [])" using assms(1) by (simp add: refunds_ok_def alreadyRefunded_def unique_by_def)
  then have "refunds_ok (s1, ps)" using refund_runs.run_keeps assms(2,3) by metis
  with assms(4) show ?thesis by (auto simp: refunds_ok_def covers_def paymentTerms_def)
qed

text \<open>The whole operations are sequences of these accesses.\<close>

lemma createRefund_is_read_open:
  "refundPlan e u inp adm h s = Inr (Inr (x, r)) \<Longrightarrow>
     createRefund e u inp adm h s = inTransaction (openRefund u x r) s"
  by (simp add: createRefund_def createRefundBody_def inTransaction_def)

text \<open>
  Two executions of one refund: the first answer was a failure, the amount became free again and may
  have been refunded by another refund; the second answer, a success, makes it count once more.
\<close>

lemma overtaken_refund_counts_again:
  assumes u: "unique_by r_id (refunds s)" and row: "rowBy r_id (r_id (fst c)) (refunds s) = Some r" "r_status r = R_FAILED"
    and run: "executeSettle cfg now actor c resp s = (s1, Inr fin)" "rr_status resp = R_SUCCEEDED"
  shows "alreadyRefunded (r_orderId r) s1 = alreadyRefunded (r_orderId r) s + r_amount r"
proof -
  obtain q x p where c: "c = (q, x, p)" by (cases c)
  obtain s2 where ok: "refundSucceeded now c resp s = (s2, Inr fin)" and s1: "refunds s1 = refunds s2"
    using run by (auto simp: executeSettle_def refundAudit_def inTransaction_Inr dest!: release_result elim!: andThen_returns)
  let ?f = "\<lambda>y. y\<lparr>r_status := R_SUCCEEDED, r_providerRefundId := Some (rr_providerRefundId resp),
          r_providerReference := noneIfFalsy (rr_transactionReference resp), r_completedAt := Some now,
          r_ambiguousResponse := False, r_ambiguousNetworkFailure := False\<rparr>"
  have "refunds s2 = setBy r_id (r_id q) ?f (refunds s)"
    using ok row(1) by (auto simp: refundSucceeded_def c andThen_eq updateRefund_def split: sum.splits)
  then show ?thesis
    using sum_setBy[OF u row(1), of "refundWeight (r_orderId r)" ?f] row(2)
    by (simp add: alreadyRefunded_sum s1 c refundWeight_def countsAsRefund_def)
qed

subsection \<open>A successful refund\<close>

lemma moveOrder_returns:
  assumes "moveOrder i a b s = (s1, Inr u)"
  shows "s1 = setOrder i (\<lambda>y. y\<lparr>o_status := b\<rparr>) s" and "canOrder a b"
  using assms by (auto simp: moveOrder_def ops split: option.splits if_splits)

lemma released_not_active:
  assumes "ledger_inv s" and "\<not> active st"
    and "rowBy v_orderId i (reservations (fst (releaseReservation cfg i st s))) = Some v"
  shows "\<not> active (v_status v)"
proof (cases "rowBy v_orderId i (reservations s)")
  case None
  with assms show ?thesis by (simp add: releaseReservation_eq release_missing)
next
  case (Some v0)
  have ok: "ledger_ok (pools s) (reservations s)" using assms(1) by (simp add: ledger_inv_def)
  obtain p where p: "rowBy l_id (v_poolId v0) (pools s) = Some p" "rowBy v_id (v_id v0) (reservations s) = Some v0"
    using ledger_lookup[OF ok Some] by metis
  show ?thesis
  proof (cases "active (v_status v0)")
    case False
    with assms Some show ?thesis by (simp add: releaseReservation_eq release_inactive)
  next
    case True
    have "v \<in> set (setBy v_id (v_id v0) (\<lambda>r. r\<lparr>v_status := st\<rparr>) (reservations s))" "v_orderId v = i"
      using rowBy_SomeD[OF assms(3)] release_active(2)[OF assms(1) Some True p(1), of cfg st]
      by (simp_all add: releaseReservation_eq[OF assms(1)])
    then show ?thesis by (rule closed_row[OF ok Some assms(2)])
  qed
qed

text \<open>
  C19. When the provider refunded and the writes went through, the refund is succeeded, its payment
  REFUNDED and its order REFUNDED - also after a partial refund - the order's reservation holds no
  liquidity any more and the ledger is intact; and no further refund of that order is ever
  created, so what a partial refund left of the payment cannot be refunded.
\<close>

theorem refund_success_effect:
  assumes inv: "ledger_inv s" and load: "loadRefund rid s = Inr (Some c)" and won: "rr_status resp = R_SUCCEEDED"
    and run: "executeSettle cfg now actor c resp s = (s1, Inr fin)"
  shows "rowBy r_id rid (refunds s1) = Some fin \<and> r_status fin = R_SUCCEEDED
    \<and> (\<forall>i p. r_paymentId (fst c) = Some i \<and> i \<noteq> [] \<and> rowBy p_id i (payments s1) = Some p \<longrightarrow> p_status p = P_REFUNDED)
    \<and> (\<exists>x. rowBy o_id (r_orderId (fst c)) (orders s1) = Some x \<and> o_status x = O_REFUNDED)
    \<and> (\<forall>v. rowBy v_orderId (r_orderId (fst c)) (reservations s1) = Some v \<longrightarrow> \<not> active (v_status v))
    \<and> ledger_inv s1
    \<and> (ri_orderId inp = r_orderId (fst c) \<longrightarrow> snd (createRefund e u inp adm h s1) \<noteq> Inr (r', False))"
proof -
  obtain r x p where c: "c = (r, x, p)" by (cases c)
  note row = loadRefund_row[OF load[unfolded c]]
  let ?f = "\<lambda>y. y\<lparr>r_status := R_SUCCEEDED,
          r_providerRefundId := Some (rr_providerRefundId resp),
          r_providerReference := noneIfFalsy (rr_transactionReference resp), r_completedAt := Some now,
          r_ambiguousResponse := False, r_ambiguousNetworkFailure := False\<rparr>"
  let ?rel = "releaseReservation cfg (r_orderId r) V_CANCELLED_RELEASED"
  obtain s2 s3 y where body: "refundSucceeded now c resp s = (s2, Inr fin)" and call: "?rel s2 = (s3, Inr y)"
    and s1: "refunds s1 = refunds s3" "orders s1 = orders s3" "payments s1 = payments s3"
      "pools s1 = pools s3" "reservations s1 = reservations s3"
    using run won unfolding executeSettle_def
    by (auto simp: refundAudit_def inTransaction_Inr c elim!: andThen_returns)
  have s3: "s3 = fst (?rel s2)" using call by simp
  from body row(1,2) obtain sp where mark: "markPaymentRefunded (r_paymentId r) (setRefund rid ?f s) = (sp, Inr ())"
    and s2: "s2 = setOrder (r_orderId r) (\<lambda>y. y\<lparr>o_status := O_REFUNDED\<rparr>) sp" and fin: "fin = ?f r"
    by (auto simp: refundSucceeded_def c updateRefund_def elim!: andThen_returns dest!: moveOrder_returns(1))
  have sp: "refunds sp = setBy r_id rid ?f (refunds s)" "orders sp = orders s"
    "pools sp = pools s" "reservations sp = reservations s"
    using mark by (auto simp: markPaymentRefunded_def setPayment_def split: option.splits if_splits)
  have pay: "p_status q = P_REFUNDED" if "r_paymentId r = Some i" "i \<noteq> []" "rowBy p_id i (payments sp) = Some q" for i q
    using mark that by (auto simp: markPaymentRefunded_def setPayment_def rows split: if_splits)
  have l2: "ledger_inv s2" using inv by (simp add: ledger_inv_def s2 setOrder_def sp)
  have rel: "refunds s3 = refunds s2" "orders s3 = orders s2" "payments s3 = payments s2" by (simp_all add: s3)
  have l3: "ledger_inv s3"
    using release_ledger[OF l2, of V_CANCELLED_RELEASED cfg "r_orderId r"] by (simp add: s3 releaseReservation_eq[OF l2])
  have ord: "rowBy o_id (r_orderId r) (orders s1) = Some (x\<lparr>o_status := O_REFUNDED\<rparr>)"
    using row(3) by (simp add: s1 rel s2 setOrder_def sp rows)
  have "\<not> active (v_status v)" if "rowBy v_orderId (r_orderId r) (reservations s1) = Some v" for v
    using released_not_active[OF l2 _ , of V_CANCELLED_RELEASED "r_orderId r" cfg v] that by (simp add: s1 s3)
  moreover have "snd (createRefund e u inp adm h s1) \<noteq> Inr (r', False)" if "ri_orderId inp = r_orderId r"
  proof
    assume "snd (createRefund e u inp adm h s1) = Inr (r', False)"
    then have "createRefund e u inp adm h s1 = (fst (createRefund e u inp adm h s1), Inr (r', False))"
      by (simp add: prod_eq_iff)
    then show False
      by (cases rule: createRefund_returns) (use ord that in \<open>auto simp: canOrder_def\<close>)
  qed
  ultimately show ?thesis
    using row fin ord pay l3 by (auto simp: c s1 rel s2 sp rows ledger_inv_def)
qed

subsection \<open>Where refunds go wrong\<close>

text \<open>
  C31. The outcome of the provider is lost when the order has moved on: if the order of a claimed
  refund may not become REFUNDED - it was completed meanwhile - the provider has refunded, the
  transaction throws and is rolled back, and the refund stays in progress without the ambiguous
  mark, so that the next execution calls the provider for the same refund again.
\<close>

theorem refund_outcome_lost:
  assumes load: "loadRefund rid s = Inr (Some c)" and st: "r_status (fst c) = R_PROCESSING"
    and unmarked: "\<not> r_ambiguousResponse (fst c)" "\<not> r_ambiguousNetworkFailure (fst c)"
    and paid: "executeCall cfg pe True c = Inr resp" "rr_status resp = R_SUCCEEDED"
    and moved: "\<not> canOrder (o_status (fst (snd c))) O_REFUNDED"
    and pay: "\<And>i. r_paymentId (fst c) = Some i \<Longrightarrow> rowBy p_id i (payments s) \<noteq> None"
  shows "\<exists>s1. executeRest cfg pe now actor True (Go c) s = (s1, Inl (BadRequestError ''Invalid Order status transition''))
    \<and> refunds s1 = refunds s \<and> orders s1 = orders s
    \<and> executeRead rid True s1 = (s1, Inr (Go c)) \<and> executeCall cfg pe True c = Inr resp"
proof -
  obtain r x p where c: "c = (r, x, p)" by (cases c)
  note row = loadRefund_row[OF load[unfolded c]]
  let ?body = "refundSucceeded now c resp s"
  have mark: "snd (markPaymentRefunded (r_paymentId r) s0) = Inr ()" if "payments s0 = payments s" for s0
    using pay that by (auto simp: markPaymentRefunded_def c split: option.splits)
  have m: "snd ?body = Inl (BadRequestError ''Invalid Order status transition'')"
    using row moved by (simp add: refundSucceeded_def c andThen_eq updateRefund_def mark moveOrder_def
        validateOrderTransition_def)
  let ?s1 = "rollback s (fst ?body)"
  have "inTransaction (refundSucceeded now c resp) s = (?s1, Inl (BadRequestError ''Invalid Order status transition''))"
    using m by (simp add: inTransaction_eq)
  then have "executeRest cfg pe now actor True (Go c) s = (?s1, Inl (BadRequestError ''Invalid Order status transition''))"
    using paid by (simp add: executeRest_def lift_def executeSettle_def andThen_eq)
  moreover have same: "refunds ?s1 = refunds s" "orders ?s1 = orders s" "payments ?s1 = payments s"
    by (simp_all add: rollback_def)
  moreover have "loadRefund rid ?s1 = Inr (Some c)"
    using load loadRefund_cong[OF same] by simp
  then have "executeRead rid True ?s1 = (?s1, Inr (Go c))"
    using c st unmarked by (simp add: executeRead_def ops isTerminalRefund_def canRefund_def)
  ultimately show ?thesis using paid by blast
qed

text \<open>
  The payment a refund is created for need not be captured: when the order has no succeeded
  payment the first one is taken whatever its status, so the owner of an order whose payment
  failed gets a refund of the full amount, which is then sent to the provider.
\<close>

theorem refund_of_uncaptured_payment:
  assumes x: "rowBy o_id (ri_orderId inp) (orders s) = Some x" and own: "o_userId x = userId"
    and failed: "o_status x = O_FAILED"
    and ps: "paymentsOf (o_id x) s = p # ps" "\<forall>q \<in> set (p # ps). p_status q \<noteq> P_SUCCEEDED" "0 < p_amount p"
    and inp: "ri_paymentId inp = None" "ri_amount inp = None"
    and free: "settlementsOf (o_id x) s = []" "refunds s = []"
  shows "\<exists>s1. createRefund e userId inp False h s =
    (s1, Inr (newRefund e userId inp (refundKey e inp h) x p (ofColumn 4 (p_amount p)), False))"
proof -
  have none: "find (\<lambda>p. p_status p = P_SUCCEEDED) (p # ps) = None"
    using ps(2) by (auto simp: find_None_iff)
  have pay: "refundPayment inp (paymentsOf (o_id x) s) = Some p"
    using none inp by (simp add: refundPayment_def ps(1))
  have ref: "refundRefused userId False x s = None"
    using own failed free by (simp add: refundRefused_def userRefundStates_def)
  have amt: "refundAmount inp (p_amount p) (alreadyRefunded (o_id x) s) = Inr (ofColumn 4 (p_amount p))"
    using inp free ps(3) ofColumn_le_iff[of 4 "p_amount p" 0]
    by (auto simp: refundAmount_def alreadyRefunded_def ofColumn_def)
  have "snd (createRefundBody e userId inp False h s) =
      Inr (newRefund e userId inp (refundKey e inp h) x p (ofColumn 4 (p_amount p)), False)"
    using x pay ref amt free failed
    by (simp add: createRefundBody_def refundPlan_def Let_def openRefund_def ops insertRefund_def canOrder_def)
  then show ?thesis by (auto simp: createRefund_def inTransaction_eq)
qed

subsection \<open>A concrete refund\<close>

definition demo_refundable :: sys where
  "demo_refundable = demo_ledger\<lparr>payments := [demo_payment\<lparr>p_provider := ''MOCK''\<rparr>],
     orders := [demo_order ''u'' ''o'' demo_dto\<lparr>o_status := O_FAILED\<rparr>]\<rparr>"

definition demo_rin :: refund_input where
  "demo_rin = \<lparr>ri_orderId = ''o'', ri_paymentId = None, ri_amount = Some (Some 500), ri_reason = ''late'',
     ri_idempotencyKey = Some ''k1''\<rparr>"

definition demo_re :: refund_env where
  "demo_re = \<lparr>fe_now = 20, fe_stamp = ''20'', fe_refundId = ''r1''\<rparr>"

definition demo_refund :: refund where
  "demo_refund = newRefund demo_re ''u'' demo_rin ''k1'' (demo_order ''u'' ''o'' demo_dto)
     (demo_payment\<lparr>p_provider := ''MOCK''\<rparr>) 500"

definition demo_opened :: sys where
  "demo_opened = fst (createRefund demo_re ''u'' demo_rin False None demo_refundable)"

definition demo_held :: refund_lock where
  "demo_held = \<lparr>rl_error = None, rl_first = True, rl_second = True\<rparr>"

lemmas refund_demo_defs = demo_refundable_def demo_rin_def demo_re_def demo_refund_def newRefund_def
  demo_held_def pay_defs demo_defs

lemma demo_create:
  "createRefund demo_re ''u'' demo_rin False None demo_refundable = (demo_opened, Inr (demo_refund, False))"
  by (simp add: prod_eq_iff demo_opened_def createRefund_def inTransaction_eq createRefundBody_def refundPlan_def refundRefused_def
      settlementsOf_def refundPayment_def paymentsOf_def refundKey_def orDefault_def orElse_def refundAmount_def
      alreadyRefunded_def ofColumn_def openRefund_def ops canOrder_def insertRefund_def setOrder_def
      userRefundStates_def Let_def refund_demo_defs)

lemma demo_opened_tables:
  "refunds demo_opened = [demo_refund]" "payments demo_opened = payments demo_refundable"
  "orders demo_opened = [demo_order ''u'' ''o'' demo_dto\<lparr>o_status := O_REFUND_PENDING\<rparr>]"
  "pools demo_opened = pools demo_ledger" "reservations demo_opened = reservations demo_ledger"
  by (simp_all add: demo_opened_def createRefund_def inTransaction_eq createRefundBody_def refundPlan_def refundRefused_def
      settlementsOf_def refundPayment_def paymentsOf_def refundKey_def orDefault_def orElse_def refundAmount_def
      alreadyRefunded_def ofColumn_def openRefund_def ops canOrder_def insertRefund_def setOrder_def
      userRefundStates_def Let_def refund_demo_defs)

theorem refund_fits_payment_witness:
  "r_amount demo_refund = 5000000 \<and> alreadyRefunded ''o'' demo_opened \<le> 20000000"
proof -
  have a: "r_amount demo_refund = 5000000" by (simp add: refund_demo_defs toColumn_def)
  have "o_id (demo_order ''u'' ''o'' demo_dto\<lparr>o_status := O_FAILED\<rparr>) = ''o''" by (simp add: refund_demo_defs)
  with refund_fits_payment[OF demo_create] show ?thesis
    by (auto simp: a demo_refundable_def demo_rin_def demo_payment_def)
qed

definition demo_claimed :: loaded where
  "demo_claimed = (demo_refund\<lparr>r_status := R_PROCESSING\<rparr>,
     demo_order ''u'' ''o'' demo_dto\<lparr>o_status := O_REFUND_PENDING\<rparr>, Some (demo_payment\<lparr>p_provider := ''MOCK''\<rparr>))"

definition demo_claimed_sys :: sys where
  "demo_claimed_sys = setRefund ''r1'' (\<lambda>y. y\<lparr>r_status := R_PROCESSING\<rparr>) demo_opened"

definition demo_answer :: refund_response where
  "demo_answer = \<lparr>rr_providerRefundId = ''mock_ref_1'', rr_status = R_SUCCEEDED, rr_failureReason = None,
     rr_ambiguous = False, rr_transactionReference = None\<rparr>"

lemma demo_ids:
  "r_id demo_refund = ''r1''" "r_orderId demo_refund = ''o''" "r_paymentId demo_refund = Some ''pay''"
  "r_status demo_refund = R_PENDING" "\<not> r_ambiguousResponse demo_refund" "\<not> r_ambiguousNetworkFailure demo_refund"
  "o_id (demo_order ''u'' ''o'' demo_dto) = ''o''" "p_id demo_payment = ''pay''"
  by (simp_all add: refund_demo_defs)

lemma demo_load:
  "loadRefund ''r1'' demo_opened = Inr (Some (demo_refund,
     demo_order ''u'' ''o'' demo_dto\<lparr>o_status := O_REFUND_PENDING\<rparr>, Some (demo_payment\<lparr>p_provider := ''MOCK''\<rparr>)))"
  "loadRefund ''r1'' demo_claimed_sys = Inr (Some demo_claimed)"
  by (simp_all add: loadRefund_def demo_claimed_sys_def demo_claimed_def demo_opened_tables demo_ids demo_refundable_def)

lemma demo_read:
  "executeRead ''r1'' True demo_opened = (demo_opened, Inr (Go (demo_refund,
     demo_order ''u'' ''o'' demo_dto\<lparr>o_status := O_REFUND_PENDING\<rparr>, Some (demo_payment\<lparr>p_provider := ''MOCK''\<rparr>))))"
  by (simp add: executeRead_def ops demo_load demo_ids isTerminalRefund_def canRefund_def)

lemma demo_claim:
  "executeClaim (Go (demo_refund, demo_order ''u'' ''o'' demo_dto\<lparr>o_status := O_REFUND_PENDING\<rparr>,
     Some (demo_payment\<lparr>p_provider := ''MOCK''\<rparr>))) demo_opened = (demo_claimed_sys, Inr (Go demo_claimed))"
  using demo_load(2) by (simp add: executeClaim_def demo_ids demo_opened_tables demo_claimed_sys_def)

lemma demo_call: "executeCall demo_cfg demo_penv True demo_claimed = Inr demo_answer"
proof -
  have "\<not> contains ''late'' ''simulated_network_error''" "\<not> contains ''late'' ''simulated_failure''" by code_simp+
  then show ?thesis
    by (simp add: executeCall_def demo_claimed_def refundProvider_def orDefault_def registryGet_def registered_def
        toUpper_def upper_char_def mockRefund_def refundRequest_def refund_demo_defs demo_answer_def demo_penv_def)
qed

lemma demo_inv: "ledger_inv demo_claimed_sys"
  by (simp add: ledger_inv_def demo_claimed_sys_def demo_opened_tables)
    (simp add: demo_defs ledger_ok_def unique_by_def pool_ok_def held_def heldBy_def)

definition demo_refunded :: refund where
  "demo_refunded = demo_refund\<lparr>r_status := R_SUCCEEDED, r_providerRefundId := Some ''mock_ref_1'',
     r_providerReference := None, r_completedAt := Some 30, r_ambiguousResponse := False,
     r_ambiguousNetworkFailure := False\<rparr>"

lemma demo_settle:
  "executeSettle demo_cfg 30 ''u'' demo_claimed demo_answer demo_claimed_sys =
     (fst (executeSettle demo_cfg 30 ''u'' demo_claimed demo_answer demo_claimed_sys), Inr demo_refunded)"
  by (simp add: prod_eq_iff executeSettle_def demo_answer_def ops refundSucceeded_def demo_claimed_def updateRefund_def
      demo_claimed_sys_def demo_opened_tables demo_ids markPaymentRefunded_def demo_refundable_def moveOrder_def
      canOrder_def setPayment_def setOrder_def releaseReservation_def releaseReservationInTx_def refundAudit_def
      noneIfFalsy_def demo_refunded_def demo_defs)

lemma demo_started:
  "andThen (executeRead ''r1'' True) executeClaim demo_opened = (demo_claimed_sys, Inr (Go demo_claimed))"
  by (simp add: andThen_def demo_read demo_claim)

lemma demo_execute:
  "executeRefund demo_cfg demo_penv 30 demo_held ''r1'' ''u'' demo_opened =
     (fst (executeSettle demo_cfg 30 ''u'' demo_claimed demo_answer demo_claimed_sys), Inr demo_refunded)"
proof -
  have "executeRefund demo_cfg demo_penv 30 demo_held ''r1'' ''u'' demo_opened =
      executeRest demo_cfg demo_penv 30 ''u'' True (Go demo_claimed) demo_claimed_sys"
    by (simp add: executeRefund_def demo_held_def andThen_def[of "andThen (executeRead ''r1'' True) executeClaim"]
        demo_started)
  also have "\<dots> = executeSettle demo_cfg 30 ''u'' demo_claimed demo_answer demo_claimed_sys"
    by (simp add: executeRest_def lift_def demo_call andThen_def)
  finally show ?thesis using demo_settle by simp
qed

theorem refund_execution_is_final_witness:
  "\<exists>s1. executeRefund demo_cfg demo_penv 99 demo_held ''r1'' ''admin'' s1 = (s1, Inr demo_refunded)"
proof -
  have wf: "r_status y = R_PROCESSING" if "rowBy r_id ''r1'' (refunds demo_opened) = Some y"
    "r_ambiguousResponse y \<or> r_ambiguousNetworkFailure y" for y
    using that by (auto simp: demo_opened_tables demo_ids split: if_splits)
  have "rl_error demo_held = None" by (simp add: demo_held_def)
  from refund_execution_is_final[OF demo_execute wf this] show ?thesis by blast
qed

theorem refund_claimed_once_witness:
  "\<exists>c2. executeRead ''r1'' True demo_opened = (demo_opened, Inr (Go c2))
     \<and> executeClaim (Go c2) demo_claimed_sys = (demo_claimed_sys, Inr (Done (fst demo_claimed)))"
  using refund_claimed_once[OF demo_read demo_read _ demo_claim] demo_read by (auto simp: demo_ids)

theorem refund_success_effect_witness:
  "snd (createRefund demo_re ''u'' demo_rin True None
     (fst (executeSettle demo_cfg 30 ''u'' demo_claimed demo_answer demo_claimed_sys))) \<noteq> Inr (demo_refund, False)"
  using refund_success_effect[OF demo_inv demo_load(2) _ demo_settle, of demo_rin]
  by (simp add: demo_answer_def demo_claimed_def demo_rin_def demo_ids)

lemma demo_plan:
  "refundPlan demo_re ''u'' demo_rin False None demo_refundable =
     Inr (Inr (demo_order ''u'' ''o'' demo_dto\<lparr>o_status := O_FAILED\<rparr>, demo_refund))"
  by (simp add: refundPlan_def refundRefused_def settlementsOf_def refundPayment_def paymentsOf_def refundKey_def orDefault_def
      orElse_def refundAmount_def alreadyRefunded_def ofColumn_def userRefundStates_def Let_def refund_demo_defs)

theorem refunds_never_exceed_payment_witness:
  "\<exists>p \<in> set (payments demo_opened). p_orderId p = ''o'' \<and> alreadyRefunded ''o'' demo_opened \<le> p_amount p"
proof -
  let ?x = "demo_order ''u'' ''o'' demo_dto\<lparr>o_status := O_FAILED\<rparr>"
  let ?evs = "[RfRead demo_re ''u'' demo_rin False None, RfOpen (''u'', ?x, demo_refund)]"
  have opened: "fst (inTransaction (openRefund ''u'' ?x demo_refund) demo_refundable) = demo_opened"
    using createRefund_is_read_open[OF demo_plan] by (simp add: demo_opened_def)
  have run: "runSteps (refundStep demo_cfg) ?evs (demo_refundable, []) = (demo_opened, [])"
    by (simp add: demo_plan opened)
  have en: "admissible refundEnabled (refundStep demo_cfg) ?evs (demo_refundable, [])" by (simp add: demo_plan)
  have "alreadyRefunded ''o'' demo_opened \<noteq> 0"
    using refund_fits_payment_witness
    by (simp add: alreadyRefunded_def demo_opened_tables demo_ids countsAsRefund_def)
  moreover have "refunds demo_refundable = []" by (simp add: demo_refundable_def demo_defs)
  ultimately show ?thesis using refunds_never_exceed_payment[OF _ en run, of "''o''"] by simp
qed

lemma executeCall_order: "executeCall cfg pe own (r, x, p) = executeCall cfg pe own (r, y, p)"
proof -
  have "refundRequest (r, x, p) = refundRequest (r, y, p)" by (simp add: refundRequest_def)
  then show ?thesis by (simp only: executeCall_def snd_conv)
qed

text \<open>The order of the refund completed while the provider was called.\<close>

definition demo_overtaken :: sys where
  "demo_overtaken = setOrder ''o'' (\<lambda>y. y\<lparr>o_status := O_COMPLETED\<rparr>) demo_claimed_sys"

definition demo_late_claim :: loaded where
  "demo_late_claim = (fst demo_claimed, demo_order ''u'' ''o'' demo_dto\<lparr>o_status := O_COMPLETED\<rparr>, snd (snd demo_claimed))"

theorem refund_outcome_lost_witness:
  "\<exists>s1. executeRest demo_cfg demo_penv 30 ''u'' True (Go demo_late_claim) demo_overtaken =
       (s1, Inl (BadRequestError ''Invalid Order status transition''))
     \<and> executeRead ''r1'' True s1 = (s1, Inr (Go demo_late_claim))"
proof -
  have "loadRefund ''r1'' demo_overtaken = Inr (Some demo_late_claim)"
    using demo_load(2)
    by (simp add: loadRefund_def demo_overtaken_def demo_late_claim_def setOrder_def demo_claimed_sys_def
        demo_opened_tables demo_ids demo_claimed_def demo_refundable_def)
  moreover have "executeCall demo_cfg demo_penv True demo_late_claim = Inr demo_answer"
    using demo_call unfolding demo_late_claim_def demo_claimed_def fst_conv snd_conv by (metis executeCall_order)
  moreover have "r_status (fst demo_late_claim) = R_PROCESSING \<and> \<not> r_ambiguousResponse (fst demo_late_claim)
      \<and> \<not> r_ambiguousNetworkFailure (fst demo_late_claim) \<and> rr_status demo_answer = R_SUCCEEDED
      \<and> \<not> canOrder (o_status (fst (snd demo_late_claim))) O_REFUNDED"
    by (simp add: demo_late_claim_def demo_claimed_def demo_ids demo_answer_def canOrder_def)
  moreover have "rowBy p_id i (payments demo_overtaken) \<noteq> None" if "r_paymentId (fst demo_late_claim) = Some i" for i
    using that by (simp add: demo_overtaken_def demo_claimed_sys_def demo_opened_tables demo_late_claim_def
        demo_claimed_def demo_ids demo_refundable_def)
  ultimately show ?thesis
    using refund_outcome_lost[of "''r1''" demo_overtaken demo_late_claim demo_cfg demo_penv demo_answer 30 "''u''"] by blast
qed

definition demo_unpaid :: sys where
  "demo_unpaid = demo_refundable\<lparr>payments := [demo_payment\<lparr>p_provider := ''MOCK'', p_status := P_FAILED\<rparr>]\<rparr>"

theorem refund_of_uncaptured_payment_witness:
  "\<exists>s1 r. createRefund demo_re ''u'' (demo_rin\<lparr>ri_amount := None\<rparr>) False None demo_unpaid = (s1, Inr (r, False))"
  using refund_of_uncaptured_payment[of "demo_rin\<lparr>ri_amount := None\<rparr>" demo_unpaid
      "demo_order ''u'' ''o'' demo_dto\<lparr>o_status := O_FAILED\<rparr>" "''u''"
      "demo_payment\<lparr>p_provider := ''MOCK'', p_status := P_FAILED\<rparr>" "[]" demo_re None]
  by (auto simp: demo_unpaid_def paymentsOf_def settlementsOf_def refund_demo_defs)

end
