(* ===== verification/Settlements.thy ===== *)
theory Settlements
  imports RefundProps
begin

text \<open>
  Settlements: \<^verbatim>\<open>settlements.service.ts\<close> and \<^verbatim>\<open>settlements.controller.ts\<close>. Creation and the
  claim for submission are split where another worker may run in between: into the reads and
  the one write that decides. A settlement belongs to an order by a foreign key, so the
  \<open>include: { order: true }\<close> of the reads adds nothing to them.
\<close>

subsection \<open>Creating a settlement\<close>

record settlement_env =
  te_now :: time
  te_id :: id
  te_settlementId :: string

definition settlementAmount :: "order \<Rightarrow> int" where
  "settlementAmount x = toColumn 4 (ofColumn 7 (o_destinationAmount x))"

definition newSettlement :: "config \<Rightarrow> settlement_env \<Rightarrow> order \<Rightarrow> settlement" where
  "newSettlement cfg e x =
     \<lparr>s_id = te_id e, s_settlementId = te_settlementId e, s_orderId = o_id x, s_userId = o_userId x,
      s_status = S_PENDING, s_asset = o_destinationAsset x, s_amount = settlementAmount x,
      s_source = signerPublicKey cfg, s_destination = noneIfFalsy (o_walletAddress x),
      s_contractAddress = None, s_hash = None, s_ledger = None, s_attemptCount = 0, s_lastError = None,
      s_submittedAt = None, s_confirmedAt = None, s_createdAt = te_now e\<rparr>"

definition activeRefund :: "id \<Rightarrow> sys \<Rightarrow> bool" where
  "activeRefund orderId s \<longleftrightarrow> (\<exists>r \<in> set (refunds s). r_orderId r = orderId \<and> countsAsRefund (r_status r))"

text \<open>Steps 1 to 4: the settlement there is, or the row to insert.\<close>

definition settlementRead ::
  "config \<Rightarrow> settlement_env \<Rightarrow> id \<Rightarrow> (settlement + settlement) op" where
  "settlementRead cfg e orderId s =
     (case rowBy o_id orderId (orders s) of
        None \<Rightarrow> (s, Inl (NotFoundError ''Order not found''))
      | Some x \<Rightarrow>
          (case rowBy s_orderId orderId (settlements s) of
             Some t \<Rightarrow> (s, Inr (Inl t))
           | None \<Rightarrow>
               if o_status x \<noteq> O_SETTLEMENT_PENDING
               then (s, Inl (InvalidOrderStateForSettlementError ''status''))
               else if activeRefund orderId s
               then (s, Inl (InvalidOrderStateForSettlementError ''active or completed refund''))
               else if \<not> hasValidWallet x
               then (s, Inl (InvalidOrderStateForSettlementError ''no destination wallet''))
               else (s, Inr (Inr (newSettlement cfg e x)))))"

definition insertSettlement :: "settlement \<Rightarrow> unit op" where
  "insertSettlement t s =
     (if rowBy s_orderId (s_orderId t) (settlements s) \<noteq> None \<or> rowBy s_id (s_id t) (settlements s) \<noteq> None
         \<or> rowBy s_settlementId (s_settlementId t) (settlements s) \<noteq> None
      then (s, Inl PrismaP2002) else (s\<lparr>settlements := settlements s @ [t]\<rparr>, Inr ()))"

text \<open>Steps 5 and 6, with the answer to a lost race.\<close>

definition settlementWrite :: "string option \<Rightarrow> settlement + settlement \<Rightarrow> (settlement \<times> bool) op" where
  "settlementWrite actor found =
     (case found of
        Inl t \<Rightarrow> ret (t, True)
      | Inr t \<Rightarrow>
          catching
            (andThen (insertSettlement t) (\<lambda>_ s.
               (auditLog (Some (orDefault actor (s_userId t))) (Some (s_userId t)) ''SETTLEMENT_CREATED''
                  ''Settlement'' (Some (s_id t)) s, Inr (t, False))))
            (\<lambda>err s. if err = PrismaP2002 then
                (case rowBy s_orderId (s_orderId t) (settlements s) of
                   Some d \<Rightarrow> (s, Inr (d, True)) | None \<Rightarrow> (s, Inl err))
              else (s, Inl err)))"

definition createSettlementForOrder ::
  "config \<Rightarrow> settlement_env \<Rightarrow> id \<Rightarrow> string option \<Rightarrow> (settlement \<times> bool) op" where
  "createSettlementForOrder cfg e orderId actor =
     andThen (settlementRead cfg e orderId) (settlementWrite actor)"

subsection \<open>Reading\<close>

definition settlementGuard :: "string option \<Rightarrow> bool \<Rightarrow> settlement option \<Rightarrow> settlement op" where
  "settlementGuard userId isAdmin found s =
     (case found of
        None \<Rightarrow> (s, Inl SettlementNotFoundError)
      | Some t \<Rightarrow>
          if \<not> isAdmin \<and> truthy userId \<and> Some (s_userId t) \<noteq> userId
          then (s, Inl (ForbiddenError ''Unauthorized access to this settlement.''))
          else (s, Inr t))"

definition findSettlement :: "string \<Rightarrow> sys \<Rightarrow> settlement option" where
  "findSettlement i s = find (\<lambda>t. s_id t = i \<or> s_settlementId t = i) (settlements s)"

definition getSettlementById :: "string \<Rightarrow> string option \<Rightarrow> bool \<Rightarrow> settlement op" where
  "getSettlementById i userId isAdmin s = settlementGuard userId isAdmin (findSettlement i s) s"

definition getSettlementByOrder :: "id \<Rightarrow> string option \<Rightarrow> bool \<Rightarrow> settlement op" where
  "getSettlementByOrder orderId userId isAdmin s =
     settlementGuard userId isAdmin (rowBy s_orderId orderId (settlements s)) s"

definition listPendingSettlements :: "nat \<Rightarrow> nat \<Rightarrow> sys \<Rightarrow> settlement list \<times> nat" where
  "listPendingSettlements limit offset s =
     (let ts = filter (\<lambda>t. s_status t = S_PENDING) (settlements s) in (take limit (drop offset ts), length ts))"

definition settlementRoute :: "id \<Rightarrow> role \<Rightarrow> string \<Rightarrow> settlement op" where
  "settlementRoute userId r i = getSettlementById i (Some userId) (adminRole r)"

definition settlementByOrderRoute :: "id \<Rightarrow> role \<Rightarrow> id \<Rightarrow> settlement op" where
  "settlementByOrderRoute userId r orderId = getSettlementByOrder orderId (Some userId) (adminRole r)"

subsection \<open>The status operations\<close>

definition setSettlement :: "id \<Rightarrow> (settlement \<Rightarrow> settlement) \<Rightarrow> sys \<Rightarrow> sys" where
  "setSettlement i f s = s\<lparr>settlements := setBy s_id i f (settlements s)\<rparr>"

definition settlementAudit :: "string \<Rightarrow> settlement \<Rightarrow> sys \<Rightarrow> sys" where
  "settlementAudit action t = auditLog (Some ''system'') (Some (s_userId t)) action ''Settlement'' (Some (s_id t))"

text \<open>The common shape: read, validate, update the row, log.\<close>

definition readFor :: "string \<Rightarrow> settlement_status \<Rightarrow> settlement op" where
  "readFor i target =
     andThen (getSettlementById i None True) (\<lambda>t.
     andThen (validateSettlementTransition (s_status t) target) (\<lambda>_. ret t))"

definition updateSettlement :: "settlement \<Rightarrow> (settlement \<Rightarrow> settlement) \<Rightarrow> settlement op" where
  "updateSettlement t f s =
     (case rowBy s_id (s_id t) (settlements s) of
        None \<Rightarrow> (s, Inl PrismaP2025)
      | Some now \<Rightarrow> (setSettlement (s_id t) f s, Inr (f now)))"

definition logged :: "string \<Rightarrow> settlement \<Rightarrow> settlement op" where
  "logged action t s = (settlementAudit action t s, Inr t)"

definition markWith :: "string \<Rightarrow> settlement_status \<Rightarrow> (settlement \<Rightarrow> settlement) \<Rightarrow> string \<Rightarrow> settlement op" where
  "markWith i target f action =
     andThen (readFor i target) (\<lambda>t. andThen (updateSettlement t f) (logged action))"

definition claimSubmitting :: "settlement \<Rightarrow> settlement op" where
  "claimSubmitting t s =
     (case rowBy s_id (s_id t) (settlements s) of
        None \<Rightarrow> (s, Inl InvalidSettlementStateError)
      | Some now \<Rightarrow>
          if s_status now \<noteq> s_status t then
            (if s_status now = S_SUBMITTING then (s, Inr now) else (s, Inl InvalidSettlementStateError))
          else andThen
            (updateSettlement t (\<lambda>y. y\<lparr>s_status := S_SUBMITTING, s_attemptCount := s_attemptCount y + 1\<rparr>))
            (logged ''SETTLEMENT_SUBMITTING'') s)"

definition markSubmitting :: "string \<Rightarrow> settlement op" where
  "markSubmitting i = andThen (readFor i S_SUBMITTING) claimSubmitting"

definition markSubmitted :: "time \<Rightarrow> string \<Rightarrow> string \<Rightarrow> settlement op" where
  "markSubmitted now i hash =
     markWith i S_SUBMITTED
       (\<lambda>y. y\<lparr>s_status := S_SUBMITTED, s_hash := Some hash, s_submittedAt := Some now\<rparr>)
       ''SETTLEMENT_SUBMITTED''"

definition markConfirming :: "string \<Rightarrow> settlement op" where
  "markConfirming i = markWith i S_CONFIRMING (\<lambda>y. y\<lparr>s_status := S_CONFIRMING\<rparr>) ''SETTLEMENT_CONFIRMING''"

definition completeBody :: "time \<Rightarrow> settlement \<Rightarrow> int \<Rightarrow> settlement op" where
  "completeBody now t ledgerNo =
     andThen (updateSettlement t (\<lambda>y. y\<lparr>s_status := S_COMPLETED, s_ledger := Some ledgerNo, s_confirmedAt := Some now\<rparr>))
       (\<lambda>t1 s. if rowBy o_id (s_orderId t) (orders s) = None then (s, Inl PrismaP2025)
               else (setOrder (s_orderId t) (\<lambda>y. y\<lparr>o_status := O_COMPLETED\<rparr>) s, Inr t1))"

definition markCompleted :: "config \<Rightarrow> time \<Rightarrow> string \<Rightarrow> int \<Rightarrow> settlement op" where
  "markCompleted cfg now i ledgerNo =
     andThen (readFor i S_COMPLETED) (\<lambda>t.
     andThen (inTransaction (completeBody now t ledgerNo)) (\<lambda>t1.
     andThen (consumeReservation cfg now (s_orderId t1) (Some (s_settlementId t1)) (noneIfFalsy (s_hash t1))) (\<lambda>_.
       logged ''SETTLEMENT_COMPLETED'' t1)))"

definition markFailed :: "string \<Rightarrow> string \<Rightarrow> settlement op" where
  "markFailed i reason =
     markWith i S_FAILED (\<lambda>y. y\<lparr>s_status := S_FAILED, s_lastError := Some reason\<rparr>) ''SETTLEMENT_FAILED''"

definition markRequiresReconciliation :: "string \<Rightarrow> string \<Rightarrow> settlement op" where
  "markRequiresReconciliation i reason =
     markWith i S_REQUIRES_RECONCILIATION
       (\<lambda>y. y\<lparr>s_status := S_REQUIRES_RECONCILIATION, s_lastError := Some reason\<rparr>)
       ''SETTLEMENT_RECONCILIATION_REQUIRED''"

lemmas mark_defs = markSubmitted_def markConfirming_def markFailed_def markRequiresReconciliation_def

end
