(* ===== verification/SettlementProps.thy ===== *)
theory SettlementProps
  imports Settlements
begin

text \<open>
  What settlements promise: one settlement per order, created for a paid order without refund;
  a completion that books the payout once, whatever happened to the order; and where the column
  of the amount and the claim for submission fall short.
\<close>

subsection \<open>Shapes\<close>

lemma findSettlement_row: "findSettlement i s = Some t \<Longrightarrow> t \<in> set (settlements s) \<and> (s_id t = i \<or> s_settlementId t = i)"
  by (auto simp: findSettlement_def dest: find_SomeD)

lemma in_table_row: "t \<in> set rs \<Longrightarrow> \<exists>y. rowBy key (key t) rs = Some y"
  using rowBy_None_iff[of key "key t" rs] by (cases "rowBy key (key t) rs") auto

lemma readFor_returns:
  assumes "readFor i target s = (s1, Inr t)"
  shows "s1 = s" and "findSettlement i s = Some t" and "canSettlement (s_status t) target"
  using assms by (auto simp: readFor_def getSettlementById_def settlementGuard_def ops split: option.splits if_splits)

lemma readFor_eq:
  "findSettlement i s = Some t \<Longrightarrow> canSettlement (s_status t) target \<Longrightarrow> readFor i target s = (s, Inr t)"
  by (simp add: readFor_def getSettlementById_def settlementGuard_def ops)

lemma readFor_state: "fst (readFor i target s) = s"
  by (auto simp: readFor_def getSettlementById_def settlementGuard_def ops split: option.splits if_splits)

lemma setSettlement_frame [simp]:
  "settlements (setSettlement i f s) = setBy s_id i f (settlements s)"
  "orders (setSettlement i f s) = orders s" "refunds (setSettlement i f s) = refunds s"
  "payments (setSettlement i f s) = payments s" "pools (setSettlement i f s) = pools s"
  "reservations (setSettlement i f s) = reservations s" "treasuryTxs (setSettlement i f s) = treasuryTxs s"
  by (simp_all add: setSettlement_def)

lemma settlementAudit_frame [simp]:
  "settlements (settlementAudit a t s) = settlements s" "orders (settlementAudit a t s) = orders s"
  "refunds (settlementAudit a t s) = refunds s" "payments (settlementAudit a t s) = payments s"
  "pools (settlementAudit a t s) = pools s" "reservations (settlementAudit a t s) = reservations s"
  "treasuryTxs (settlementAudit a t s) = treasuryTxs s"
  by (simp_all add: settlementAudit_def)

lemma markWith_eq:
  assumes "findSettlement i s = Some t" and "canSettlement (s_status t) target"
    and "rowBy s_id (s_id t) (settlements s) = Some now"
  shows "markWith i target f action s = (settlementAudit action (f now) (setSettlement (s_id t) f s), Inr (f now))"
  using readFor_eq[OF assms(1,2)] assms(3)
  by (simp add: markWith_def andThen_eq updateSettlement_def logged_def)

lemma markWith_throws:
  assumes "\<not> (\<exists>t. findSettlement i s = Some t \<and> canSettlement (s_status t) target)"
  shows "\<exists>e. markWith i target f action s = (s, Inl e)"
  using assms
  by (auto simp: markWith_def readFor_def getSettlementById_def settlementGuard_def ops split: option.splits if_splits)

text \<open>A status operation changes nothing, or rewrites the row it read in an allowed way.\<close>

lemma markWith_cases:
  obtains "fst (markWith i target f action s) = s" and "\<exists>e. snd (markWith i target f action s) = Inl e"
  | t now where "findSettlement i s = Some t" and "canSettlement (s_status t) target"
      and "rowBy s_id (s_id t) (settlements s) = Some now"
      and "markWith i target f action s = (settlementAudit action (f now) (setSettlement (s_id t) f s), Inr (f now))"
proof (cases "\<exists>t. findSettlement i s = Some t \<and> canSettlement (s_status t) target")
  case True
  then obtain t where t: "findSettlement i s = Some t" "canSettlement (s_status t) target" by blast
  have "t \<in> set (settlements s)" using findSettlement_row[OF t(1)] by simp
  then obtain now where row: "rowBy s_id (s_id t) (settlements s) = Some now" using in_table_row[of t] by metis
  show ?thesis by (rule that(2)[OF t row markWith_eq[OF t row]])
next
  case False
  then obtain err where "markWith i target f action s = (s, Inl err)" using markWith_throws by blast
  then show ?thesis by (intro that(1)) simp_all
qed

subsection \<open>Creation\<close>

lemma settlementAmount_near:
  assumes "0 \<le> o_destinationAmount x"
  shows "\<bar>ofColumn 4 (settlementAmount x) - ofColumn 7 (o_destinationAmount x)\<bar> \<le> 1 / 20000"
    and "ofColumn 4 (settlementAmount x) = ofColumn 7 (o_destinationAmount x) \<longleftrightarrow> 1000 dvd o_destinationAmount x"
proof -
  let ?v = "ofColumn 7 (o_destinationAmount x)"
  have v: "?v * 10 ^ 4 = of_int (o_destinationAmount x) / 1000" "0 \<le> ?v"
    using assms by (simp_all add: ofColumn_def)
  have amt: "settlementAmount x = \<lfloor>of_int (o_destinationAmount x) / 1000 + 1 / 2 :: rat\<rfloor>"
    by (simp only: settlementAmount_def toColumn_def v if_True)
  have lo: "of_int (settlementAmount x) \<le> (of_int (o_destinationAmount x) / 1000 + 1 / 2 :: rat)"
    and hi: "(of_int (o_destinationAmount x) / 1000 + 1 / 2 :: rat) < of_int (settlementAmount x) + 1"
    unfolding amt by linarith+
  show "\<bar>ofColumn 4 (settlementAmount x) - ?v\<bar> \<le> 1 / 20000"
    using lo hi by (simp add: ofColumn_def abs_le_iff field_simps)
  show "ofColumn 4 (settlementAmount x) = ?v \<longleftrightarrow> 1000 dvd o_destinationAmount x"
  proof
    assume "ofColumn 4 (settlementAmount x) = ?v"
    then have "of_int (settlementAmount x * 1000) = (of_int (o_destinationAmount x) :: rat)"
      by (simp add: ofColumn_def field_simps)
    then have "settlementAmount x * 1000 = o_destinationAmount x" by (simp only: of_int_eq_iff)
    then show "1000 dvd o_destinationAmount x" by (metis dvd_triv_right)
  next
    assume "1000 dvd o_destinationAmount x"
    then obtain k where k: "o_destinationAmount x = 1000 * k" by blast
    then have "settlementAmount x = k" unfolding amt by (simp add: floor_eq_iff)
    then show "ofColumn 4 (settlementAmount x) = ?v" by (simp add: ofColumn_def k)
  qed
qed

lemma settlementRead_new:
  assumes "settlementRead cfg e orderId s = (s1, Inr (Inr t))"
  shows "s1 = s" and "\<exists>x. rowBy o_id orderId (orders s) = Some x \<and> t = newSettlement cfg e x
      \<and> o_status x = O_SETTLEMENT_PENDING \<and> hasValidWallet x"
    and "rowBy s_orderId orderId (settlements s) = None" and "\<not> activeRefund orderId s"
  using assms by (auto simp: settlementRead_def split: option.splits if_splits)

text \<open>
  A settlement is created only for an order that is paid and waiting for settlement, has no
  refund pending, in progress or succeeded, and names a wallet; it pays that wallet the order's
  amount, rounded to four decimals: the amounts are equal exactly when the order's amount has no
  further decimals. An order that has a settlement gets that one again and nothing changes.
\<close>

theorem settlement_creation:
  assumes run: "createSettlementForOrder cfg e orderId actor s = (s1, Inr (t, dup))"
    and fresh: "rowBy s_id (te_id e) (settlements s) = None"
      "rowBy s_settlementId (te_settlementId e) (settlements s) = None"
  shows "\<exists>x. rowBy o_id orderId (orders s) = Some x \<and> s_orderId t = orderId
    \<and> (dup \<longrightarrow> s1 = s \<and> rowBy s_orderId orderId (settlements s) = Some t)
    \<and> (\<not> dup \<longrightarrow> settlements s1 = settlements s @ [t] \<and> rowBy s_orderId orderId (settlements s) = None
        \<and> o_status x = O_SETTLEMENT_PENDING \<and> \<not> activeRefund orderId s \<and> hasValidWallet x
        \<and> s_destination t = o_walletAddress x \<and> s_status t = S_PENDING \<and> s_hash t = None
        \<and> (0 \<le> o_destinationAmount x \<longrightarrow>
             \<bar>ofColumn 4 (s_amount t) - ofColumn 7 (o_destinationAmount x)\<bar> \<le> 1 / 20000
             \<and> (ofColumn 4 (s_amount t) = ofColumn 7 (o_destinationAmount x) \<longleftrightarrow> 1000 dvd o_destinationAmount x)))"
proof -
  obtain s0 found where read: "settlementRead cfg e orderId s = (s0, Inr found)"
    and wr: "settlementWrite actor found s0 = (s1, Inr (t, dup))"
    using run by (auto simp: createSettlementForOrder_def elim!: andThen_returns)
  obtain x where x: "rowBy o_id orderId (orders s) = Some x"
    using read by (auto simp: settlementRead_def split: option.splits)
  show ?thesis
  proof (cases found)
    case (Inl d)
    then have "s0 = s" "rowBy s_orderId orderId (settlements s) = Some d"
      using read x by (auto simp: settlementRead_def split: option.splits if_splits)
    with wr Inl x show ?thesis by (auto simp: settlementWrite_def dest: rowBy_SomeD)
  next
    case (Inr d)
    note new = settlementRead_new[OF read[unfolded Inr]]
    have d: "d = newSettlement cfg e x" and st: "o_status x = O_SETTLEMENT_PENDING" "hasValidWallet x"
      using new(2) x by auto
    have xid: "o_id x = orderId" using rowBy_SomeD[OF x] by simp
    have "s1 = auditLog (Some (orDefault actor (s_userId d))) (Some (s_userId d)) ''SETTLEMENT_CREATED''
        ''Settlement'' (Some (s_id d)) (s\<lparr>settlements := settlements s @ [d]\<rparr>)" "t = d" "\<not> dup"
      using wr Inr new(1,3) fresh
      by (auto simp: settlementWrite_def catching_eq andThen_eq insertSettlement_def d newSettlement_def xid)
    moreover have "s_destination d = o_walletAddress x"
      using st(2) by (cases "o_walletAddress x") (auto simp: d newSettlement_def noneIfFalsy_def hasValidWallet_def)
    moreover have "s_amount d = settlementAmount x" "s_orderId d = orderId" "s_status d = S_PENDING" "s_hash d = None"
      by (simp_all add: d newSettlement_def xid)
    ultimately show ?thesis
      using x st new(3,4) settlementAmount_near[of x] by auto
  qed
qed

text \<open>
  Of workers that all found no settlement for an order only one creates it: every later
  write answers the first settlement as a duplicate and adds nothing.
\<close>

theorem settlement_created_once:
  assumes r1: "settlementRead cfg e1 orderId s = (s, Inr (Inr t1))"
    and r2: "settlementRead cfg e2 orderId s = (s, Inr (Inr t2))"
    and w1: "settlementWrite a1 (Inr t1) s = (s1, Inr (t, False))"
  shows "t = t1 \<and> settlementWrite a2 (Inr t2) s1 = (s1, Inr (t1, True))"
proof -
  have o: "s_orderId t1 = orderId" "s_orderId t2 = orderId"
    using settlementRead_new(2)[OF r1] settlementRead_new(2)[OF r2] by (auto simp: newSettlement_def dest: rowBy_SomeD)
  have s1: "settlements s1 = settlements s @ [t1]" and "t = t1"
    using w1 by (auto simp: settlementWrite_def catching_eq andThen_eq insertSettlement_def
        split: if_splits option.splits)
  moreover have "rowBy s_orderId orderId (settlements s1) = Some t1"
    using s1 settlementRead_new(3)[OF r1] o by (simp add: rows)
  ultimately show ?thesis using o by (simp add: settlementWrite_def catching_eq andThen_eq insertSettlement_def)
qed

text \<open>
  The claim for submission does not tell a loser: of two workers that read the settlement
  pending the first one moves it to SUBMITTING; the second one's update matches nothing, but as
  the settlement is SUBMITTING it is answered the same row, without an error, as if it had won.
\<close>

theorem claim_hides_lost_race:
  assumes row: "rowBy s_id (s_id t) (settlements s) = Some t" and st: "s_status t = S_PENDING"
    and first: "claimSubmitting t s = (s1, Inr w)"
  shows "s_status w = S_SUBMITTING \<and> s_attemptCount w = s_attemptCount t + 1
    \<and> claimSubmitting t s1 = (s1, Inr w)"
proof -
  have w: "w = t\<lparr>s_status := S_SUBMITTING, s_attemptCount := s_attemptCount t + 1\<rparr>"
    and s1: "settlements s1 = setBy s_id (s_id t) (\<lambda>y. y\<lparr>s_status := S_SUBMITTING, s_attemptCount := s_attemptCount y + 1\<rparr>) (settlements s)"
    using first row by (auto simp: claimSubmitting_def andThen_eq updateSettlement_def logged_def)
  have "rowBy s_id (s_id t) (settlements s1) = Some w"
    using row w by (simp add: s1 rows)
  then show ?thesis using w st by (simp add: claimSubmitting_def)
qed

subsection \<open>Completion\<close>

lemma consume_frame [simp]:
  "settlements (fst (consumeReservation cfg now i ref h s)) = settlements s"
  "orders (fst (consumeReservation cfg now i ref h s)) = orders s"
  "refunds (fst (consumeReservation cfg now i ref h s)) = refunds s"
  by (auto simp: consumeReservation_def inTransaction_eq rollback_def consumeReservationBody_def Let_def
      split: option.splits sum.splits)

lemma consume_result:
  assumes "consumeReservation cfg now i ref h s = (s1, r)"
  shows "settlements s1 = settlements s \<and> orders s1 = orders s \<and> refunds s1 = refunds s"
  using consume_frame[of cfg now i ref h s] assms by simp

definition completedRow :: "time \<Rightarrow> int \<Rightarrow> settlement \<Rightarrow> settlement" where
  "completedRow now l t = t\<lparr>s_status := S_COMPLETED, s_ledger := Some l, s_confirmedAt := Some now\<rparr>"

text \<open>What completion leaves, up to the audit entry: the consumed state of the marked one.\<close>

lemma markCompleted_eq:
  fixes s :: sys and t :: settlement and now :: time and l :: int
  assumes inv: "ledger_inv s" and t: "findSettlement i s = Some t" "canSettlement (s_status t) S_COMPLETED"
    and row: "rowBy s_id (s_id t) (settlements s) = Some t" and x: "rowBy o_id (s_orderId t) (orders s) = Some x"
  defines "s0 \<equiv> setOrder (s_orderId t) (\<lambda>y. y\<lparr>o_status := O_COMPLETED\<rparr>) (setSettlement (s_id t) (completedRow now l) s)"
  shows "markCompleted cfg now i l s =
    (settlementAudit ''SETTLEMENT_COMPLETED'' (completedRow now l t)
       (fst (consumeReservation cfg now (s_orderId t) (Some (s_settlementId t)) (noneIfFalsy (s_hash t)) s0)),
     Inr (completedRow now l t))"
proof -
  have fold: "(\<lambda>y. y\<lparr>s_status := S_COMPLETED, s_ledger := Some l, s_confirmedAt := Some now\<rparr>) = completedRow now l"
    by (rule ext) (simp add: completedRow_def)
  have body: "inTransaction (completeBody now t l) s = (s0, Inr (completedRow now l t))"
    using row x unfolding inTransaction_Inr completeBody_def fold
    by (simp add: andThen_eq updateSettlement_def s0_def)
  have "ledger_inv s0" using inv by (simp add: ledger_inv_def s0_def setOrder_def)
  then obtain r where "snd (consumeReservation cfg now (s_orderId t) (Some (s_settlementId t)) (noneIfFalsy (s_hash t)) s0) = Inr r"
    using consume_returns by blast
  moreover have "s_orderId (completedRow now l t) = s_orderId t" "s_settlementId (completedRow now l t) = s_settlementId t"
    "s_hash (completedRow now l t) = s_hash t"
    by (simp_all add: completedRow_def)
  ultimately show ?thesis
    by (simp add: markCompleted_def andThen_eq readFor_eq[OF t] body logged_def)
qed

lemma completedRow_simps [simp]:
  "s_id (completedRow now l t) = s_id t" "s_settlementId (completedRow now l t) = s_settlementId t"
  "s_orderId (completedRow now l t) = s_orderId t" "s_hash (completedRow now l t) = s_hash t"
  "s_status (completedRow now l t) = S_COMPLETED" "s_amount (completedRow now l t) = s_amount t"
  by (simp_all add: completedRow_def)

lemma completedRow_twice: "completedRow n2 l2 (completedRow n1 l1 t) = completedRow n2 l2 t"
  by (simp add: completedRow_def)

text \<open>After a consumption the order's reservation holds nothing.\<close>

lemma consumed_not_active:
  assumes "ledger_inv s"
    and "rowBy v_orderId i (reservations (fst (consumeReservation cfg now i ref h s))) = Some v"
  shows "\<not> active (v_status v)"
proof (cases "rowBy v_orderId i (reservations s)")
  case None
  with assms show ?thesis by (simp add: consume_missing)
next
  case (Some v0)
  have ok: "ledger_ok (pools s) (reservations s)" using assms(1) by (simp add: ledger_inv_def)
  obtain p where p: "rowBy l_id (v_poolId v0) (pools s) = Some p"
    using ledger_lookup[OF ok Some] by metis
  show ?thesis
  proof (cases "active (v_status v0)")
    case False
    with assms Some show ?thesis by (simp add: consume_inactive)
  next
    case True
    have "v \<in> set (setBy v_id (v_id v0) (\<lambda>r. r\<lparr>v_status := V_CONSUMED\<rparr>) (reservations s))" "v_orderId v = i"
      using rowBy_SomeD[OF assms(2)] consume_active(2)[OF assms(1) Some True p, of cfg now ref h] by simp_all
    then show ?thesis by (rule closed_row[OF ok Some active_simps(3)])
  qed
qed

definition bookedPayout :: "time \<Rightarrow> settlement \<Rightarrow> reservation \<Rightarrow> treasury_tx" where
  "bookedPayout now t v = \<lparr>t_poolId = v_poolId v, t_type = SETTLEMENT_PAYOUT, t_amount = v_amount v,
     t_hash = noneIfFalsy (s_hash t), t_externalRef = Some (orDefault (Some (s_settlementId t)) (s_orderId t)),
     t_createdAt = now\<rparr>"

lemma findSettlement_map:
  assumes "findSettlement i s = Some t" and "rowBy s_id (s_id t) (settlements s) = Some t"
    and "unique_by s_id (settlements s)" and "settlements s1 = setBy s_id (s_id t) f (settlements s)"
    and "\<And>y. s_id (f y) = s_id y" "\<And>y. s_settlementId (f y) = s_settlementId y"
  shows "findSettlement i s1 = Some (f t)"
proof -
  have "find P (setBy s_id k f rs) = map_option (\<lambda>r. if s_id r = k then f r else r) (find P rs)"
    if "\<And>r. P (f r) = P r" for P :: "settlement \<Rightarrow> bool" and k rs
    using that by (induction rs) auto
  from this[of "\<lambda>r. s_id r = i \<or> s_settlementId r = i" "s_id t" "settlements s"] assms show ?thesis
    by (simp add: findSettlement_def)
qed

text \<open>
  C13. Completing a settlement makes it and its order COMPLETED - the order from any status, also
  one that was refunded - and books the payout on the treasury exactly when the order's reservation
  still holds its amount: total and reserved balance fall by it, the available balance does not
  move, and one payout entry names the transaction. Completing again books nothing more.
\<close>

theorem completion_books_payout_once:
  assumes inv: "ledger_inv s" and t: "findSettlement i s = Some t" "canSettlement (s_status t) S_COMPLETED"
    and row: "rowBy s_id (s_id t) (settlements s) = Some t" "unique_by s_id (settlements s)"
    and x: "rowBy o_id (s_orderId t) (orders s) = Some x"
  shows "\<exists>s1. markCompleted cfg now i l s = (s1, Inr (completedRow now l t)) \<and> ledger_inv s1
    \<and> rowBy o_id (s_orderId t) (orders s1) = Some (x\<lparr>o_status := O_COMPLETED\<rparr>)
    \<and> (case rowBy v_orderId (s_orderId t) (reservations s) of
         Some v \<Rightarrow>
           if active (v_status v) then
             (\<exists>p. rowBy l_id (v_poolId v) (pools s) = Some p
                \<and> rowBy l_id (v_poolId v) (pools s1) = Some (p\<lparr>l_total := l_total p - v_amount v,
                     l_reserved := l_reserved p - v_amount v\<rparr>)
                \<and> treasuryTxs s1 = treasuryTxs s @ [bookedPayout now t v])
           else pools s1 = pools s \<and> treasuryTxs s1 = treasuryTxs s
       | None \<Rightarrow> pools s1 = pools s \<and> treasuryTxs s1 = treasuryTxs s)
    \<and> pools (fst (markCompleted cfg now' i l' s1)) = pools s1
    \<and> treasuryTxs (fst (markCompleted cfg now' i l' s1)) = treasuryTxs s1"
proof -
  define s0 where "s0 = setOrder (s_orderId t) (\<lambda>y. y\<lparr>o_status := O_COMPLETED\<rparr>) (setSettlement (s_id t) (completedRow now l) s)"
  let ?use = "consumeReservation cfg now (s_orderId t) (Some (s_settlementId t)) (noneIfFalsy (s_hash t))"
  define s1 where "s1 = settlementAudit ''SETTLEMENT_COMPLETED'' (completedRow now l t) (fst (?use s0))"
  have run: "markCompleted cfg now i l s = (s1, Inr (completedRow now l t))"
    using markCompleted_eq[OF inv t row(1) x, of cfg now l] by (simp add: s1_def s0_def)
  have s0: "pools s0 = pools s" "reservations s0 = reservations s" "treasuryTxs s0 = treasuryTxs s"
    "settlements s0 = setBy s_id (s_id t) (completedRow now l) (settlements s)"
    "orders s0 = setBy o_id (s_orderId t) (\<lambda>y. y\<lparr>o_status := O_COMPLETED\<rparr>) (orders s)"
    by (simp_all add: s0_def setOrder_def)
  have inv0: "ledger_inv s0" using inv by (simp add: ledger_inv_def s0)
  have inv1: "ledger_inv s1"
    using consume_ledger[OF inv0] by (simp add: s1_def ledger_inv_def)
  have ord: "rowBy o_id (s_orderId t) (orders s1) = Some (x\<lparr>o_status := O_COMPLETED\<rparr>)"
    using x by (simp add: s1_def s0 rows)
  have set1: "settlements s1 = setBy s_id (s_id t) (completedRow now l) (settlements s)"
    by (simp add: s1_def s0)
  have booked: "case rowBy v_orderId (s_orderId t) (reservations s) of
         Some v \<Rightarrow>
           if active (v_status v) then
             (\<exists>p. rowBy l_id (v_poolId v) (pools s) = Some p
                \<and> rowBy l_id (v_poolId v) (pools s1) = Some (p\<lparr>l_total := l_total p - v_amount v,
                     l_reserved := l_reserved p - v_amount v\<rparr>)
                \<and> treasuryTxs s1 = treasuryTxs s @ [bookedPayout now t v])
           else pools s1 = pools s \<and> treasuryTxs s1 = treasuryTxs s
       | None \<Rightarrow> pools s1 = pools s \<and> treasuryTxs s1 = treasuryTxs s"
  proof (cases "rowBy v_orderId (s_orderId t) (reservations s)")
    case None
    then show ?thesis by (simp add: s1_def consume_missing s0)
  next
    case (Some v)
    show ?thesis
    proof (cases "active (v_status v)")
      case False
      with Some show ?thesis by (simp add: s1_def consume_inactive s0)
    next
      case True
      obtain p where p: "rowBy l_id (v_poolId v) (pools s) = Some p" "l_id p = v_poolId v"
        using ledger_lookup[of "pools s" "reservations s", OF _ Some] inv by (metis ledger_inv_def)
      note eff = consume_active[OF inv0 _ True, of "s_orderId t" p cfg now "Some (s_settlementId t)" "noneIfFalsy (s_hash t)"]
      have "truthy (noneIfFalsy (s_hash t)) \<or> noneIfFalsy (s_hash t) = None"
        by (cases "s_hash t") (auto simp: noneIfFalsy_def)
      then have hash: "(if truthy (noneIfFalsy (s_hash t)) then noneIfFalsy (s_hash t) else None) = noneIfFalsy (s_hash t)"
        by auto
      show ?thesis
        using Some True p eff(1,3) by (simp add: s1_def s0 rows hash bookedPayout_def)
    qed
  qed
  have again: "pools (fst (markCompleted cfg now' i l' s1)) = pools s1 \<and> treasuryTxs (fst (markCompleted cfg now' i l' s1)) = treasuryTxs s1"
  proof -
    let ?t1 = "completedRow now l t"
    have t1: "findSettlement i s1 = Some ?t1"
      by (rule findSettlement_map[OF t(1) row set1]) simp_all
    have r1: "rowBy s_id (s_id ?t1) (settlements s1) = Some ?t1" using row(1) by (simp add: set1 rows)
    have "canSettlement (s_status ?t1) S_COMPLETED" by (simp add: canSettlement_def)
    from markCompleted_eq[OF inv1 t1 this r1, of "x\<lparr>o_status := O_COMPLETED\<rparr>" cfg now' l'] ord
    have eq: "markCompleted cfg now' i l' s1 = (settlementAudit ''SETTLEMENT_COMPLETED'' (completedRow now' l' ?t1)
        (fst (consumeReservation cfg now' (s_orderId t) (Some (s_settlementId t)) (noneIfFalsy (s_hash t))
          (setOrder (s_orderId t) (\<lambda>y. y\<lparr>o_status := O_COMPLETED\<rparr>) (setSettlement (s_id t) (completedRow now' l') s1)))),
        Inr (completedRow now' l' ?t1))"
      by simp
    let ?s2 = "setOrder (s_orderId t) (\<lambda>y. y\<lparr>o_status := O_COMPLETED\<rparr>) (setSettlement (s_id t) (completedRow now' l') s1)"
    have res: "rowBy v_orderId (s_orderId t) (reservations ?s2) = Some v \<Longrightarrow> \<not> active (v_status v)" for v
      using consumed_not_active[OF inv0, of "s_orderId t" cfg now "Some (s_settlementId t)" "noneIfFalsy (s_hash t)" v]
      by (simp add: s1_def setOrder_def)
    show ?thesis
      by (cases "rowBy v_orderId (s_orderId t) (reservations ?s2)")
        (use res in \<open>auto simp: eq consume_missing consume_inactive setOrder_def\<close>)
  qed
  from run inv1 ord booked again show ?thesis by blast
qed

subsection \<open>A concrete settlement\<close>

definition demo_due :: order where
  "demo_due = (demo_order ''u'' ''order'' (demo_dto\<lparr>d_walletAddress := Some ''GWALLET''\<rparr>))\<lparr>o_status := O_SETTLEMENT_PENDING\<rparr>"

definition demo_payable :: sys where
  "demo_payable = demo_ledger\<lparr>orders := [demo_due], payments := [demo_payment\<lparr>p_orderId := ''order''\<rparr>]\<rparr>"

definition demo_te :: "id \<Rightarrow> settlement_env" where
  "demo_te i = \<lparr>te_now = 40, te_id = i, te_settlementId = ''STL_'' @ i\<rparr>"

definition demo_stl :: "id \<Rightarrow> settlement" where
  "demo_stl i = newSettlement demo_cfg (demo_te i) demo_due"

lemmas settlement_demo_defs = demo_due_def demo_payable_def demo_te_def demo_stl_def newSettlement_def
  settlementAmount_def pay_defs demo_defs

lemma demo_settlementRead: "settlementRead demo_cfg (demo_te i) ''order'' demo_payable = (demo_payable, Inr (Inr (demo_stl i)))"
  by (simp add: settlementRead_def hasValidWallet_def trim_def is_space_def activeRefund_def settlement_demo_defs)

lemma demo_settlementWrite:
  "settlementWrite None (Inr (demo_stl i)) demo_payable =
     (fst (settlementWrite None (Inr (demo_stl i)) demo_payable), Inr (demo_stl i, False))"
  by (simp add: prod_eq_iff settlementWrite_def catching_eq andThen_eq insertSettlement_def demo_payable_def demo_defs)

theorem settlement_created_once_witness:
  "settlementWrite None (Inr (demo_stl ''t2'')) (fst (settlementWrite None (Inr (demo_stl ''t1'')) demo_payable)) =
     (fst (settlementWrite None (Inr (demo_stl ''t1'')) demo_payable), Inr (demo_stl ''t1'', True))"
  using settlement_created_once[OF demo_settlementRead demo_settlementRead demo_settlementWrite] by blast

theorem settlement_creation_witness:
  "\<exists>s1. createSettlementForOrder demo_cfg (demo_te ''t1'') ''order'' None demo_payable = (s1, Inr (demo_stl ''t1'', False))
     \<and> s_destination (demo_stl ''t1'') = Some ''GWALLET''"
proof -
  have run: "createSettlementForOrder demo_cfg (demo_te ''t1'') ''order'' None demo_payable =
      (fst (settlementWrite None (Inr (demo_stl ''t1'')) demo_payable), Inr (demo_stl ''t1'', False))"
    using demo_settlementWrite by (simp add: createSettlementForOrder_def andThen_def demo_settlementRead)
  have "settlements demo_payable = []" by (simp add: demo_payable_def demo_defs)
  then have "\<exists>x. rowBy o_id ''order'' (orders demo_payable) = Some x \<and> s_destination (demo_stl ''t1'') = o_walletAddress x"
    using settlement_creation[OF run] by auto
  then show ?thesis using run by (auto simp: demo_payable_def settlement_demo_defs)
qed

definition demo_settling :: "settlement_status \<Rightarrow> sys" where
  "demo_settling st = demo_payable\<lparr>settlements := [(demo_stl ''t1'')\<lparr>s_status := st, s_hash := (if st = S_PENDING then None else Some ''HASH'')\<rparr>]\<rparr>"

theorem claim_hides_lost_race_witness:
  "\<exists>s1 w. claimSubmitting (demo_stl ''t1'') (demo_settling S_PENDING) = (s1, Inr w)
     \<and> claimSubmitting (demo_stl ''t1'') s1 = (s1, Inr w) \<and> s_attemptCount w = 1"
proof -
  have st: "s_status (demo_stl ''t1'') = S_PENDING" "s_attemptCount (demo_stl ''t1'') = 0" "s_hash (demo_stl ''t1'') = None"
    by (simp_all add: demo_stl_def newSettlement_def)
  have "(demo_stl ''t1'')\<lparr>s_status := S_PENDING, s_hash := None\<rparr> = demo_stl ''t1''"
    by (simp add: demo_stl_def newSettlement_def)
  then have row: "rowBy s_id (s_id (demo_stl ''t1'')) (settlements (demo_settling S_PENDING)) = Some (demo_stl ''t1'')"
    by (simp add: demo_settling_def)
  obtain s1 w where run: "claimSubmitting (demo_stl ''t1'') (demo_settling S_PENDING) = (s1, Inr w)"
    using row by (simp add: claimSubmitting_def andThen_eq updateSettlement_def logged_def)
  from claim_hides_lost_race[OF row st(1) run] run st(2) show ?thesis by auto
qed

theorem completion_books_payout_once_witness:
  "\<exists>s1. rowBy l_id ''pool'' (pools s1) = Some (demo_pool\<lparr>l_total := 700, l_reserved := 0\<rparr>) \<and> ledger_inv s1
     \<and> pools (fst (markCompleted demo_cfg 60 ''t1'' 7 s1)) = pools s1"
proof -
  let ?t = "(demo_stl ''t1'')\<lparr>s_status := S_CONFIRMING, s_hash := Some ''HASH''\<rparr>" and ?s = "demo_settling S_CONFIRMING"
  have ids: "s_id ?t = ''t1''" "s_orderId ?t = ''order''" by (simp_all add: settlement_demo_defs)
  have tab: "settlements ?s = [?t]" "orders ?s = [demo_due]" "pools ?s = [demo_pool]"
    "reservations ?s = [demo_resv V_CONFIRMED]"
    by (simp_all add: demo_settling_def demo_payable_def demo_ledger_def)
  have inv: "ledger_inv ?s"
    by (simp add: ledger_inv_def tab) (simp add: demo_defs ledger_ok_def unique_by_def pool_ok_def held_def heldBy_def)
  have find: "findSettlement ''t1'' ?s = Some ?t" using ids by (simp add: findSettlement_def tab)
  have can: "canSettlement (s_status ?t) S_COMPLETED" by (simp add: canSettlement_def)
  have row: "rowBy s_id (s_id ?t) (settlements ?s) = Some ?t" "unique_by s_id (settlements ?s)"
    by (simp_all add: tab unique_by_def)
  have x: "rowBy o_id (s_orderId ?t) (orders ?s) = Some demo_due"
    using ids by (simp add: tab) (simp add: settlement_demo_defs)
  from completion_books_payout_once[OF inv find can row x, of demo_cfg 50 6 60 7]
  obtain s1 where s1: "markCompleted demo_cfg 50 ''t1'' 6 ?s = (s1, Inr (completedRow 50 6 ?t))" "ledger_inv s1"
    "rowBy l_id ''pool'' (pools s1) = Some (demo_pool\<lparr>l_total := 700, l_reserved := 0\<rparr>)"
    "pools (fst (markCompleted demo_cfg 60 ''t1'' 7 s1)) = pools s1"
    by (auto simp: tab ids demo_pool_def demo_resv_def)
  then show ?thesis by blast
qed

end
