(* ===== verification/Policy.thy ===== *)
theory Policy
  imports StellarConfig Stroops SettlementProps
begin

text \<open>
  The settlement policy engine, \<^verbatim>\<open>src/stellar/policy/settlement-policy.engine.ts\<close>: what a
  transaction must be, and what the database must say, before a signer may sign it. A
  transaction is what the Stellar SDK parses from its envelope; the envelope text is opaque, and
  its parser and printer are parameters under the contract \<open>stellar_sdk\<close>.
\<close>

subsection \<open>Transactions\<close>

text \<open>
  \<open>ScOther n\<close> is an argument of any other type, with what \<open>BigInt\<close> makes of its native value
  (\<open>None\<close> when it throws).
\<close>

datatype sc_val = ScU64 "64 word" | ScI128 int | ScAddress string | ScOther "int option"

datatype host_function = InvokeContract string string "sc_val list" | OtherFunction

datatype chain_op = InvokeHostFunction host_function | OtherOperation

type_synonym bytes = "8 word list"

record tx =
  tx_passphrase :: passphrase
  tx_source :: string
  tx_sequence :: int
  tx_operations :: "chain_op list"
  tx_signatures :: "(string \<times> bytes) list"

fun scInt :: "sc_val \<Rightarrow> int option" where
  "scInt (ScU64 w) = Some (uint w)"
| "scInt (ScI128 i) = Some i"
| "scInt (ScAddress _) = None"
| "scInt (ScOther n) = n"

fun scAddress :: "sc_val \<Rightarrow> string option" where
  "scAddress (ScAddress a) = Some a"
| "scAddress _ = None"

text \<open>What the code uses of the Stellar SDK and of decimal.js.\<close>

record 'x sdk =
  sdk_keys :: strkey
  sdk_decimal :: "nat \<Rightarrow> nat \<Rightarrow> string"
  sdk_parse :: "'x \<Rightarrow> passphrase \<Rightarrow> tx option"
  sdk_print :: "tx \<Rightarrow> 'x"
  sdk_hash :: "tx \<Rightarrow> bytes"
  sdk_fromSecret :: "string \<Rightarrow> string option"
  sdk_sign :: "string \<Rightarrow> tx \<Rightarrow> bytes"
  sdk_encodeKey :: "bytes \<Rightarrow> string"
  sdk_verify :: "string \<Rightarrow> bytes \<Rightarrow> bytes \<Rightarrow> bool"

text \<open>
  The contract the safety of a broadcast rests on: parsing a printed envelope gives the
  transaction back, under the passphrase the parser is given.
\<close>

locale stellar_sdk =
  fixes k :: "'x sdk"
  assumes parse_print: "sdk_parse k (sdk_print k t) p = Some (t\<lparr>tx_passphrase := p\<rparr>)"
begin

lemma parse_operations: "sdk_parse k (sdk_print k t) p = Some u \<Longrightarrow> tx_operations u = tx_operations t"
  by (auto simp: parse_print)

lemma parse_signatures: "sdk_parse k (sdk_print k t) p = Some u \<Longrightarrow> tx_signatures u = tx_signatures t"
  by (auto simp: parse_print)

end

text \<open>\<open>toString\<close> of a column of scale \<open>n\<close>.\<close>

definition columnText :: "'x sdk \<Rightarrow> nat \<Rightarrow> int \<Rightarrow> string" where
  "columnText k n v =
     (if v < 0 then CHR ''-'' # sdk_decimal k n (nat (- v)) else sdk_decimal k n (nat v))"

subsection \<open>The request\<close>

record auth_context =
  cx_settlementId :: string
  cx_orderId :: string
  cx_expectedSource :: string
  cx_expectedDestination :: string
  cx_expectedAmountStroops :: int
  cx_expectedAssetContract :: string
  cx_expectedVaultContract :: string

definition reject :: "auth_context \<Rightarrow> string \<Rightarrow> 'a op" where
  "reject cx msg s =
     (auditLog (Some ''system-policy-engine'') None ''SETTLEMENT_POLICY_REJECTED'' ''Settlement''
        (Some (cx_settlementId cx)) s,
      Inl (SorobanSubmissionError (''Policy Violation: '' @ msg)))"

text \<open>A guard of the engine: \<open>if (!c) { await logRejection(...); throw ... }\<close>.\<close>

definition require :: "bool \<Rightarrow> auth_context \<Rightarrow> string \<Rightarrow> 'a op \<Rightarrow> 'a op" where
  "require c cx msg k = (if c then k else reject cx msg)"

definition badValue :: app_error where
  "badValue = PlainError ''TypeError''"

subsection \<open>Steps 1 to 5: the envelope\<close>

type_synonym contract_call = "string \<times> string \<times> sc_val list"

definition checkEnvelope :: "'x sdk \<Rightarrow> config \<Rightarrow> 'x \<Rightarrow> auth_context \<Rightarrow> contract_call op" where
  "checkEnvelope k cfg xdr cx =
     require (\<not> emergencyGlobalPause cfg) cx ''Emergency global settlement pause is active.''
     (case sdk_parse k xdr (passphraseOf cfg) of
        None \<Rightarrow> reject cx ''Malformed transaction XDR envelope.''
      | Some t \<Rightarrow>
          require (tx_passphrase t = passphraseOf cfg) cx ''Stellar network passphrase mismatch.''
          (case tx_operations t of
             [InvokeHostFunction (InvokeContract c f as)] \<Rightarrow> ret (c, f, as)
           | [InvokeHostFunction OtherFunction] \<Rightarrow>
               reject cx ''Soroban operation is not a contract invocation.''
           | [OtherOperation] \<Rightarrow>
               reject cx ''Transaction operation must be a Soroban invokeHostFunction.''
           | _ \<Rightarrow> reject cx ''Settlement transaction must contain exactly one operation.''))"

subsection \<open>Steps 6 to 9: the call and its arguments\<close>

definition expectedVault :: "config \<Rightarrow> auth_context \<Rightarrow> string" where
  "expectedVault cfg cx = orDefault (Some (cx_expectedVaultContract cx)) (vaultContractId cfg)"

definition expectedSource :: "config \<Rightarrow> auth_context \<Rightarrow> string" where
  "expectedSource cfg cx = orDefault (orElse (Some (cx_expectedSource cx)) (signerPublicKey cfg)) []"

definition expectedAsset :: "config \<Rightarrow> auth_context \<Rightarrow> app_error + string" where
  "expectedAsset cfg cx =
     (if cx_expectedAssetContract cx \<noteq> [] then Inr (cx_expectedAssetContract cx) else usdcContract cfg)"

definition checkArguments :: "config \<Rightarrow> auth_context \<Rightarrow> contract_call \<Rightarrow> (string \<times> sc_val) op" where
  "checkArguments cfg cx call =
     (case call of (c, f, as) \<Rightarrow>
        require (expectedVault cfg cx \<noteq> [] \<and> c = expectedVault cfg cx) cx
          (''Contract address '' @ c @ '' does not match approved vault contract.'')
        (require (f = ''create_settlement'') cx (''Contract function '' @ f @ '' is not authorized.'')
        (case as of
           [i, source, destination, asset, amount] \<Rightarrow>
             (case (scAddress source, scAddress destination, scAddress asset) of
                (Some src, Some dst, Some ast) \<Rightarrow>
                  (case scInt i of
                     None \<Rightarrow> throw badValue
                   | Some n \<Rightarrow>
                       require (n = uint (parseSettlementIdToU64 (cx_settlementId cx))) cx
                         ''Settlement ID in transaction XDR does not match order context.''
                       (require (expectedSource cfg cx = [] \<or> src = expectedSource cfg cx) cx
                         ''Transaction source address does not match hot treasury wallet.''
                       (case expectedAsset cfg cx of
                          Inl e \<Rightarrow> throw e
                        | Inr a \<Rightarrow>
                            require (a = [] \<or> ast = a) cx
                              ''Transaction asset contract does not match approved USDC contract.''
                            (ret (dst, amount)))))
              | _ \<Rightarrow> throw badValue)
         | _ \<Rightarrow> reject cx ''create_settlement requires 5 arguments.'')))"

subsection \<open>Steps 10 to 13: the database\<close>

text \<open>The status \<open>status\<close> and the addresses of the messages are left out of them.\<close>

definition checkOrder ::
  "'x sdk \<Rightarrow> auth_context \<Rightarrow> string \<times> sc_val \<Rightarrow> (order \<times> settlement) op" where
  "checkOrder k cx found s =
     (case rowBy o_id (cx_orderId cx) (orders s) of
        None \<Rightarrow> reject cx ''Order does not exist.'' s
      | Some x \<Rightarrow>
          require (o_status x = O_SETTLEMENT_PENDING) cx ''Order state must be SETTLEMENT_PENDING''
          (require (\<not> activeRefund (cx_orderId cx) s) cx ''Order has an active or completed refund record.''
          (require (truthy (o_walletAddress x) \<and> sk_publicKey (sdk_keys k) (the (o_walletAddress x))) cx
             ''Order does not contain a valid destination wallet address.''
          (require (Some (fst found) = o_walletAddress x) cx
             ''Transaction destination address does not match order recipient address.''
          (case (parseAmountToStroops (columnText k 7 (o_destinationAmount x)), scInt (snd found)) of
             (Some expected, Some stroops) \<Rightarrow>
               require (stroops = expected) cx
                 ''Transaction amount stroops does not match authoritative order destination amount.''
               (require (\<exists>p \<in> set (payments s). p_orderId p = o_id x \<and> p_status p = P_SUCCEEDED) cx
                 ''Order does not have a confirmed succeeded payment.''
               (require (case rowBy v_orderId (o_id x) (reservations s) of Some v \<Rightarrow> v_status v = V_CONFIRMED | None \<Rightarrow> False) cx
                 ''Order does not possess a confirmed liquidity reservation.''
               (case rowBy s_orderId (cx_orderId cx) (settlements s) of
                  None \<Rightarrow> reject cx ''Settlement record does not exist in database.''
                | Some t \<Rightarrow>
                    require (s_status t \<noteq> S_COMPLETED) cx ''Settlement has already completed on-chain.''
                    (ret (x, t)))))
           | _ \<Rightarrow> throw badValue)))) s)"

subsection \<open>Steps 14 to 17: age, bounds, limits\<close>

definition outflowSince :: "time \<Rightarrow> sys \<Rightarrow> rat" where
  "outflowSince since s =
     usdc (sum_list (map t_amount (filter (\<lambda>y. t_type y = SETTLEMENT_PAYOUT \<and> since \<le> t_createdAt y) (treasuryTxs s))))"

definition hourMs :: int where "hourMs = 60 * 60 * 1000"

definition checkLimits :: "config \<Rightarrow> time \<Rightarrow> auth_context \<Rightarrow> order \<times> settlement \<Rightarrow> settlement op" where
  "checkLimits cfg now cx found s =
     (case found of (x, t) \<Rightarrow>
        let payout = usdc (o_destinationAmount x) in
        require (now - s_createdAt t \<le> 24 * hourMs) cx ''Settlement transaction request is stale (> 24 hours).''
        (require (minSettlementUsdc cfg \<le> payout) cx ''Settlement amount is below configured minimum''
        (require (payout \<le> maxSingleSettlementUsdc cfg) cx
           ''Settlement amount exceeds maximum single transaction limit''
        (require (outflowSince (now - hourMs) s + payout \<le> maxHourlyOutflowUsdc cfg) cx
           ''Transaction would exceed 1-hour cumulative outflow limit''
        (require (outflowSince (now - 24 * hourMs) s + payout \<le> maxDailyOutflowUsdc cfg) cx
           ''Transaction would exceed 24-hour cumulative outflow limit'' (ret t))))) s)"

definition validateAndApprove :: "'x sdk \<Rightarrow> config \<Rightarrow> time \<Rightarrow> 'x \<Rightarrow> auth_context \<Rightarrow> unit op" where
  "validateAndApprove k cfg now xdr cx =
     andThen (checkEnvelope k cfg xdr cx) (\<lambda>call.
     andThen (checkArguments cfg cx call) (\<lambda>found.
     andThen (checkOrder k cx found) (\<lambda>row.
     andThen (checkLimits cfg now cx row) (\<lambda>t s.
       (auditLog (Some ''system-policy-engine'') None ''SETTLEMENT_POLICY_APPROVED'' ''Settlement''
          (Some (s_id t)) s, Inr ())))))"

end
