(* ===== verification/Signers.thy ===== *)
theory Signers
  imports Policy
begin

text \<open>
  The transaction signers of \<^verbatim>\<open>src/stellar/signer\<close>: the local test network key and the AWS KMS
  key, and the choice between them. Both ask the policy engine before they sign. The world of
  this and the next theories is the database, the transactions handed to the network, and the
  public key the KMS signer keeps once it knows it.
\<close>

record world =
  w_sys :: sys
  w_sent :: "tx list"
  w_kmsKey :: "string option"

type_synonym 'a wop = "(world, app_error, 'a) oper"

definition onSys :: "'a op \<Rightarrow> 'a wop" where
  "onSys f w = (case f (w_sys w) of (s, r) \<Rightarrow> (w\<lparr>w_sys := s\<rparr>, r))"

text \<open>The answers of AWS KMS: \<open>Inl\<close> is the message of the error \<open>send\<close> threw.\<close>

record kms_key =
  kk_bytes :: "bytes option"
  kk_spec :: "string option"
  kk_usage :: "string option"
  kk_enabled :: "bool option"

record kms =
  km_publicKey :: "string \<Rightarrow> string + kms_key"
  km_sign :: "string \<Rightarrow> bytes \<Rightarrow> string + bytes option"

datatype signer = TestnetLocal string string | AwsKms string

record identity =
  si_publicKey :: string
  si_keyId :: string
  si_providerType :: string
  si_passphrase :: passphrase
  si_expectedSource :: string

definition quoted :: "string \<Rightarrow> string" where
  "quoted v = CHR 0x27 # v @ [CHR 0x27]"

subsection \<open>Construction\<close>

definition configError :: "string \<Rightarrow> app_error" where
  "configError msg = SorobanSignerConfigError msg"

definition newTestnetLocalSigner :: "'x sdk \<Rightarrow> config \<Rightarrow> string option \<Rightarrow> app_error + signer" where
  "newTestnetLocalSigner k cfg secretKey =
     (if env cfg = ''production''
      then Inl (configError ''FATAL SECURITY VIOLATION: Local testnet signer is strictly forbidden in production mode.'')
      else case assertLiveSettlementTestnetSafety cfg of
        Inl e \<Rightarrow> Inl e
      | Inr _ \<Rightarrow>
          if \<not> truthy (orElse secretKey (signerSecretKey cfg))
          then Inl (configError ''STELLAR_SETTLEMENT_SIGNER_SECRET_KEY is not configured.'')
          else let secret = the (orElse secretKey (signerSecretKey cfg)) in
            (case sdk_fromSecret k secret of
               None \<Rightarrow> Inl (configError ''Invalid Stellar settlement signer secret key format.'')
             | Some pk \<Rightarrow>
                 if truthy (signerPublicKey cfg) \<and> signerPublicKey cfg \<noteq> Some pk
                 then Inl (configError ''Configured STELLAR_SETTLEMENT_SIGNER_PUBLIC_KEY does not match secret key.'')
                 else Inr (TestnetLocal secret pk)))"

definition newKmsSigner :: "config \<Rightarrow> string option \<Rightarrow> app_error + signer" where
  "newKmsSigner cfg keyArn =
     (let arn = orDefault (orElse keyArn (kmsKeyArn cfg)) [] in
      if trim arn = []
      then Inl (configError ''FATAL: STELLAR_KMS_KEY_ARN or AWS_KMS_SIGNING_KEY_ID is not configured for AWS KMS signer provider.'')
      else Inr (AwsKms arn))"

definition resolveTransactionSigner :: "'x sdk \<Rightarrow> config \<Rightarrow> signer option \<Rightarrow> app_error + signer" where
  "resolveTransactionSigner k cfg given =
     (case given of
        Some sg \<Rightarrow> Inr sg
      | None \<Rightarrow>
          let provider = orDefault (Some (signerProvider cfg)) ''testnet_local'' in
          if (env cfg = ''production'' \<or> isPublic (network cfg)) \<and> provider = ''testnet_local''
          then Inl (configError ''FATAL: Local testnet signer cannot be used in production environment or on public/mainnet networks.'')
          else if provider = ''aws_kms'' then newKmsSigner cfg None
          else if provider = ''gcp_kms'' \<or> provider = ''fireblocks''
          then Inl (configError (''Provider '' @ quoted provider @ '' is not yet implemented. Production KMS/Custody SDK integration is deferred.''))
          else newTestnetLocalSigner k cfg None)"

subsection \<open>The public key of the KMS key\<close>

definition rawKey :: "bytes \<Rightarrow> app_error + bytes" where
  "rawKey b =
     (if length b = 44 then Inr (drop 12 b) else if length b = 32 then Inr b
      else Inl (configError ''Invalid KMS Ed25519 public key byte length''))"

definition keyOf :: "'x sdk \<Rightarrow> string \<Rightarrow> kms_key \<Rightarrow> app_error + string" where
  "keyOf k arn resp =
     (case kk_bytes resp of
        None \<Rightarrow> Inl (configError (''KMS GetPublicKey returned an empty PublicKey payload for KeyId '' @ quoted arn @ ''.''))
      | Some b \<Rightarrow>
          if truthy (kk_spec resp) \<and> toUpper (the (kk_spec resp)) \<noteq> ''ECC_ED25519''
             \<and> toUpper (the (kk_spec resp)) \<noteq> ''ED25519''
          then Inl (configError (''KMS key specification mismatch: Expected '' @ quoted ''ECC_ED25519'' @ '', got ''
             @ quoted (the (kk_spec resp)) @ '' for KeyId '' @ quoted arn @ ''.''))
          else if truthy (kk_usage resp) \<and> kk_usage resp \<noteq> Some ''SIGN_VERIFY''
          then Inl (configError (''KMS key usage mismatch: Expected '' @ quoted ''SIGN_VERIFY'' @ '', got ''
             @ quoted (the (kk_usage resp)) @ '' for KeyId '' @ quoted arn @ ''.''))
          else if kk_enabled resp = Some False
          then Inl (configError (''KMS key is disabled for KeyId '' @ quoted arn @ ''.''))
          else case rawKey b of
            Inl e \<Rightarrow> Inl e
          | Inr raw \<Rightarrow>
              let pk = sdk_encodeKey k raw in
              if sk_publicKey (sdk_keys k) pk then Inr pk
              else Inl (configError (''Extracted KMS public key is not a valid Stellar G-address: '' @ pk)))"

definition kmsGetPublicKey :: "'x sdk \<Rightarrow> kms \<Rightarrow> string \<Rightarrow> string wop" where
  "kmsGetPublicKey k m arn w =
     (if truthy (w_kmsKey w) then (w, Inr (the (w_kmsKey w)))
      else case km_publicKey m arn of
        Inl msg \<Rightarrow> (w, Inl (configError (''KMS GetPublicKey failed for KeyId '' @ quoted arn @ '': '' @ msg)))
      | Inr resp \<Rightarrow>
          (case keyOf k arn resp of
             Inl e \<Rightarrow> (w, Inl e)
           | Inr pk \<Rightarrow> (w\<lparr>w_kmsKey := Some pk\<rparr>, Inr pk)))"

definition signerKey :: "'x sdk \<Rightarrow> kms \<Rightarrow> signer \<Rightarrow> string wop" where
  "signerKey k m sg = (case sg of TestnetLocal _ pk \<Rightarrow> ret pk | AwsKms arn \<Rightarrow> kmsGetPublicKey k m arn)"

definition getIdentity :: "'x sdk \<Rightarrow> kms \<Rightarrow> config \<Rightarrow> signer \<Rightarrow> identity wop" where
  "getIdentity k m cfg sg =
     andThen (signerKey k m sg) (\<lambda>pk.
       ret (case sg of
              TestnetLocal _ _ \<Rightarrow>
                \<lparr>si_publicKey = pk, si_keyId = ''TESTNET_LOCAL_KEY'', si_providerType = ''TESTNET_LOCAL'',
                 si_passphrase = passphraseOf cfg, si_expectedSource = orDefault (signerPublicKey cfg) pk\<rparr>
            | AwsKms arn \<Rightarrow>
                \<lparr>si_publicKey = pk, si_keyId = arn, si_providerType = ''AWS_KMS'',
                 si_passphrase = passphraseOf cfg, si_expectedSource = orDefault (signerPublicKey cfg) pk\<rparr>))"

text \<open>
  \<open>verifyReadiness\<close>: the KMS signer compares the passphrase with the configured one twice. The
  expected passphrase is an optional argument.
\<close>

definition verifyReadiness ::
  "'x sdk \<Rightarrow> kms \<Rightarrow> config \<Rightarrow> string option \<Rightarrow> passphrase option \<Rightarrow> signer \<Rightarrow> unit wop" where
  "verifyReadiness k m cfg expectedKey expectedPass sg =
     andThen (getIdentity k m cfg sg) (\<lambda>i.
       if expectedPass \<noteq> None \<and> expectedPass \<noteq> Some (si_passphrase i)
       then throw (configError ''signer network mismatch'')
       else if si_providerType i = ''AWS_KMS'' \<and> si_passphrase i \<noteq> passphraseOf cfg
       then throw (configError ''FATAL SIGNER MISMATCH'')
       else if truthy (orElse expectedKey (signerPublicKey cfg))
         \<and> orElse expectedKey (signerPublicKey cfg) \<noteq> Some (si_publicKey i)
       then throw (configError ''signer public key mismatch'')
       else ret ())"

record signer_health =
  sh_healthy :: bool
  sh_providerType :: string
  sh_publicKey :: string
  sh_keyId :: string

definition signerHealth :: "'x sdk \<Rightarrow> kms \<Rightarrow> signer \<Rightarrow> world \<Rightarrow> world \<times> signer_health" where
  "signerHealth k m sg w =
     (case sg of
        TestnetLocal _ pk \<Rightarrow>
          (w, \<lparr>sh_healthy = True, sh_providerType = ''TESTNET_LOCAL'', sh_publicKey = pk, sh_keyId = ''TESTNET_LOCAL_KEY''\<rparr>)
      | AwsKms arn \<Rightarrow>
          (case kmsGetPublicKey k m arn w of
             (w1, Inr pk) \<Rightarrow> (w1, \<lparr>sh_healthy = True, sh_providerType = ''AWS_KMS'', sh_publicKey = pk, sh_keyId = arn\<rparr>)
           | (w1, Inl _) \<Rightarrow> (w1, \<lparr>sh_healthy = False, sh_providerType = ''AWS_KMS'', sh_publicKey = [], sh_keyId = arn\<rparr>)))"

subsection \<open>Signing\<close>

text \<open>\<open>hash.toString('hex')\<close>.\<close>

definition hexDigit :: "nat \<Rightarrow> char" where
  "hexDigit d = (if d < 10 then char_of (48 + d) else char_of (87 + d))"

definition hexString :: "bytes \<Rightarrow> string" where
  "hexString b = concat (map (\<lambda>x. [hexDigit (unat x div 16), hexDigit (unat x mod 16)]) b)"

record 'x signed =
  sg_xdr :: 'x
  sg_hash :: string
  sg_publicKey :: string

definition signedAudit :: "string \<Rightarrow> auth_context \<Rightarrow> sys \<Rightarrow> sys" where
  "signedAudit actor cx = auditLog (Some actor) None ''TRANSACTION_SIGNED'' ''Settlement'' (Some (cx_settlementId cx))"

definition addSignature :: "string \<Rightarrow> bytes \<Rightarrow> tx \<Rightarrow> tx" where
  "addSignature pk sig t = t\<lparr>tx_signatures := tx_signatures t @ [(pk, sig)]\<rparr>"

text \<open>The end of both signers: print the signed transaction, log, answer.\<close>

definition finishSigning :: "'x sdk \<Rightarrow> string \<Rightarrow> auth_context \<Rightarrow> string \<Rightarrow> bytes \<Rightarrow> tx \<Rightarrow> 'x signed wop" where
  "finishSigning k actor cx pk sig t w =
     (w\<lparr>w_sys := signedAudit actor cx (w_sys w)\<rparr>,
      Inr \<lparr>sg_xdr = sdk_print k (addSignature pk sig t), sg_hash = hexString (sdk_hash k t), sg_publicKey = pk\<rparr>)"

definition localSign ::
  "'x sdk \<Rightarrow> config \<Rightarrow> string \<Rightarrow> string \<Rightarrow> 'x \<Rightarrow> auth_context \<Rightarrow> 'x signed wop" where
  "localSign k cfg secret pk xdr cx =
     (case sdk_parse k xdr (passphraseOf cfg) of
        None \<Rightarrow> throw (PlainError ''XDR'')
      | Some t \<Rightarrow> finishSigning k ''system-signer'' cx pk (sdk_sign k secret t) t)"

definition checkedSignature :: "'x sdk \<Rightarrow> kms \<Rightarrow> string \<Rightarrow> string \<Rightarrow> bytes \<Rightarrow> app_error + bytes" where
  "checkedSignature k m arn pk hash =
     (case km_sign m arn hash of
        Inl msg \<Rightarrow> Inl (SorobanSubmissionError (''AWS KMS SignCommand failed for KeyId '' @ quoted arn @ '': '' @ msg))
      | Inr None \<Rightarrow> Inl (configError ''AWS KMS SignCommand returned an empty signature payload.'')
      | Inr (Some sig) \<Rightarrow>
          if length sig \<noteq> 64 then Inl (configError ''KMS returned invalid signature byte length'')
          else if \<not> sdk_verify k pk hash sig
          then Inl (configError ''FATAL: KMS signature failed local cryptographic verification against public key.'')
          else Inr sig)"

definition kmsSign :: "'x sdk \<Rightarrow> kms \<Rightarrow> config \<Rightarrow> string \<Rightarrow> 'x \<Rightarrow> auth_context \<Rightarrow> 'x signed wop" where
  "kmsSign k m cfg arn xdr cx =
     (case sdk_parse k xdr (passphraseOf cfg) of
        None \<Rightarrow> throw (SorobanSubmissionError ''Failed to parse unsigned transaction XDR envelope.'')
      | Some t \<Rightarrow>
          if length (sdk_hash k t) \<noteq> 32 then throw (configError ''Invalid transaction hash length'')
          else
            andThen (kmsGetPublicKey k m arn) (\<lambda>pk.
            andThen (lift (checkedSignature k m arn pk (sdk_hash k t))) (\<lambda>sig.
              finishSigning k ''system-signer-kms'' cx pk sig t)))"

definition signTransaction ::
  "'x sdk \<Rightarrow> kms \<Rightarrow> config \<Rightarrow> time \<Rightarrow> signer \<Rightarrow> 'x \<Rightarrow> auth_context \<Rightarrow> 'x signed wop" where
  "signTransaction k m cfg now sg xdr cx =
     andThen (onSys (validateAndApprove k cfg now xdr cx)) (\<lambda>_.
       case sg of
         TestnetLocal secret pk \<Rightarrow> localSign k cfg secret pk xdr cx
       | AwsKms arn \<Rightarrow> kmsSign k m cfg arn xdr cx)"

end
