(* ===== verification/Soroban.thy ===== *)
theory Soroban
  imports Signers
begin

text \<open>
  Sending a settlement to the chain: \<^verbatim>\<open>transaction.service.ts\<close> builds, signs and broadcasts the
  transaction, \<^verbatim>\<open>confirmation.service.ts\<close> polls for its fate, and the executors of
  \<^verbatim>\<open>live-settlement.executor.ts\<close>, \<^verbatim>\<open>soroban/settlement.executor.ts\<close> and
  \<^verbatim>\<open>settlement.executor.ts\<close> offer both to the workers. The answers of the network are
  parameters: an account's sequence number (\<open>None\<close> when the request throws), a simulation, and
  the reply to a broadcast.
\<close>

subsection \<open>The network\<close>

datatype simulation = SimulateThrows | SimulationError string | SimulationOther | SimulationSuccess

datatype send_answer = SendThrows | SendError | SendAccepted string

text \<open>
  What became of a lock that was asked for: the service threw, the lock stayed with another
  worker also while the code retried, or it was acquired, with the value of \<open>isOwned()\<close> where
  the code asks for it.
\<close>

datatype lock_outcome = LockThrows string | NotAcquired | Acquired bool

record 'x chain_env =
  ce_sdk :: "'x sdk"
  ce_kms :: kms
  ce_now :: time
  ce_account :: "string \<Rightarrow> int option"
  ce_simulate :: "tx \<Rightarrow> simulation"
  ce_assemble :: "tx \<Rightarrow> tx"
  ce_send :: "tx \<Rightarrow> send_answer"
  ce_sequenceLock :: lock_outcome

text \<open>\<open>sp_parentOwned\<close> is \<open>parentLock.isOwned()\<close> after signing, \<open>None\<close> without a parent lock.\<close>

record submit_params =
  sp_settlementId :: string
  sp_orderId :: string
  sp_source :: string
  sp_destination :: string
  sp_amount :: string
  sp_asset :: string
  sp_contractAddress :: "string option"
  sp_parentOwned :: "bool option"

subsection \<open>Building the transaction\<close>

definition fetchSequence :: "'x chain_env \<Rightarrow> string \<Rightarrow> app_error + int" where
  "fetchSequence e pk =
     (case ce_account e pk of
        Some n \<Rightarrow> Inr n
      | None \<Rightarrow> Inl (SorobanSubmissionError (''Failed to fetch account sequence for signer address '' @ pk @ ''.'')))"

definition sourceAddress :: "submit_params \<Rightarrow> string \<Rightarrow> string" where
  "sourceAddress p pk = (if sp_source p = [] \<or> sp_source p = ''LUMINA_TREASURY'' then pk else sp_source p)"

definition assetAddress :: "'x sdk \<Rightarrow> config \<Rightarrow> submit_params \<Rightarrow> app_error + string" where
  "assetAddress k cfg p =
     (if sp_asset p \<noteq> [] \<and> sk_contract (sdk_keys k) (sp_asset p) then Inr (sp_asset p) else usdcContract cfg)"

text \<open>\<open>contract.call\<close> and the transaction builder, which takes the next sequence number.\<close>

definition settlementTx ::
  "config \<Rightarrow> string \<Rightarrow> string \<Rightarrow> int \<Rightarrow> 64 word \<Rightarrow> string \<Rightarrow> string \<Rightarrow> string \<Rightarrow> int \<Rightarrow> tx" where
  "settlementTx cfg contractId pk seq sid source destination asset stroops =
     \<lparr>tx_passphrase = passphraseOf cfg, tx_source = pk, tx_sequence = seq + 1,
      tx_operations = [InvokeHostFunction (InvokeContract contractId ''create_settlement''
        [ScU64 sid, ScAddress source, ScAddress destination, ScAddress asset, ScI128 stroops])],
      tx_signatures = []\<rparr>"

definition simulated :: "'x chain_env \<Rightarrow> tx \<Rightarrow> app_error + tx" where
  "simulated e t =
     (case ce_simulate e t of
        SimulateThrows \<Rightarrow> Inl (StellarRpcError ''Failed to simulate Soroban transaction.'')
      | SimulationError msg \<Rightarrow> Inl (SorobanSimulationError (''Soroban transaction simulation error: '' @ msg))
      | SimulationOther \<Rightarrow> Inl (SorobanSimulationError ''Soroban transaction simulation failed to execute successfully.'')
      | SimulationSuccess \<Rightarrow> Inr (ce_assemble e t))"

text \<open>The addresses of the call, the SDK's own checks of them included.\<close>

definition callAddresses :: "'x sdk \<Rightarrow> config \<Rightarrow> submit_params \<Rightarrow> string \<Rightarrow> string \<Rightarrow> app_error + string \<times> string" where
  "callAddresses k cfg p contractId pk =
     (if \<not> sk_publicKey (sdk_keys k) (sourceAddress p pk)
      then Inl (SorobanSubmissionError (''Invalid source Stellar address: '' @ sourceAddress p pk))
      else if sp_destination p = [] \<or> \<not> sk_publicKey (sdk_keys k) (sp_destination p)
      then Inl (SorobanSubmissionError (''Invalid destination Stellar address: '' @ sp_destination p))
      else case assetAddress k cfg p of
        Inl err \<Rightarrow> Inl err
      | Inr a \<Rightarrow>
          if \<not> sk_contract (sdk_keys k) contractId then Inl (PlainError (''Invalid contract ID: '' @ contractId))
          else if \<not> sk_contract (sdk_keys k) a \<and> \<not> sk_publicKey (sdk_keys k) a
          then Inl (PlainError (''Unsupported address type: '' @ a))
          else Inr (sourceAddress p pk, a))"

definition vaultOf :: "config \<Rightarrow> submit_params \<Rightarrow> string" where
  "vaultOf cfg p = orDefault (sp_contractAddress p) (vaultContractId cfg)"

definition buildUnsigned ::
  "'x chain_env \<Rightarrow> config \<Rightarrow> signer \<Rightarrow> submit_params \<Rightarrow> ('x \<times> auth_context) wop" where
  "buildUnsigned e cfg sg p =
     andThen (lift (assertLiveSettlementTestnetSafety cfg)) (\<lambda>_.
     if trim (vaultOf cfg p) = []
     then throw (SorobanContractConfigError ''Soroban Settlement Vault Contract ID is not configured.'')
     else
       andThen (getIdentity (ce_sdk e) (ce_kms e) cfg sg) (\<lambda>i.
       andThen (lift (assertTestnetSafety cfg)) (\<lambda>_.
       andThen (lift (fetchSequence e (si_publicKey i))) (\<lambda>seq.
         case parseAmountToStroops (sp_amount p) of
           None \<Rightarrow> throw (PlainError ''SyntaxError'')
         | Some stroops \<Rightarrow>
             andThen (lift (callAddresses (ce_sdk e) cfg p (vaultOf cfg p) (si_publicKey i))) (\<lambda>a.
             andThen (lift (simulated e (settlementTx cfg (vaultOf cfg p) (si_publicKey i) seq
                (parseSettlementIdToU64 (sp_settlementId p)) (fst a) (sp_destination p) (snd a) stroops))) (\<lambda>t.
               ret (sdk_print (ce_sdk e) t,
                 \<lparr>cx_settlementId = sp_settlementId p, cx_orderId = sp_orderId p,
                  cx_expectedSource = fst a, cx_expectedDestination = sp_destination p,
                  cx_expectedAmountStroops = stroops, cx_expectedAssetContract = snd a,
                  cx_expectedVaultContract = vaultOf cfg p\<rparr>)))))))"

subsection \<open>Broadcasting\<close>

definition submitSigned :: "'x chain_env \<Rightarrow> config \<Rightarrow> 'x \<Rightarrow> string wop" where
  "submitSigned e cfg xdr w =
     (case sdk_parse (ce_sdk e) xdr (passphraseOf cfg) of
        None \<Rightarrow> (w, Inl (PlainError ''XDR''))
      | Some t \<Rightarrow>
          (w\<lparr>w_sent := w_sent w @ [t]\<rparr>,
           case ce_send e t of
             SendThrows \<Rightarrow> Inl (StellarRpcError ''Failed to submit Soroban transaction.'')
           | SendError \<Rightarrow> Inl (SorobanSubmissionError ''Soroban RPC rejected transaction submission with status ERROR.'')
           | SendAccepted h \<Rightarrow> Inr h))"

definition executeUnderLock :: "'x chain_env \<Rightarrow> config \<Rightarrow> signer \<Rightarrow> submit_params \<Rightarrow> string wop" where
  "executeUnderLock e cfg sg p =
     andThen (buildUnsigned e cfg sg p) (\<lambda>u.
     andThen (signTransaction (ce_sdk e) (ce_kms e) cfg (ce_now e) sg (fst u) (snd u)) (\<lambda>y.
       if sp_parentOwned p = Some False
       then throw (SorobanSubmissionError
         ''Parent settlement lock was lost after KMS signing; aborting Soroban RPC submission.'')
       else submitSigned e cfg (sg_xdr y)))"

definition requiresLocks :: "config \<Rightarrow> bool" where
  "requiresLocks cfg \<longleftrightarrow> requireDistributedLocks cfg \<or> env cfg = ''production''"

definition sequenceLockKey :: "string \<Rightarrow> string" where
  "sequenceLockKey pk = ''lock:stellar:sequence:'' @ pk"

definition buildAndSubmit ::
  "'x chain_env \<Rightarrow> config \<Rightarrow> signer option \<Rightarrow> submit_params \<Rightarrow> string wop" where
  "buildAndSubmit e cfg given p =
     andThen (lift (assertLiveSettlementTestnetSafety cfg)) (\<lambda>_.
     andThen (lift (resolveTransactionSigner (ce_sdk e) cfg given)) (\<lambda>sg.
     andThen (getIdentity (ce_sdk e) (ce_kms e) cfg sg) (\<lambda>i.
       case ce_sequenceLock e of
         LockThrows msg \<Rightarrow> throw (PlainError msg)
       | NotAcquired \<Rightarrow>
           if requiresLocks cfg
           then throw (SorobanSubmissionError
             (''Failed to acquire required Stellar sequence lock for key '' @ sequenceLockKey (si_publicKey i)))
           else executeUnderLock e cfg sg p
       | Acquired owned \<Rightarrow>
           if \<not> owned
           then throw (SorobanSubmissionError ''Stellar sequence lock lost before building transaction.'')
           else executeUnderLock e cfg sg p)))"

subsection \<open>Confirmation\<close>

datatype rpc_answer = RpcSuccess int | RpcFailed int | RpcNotFound | RpcOther | RpcThrows string

datatype tx_status = TX_PENDING | TX_SUCCESS | TX_FAILED | TX_NOT_FOUND

record status_result =
  sr_status :: tx_status
  sr_ledger :: "int option"
  sr_error :: "string option"

record confirmation =
  cf_confirmed :: bool
  cf_ledger :: "int option"
  cf_error :: "string option"

fun getTransactionStatus :: "rpc_answer \<Rightarrow> status_result" where
  "getTransactionStatus (RpcSuccess l) = \<lparr>sr_status = TX_SUCCESS, sr_ledger = Some l, sr_error = None\<rparr>"
| "getTransactionStatus (RpcFailed l) = \<lparr>sr_status = TX_FAILED, sr_ledger = Some l,
     sr_error = Some ''Transaction failed during on-chain execution.''\<rparr>"
| "getTransactionStatus RpcNotFound = \<lparr>sr_status = TX_NOT_FOUND, sr_ledger = None, sr_error = None\<rparr>"
| "getTransactionStatus RpcOther = \<lparr>sr_status = TX_PENDING, sr_ledger = None, sr_error = None\<rparr>"
| "getTransactionStatus (RpcThrows msg) = \<lparr>sr_status = TX_FAILED, sr_ledger = None, sr_error = Some msg\<rparr>"

definition timedOut :: confirmation where
  "timedOut = \<lparr>cf_confirmed = False, cf_ledger = None, cf_error = Some ''Transaction confirmation timed out''\<rparr>"

text \<open>
  The polling loop, from attempt \<open>i\<close> on: \<open>answers i\<close> is what the RPC server answers to attempt \<open>i\<close>.
  The \<open>catch\<close> around the request is left out: \<open>getTransactionStatus\<close> does not throw.
\<close>

function pollFrom :: "(nat \<Rightarrow> rpc_answer) \<Rightarrow> nat \<Rightarrow> nat \<Rightarrow> confirmation" where
  "pollFrom answers maxAttempts i =
     (if maxAttempts < i then timedOut
      else
        let r = getTransactionStatus (answers i) in
        if sr_status r = TX_SUCCESS then \<lparr>cf_confirmed = True, cf_ledger = sr_ledger r, cf_error = None\<rparr>
        else if sr_status r = TX_FAILED then
          \<lparr>cf_confirmed = False, cf_ledger = None,
           cf_error = Some (orDefault (sr_error r) ''Transaction execution failed on Stellar network.'')\<rparr>
        else pollFrom answers maxAttempts (i + 1))"
  by auto

termination
  by (relation "measure (\<lambda>(_, maxAttempts, i). Suc maxAttempts - i)") auto

declare pollFrom.simps [simp del]

definition confirmTransaction :: "(nat \<Rightarrow> rpc_answer) \<Rightarrow> nat option \<Rightarrow> confirmation" where
  "confirmTransaction answers maxAttempts =
     (let n = (case maxAttempts of Some m \<Rightarrow> m | None \<Rightarrow> 0) in pollFrom answers (if n = 0 then 10 else n) 1)"

subsection \<open>Executors\<close>

record submission =
  su_submitted :: bool
  su_hash :: "string option"
  su_error :: "string option"

text \<open>The message of an error; of the classes kept without one, their name.\<close>

fun messageOf :: "app_error \<Rightarrow> string" where
  "messageOf (ValidationError m) = m"
| "messageOf (BadRequestError m) = m"
| "messageOf (UnauthorizedError m) = m"
| "messageOf (ForbiddenError m) = m"
| "messageOf (NotFoundError m) = m"
| "messageOf (ConflictError m) = m"
| "messageOf PaymentNotFoundError = ''Payment not found''"
| "messageOf InvalidPaymentStateError = ''InvalidPaymentStateError''"
| "messageOf (WebhookVerificationError m) = m"
| "messageOf (ProviderError m) = m"
| "messageOf SettlementNotFoundError = ''Settlement not found''"
| "messageOf InvalidSettlementStateError = ''InvalidSettlementStateError''"
| "messageOf (InvalidOrderStateForSettlementError m) = m"
| "messageOf (StellarNetworkError m) = m"
| "messageOf (StellarInvalidAddressError m) = m"
| "messageOf StellarInvalidAssetError = ''StellarInvalidAssetError''"
| "messageOf (StellarRpcError m) = m"
| "messageOf (SorobanSimulationError m) = m"
| "messageOf (SorobanSubmissionError m) = m"
| "messageOf SorobanConfirmationError = ''Failed to confirm transaction''"
| "messageOf (SorobanSignerConfigError m) = m"
| "messageOf (SorobanContractConfigError m) = m"
| "messageOf RefundNotFoundError = ''Refund not found''"
| "messageOf InvalidRefundStateError = ''InvalidRefundStateError''"
| "messageOf (AppError _ m) = m"
| "messageOf PrismaP2002 = ''Unique constraint failed''"
| "messageOf PrismaP2025 = ''Record not found''"
| "messageOf (PlainError m) = m"

definition submissionOf :: "world \<times> (app_error + string) \<Rightarrow> world \<times> submission" where
  "submissionOf out =
     (case out of
        (w, Inr h) \<Rightarrow> (w, \<lparr>su_submitted = True, su_hash = Some h, su_error = None\<rparr>)
      | (w, Inl err) \<Rightarrow> (w, \<lparr>su_submitted = False, su_hash = None, su_error = Some (messageOf err)\<rparr>))"

record executor =
  ex_submit :: "submit_params \<Rightarrow> world \<Rightarrow> world \<times> submission"
  ex_status :: "string \<Rightarrow> status_result"
  ex_confirm :: "string \<Rightarrow> confirmation"

definition liveExecutor ::
  "'x chain_env \<Rightarrow> config \<Rightarrow> signer option \<Rightarrow> (string \<Rightarrow> nat \<Rightarrow> rpc_answer) \<Rightarrow> executor" where
  "liveExecutor e cfg given rpc =
     \<lparr>ex_submit = (\<lambda>p w. submissionOf (buildAndSubmit e cfg given p w)),
      ex_status = (\<lambda>h. getTransactionStatus (rpc h 0)),
      ex_confirm = (\<lambda>h. confirmTransaction (rpc h) None)\<rparr>"

definition sorobanExecutor ::
  "'x chain_env \<Rightarrow> config \<Rightarrow> signer option \<Rightarrow> (string \<Rightarrow> nat \<Rightarrow> rpc_answer) \<Rightarrow> nat option \<Rightarrow> executor" where
  "sorobanExecutor e cfg given rpc maxAttempts =
     \<lparr>ex_submit = (\<lambda>p w. submissionOf
        (andThen (lift (assertLiveSettlementTestnetSafety cfg)) (\<lambda>_. buildAndSubmit e cfg given p) w)),
      ex_status = (\<lambda>h. getTransactionStatus (rpc h 0)),
      ex_confirm = (\<lambda>h. confirmTransaction (rpc h) maxAttempts)\<rparr>"

definition mockExecutor :: "bool \<Rightarrow> bool \<Rightarrow> executor" where
  "mockExecutor failSubmission failConfirmation =
     \<lparr>ex_submit = (\<lambda>p w. (w,
        if failSubmission
        then \<lparr>su_submitted = False, su_hash = None,
              su_error = Some ''Simulated submission failure on Stellar Testnet boundary''\<rparr>
        else \<lparr>su_submitted = True, su_hash = Some (''MOCK_TX_HASH_'' @ sp_settlementId p), su_error = None\<rparr>)),
      ex_status = (\<lambda>_.
        if failConfirmation
        then \<lparr>sr_status = TX_FAILED, sr_ledger = None,
              sr_error = Some ''Simulated status failure on Stellar Testnet boundary''\<rparr>
        else \<lparr>sr_status = TX_SUCCESS, sr_ledger = Some 12345678, sr_error = None\<rparr>),
      ex_confirm = (\<lambda>_.
        if failConfirmation
        then \<lparr>cf_confirmed = False, cf_ledger = None,
              cf_error = Some ''Simulated confirmation failure on Stellar Testnet boundary''\<rparr>
        else \<lparr>cf_confirmed = True, cf_ledger = Some 12345678, cf_error = None\<rparr>)\<rparr>"

end
