(* ===== verification/Workers.thy ===== *)
theory Workers
  imports Soroban
begin

text \<open>
  The settlement worker, \<^verbatim>\<open>src/workers/settlement.worker.ts\<close>, and the cleanup of expired
  reservations, \<^verbatim>\<open>src/workers/reservation-cleanup.worker.ts\<close>. The outcome of each lock is a
  parameter; the lock service is \<open>Locks\<close>.
\<close>

subsection \<open>One settlement\<close>

text \<open>
  \<open>wk_ownedAfter\<close> is \<open>lock.isOwned()\<close> after signing, \<open>wk_recordError\<close> the error of the database
  when the write that records the outcome of a submission is lost. It is the one write that may
  fail in this model; a broadcast cannot be undone when it does.
\<close>

record worker_env =
  wk_settlement :: settlement_env
  wk_lock :: lock_outcome
  wk_ownedAfter :: bool
  wk_submittedAt :: time
  wk_completedAt :: time
  wk_recordError :: "app_error option"

definition submitParams :: "'x sdk \<Rightarrow> bool \<Rightarrow> settlement \<Rightarrow> submit_params" where
  "submitParams k owned t =
     \<lparr>sp_settlementId = s_settlementId t, sp_orderId = s_orderId t, sp_source = orDefault (s_source t) [],
      sp_destination = orDefault (s_destination t) [], sp_amount = columnText k 4 (s_amount t),
      sp_asset = s_asset t, sp_contractAddress = s_contractAddress t, sp_parentOwned = Some owned\<rparr>"

definition permanentError :: "string \<Rightarrow> bool" where
  "permanentError err \<longleftrightarrow> contains err ''simulation'' \<or> contains err ''config'' \<or> contains err ''Invalid''"

text \<open>The first part of the flow: the status that ends it, or the settlement with its hash.\<close>

definition written :: "app_error option \<Rightarrow> settlement op \<Rightarrow> settlement op" where
  "written lost mark s =
     (case lost of
        None \<Rightarrow> mark s
      | Some err \<Rightarrow> (s, case snd (mark s) of Inl e \<Rightarrow> Inl e | Inr _ \<Rightarrow> Inl err))"

lemma written_None [simp]: "written None mark = mark"
  by (simp add: written_def fun_eq_iff)

lemma written_Some [simp]: "fst (written (Some err) mark s) = s" "snd (written (Some err) mark s) \<noteq> Inr y"
  by (simp_all add: written_def split: sum.split)

definition afterSubmit ::
  "time \<Rightarrow> app_error option \<Rightarrow> settlement \<Rightarrow> submission \<Rightarrow> (settlement_status + settlement) wop" where
  "afterSubmit now lost t r =
     (if \<not> su_submitted r \<or> \<not> truthy (su_hash r) then
        let err = orDefault (su_error r) ''Settlement submission failed'' in
        andThen (onSys (written lost
            (if permanentError err then markFailed (s_id t) err else markRequiresReconciliation (s_id t) err)))
          (\<lambda>y. ret (Inl (s_status y)))
      else andThen (onSys (written lost (markSubmitted now (s_id t) (the (su_hash r))))) (\<lambda>y. ret (Inr y)))"

definition flowSubmit ::
  "'x sdk \<Rightarrow> executor \<Rightarrow> worker_env \<Rightarrow> bool \<Rightarrow> settlement \<Rightarrow> (settlement_status + settlement) wop" where
  "flowSubmit k ex we owned t w =
     (if truthy (s_hash t) then (w, Inr (Inr t))
      else if \<not> owned then (w, Inl (PlainError (''Distributed lock lost for settlement '' @ s_id t @ '' before submission.'')))
      else case ex_submit ex (submitParams k (wk_ownedAfter we) t) w of
        (w1, r) \<Rightarrow> afterSubmit (wk_submittedAt we) (wk_recordError we) t r w1)"

definition confirmStep :: "config \<Rightarrow> executor \<Rightarrow> worker_env \<Rightarrow> settlement \<Rightarrow> settlement_status wop" where
  "confirmStep cfg ex we t =
     (if s_status t = S_CONFIRMING \<and> truthy (s_hash t) then
        let cf = ex_confirm ex (the (s_hash t)) in
        andThen
          (onSys (if cf_confirmed cf \<and> cf_ledger cf \<noteq> None
             then markCompleted cfg (wk_completedAt we) (s_id t) (the (cf_ledger cf))
             else markRequiresReconciliation (s_id t) (orDefault (cf_error cf) ''Settlement confirmation failed'')))
          (\<lambda>y. ret (s_status y))
      else ret (s_status t))"

definition flowConfirm :: "config \<Rightarrow> executor \<Rightarrow> worker_env \<Rightarrow> settlement \<Rightarrow> settlement_status wop" where
  "flowConfirm cfg ex we t =
     andThen (if s_status t = S_SUBMITTED then onSys (markConfirming (s_id t)) else ret t)
       (confirmStep cfg ex we)"

definition executeSettlementFlow ::
  "'x sdk \<Rightarrow> config \<Rightarrow> executor \<Rightarrow> worker_env \<Rightarrow> bool \<Rightarrow> settlement \<Rightarrow> settlement_status wop" where
  "executeSettlementFlow k cfg ex we owned t w =
     (case rowBy s_id (s_id t) (settlements (w_sys w)) of
        None \<Rightarrow> (w, Inr (s_status t))
      | Some fresh \<Rightarrow>
          andThen (flowSubmit k ex we owned fresh)
            (\<lambda>r. case r of Inl st \<Rightarrow> ret st | Inr y \<Rightarrow> flowConfirm cfg ex we y) w)"

record processed =
  ps_orderId :: id
  ps_settlementId :: string
  ps_status :: settlement_status
  ps_isNew :: bool

text \<open>What happens under the lock: the status of the fresh row decides.\<close>

definition underLock ::
  "'x sdk \<Rightarrow> config \<Rightarrow> executor \<Rightarrow> worker_env \<Rightarrow> bool \<Rightarrow> bool \<Rightarrow> settlement \<Rightarrow> settlement_status wop" where
  "underLock k cfg ex we stopAtSubmitting owned t w =
     (let current = (case rowBy s_id (s_id t) (settlements (w_sys w)) of Some y \<Rightarrow> y | None \<Rightarrow> t) in
      if s_status current = S_PENDING then
        andThen (onSys (markSubmitting (s_id current))) (\<lambda>y.
          if stopAtSubmitting then ret (s_status y) else executeSettlementFlow k cfg ex we owned y) w
      else if \<not> stopAtSubmitting \<and> s_status current \<in> {S_SUBMITTING, S_SUBMITTED, S_CONFIRMING} then
        executeSettlementFlow k cfg ex we owned current w
      else (w, Inr (s_status current)))"

definition processSingleOrder ::
  "'x sdk \<Rightarrow> config \<Rightarrow> executor \<Rightarrow> worker_env \<Rightarrow> bool \<Rightarrow> id \<Rightarrow> processed wop" where
  "processSingleOrder k cfg ex we stopAtSubmitting orderId =
     andThen (onSys (createSettlementForOrder cfg (wk_settlement we) orderId (Some ''system-worker''))) (\<lambda>(t, dup).
     andThen
       (case wk_lock we of
          LockThrows msg \<Rightarrow> throw (PlainError msg)
        | NotAcquired \<Rightarrow>
            if requiresLocks cfg
            then throw (PlainError (''Could not acquire distributed settlement lock for '' @ s_id t))
            else (\<lambda>w. (w, Inr (case rowBy s_id (s_id t) (settlements (w_sys w)) of
                                Some y \<Rightarrow> s_status y | None \<Rightarrow> s_status t)))
        | Acquired owned \<Rightarrow> underLock k cfg ex we stopAtSubmitting owned t)
       (\<lambda>st. ret \<lparr>ps_orderId = orderId, ps_settlementId = s_settlementId t, ps_status = st, ps_isNew = \<not> dup\<rparr>))"

subsection \<open>The settlement sweep\<close>

definition eligibleOrders :: "nat \<Rightarrow> sys \<Rightarrow> order list" where
  "eligibleOrders batchSize s =
     take batchSize (filter (\<lambda>x. o_status x = O_SETTLEMENT_PENDING \<and> o_walletAddress x \<noteq> None
       \<and> (settlementsOf (o_id x) s = [] \<or> (\<exists>t \<in> set (settlementsOf (o_id x) s). s_status t = S_PENDING)))
       (orders s))"

definition workerCanTransition :: "settlement_status \<Rightarrow> settlement_status \<Rightarrow> bool" where
  "workerCanTransition from to =
     (from = to \<or> (from \<in> {S_PENDING, S_SUBMITTING} \<and> to = S_FAILED))"

definition afterThrow :: "id \<Rightarrow> app_error \<Rightarrow> processed list wop" where
  "afterThrow orderId err w =
     (case rowBy s_orderId orderId (settlements (w_sys w)) of
        Some t \<Rightarrow>
          if workerCanTransition (s_status t) S_FAILED
          then andThen (onSys (markFailed (s_id t) (messageOf err))) (\<lambda>_. ret []) w
          else (w, Inr [])
      | None \<Rightarrow> (w, Inr []))"

definition processOne ::
  "'x sdk \<Rightarrow> config \<Rightarrow> executor \<Rightarrow> (id \<Rightarrow> worker_env) \<Rightarrow> bool \<Rightarrow> id \<Rightarrow> processed list wop" where
  "processOne k cfg ex we stop i =
     catching (andThen (processSingleOrder k cfg ex (we i) stop i) (\<lambda>r. ret [r])) (afterThrow i)"

text \<open>The sweep lock: without it a process that needs locks skips the sweep.\<close>

definition underSweepLock :: "config \<Rightarrow> lock_outcome \<Rightarrow> ('s, app_error, 'a list) oper \<Rightarrow> ('s, app_error, 'a list) oper" where
  "underSweepLock cfg lk body =
     (case lk of
        LockThrows msg \<Rightarrow> throw (PlainError msg)
      | NotAcquired \<Rightarrow> if requiresLocks cfg then ret [] else body
      | Acquired _ \<Rightarrow> body)"

definition batchOf :: "nat option \<Rightarrow> nat \<Rightarrow> nat" where
  "batchOf given fallback = (case given of Some n \<Rightarrow> (if n = 0 then fallback else n) | None \<Rightarrow> fallback)"

definition processPendingOrders ::
  "'x sdk \<Rightarrow> config \<Rightarrow> executor \<Rightarrow> (id \<Rightarrow> worker_env) \<Rightarrow> lock_outcome \<Rightarrow> nat option \<Rightarrow> bool \<Rightarrow> processed list wop" where
  "processPendingOrders k cfg ex we lk batchSize stop w =
     (if emergencyGlobalPause cfg
      then (w\<lparr>w_sys := auditLog (Some ''system-worker'') None ''EMERGENCY_PAUSE_ENCOUNTERED'' ''SettlementWorker'' None
              (w_sys w)\<rparr>, Inr [])
      else underSweepLock cfg lk
        (forEach (processOne k cfg ex we stop) (map o_id (eligibleOrders (batchOf batchSize 10) (w_sys w)))) w)"

subsection \<open>Expired reservations\<close>

record released =
  rl_reservationId :: id
  rl_orderId :: id
  rl_amount :: int
  rl_status :: reservation_status

definition expireOrder :: "id \<Rightarrow> sys \<Rightarrow> sys" where
  "expireOrder orderId s =
     (case rowBy o_id orderId (orders s) of
        Some x \<Rightarrow>
          if o_status x = O_CREATED \<or> o_status x = O_AWAITING_PAYMENT
          then setOrder (o_id x) (\<lambda>y. y\<lparr>o_status := O_EXPIRED\<rparr>) s else s
      | None \<Rightarrow> s)"

definition processSingleReservation :: "config \<Rightarrow> id \<Rightarrow> released option op" where
  "processSingleReservation cfg reservationId s =
     (case rowBy v_id reservationId (reservations s) of
        None \<Rightarrow> (s, Inr None)
      | Some v \<Rightarrow>
          if v_status v \<noteq> V_RESERVED then (s, Inr None)
          else
            andThen (expireReservation cfg (v_orderId v)) (\<lambda>u s1.
              case u of
                None \<Rightarrow> (s1, Inr None)
              | Some r \<Rightarrow>
                  (expireOrder (v_orderId v) s1,
                   Inr (Some \<lparr>rl_reservationId = v_id r, rl_orderId = v_orderId r, rl_amount = v_amount r,
                              rl_status = v_status r\<rparr>))) s)"

text \<open>\<open>orderBy: { expiresAt: 'asc' }\<close>.\<close>

definition expiredReservations :: "time \<Rightarrow> nat \<Rightarrow> sys \<Rightarrow> reservation list" where
  "expiredReservations now batchSize s =
     take batchSize (sort_key v_expiresAt
       (filter (\<lambda>v. v_status v = V_RESERVED \<and> v_expiresAt v \<le> now) (reservations s)))"

definition processExpiredReservations ::
  "config \<Rightarrow> time \<Rightarrow> lock_outcome \<Rightarrow> nat option \<Rightarrow> released list op" where
  "processExpiredReservations cfg now lk batchSize s =
     underSweepLock cfg lk
       (forEach (\<lambda>i. andThen (processSingleReservation cfg i)
            (\<lambda>r. ret (case r of Some y \<Rightarrow> [y] | None \<Rightarrow> [])))
          (map v_id (expiredReservations now (batchOf batchSize 20) s))) s"

end
