(* ===== verification/Reconciliation.thy ===== *)
theory Reconciliation
  imports Workers
begin

text \<open>
  The reconciliation daemon, \<^verbatim>\<open>src/workers/reconciliation.daemon.ts\<close>: settlements that are under
  way are settled after what the chain says, pending payments after what the provider says.
\<close>

subsection \<open>Settlements\<close>

record reconciled =
  rc_settlementId :: string
  rc_orderId :: id
  rc_previous :: settlement_status
  rc_new :: settlement_status
  rc_reconciled :: bool
  rc_error :: "string option"

definition reconciledAs :: "settlement \<Rightarrow> settlement_status \<Rightarrow> bool \<Rightarrow> reconciled" where
  "reconciledAs t new done =
     \<lparr>rc_settlementId = s_settlementId t, rc_orderId = s_orderId t, rc_previous = s_status t,
      rc_new = new, rc_reconciled = done, rc_error = None\<rparr>"

definition reconciliationAudit :: "string \<Rightarrow> settlement \<Rightarrow> sys \<Rightarrow> sys" where
  "reconciliationAudit action t = auditLog (Some ''system-reconciliation'') None action ''Settlement'' (Some (s_id t))"

definition updateOrderStatus :: "id \<Rightarrow> order_status \<Rightarrow> unit op" where
  "updateOrderStatus orderId st s =
     (if rowBy o_id orderId (orders s) = None then (s, Inl PrismaP2025)
      else (setOrder orderId (\<lambda>x. x\<lparr>o_status := st\<rparr>) s, Inr ()))"

text \<open>The three writes of a settlement that is given up, one after the other.\<close>

definition giveUp :: "config \<Rightarrow> settlement \<Rightarrow> string \<Rightarrow> settlement op" where
  "giveUp cfg t reason =
     andThen (markFailed (s_id t) reason) (\<lambda>f.
     andThen (releaseReservation cfg (s_orderId t) V_CANCELLED_RELEASED) (\<lambda>_.
     andThen (updateOrderStatus (s_orderId t) O_FAILED) (\<lambda>_. ret f)))"

definition staleHours :: "nat option \<Rightarrow> int" where
  "staleHours given = int (batchOf given 24)"

definition tooOld :: "time \<Rightarrow> int \<Rightarrow> settlement \<Rightarrow> bool" where
  "tooOld now hours t \<longleftrightarrow> hours * hourMs < now - s_createdAt t"

definition reconcileWithoutHash :: "config \<Rightarrow> time \<Rightarrow> int \<Rightarrow> settlement \<Rightarrow> reconciled op" where
  "reconcileWithoutHash cfg now hours t =
     (if tooOld now hours t then
        andThen (giveUp cfg t ''Settlement expired in SUBMITTING state without transaction hash.'') (\<lambda>f s.
          (reconciliationAudit ''SETTLEMENT_RECONCILIATION_FAILED'' t s, Inr (reconciledAs t (s_status f) True)))
      else
        andThen (markRequiresReconciliation (s_id t)
            ''Settlement left in SUBMITTING state without transaction hash post-worker crash.'') (\<lambda>y s.
          (reconciliationAudit ''SETTLEMENT_RECONCILIATION_FLAGGED'' t s, Inr (reconciledAs t (s_status y) False))))"

definition reconcileByChain :: "config \<Rightarrow> time \<Rightarrow> rpc_answer \<Rightarrow> int \<Rightarrow> settlement \<Rightarrow> reconciled op" where
  "reconcileByChain cfg now answer hours t =
     (let r = getTransactionStatus answer in
      case sr_status r of
        TX_SUCCESS \<Rightarrow>
          andThen (markCompleted cfg now (s_id t) (case sr_ledger r of Some l \<Rightarrow> l | None \<Rightarrow> 0)) (\<lambda>y s.
            (reconciliationAudit ''SETTLEMENT_RECONCILED'' t s, Inr (reconciledAs t (s_status y) True)))
      | TX_FAILED \<Rightarrow>
          andThen (giveUp cfg t (orDefault (sr_error r) ''On-chain transaction execution failed.'')) (\<lambda>f s.
            (reconciliationAudit ''SETTLEMENT_RECONCILIATION_FAILED'' t s, Inr (reconciledAs t (s_status f) True)))
      | TX_NOT_FOUND \<Rightarrow>
          if tooOld now hours t then
            andThen (giveUp cfg t ''Transaction not found on Stellar network after timeout.'') (\<lambda>f.
              ret (reconciledAs t (s_status f) True))
          else ret (reconciledAs t (s_status t) False)
      | TX_PENDING \<Rightarrow> ret (reconciledAs t (s_status t) False))"

text \<open>\<open>rpc\<close> is what the chain answers to a query for a hash.\<close>

definition reconcileSingleSettlement ::
  "config \<Rightarrow> time \<Rightarrow> (string \<Rightarrow> rpc_answer) \<Rightarrow> int \<Rightarrow> id \<Rightarrow> reconciled op" where
  "reconcileSingleSettlement cfg now rpc hours settlementDbId s =
     (case rowBy s_id settlementDbId (settlements s) of
        None \<Rightarrow> (s, Inl (PlainError ''Settlement not found.''))
      | Some t \<Rightarrow>
          (if truthy (s_hash t) then reconcileByChain cfg now (rpc (the (s_hash t))) hours t
           else reconcileWithoutHash cfg now hours t) s)"

definition underWay :: "settlement_status \<Rightarrow> bool" where
  "underWay st \<longleftrightarrow> st \<in> {S_SUBMITTING, S_SUBMITTED, S_CONFIRMING, S_REQUIRES_RECONCILIATION}"

text \<open>\<open>updatedAt\<close> is the column of that name, by row id; the sweep takes the oldest writes first.\<close>

definition pendingReconciliation :: "(id \<Rightarrow> time) \<Rightarrow> nat \<Rightarrow> sys \<Rightarrow> settlement list" where
  "pendingReconciliation updatedAt batchSize s =
     take batchSize (sort_key (\<lambda>t. updatedAt (s_id t)) (filter (\<lambda>t. underWay (s_status t)) (settlements s)))"

definition reconcileOne ::
  "config \<Rightarrow> time \<Rightarrow> (string \<Rightarrow> rpc_answer) \<Rightarrow> int \<Rightarrow> settlement \<Rightarrow> reconciled list op" where
  "reconcileOne cfg now rpc hours t =
     catching (andThen (reconcileSingleSettlement cfg now rpc hours (s_id t)) (\<lambda>r. ret [r]))
       (\<lambda>err. ret [(reconciledAs t (s_status t) False)\<lparr>rc_error := Some (messageOf err)\<rparr>])"

definition processReconciliation ::
  "config \<Rightarrow> time \<Rightarrow> (string \<Rightarrow> rpc_answer) \<Rightarrow> (id \<Rightarrow> time) \<Rightarrow> lock_outcome \<Rightarrow> nat option \<Rightarrow> nat option
    \<Rightarrow> reconciled list op" where
  "processReconciliation cfg now rpc updatedAt lk batchSize maxHours s =
     underSweepLock cfg lk
       (forEach (reconcileOne cfg now rpc (staleHours maxHours))
          (pendingReconciliation updatedAt (batchOf batchSize 10) s)) s"

subsection \<open>Payments\<close>

datatype payment_action = CONFIRMED_AND_SETTLED | MARKED_FAILED | DEFERRED | SKIPPED

record reconciled_payment =
  rp_orderId :: id
  rp_reference :: string
  rp_previous :: order_status
  rp_new :: order_status
  rp_reconciled :: bool
  rp_action :: payment_action

definition paymentAudit :: "string \<Rightarrow> order \<Rightarrow> sys \<Rightarrow> sys" where
  "paymentAudit action x = auditLog (Some ''system-payment-reconciliation'') None action ''Order'' (Some (o_id x))"

definition paymentResult :: "order \<Rightarrow> string \<Rightarrow> order_status \<Rightarrow> bool \<Rightarrow> payment_action \<Rightarrow> reconciled_payment" where
  "paymentResult x ref new done action =
     \<lparr>rp_orderId = o_id x, rp_reference = ref, rp_previous = o_status x, rp_new = new,
      rp_reconciled = done, rp_action = action\<rparr>"

definition reconcilableStatuses :: "order_status list" where
  "reconcilableStatuses = [O_AWAITING_PAYMENT, O_PAYMENT_DETECTED, O_CREATED]"

text \<open>The checks before the provider is asked: true when the order is skipped.\<close>

definition skipsPayment :: "order \<Rightarrow> sys \<Rightarrow> bool" where
  "skipsPayment x s \<longleftrightarrow>
     o_status x \<notin> set reconcilableStatuses
     \<or> (case rowBy r_orderId (o_id x) (refunds s) of Some r \<Rightarrow> countsAsRefund (r_status r) | None \<Rightarrow> False)
     \<or> (case rowBy v_orderId (o_id x) (reservations s) of
           Some v \<Rightarrow> v_status v = V_EXPIRED_RELEASED \<or> v_status v = V_CANCELLED_RELEASED | None \<Rightarrow> False)"

definition updateFirstPayment :: "payment option \<Rightarrow> (payment \<Rightarrow> payment) \<Rightarrow> sys \<Rightarrow> sys" where
  "updateFirstPayment p f s = (case p of Some y \<Rightarrow> setPayment (p_id y) f s | None \<Rightarrow> s)"

definition paymentMatches :: "order \<Rightarrow> pay_response \<Rightarrow> bool" where
  "paymentMatches x resp \<longleftrightarrow>
     pr_amount resp = ofColumn 4 (o_sourceAmount x) \<and> toUpper (pr_currency resp) = toUpper (o_sourceCurrency x)"

definition failPayment :: "config \<Rightarrow> order \<Rightarrow> string \<Rightarrow> payment option \<Rightarrow> reconciled_payment op" where
  "failPayment cfg x ref p =
     andThen (updateOrderStatus (o_id x) O_FAILED) (\<lambda>_ s.
       andThen (releaseReservationInTx cfg (o_id x) V_CANCELLED_RELEASED) (\<lambda>_ s1.
         (paymentAudit ''PAYMENT_RECONCILIATION_FAILED'' x s1, Inr (paymentResult x ref O_FAILED True MARKED_FAILED)))
       (updateFirstPayment p (\<lambda>y. y\<lparr>p_status := P_FAILED\<rparr>) s))"

text \<open>The settlement row the daemon makes sure of.\<close>

definition ensureSettlement :: "config \<Rightarrow> settlement_env \<Rightarrow> order \<Rightarrow> unit op" where
  "ensureSettlement cfg te x s =
     (case rowBy s_orderId (o_id x) (settlements s) of
        Some _ \<Rightarrow> (s, Inr ())
      | None \<Rightarrow> insertSettlement (newSettlement cfg te x) s)"

definition confirmPayment ::
  "config \<Rightarrow> settlement_env \<Rightarrow> order \<Rightarrow> string \<Rightarrow> payment option \<Rightarrow> pay_response \<Rightarrow> reconciled_payment op" where
  "confirmPayment cfg te x ref p resp s =
     andThen (updateOrderStatus (o_id x) O_PAYMENT_CONFIRMED) (\<lambda>_.
     andThen (confirmReservationInTx (o_id x)) (\<lambda>_.
     andThen (ensureSettlement cfg te x) (\<lambda>_ s1.
       (paymentAudit ''PAYMENT_RECONCILED_SUCCESS'' x s1,
        Inr (paymentResult x ref O_PAYMENT_CONFIRMED True CONFIRMED_AND_SETTLED)))))
     (updateFirstPayment p (\<lambda>y. y\<lparr>p_status := P_SUCCEEDED,
        p_providerPaymentId := Some (orDefault (Some (pr_providerPaymentId resp)) ref)\<rparr>) s)"

definition applyVerification ::
  "config \<Rightarrow> settlement_env \<Rightarrow> order \<Rightarrow> string \<Rightarrow> payment option \<Rightarrow> pay_response \<Rightarrow> reconciled_payment op" where
  "applyVerification cfg te x ref p resp =
     (if pr_status resp = P_SUCCEEDED then
        (if paymentMatches x resp then confirmPayment cfg te x ref p resp else failPayment cfg x ref p)
      else if pr_status resp = P_FAILED then failPayment cfg x ref p
      else (\<lambda>s. (paymentAudit ''PAYMENT_RECONCILIATION_DEFERRED'' x s,
                 Inr (paymentResult x ref (o_status x) False DEFERRED))))"

definition askProvider :: "config \<Rightarrow> provider_env \<Rightarrow> string \<Rightarrow> order \<Rightarrow> string \<Rightarrow> pay_response op" where
  "askProvider cfg pe providerName x ref =
     andThen (lift (registryGet cfg providerName)) (\<lambda>pv.
       providerVerify cfg pe pv ref (no_params\<lparr>vp_expectedAmount := Some (ofColumn 4 (o_sourceAmount x))\<rparr>))"

definition reconcilePaymentBody ::
  "config \<Rightarrow> provider_env \<Rightarrow> settlement_env \<Rightarrow> id \<Rightarrow> reconciled_payment op" where
  "reconcilePaymentBody cfg pe te orderId s =
     (case rowBy o_id orderId (orders s) of
        None \<Rightarrow> (s, Inr \<lparr>rp_orderId = orderId, rp_reference = [], rp_previous = O_CANCELLED,
                         rp_new = O_CANCELLED, rp_reconciled = False, rp_action = SKIPPED\<rparr>)
      | Some x \<Rightarrow>
          let p = rowBy p_orderId orderId (payments s);
              ref = orDefault (orElse (map_option p_reference p) (o_idempotencyKey x)) [];
              name = orDefault (orElse (map_option p_provider p) (Some (ngnProvider cfg))) ''SANDBOX''
          in if ref = [] \<or> skipsPayment x s then (s, Inr (paymentResult x ref (o_status x) False SKIPPED))
             else
               (case askProvider cfg pe name x ref s of
                  (s1, Inl err) \<Rightarrow>
                    (paymentAudit ''PAYMENT_RECONCILIATION_DEFERRED'' x s1,
                     Inr (paymentResult x ref (o_status x) False DEFERRED))
                | (s1, Inr resp) \<Rightarrow> applyVerification cfg te x ref p resp s1))"

definition reconcileSinglePaymentOrder ::
  "config \<Rightarrow> provider_env \<Rightarrow> settlement_env \<Rightarrow> id \<Rightarrow> reconciled_payment op" where
  "reconcileSinglePaymentOrder cfg pe te orderId = inTransaction (reconcilePaymentBody cfg pe te orderId)"

definition pendingPayments :: "time \<Rightarrow> nat \<Rightarrow> nat \<Rightarrow> sys \<Rightarrow> payment list" where
  "pendingPayments now minutes batchSize s =
     take batchSize (sort_key p_createdAt
       (filter (\<lambda>p. p_status p = P_PENDING \<and> p_createdAt p \<le> now - int minutes * 60 * 1000) (payments s)))"

definition reconcilePaymentOne ::
  "config \<Rightarrow> provider_env \<Rightarrow> (id \<Rightarrow> settlement_env) \<Rightarrow> payment \<Rightarrow> reconciled_payment list op" where
  "reconcilePaymentOne cfg pe te p =
     catching (andThen (reconcileSinglePaymentOrder cfg pe (te (p_id p)) (p_orderId p)) (\<lambda>r. ret [r]))
       (\<lambda>err. ret [\<lparr>rp_orderId = p_orderId p, rp_reference = p_reference p, rp_previous = O_AWAITING_PAYMENT,
                    rp_new = O_AWAITING_PAYMENT, rp_reconciled = False, rp_action = DEFERRED\<rparr>])"

definition processPaymentReconciliation ::
  "config \<Rightarrow> provider_env \<Rightarrow> (id \<Rightarrow> settlement_env) \<Rightarrow> time \<Rightarrow> lock_outcome \<Rightarrow> nat option \<Rightarrow> nat option
    \<Rightarrow> reconciled_payment list op" where
  "processPaymentReconciliation cfg pe te now lk batchSize minAge s =
     underSweepLock cfg lk
       (forEach (reconcilePaymentOne cfg pe te) (pendingPayments now (batchOf minAge 5) (batchOf batchSize 10) s)) s"

end
