(* ===== verification/WorkerHealth.thy ===== *)
theory WorkerHealth
  imports Schema
begin

text \<open>
  The in-process liveness telemetry of the worker, \<^verbatim>\<open>worker-health-telemetry.service.ts\<close>: the
  static fields of the class are one record, each static method an operation on it. Times are
  milliseconds; the ISO strings the code stores denote the same instants.
\<close>

datatype liveness = H_NOT_STARTED | H_RUNNING | H_STOPPED

datatype health = W_HEALTHY | W_STALLED | W_NOT_STARTED | W_STOPPED

datatype sweep_type = SettlementSweep | ReconciliationSweep | PaymentReconciliationSweep | ReservationCleanupSweep

record heartbeat =
  b_lastSweepAt :: time
  b_lastSweepCount :: nat

record worker_health =
  h_lifecycle :: liveness
  h_startedAt :: "time option"
  h_stoppedAt :: "time option"
  h_processStartedAt :: time
  h_sweeps :: "sweep_type \<Rightarrow> heartbeat option"
  h_activeJobs :: nat
  h_lockFailures :: nat

record snapshot =
  n_state :: health
  n_uptimeSeconds :: int
  n_lifecycle :: liveness
  n_hasCompletedSweep :: bool
  n_sweeps :: "sweep_type \<Rightarrow> heartbeat option"
  n_activeJobs :: nat
  n_lockFailures :: nat

definition resetHealth :: "time \<Rightarrow> worker_health" where
  "resetHealth now = \<lparr>h_lifecycle = H_NOT_STARTED, h_startedAt = None, h_stoppedAt = None,
     h_processStartedAt = now, h_sweeps = (\<lambda>_. None), h_activeJobs = 0, h_lockFailures = 0\<rparr>"

definition markStarted :: "time \<Rightarrow> worker_health \<Rightarrow> worker_health" where
  "markStarted now h = h\<lparr>h_lifecycle := H_RUNNING, h_startedAt := Some now, h_stoppedAt := None,
     h_processStartedAt := now\<rparr>"

definition markStopped :: "time \<Rightarrow> worker_health \<Rightarrow> worker_health" where
  "markStopped now h = h\<lparr>h_lifecycle := H_STOPPED, h_stoppedAt := Some now\<rparr>"

definition recordSweep :: "time \<Rightarrow> sweep_type \<Rightarrow> nat \<Rightarrow> worker_health \<Rightarrow> worker_health" where
  "recordSweep now ty n h =
     h\<lparr>h_sweeps := (h_sweeps h)(ty \<mapsto> \<lparr>b_lastSweepAt = now, b_lastSweepCount = n\<rparr>)\<rparr>"

definition incrementActiveJobs :: "worker_health \<Rightarrow> worker_health" where
  "incrementActiveJobs h = h\<lparr>h_activeJobs := h_activeJobs h + 1\<rparr>"

definition decrementActiveJobs :: "worker_health \<Rightarrow> worker_health" where
  "decrementActiveJobs h = (if h_activeJobs h > 0 then h\<lparr>h_activeJobs := h_activeJobs h - 1\<rparr> else h)"

definition recordLockAcquisitionFailure :: "worker_health \<Rightarrow> worker_health" where
  "recordLockAcquisitionFailure h = h\<lparr>h_lockFailures := h_lockFailures h + 1\<rparr>"

definition sweepTypes :: "sweep_type list" where
  "sweepTypes = [SettlementSweep, ReconciliationSweep, PaymentReconciliationSweep, ReservationCleanupSweep]"

definition hasFreshSweep :: "time \<Rightarrow> int \<Rightarrow> worker_health \<Rightarrow> bool" where
  "hasFreshSweep now maxAge h =
     list_ex (\<lambda>ty. case h_sweeps h ty of None \<Rightarrow> False | Some b \<Rightarrow> now - b_lastSweepAt b \<le> maxAge) sweepTypes"

definition getHealthSnapshot :: "time \<Rightarrow> int option \<Rightarrow> worker_health \<Rightarrow> snapshot" where
  "getHealthSnapshot now livenessMaxSweepAgeMs h =
     (let maxAge = (case livenessMaxSweepAgeMs of Some m \<Rightarrow> m | None \<Rightarrow> 120000)
      in \<lparr>n_state =
            (if h_lifecycle h = H_RUNNING then (if hasFreshSweep now maxAge h then W_HEALTHY else W_STALLED)
             else if h_lifecycle h = H_STOPPED then W_STOPPED else W_NOT_STARTED),
          n_uptimeSeconds = (now - h_processStartedAt h) div 1000,
          n_lifecycle = h_lifecycle h,
          n_hasCompletedSweep = list_ex (\<lambda>ty. h_sweeps h ty \<noteq> None) sweepTypes,
          n_sweeps = h_sweeps h, n_activeJobs = h_activeJobs h, n_lockFailures = h_lockFailures h\<rparr>)"

lemma sweepTypes_all [simp]: "ty \<in> set sweepTypes"
  by (cases ty) (simp_all add: sweepTypes_def)

lemma hasFreshSweep_iff:
  "hasFreshSweep now maxAge h \<longleftrightarrow> (\<exists>ty b. h_sweeps h ty = Some b \<and> now - b_lastSweepAt b \<le> maxAge)"
  by (force simp: hasFreshSweep_def list_ex_iff split: option.splits)

subsection \<open>Runs of the telemetry\<close>

datatype health_event =
    HvStart time | HvStop time | HvSweep time sweep_type nat | HvJob | HvJobDone | HvLockFailure

fun healthStep :: "health_event \<Rightarrow> worker_health \<Rightarrow> worker_health" where
  "healthStep (HvStart t) h = markStarted t h"
| "healthStep (HvStop t) h = markStopped t h"
| "healthStep (HvSweep t ty n) h = recordSweep t ty n h"
| "healthStep HvJob h = incrementActiveJobs h"
| "healthStep HvJobDone h = decrementActiveJobs h"
| "healthStep HvLockFailure h = recordLockAcquisitionFailure h"

text \<open>Between the start and the stop of the worker: no lifecycle event.\<close>

fun inService :: "health_event \<Rightarrow> worker_health \<Rightarrow> bool" where
  "inService (HvStart t) h = False"
| "inService (HvStop t) h = False"
| "inService _ h = True"

text \<open>The latest time any sweep was recorded never moves back while the clock does not.\<close>

fun notBefore :: "time \<Rightarrow> health_event \<Rightarrow> bool" where
  "notBefore t (HvSweep t' ty n) = (t \<le> t')"
| "notBefore t _ = True"

definition freshSince :: "time \<Rightarrow> worker_health \<Rightarrow> bool" where
  "freshSince t h \<longleftrightarrow> h_lifecycle h = H_RUNNING \<and> (\<exists>ty b. h_sweeps h ty = Some b \<and> t \<le> b_lastSweepAt b)"

interpretation fresh_run: component "\<lambda>ev h. inService ev h \<and> notBefore t ev" healthStep "freshSince t" for t
proof unfold_locales
  fix h ev
  assume fresh: "freshSince t h" and en: "inService ev h \<and> notBefore t ev"
  show "freshSince t (healthStep ev h)"
  proof (cases ev)
    case (HvSweep t' ty n)
    with fresh en show ?thesis
      by (auto simp: freshSince_def recordSweep_def intro!: exI[of _ ty])
  qed (use fresh en in \<open>auto simp: freshSince_def incrementActiveJobs_def decrementActiveJobs_def
        recordLockAcquisitionFailure_def\<close>)
qed

text \<open>
  A running worker that completed one sweep is reported healthy for at least the maximum
  sweep age after it, whatever jobs and lock failures follow; a running worker is reported
  stalled exactly when no sweep is that recent, even if it completed some before.
\<close>

theorem swept_worker_is_healthy:
  assumes "h_lifecycle h = H_RUNNING"
    and "admissible (\<lambda>ev h. inService ev h \<and> notBefore t ev) healthStep evs (recordSweep t ty n h)"
    and "now - t \<le> maxAge"
  defines "h1 \<equiv> runSteps healthStep evs (recordSweep t ty n h)"
  shows "n_state (getHealthSnapshot now (Some maxAge) h1) = W_HEALTHY
    \<and> (n_state (getHealthSnapshot later (Some maxAge) h1) = W_STALLED \<longleftrightarrow>
         (\<forall>ty b. h_sweeps h1 ty = Some b \<longrightarrow> b_lastSweepAt b < later - maxAge))"
proof -
  have "freshSince t (recordSweep t ty n h)"
    using assms(1) by (auto simp: freshSince_def recordSweep_def)
  from fresh_run.run_keeps[OF this assms(2)] have fresh: "freshSince t h1"
    by (simp add: h1_def)
  then obtain ty b where b: "h_sweeps h1 ty = Some b" "t \<le> b_lastSweepAt b" and run: "h_lifecycle h1 = H_RUNNING"
    by (auto simp: freshSince_def)
  have "hasFreshSweep now maxAge h1"
    unfolding hasFreshSweep_iff using b assms(3) by (intro exI[of _ ty] exI[of _ b]) simp
  moreover have "\<not> hasFreshSweep later maxAge h1 \<longleftrightarrow>
      (\<forall>ty b. h_sweeps h1 ty = Some b \<longrightarrow> b_lastSweepAt b < later - maxAge)"
    unfolding hasFreshSweep_iff by fastforce
  moreover have "n_state (getHealthSnapshot x (Some maxAge) h1) =
      (if hasFreshSweep x maxAge h1 then W_HEALTHY else W_STALLED)" for x
    using run by (simp add: getHealthSnapshot_def Let_def)
  ultimately show ?thesis by auto
qed

theorem swept_worker_is_healthy_witness:
  "n_state (getHealthSnapshot 150000 (Some 120000) (runSteps healthStep [HvLockFailure, HvJob]
     (recordSweep 50000 SettlementSweep 0 (markStarted 1000 (resetHealth 0))))) = W_HEALTHY"
proof -
  have run: "h_lifecycle (markStarted 1000 (resetHealth 0)) = H_RUNNING"
    by (simp add: markStarted_def)
  have adm: "admissible (\<lambda>ev h. inService ev h \<and> notBefore 50000 ev) healthStep [HvLockFailure, HvJob]
      (recordSweep 50000 SettlementSweep 0 (markStarted 1000 (resetHealth 0)))"
    by simp
  have age: "(150000 :: int) - 50000 \<le> 120000" by simp
  show ?thesis using swept_worker_is_healthy[OF run adm age] by blast
qed

end
