(* ===== verification/Runner.thy ===== *)
theory Runner
  imports Reconciliation WorkerHealth
begin

text \<open>
  The worker process: \<^verbatim>\<open>src/worker.ts\<close> starts, sweeps with its four daemons and stops;
  \<^verbatim>\<open>infrastructure/lifecycle/shutdown.manager.ts\<close> waits for the sweep that is under way;
  \<^verbatim>\<open>infrastructure/telemetry/worker-liveness.server.ts\<close> answers the probes.
\<close>

subsection \<open>Shutdown\<close>

record shutdown =
  sd_registered :: bool
  sd_activeJobs :: nat
  sd_shuttingDown :: bool

definition initialShutdown :: shutdown where
  "initialShutdown = \<lparr>sd_registered = False, sd_activeJobs = 0, sd_shuttingDown = False\<rparr>"

definition registerShutdownHandlers :: "shutdown \<Rightarrow> shutdown" where
  "registerShutdownHandlers d = (if sd_registered d then d else d\<lparr>sd_registered := True\<rparr>)"

definition jobStarted :: "shutdown \<Rightarrow> shutdown" where
  "jobStarted d = d\<lparr>sd_activeJobs := sd_activeJobs d + 1\<rparr>"

definition jobEnded :: "shutdown \<Rightarrow> shutdown" where
  "jobEnded d = (if sd_activeJobs d > 0 then d\<lparr>sd_activeJobs := sd_activeJobs d - 1\<rparr> else d)"

text \<open>
  The wait of \<open>handleSignal\<close>: \<open>jobs n\<close> is the job counter at the \<open>n\<close>-th test of the loop; the
  result is the number of pauses of 250 ms that were made.
\<close>

function waitForJobs :: "(nat \<Rightarrow> nat) \<Rightarrow> nat \<Rightarrow> nat" where
  "waitForJobs jobs waits =
     (if jobs waits > 0 \<and> waits < 20 then waitForJobs jobs (waits + 1) else waits)"
  by pat_completeness auto
termination by (relation "measure (\<lambda>(_, waits). 20 - waits)") auto

declare waitForJobs.simps [simp del]

text \<open>
  \<open>sh_closing\<close>: how long Redis and the database take to close, \<open>None\<close> when they never do;
  \<open>sh_closeFails\<close>: one of them throws.
\<close>

record signal_env =
  sh_jobs :: "nat \<Rightarrow> nat"
  sh_closing :: "nat option"
  sh_closeFails :: bool

text \<open>The exit code of the process and the milliseconds from the signal to the exit.\<close>

definition handleSignal :: "signal_env \<Rightarrow> nat \<times> nat" where
  "handleSignal g =
     (let waited = 250 * waitForJobs (sh_jobs g) 0 in
      case sh_closing g of
        None \<Rightarrow> (1, 10000)
      | Some c \<Rightarrow>
          if waited + c < 10000 then (if sh_closeFails g then 1 else 0, waited + c) else (1, 10000))"

subsection \<open>The process\<close>

record runner =
  rn_world :: world
  rn_health :: worker_health
  rn_down :: shutdown
  rn_isRunning :: bool
  rn_intervalMs :: int
  rn_liveness :: bool

type_synonym 'a rop = "(runner, app_error, 'a) oper"

text \<open>What may arrive while a sweep runs or the loop sleeps: \<open>stop()\<close> or a signal.\<close>

datatype arrival = StopCalled time | SignalArrived

text \<open>The outside of one sweep: lock outcomes, clocks, the provider, the chain and the arrivals.\<close>

record sweep_env =
  sv_worker :: "id \<Rightarrow> worker_env"
  sv_executor :: executor
  sv_workerLock :: lock_outcome
  sv_cleanupLock :: lock_outcome
  sv_cleanupAt :: time
  sv_paymentLock :: lock_outcome
  sv_paymentAt :: time
  sv_provider :: provider_env
  sv_settlementEnv :: "id \<Rightarrow> settlement_env"
  sv_settlementLock :: lock_outcome
  sv_settlementAt :: time
  sv_rpc :: "string \<Rightarrow> rpc_answer"
  sv_updatedAt :: "id \<Rightarrow> time"
  sv_sweptAt :: "sweep_type \<Rightarrow> time"
  sv_during :: "arrival list"
  sv_asleep :: "arrival list"

definition counted :: "'a list wop \<Rightarrow> nat wop" where
  "counted f = andThen f (\<lambda>xs. ret (length xs))"

definition daemons :: "'x sdk \<Rightarrow> config \<Rightarrow> sweep_env \<Rightarrow> (sweep_type \<times> nat wop) list" where
  "daemons k cfg sv =
     [(SettlementSweep,
         counted (processPendingOrders k cfg (sv_executor sv) (sv_worker sv) (sv_workerLock sv) None False)),
      (ReservationCleanupSweep,
         counted (onSys (processExpiredReservations cfg (sv_cleanupAt sv) (sv_cleanupLock sv) None))),
      (PaymentReconciliationSweep,
         counted (onSys (processPaymentReconciliation cfg (sv_provider sv) (sv_settlementEnv sv) (sv_paymentAt sv)
           (sv_paymentLock sv) None None))),
      (ReconciliationSweep,
         counted (onSys (processReconciliation cfg (sv_settlementAt sv) (sv_rpc sv) (sv_updatedAt sv)
           (sv_settlementLock sv) None None)))]"

text \<open>One of the four \<open>try\<close> blocks: the errors it adds to the list.\<close>

definition runDaemon :: "(sweep_type \<Rightarrow> time) \<Rightarrow> sweep_type \<times> nat wop \<Rightarrow> string list rop" where
  "runDaemon sweptAt d rn =
     (case snd d (rn_world rn) of
        (w, Inl err) \<Rightarrow> (rn\<lparr>rn_world := w\<rparr>, Inr [messageOf err])
      | (w, Inr n) \<Rightarrow>
          (rn\<lparr>rn_world := w, rn_health := recordSweep (sweptAt (fst d)) (fst d) n (rn_health rn)\<rparr>, Inr []))"

fun joinWith :: "string \<Rightarrow> string list \<Rightarrow> string" where
  "joinWith sep [] = []"
| "joinWith sep [x] = x"
| "joinWith sep (x # y # xs) = x @ sep @ joinWith sep (y # xs)"

definition beginSweep :: "runner \<Rightarrow> runner" where
  "beginSweep rn = rn\<lparr>rn_down := jobStarted (rn_down rn), rn_health := incrementActiveJobs (rn_health rn)\<rparr>"

definition endSweep :: "runner \<Rightarrow> runner" where
  "endSweep rn = rn\<lparr>rn_health := decrementActiveJobs (rn_health rn), rn_down := jobEnded (rn_down rn)\<rparr>"

definition runSweep :: "'x sdk \<Rightarrow> config \<Rightarrow> sweep_env \<Rightarrow> unit rop" where
  "runSweep k cfg sv rn =
     (if sd_shuttingDown (rn_down rn) then (rn, Inr ())
      else andThen (finallyDo (forEach (runDaemon (sv_sweptAt sv)) (daemons k cfg sv)) endSweep)
             (\<lambda>errors. if errors \<noteq> [] then throw (PlainError (joinWith ''; '' errors)) else ret ())
             (beginSweep rn))"

text \<open>\<open>stop()\<close>, and what the signal handler sets at once.\<close>

definition stopRunner :: "time \<Rightarrow> runner \<Rightarrow> runner" where
  "stopRunner now rn = rn\<lparr>rn_isRunning := False, rn_health := markStopped now (rn_health rn), rn_liveness := False\<rparr>"

definition receiveSignal :: "runner \<Rightarrow> runner" where
  "receiveSignal rn =
     (if sd_registered (rn_down rn) then rn\<lparr>rn_down := (rn_down rn)\<lparr>sd_shuttingDown := True\<rparr>\<rparr> else rn)"

fun arrive :: "arrival \<Rightarrow> runner \<Rightarrow> runner" where
  "arrive (StopCalled now) rn = stopRunner now rn"
| "arrive SignalArrived rn = receiveSignal rn"

definition keepsOn :: "runner \<Rightarrow> bool" where
  "keepsOn rn \<longleftrightarrow> rn_isRunning rn \<and> \<not> sd_shuttingDown (rn_down rn)"

definition sweepOrAudit :: "'x sdk \<Rightarrow> config \<Rightarrow> sweep_env \<Rightarrow> unit rop" where
  "sweepOrAudit k cfg sv =
     catching (runSweep k cfg sv) (\<lambda>_ rn.
       (rn\<lparr>rn_world := (rn_world rn)\<lparr>w_sys :=
          auditLog (Some ''system-worker'') None ''WORKER_LOOP_ERROR'' ''WorkerRunner'' None (w_sys (rn_world rn))\<rparr>\<rparr>,
        Inr ()))"

text \<open>The polling loop, one environment per turn for as many turns as are given.\<close>

fun runLoop :: "'x sdk \<Rightarrow> config \<Rightarrow> sweep_env list \<Rightarrow> runner \<Rightarrow> runner" where
  "runLoop k cfg [] rn = rn"
| "runLoop k cfg (sv # svs) rn =
     (if \<not> keepsOn rn then rn
      else let rn1 = runSteps arrive (sv_during sv) (fst (sweepOrAudit k cfg sv rn)) in
        if \<not> keepsOn rn1 then rn1 else runLoop k cfg svs (runSteps arrive (sv_asleep sv) rn1))"

record start_options =
  so_intervalMs :: "int option"
  so_runOnce :: bool
  so_livenessEnabled :: bool
  so_listens :: bool
  so_pid :: string

definition startRunner ::
  "'x sdk \<Rightarrow> config \<Rightarrow> string \<Rightarrow> time \<Rightarrow> sweep_env \<Rightarrow> start_options \<Rightarrow> unit rop" where
  "startRunner k cfg redisUrl now sv opts rn =
     (let rn1 = (case so_intervalMs opts of
                   Some n \<Rightarrow> (if n > 0 then rn\<lparr>rn_intervalMs := n\<rparr> else rn) | None \<Rightarrow> rn) in
      case workerStartGuards cfg redisUrl of
        Inl err \<Rightarrow> (rn1, Inl err)
      | Inr _ \<Rightarrow>
          let rn2 = rn1\<lparr>rn_down := registerShutdownHandlers (rn_down rn1),
                        rn_health := markStarted now (rn_health rn1),
                        rn_liveness := so_livenessEnabled opts \<and> so_listens opts,
                        rn_isRunning := True,
                        rn_world := (rn_world rn1)\<lparr>w_sys := auditLog (Some ''system-worker'') None ''WORKER_STARTED''
                          ''WorkerRunner'' (Some (''pid-'' @ so_pid opts)) (w_sys (rn_world rn1))\<rparr>\<rparr>
          in if so_runOnce opts
             then andThen (runSweep k cfg sv) (\<lambda>_ r. (r\<lparr>rn_isRunning := False\<rparr>, Inr ())) rn2
             else (rn2, Inr ()))"

subsection \<open>The liveness endpoint\<close>

text \<open>The status of the answer, with the snapshot it carries.\<close>

definition livenessAnswer ::
  "string \<Rightarrow> string \<Rightarrow> string option \<Rightarrow> time \<Rightarrow> int option \<Rightarrow> worker_health \<Rightarrow> nat \<times> snapshot option" where
  "livenessAnswer path meth url now maxAge h =
     (if meth \<noteq> ''GET'' \<or> \<not> truthy url \<or> takeWhile (\<lambda>c. c \<noteq> CHR ''?'') (the url) \<noteq> path then (404, None)
      else let n = getHealthSnapshot now maxAge h in
        (if n_state n = W_HEALTHY then 200 else 503, Some n))"

end
