(* ===== verification/PolicyProps.thy ===== *)
theory PolicyProps
  imports Soroban
begin

text \<open>
  What the policy engine stands for: a transaction is handed to the network only if it is exactly
  the payout of its order and the database allowed it at that moment; and what it refuses although
  the order is in order.
\<close>

subsection \<open>Guards\<close>

lemma reject_never: "reject cx msg s \<noteq> (s1, Inr x)"
  by (simp add: reject_def)

lemma require_returns [simp]: "require c cx msg k s = (s1, Inr x) \<longleftrightarrow> c \<and> k s = (s1, Inr x)"
  by (simp add: require_def reject_never)

text \<open>Whatever the engine answers, it writes the audit log only.\<close>

definition auditsOnly :: "sys \<Rightarrow> sys \<Rightarrow> bool" where
  "auditsOnly s s1 \<longleftrightarrow> (\<exists>a. s1 = s\<lparr>audits := a\<rparr>)"

lemma auditsOnly_refl [simp]: "auditsOnly s s"
  unfolding auditsOnly_def by (rule exI[of _ "audits s"]) simp

lemma auditsOnly_trans: "auditsOnly s s1 \<Longrightarrow> auditsOnly s1 s2 \<Longrightarrow> auditsOnly s s2"
  by (auto simp: auditsOnly_def)

lemma auditsOnly_log [simp]: "auditsOnly s (auditLog a u ac rs i s)"
  by (auto simp: auditsOnly_def auditLog_def)

lemma auditsOnly_tables:
  assumes "auditsOnly s s1"
  shows "quotes s1 = quotes s \<and> orders s1 = orders s \<and> payments s1 = payments s
     \<and> providerTxs s1 = providerTxs s \<and> settlements s1 = settlements s \<and> refunds s1 = refunds s
     \<and> pools s1 = pools s \<and> reservations s1 = reservations s \<and> treasuryTxs s1 = treasuryTxs s
     \<and> transactions s1 = transactions s \<and> webhookEvents s1 = webhookEvents s"
  using assms by (auto simp: auditsOnly_def)

lemma reject_audits [simp]: "auditsOnly s (fst (reject cx msg s))"
  by (simp add: reject_def)

lemma require_audits: "auditsOnly s (fst (k s)) \<Longrightarrow> auditsOnly s (fst (require c cx msg k s))"
  by (simp add: require_def)

lemma andThen_audits:
  assumes "auditsOnly s (fst (f s))" and "\<And>x s1. auditsOnly s1 (fst (k x s1))"
  shows "auditsOnly s (fst (andThen f k s))"
proof -
  obtain s1 r where f: "f s = (s1, r)" by fastforce
  show ?thesis
    using assms(1) assms(2)[of s1] by (cases r) (auto simp: andThen_def f intro: auditsOnly_trans)
qed

lemmas policy_steps = checkEnvelope_def checkArguments_def checkOrder_def checkLimits_def

lemma checkEnvelope_audits: "auditsOnly s (fst (checkEnvelope k cfg xdr cx s))"
  by (auto simp: checkEnvelope_def intro!: require_audits split: option.splits list.splits chain_op.splits host_function.splits)

lemma checkArguments_audits: "auditsOnly s (fst (checkArguments cfg cx call s))"
  unfolding checkArguments_def
  by (intro require_audits allI impI | simp | split prod.split option.split list.split sum.split)+

lemma checkOrder_audits: "auditsOnly s (fst (checkOrder k cx found s))"
  by (auto simp: checkOrder_def intro!: require_audits split: option.splits)

lemma checkLimits_audits: "auditsOnly s (fst (checkLimits cfg now cx found s))"
  by (auto simp: checkLimits_def Let_def intro!: require_audits split: prod.splits)

lemma validate_audits: "auditsOnly s (fst (validateAndApprove k cfg now xdr cx s))"
  unfolding validateAndApprove_def
  by (intro andThen_audits checkEnvelope_audits checkArguments_audits checkOrder_audits checkLimits_audits) simp

subsection \<open>What an approval says\<close>

lemma checkEnvelope_returns:
  assumes "checkEnvelope k cfg xdr cx s = (s1, Inr (c, f, as))"
  shows "s1 = s \<and> \<not> emergencyGlobalPause cfg \<and> (\<exists>t. sdk_parse k xdr (passphraseOf cfg) = Some t
    \<and> tx_operations t = [InvokeHostFunction (InvokeContract c f as)])"
  using assms
  by (auto simp: checkEnvelope_def reject_never split: option.splits list.splits chain_op.splits host_function.splits)

lemma checkArguments_returns:
  assumes "checkArguments cfg cx (c, f, as) s = (s1, Inr (dst, amount))"
  shows "s1 = s \<and> c = expectedVault cfg cx \<and> c \<noteq> [] \<and> f = ''create_settlement''
    \<and> (\<exists>i src ast. as = [i, ScAddress src, ScAddress dst, ScAddress ast, amount]
        \<and> scInt i = Some (uint (parseSettlementIdToU64 (cx_settlementId cx)))
        \<and> (expectedSource cfg cx = [] \<or> src = expectedSource cfg cx)
        \<and> (\<exists>a. expectedAsset cfg cx = Inr a \<and> (a = [] \<or> ast = a)))"
proof -
  have addr: "scAddress v = Some a \<Longrightarrow> v = ScAddress a" for v a by (cases v) auto
  show ?thesis
    using assms
    by (auto simp: checkArguments_def reject_never dest!: addr split: option.splits list.splits sum.splits)
qed

text \<open>What the database says at an approval.\<close>

definition payable :: "'x sdk \<Rightarrow> config \<Rightarrow> time \<Rightarrow> sys \<Rightarrow> order \<Rightarrow> settlement \<Rightarrow> bool" where
  "payable k cfg now s x t \<longleftrightarrow>
     o_status x = O_SETTLEMENT_PENDING \<and> \<not> activeRefund (o_id x) s
     \<and> sk_publicKey (sdk_keys k) (the (o_walletAddress x))
     \<and> (\<exists>p \<in> set (payments s). p_orderId p = o_id x \<and> p_status p = P_SUCCEEDED)
     \<and> (\<exists>v. rowBy v_orderId (o_id x) (reservations s) = Some v \<and> v_status v = V_CONFIRMED)
     \<and> s_status t \<noteq> S_COMPLETED \<and> now - s_createdAt t \<le> 24 * hourMs
     \<and> minSettlementUsdc cfg \<le> usdc (o_destinationAmount x)
     \<and> usdc (o_destinationAmount x) \<le> maxSingleSettlementUsdc cfg
     \<and> outflowSince (now - hourMs) s + usdc (o_destinationAmount x) \<le> maxHourlyOutflowUsdc cfg
     \<and> outflowSince (now - 24 * hourMs) s + usdc (o_destinationAmount x) \<le> maxDailyOutflowUsdc cfg"

text \<open>The one transaction that pays the order out.\<close>

definition paysOut :: "'x sdk \<Rightarrow> config \<Rightarrow> auth_context \<Rightarrow> order \<Rightarrow> tx \<Rightarrow> bool" where
  "paysOut k cfg cx x t \<longleftrightarrow>
     (\<exists>i src ast amount.
        tx_operations t = [InvokeHostFunction (InvokeContract (expectedVault cfg cx) ''create_settlement''
          [i, ScAddress src, ScAddress (the (o_walletAddress x)), ScAddress ast, amount])]
        \<and> scInt i = Some (uint (parseSettlementIdToU64 (cx_settlementId cx)))
        \<and> scInt amount = parseAmountToStroops (columnText k 7 (o_destinationAmount x))
        \<and> scInt amount \<noteq> None
        \<and> (expectedSource cfg cx = [] \<or> src = expectedSource cfg cx)
        \<and> (\<exists>a. expectedAsset cfg cx = Inr a \<and> (a = [] \<or> ast = a)))"

lemma checkOrder_returns:
  assumes "checkOrder k cx (dst, amount) s = (s1, Inr (x, t))"
  shows "s1 = s \<and> rowBy o_id (cx_orderId cx) (orders s) = Some x \<and> rowBy s_orderId (cx_orderId cx) (settlements s) = Some t
    \<and> o_status x = O_SETTLEMENT_PENDING \<and> \<not> activeRefund (o_id x) s \<and> o_walletAddress x = Some dst
    \<and> sk_publicKey (sdk_keys k) (the (o_walletAddress x))
    \<and> scInt amount = parseAmountToStroops (columnText k 7 (o_destinationAmount x)) \<and> scInt amount \<noteq> None
    \<and> (\<exists>p \<in> set (payments s). p_orderId p = o_id x \<and> p_status p = P_SUCCEEDED)
    \<and> (\<exists>v. rowBy v_orderId (o_id x) (reservations s) = Some v \<and> v_status v = V_CONFIRMED)
    \<and> s_status t \<noteq> S_COMPLETED"
proof -
  obtain y where y: "rowBy o_id (cx_orderId cx) (orders s) = Some y"
    using assms by (auto simp: checkOrder_def reject_never split: option.splits)
  then have "o_id y = cx_orderId cx" using rowBy_SomeD by fastforce
  with assms y show ?thesis
    by (simp add: checkOrder_def reject_never split: option.splits) (auto simp: eq_commute[of "Some dst"])
qed

lemma validate_returns:
  assumes "validateAndApprove k cfg now xdr cx s = (s1, Inr u)"
  shows "\<not> emergencyGlobalPause cfg \<and> (\<exists>tr x t. sdk_parse k xdr (passphraseOf cfg) = Some tr
    \<and> rowBy o_id (cx_orderId cx) (orders s) = Some x \<and> rowBy s_orderId (cx_orderId cx) (settlements s) = Some t
    \<and> payable k cfg now s x t \<and> paysOut k cfg cx x tr)"
proof -
  from assms obtain call s2 where a: "checkEnvelope k cfg xdr cx s = (s2, Inr call)"
    and b: "andThen (checkArguments cfg cx call) (\<lambda>found. andThen (checkOrder k cx found) (\<lambda>row.
      andThen (checkLimits cfg now cx row) (\<lambda>t s. (auditLog (Some ''system-policy-engine'') None
        ''SETTLEMENT_POLICY_APPROVED'' ''Settlement'' (Some (s_id t)) s, Inr ())))) s2 = (s1, Inr u)"
    unfolding validateAndApprove_def by (rule andThen_returns)
  obtain c f as where call: "call = (c, f, as)" by (metis prod_cases3)
  note e = checkEnvelope_returns[OF a[unfolded call]]
  from b obtain found s3 where b1: "checkArguments cfg cx call s2 = (s3, Inr found)"
    and b2: "andThen (checkOrder k cx found) (\<lambda>row.
      andThen (checkLimits cfg now cx row) (\<lambda>t s. (auditLog (Some ''system-policy-engine'') None
        ''SETTLEMENT_POLICY_APPROVED'' ''Settlement'' (Some (s_id t)) s, Inr ()))) s3 = (s1, Inr u)"
    by (rule andThen_returns)
  obtain dst amount where found: "found = (dst, amount)" by (cases found)
  note g = checkArguments_returns[OF b1[unfolded call found]]
  from b2 obtain row s4 where c1: "checkOrder k cx found s3 = (s4, Inr row)"
    and c2: "andThen (checkLimits cfg now cx row) (\<lambda>t s. (auditLog (Some ''system-policy-engine'') None
        ''SETTLEMENT_POLICY_APPROVED'' ''Settlement'' (Some (s_id t)) s, Inr ())) s4 = (s1, Inr u)"
    by (rule andThen_returns)
  obtain x t where row: "row = (x, t)" by (cases row)
  note o = checkOrder_returns[OF c1[unfolded found row]]
  from c2 obtain t1 s5 where "checkLimits cfg now cx row s4 = (s5, Inr t1)" by (rule andThen_returns)
  then have l: "payable k cfg now s x t"
    using e g o by (auto simp: checkLimits_def row Let_def payable_def)
  have "paysOut k cfg cx x tr" if "tx_operations tr = [InvokeHostFunction (InvokeContract c f as)]" for tr
  proof -
    from g obtain i src ast where as: "as = [i, ScAddress src, ScAddress dst, ScAddress ast, amount]"
      and rest: "scInt i = Some (uint (parseSettlementIdToU64 (cx_settlementId cx)))"
        "expectedSource cfg cx = [] \<or> src = expectedSource cfg cx"
        "\<exists>a. expectedAsset cfg cx = Inr a \<and> (a = [] \<or> ast = a)" by blast
    have "c = expectedVault cfg cx" "f = ''create_settlement''" "o_walletAddress x = Some dst" using g o by simp_all
    then have "tx_operations tr = [InvokeHostFunction (InvokeContract (expectedVault cfg cx) ''create_settlement''
        [i, ScAddress src, ScAddress (the (o_walletAddress x)), ScAddress ast, amount])]"
      using that as by simp
    moreover have "scInt amount = parseAmountToStroops (columnText k 7 (o_destinationAmount x))" "scInt amount \<noteq> None"
      using o by blast+
    ultimately show ?thesis unfolding paysOut_def using rest by blast
  qed
  with e g o l show ?thesis by auto
qed

subsection \<open>From the approval to the broadcast\<close>

text \<open>
  The contract of the network client: assembling a simulated transaction adds fees, resources
  and authorisations, not operations.
\<close>

locale chain_client =
  fixes e :: "'x chain_env"
  assumes sdk: "stellar_sdk (ce_sdk e)"
    and assembled: "tx_operations (ce_assemble e t) = tx_operations t"
begin

lemma parse_built: "sdk_parse (ce_sdk e) (sdk_print (ce_sdk e) t) p = Some (t\<lparr>tx_passphrase := p\<rparr>)"
  using sdk by (rule stellar_sdk.parse_print)

end

lemma signerKey_world: "fst (signerKey k m sg w) = w\<lparr>w_kmsKey := w_kmsKey (fst (signerKey k m sg w))\<rparr>"
  by (auto simp: signerKey_def kmsGetPublicKey_def split: signer.splits sum.splits)

lemma getIdentity_frame [simp]:
  "w_sys (fst (getIdentity k m cfg sg w)) = w_sys w" "w_sent (fst (getIdentity k m cfg sg w)) = w_sent w"
  by (auto simp: getIdentity_def andThen_eq signerKey_def kmsGetPublicKey_def split: signer.splits sum.splits)

lemma kmsKey_frame [simp]:
  "w_sys (fst (kmsGetPublicKey k m arn w)) = w_sys w" "w_sent (fst (kmsGetPublicKey k m arn w)) = w_sent w"
  by (auto simp: kmsGetPublicKey_def split: sum.splits)

lemma lift_apply [simp, ops]: "lift r s = (s, r)"
  by (simp add: lift_def)

text \<open>Building leaves database and network alone, and its context is what it built.\<close>

lemma buildUnsigned_frame:
  "w_sys (fst (buildUnsigned e cfg sg p w)) = w_sys w \<and> w_sent (fst (buildUnsigned e cfg sg p w)) = w_sent w"
proof -
  obtain w1 r where i: "getIdentity (ce_sdk e) (ce_kms e) cfg sg w = (w1, r)" by fastforce
  then have "w_sys w1 = w_sys w" "w_sent w1 = w_sent w"
    using getIdentity_frame[of "ce_sdk e" "ce_kms e" cfg sg w] by simp_all
  then show ?thesis
    by (auto simp: buildUnsigned_def andThen_eq i split: sum.splits option.splits)
qed


lemma buildUnsigned_returns:
  assumes "buildUnsigned e cfg sg p w = (w1, Inr (xdr, cx))"
  shows "\<exists>t a b c d f g stroops. xdr = sdk_print (ce_sdk e) (ce_assemble e t)
    \<and> tx_operations t = [InvokeHostFunction (InvokeContract a b [c, d, f, g, ScI128 stroops])]
    \<and> parseAmountToStroops (sp_amount p) = Some stroops"
    and "cx_orderId cx = sp_orderId p" and "cx_settlementId cx = sp_settlementId p"
    and "assertLiveSettlementTestnetSafety cfg = Inr ()" and "w_sys w1 = w_sys w" and "w_sent w1 = w_sent w"
proof -
  show "w_sys w1 = w_sys w" and "w_sent w1 = w_sent w" using buildUnsigned_frame[of e cfg sg p w] assms by simp_all
  show "assertLiveSettlementTestnetSafety cfg = Inr ()"
    using assms by (auto simp: buildUnsigned_def andThen_eq split: sum.splits)
  have "\<exists>pk seq src ast stroops. xdr = sdk_print (ce_sdk e) (ce_assemble e (settlementTx cfg (vaultOf cfg p) pk seq
        (parseSettlementIdToU64 (sp_settlementId p)) src (sp_destination p) ast stroops))
      \<and> parseAmountToStroops (sp_amount p) = Some stroops
      \<and> cx_orderId cx = sp_orderId p \<and> cx_settlementId cx = sp_settlementId p"
    using assms
    by (auto simp: buildUnsigned_def andThen_eq simulated_def split: sum.splits option.splits if_splits simulation.splits
        intro!: exI refl)
  then obtain pk seq src ast stroops where
    x: "xdr = sdk_print (ce_sdk e) (ce_assemble e (settlementTx cfg (vaultOf cfg p) pk seq
        (parseSettlementIdToU64 (sp_settlementId p)) src (sp_destination p) ast stroops))"
    and amount: "parseAmountToStroops (sp_amount p) = Some stroops"
    and cx: "cx_orderId cx = sp_orderId p \<and> cx_settlementId cx = sp_settlementId p" by blast
  show "cx_orderId cx = sp_orderId p" and "cx_settlementId cx = sp_settlementId p" using cx by simp_all
  show "\<exists>t a b c d f g stroops. xdr = sdk_print (ce_sdk e) (ce_assemble e t)
    \<and> tx_operations t = [InvokeHostFunction (InvokeContract a b [c, d, f, g, ScI128 stroops])]
    \<and> parseAmountToStroops (sp_amount p) = Some stroops"
    using x amount by (intro exI conjI) (assumption, simp add: settlementTx_def, simp)
qed

text \<open>Signing writes audit entries only, and signs only what was approved.\<close>

lemma onSys_eq: "onSys f w = (w\<lparr>w_sys := fst (f (w_sys w))\<rparr>, snd (f (w_sys w)))"
  by (simp add: onSys_def split: prod.splits)

lemma signTransaction_frame:
  "auditsOnly (w_sys w) (w_sys (fst (signTransaction k m cfg now sg xdr cx w)))
    \<and> w_sent (fst (signTransaction k m cfg now sg xdr cx w)) = w_sent w"
proof -
  note va = validate_audits[of "w_sys w" k cfg now xdr cx]
  let ?v = "w\<lparr>w_sys := fst (validateAndApprove k cfg now xdr cx (w_sys w))\<rparr>"
  have loc: "auditsOnly (w_sys v) (w_sys (fst (localSign k cfg a b xdr cx v)))
      \<and> w_sent (fst (localSign k cfg a b xdr cx v)) = w_sent v" for a b v
    by (auto simp: localSign_def finishSigning_def signedAudit_def split: option.splits)
  have kms: "auditsOnly (w_sys v) (w_sys (fst (kmsSign k m cfg a xdr cx v)))
      \<and> w_sent (fst (kmsSign k m cfg a xdr cx v)) = w_sent v" for a v
    by (auto simp: kmsSign_def andThen_eq finishSigning_def signedAudit_def split: option.splits sum.splits)
  have "auditsOnly (w_sys ?v) (w_sys u) \<Longrightarrow> auditsOnly (w_sys w) (w_sys u)" for u :: world
    using auditsOnly_trans[OF va] by simp
  with va loc[of ?v] kms[of ?v] show ?thesis
    by (auto simp: signTransaction_def andThen_eq onSys_eq split: sum.splits signer.splits)
qed

lemma signTransaction_returns:
  assumes "signTransaction k m cfg now sg xdr cx w = (w1, Inr y)"
  shows "(\<exists>s1. validateAndApprove k cfg now xdr cx (w_sys w) = (s1, Inr ()))
    \<and> (\<exists>t pk sig. sdk_parse k xdr (passphraseOf cfg) = Some t \<and> sg_xdr y = sdk_print k (addSignature pk sig t))"
proof -
  from assms obtain w2 u where a: "onSys (validateAndApprove k cfg now xdr cx) w = (w2, Inr u)"
    and b: "(case sg of TestnetLocal secret pk \<Rightarrow> localSign k cfg secret pk xdr cx | AwsKms arn \<Rightarrow> kmsSign k m cfg arn xdr cx) w2 = (w1, Inr y)"
    unfolding signTransaction_def by (rule andThen_returns)
  from a have "snd (validateAndApprove k cfg now xdr cx (w_sys w)) = Inr u" by (simp add: onSys_eq)
  moreover have "\<exists>t pk sig. sdk_parse k xdr (passphraseOf cfg) = Some t \<and> sg_xdr y = sdk_print k (addSignature pk sig t)"
    using b by (cases sg) (auto simp: localSign_def kmsSign_def andThen_eq finishSigning_def split: option.splits sum.splits if_splits intro!: exI refl)
  ultimately show ?thesis by (simp add: prod_eq_iff)
qed

definition lostAnswer :: app_error where
  "lostAnswer = StellarRpcError ''Failed to submit Soroban transaction.''"

definition refusedByRpc :: app_error where
  "refusedByRpc = SorobanSubmissionError ''Soroban RPC rejected transaction submission with status ERROR.''"

text \<open>What a broadcast was: the ghost of the whole chain from the built envelope to the network.\<close>

definition broadcast :: "'x chain_env \<Rightarrow> config \<Rightarrow> submit_params \<Rightarrow> sys \<Rightarrow> tx \<Rightarrow> bool" where
  "broadcast e cfg p s t \<longleftrightarrow>
     (\<exists>cx x st. cx_orderId cx = sp_orderId p \<and> cx_settlementId cx = sp_settlementId p
        \<and> rowBy o_id (sp_orderId p) (orders s) = Some x \<and> rowBy s_orderId (sp_orderId p) (settlements s) = Some st
        \<and> payable (ce_sdk e) cfg (ce_now e) s x st \<and> paysOut (ce_sdk e) cfg cx x t
        \<and> parseAmountToStroops (sp_amount p) = parseAmountToStroops (columnText (ce_sdk e) 7 (o_destinationAmount x)))
     \<and> \<not> emergencyGlobalPause cfg \<and> assertLiveSettlementTestnetSafety cfg = Inr ()
     \<and> sp_parentOwned p \<noteq> Some False"

context chain_client
begin

lemma underLock_cases:
  assumes run: "executeUnderLock e cfg sg p w = (w1, r)"
  shows "auditsOnly (w_sys w) (w_sys w1)
    \<and> (w_sent w1 = w_sent w \<and> (\<exists>err. r = Inl err)
       \<or> (\<exists>t. w_sent w1 = w_sent w @ [t] \<and> broadcast e cfg p (w_sys w) t
            \<and> (r = Inl lostAnswer \<or> r = Inl refusedByRpc \<or> (\<exists>h. r = Inr h \<and> ce_send e t = SendAccepted h))))"
proof -
  obtain w2 b where b: "buildUnsigned e cfg sg p w = (w2, b)" by fastforce
  have w2: "w_sys w2 = w_sys w" "w_sent w2 = w_sent w" using buildUnsigned_frame[of e cfg sg p w] b by simp_all
  show ?thesis
  proof (cases b)
    case (Inl err)
    then show ?thesis using run b w2 by (auto simp: executeUnderLock_def andThen_def[of "buildUnsigned e cfg sg p"])
  next
    case (Inr u)
    obtain xdr cx where u: "u = (xdr, cx)" by (cases u)
    obtain w3 y where y: "signTransaction (ce_sdk e) (ce_kms e) cfg (ce_now e) sg xdr cx w2 = (w3, y)" by fastforce
    have w3: "auditsOnly (w_sys w) (w_sys w3)" "w_sent w3 = w_sent w"
      using signTransaction_frame[of w2 "ce_sdk e" "ce_kms e" cfg "ce_now e" sg xdr cx] y w2 by simp_all
    have rest: "(w1, r) = andThen (\<lambda>v. (w3, y)) (\<lambda>y. if sp_parentOwned p = Some False
       then throw (SorobanSubmissionError ''Parent settlement lock was lost after KMS signing; aborting Soroban RPC submission.'')
       else submitSigned e cfg (sg_xdr y)) w2"
      using run b y Inr u by (simp add: executeUnderLock_def andThen_def)
    show ?thesis
    proof (cases y)
      case (Inl err)
      then show ?thesis using rest w3 by (auto simp: andThen_def)
    next
      case y2: (Inr z)
      note g = buildUnsigned_returns[OF b[unfolded Inr u]]
      note v = signTransaction_returns[OF y[unfolded y2]]
      obtain t pk sig where t: "sdk_parse (ce_sdk e) xdr (passphraseOf cfg) = Some t"
        "sg_xdr z = sdk_print (ce_sdk e) (addSignature pk sig t)" using v by blast
      let ?t = "(addSignature pk sig t)\<lparr>tx_passphrase := passphraseOf cfg\<rparr>"
      have parsed: "sdk_parse (ce_sdk e) (sg_xdr z) (passphraseOf cfg) = Some ?t" unfolding t(2) by (rule parse_built)
      show ?thesis
      proof (cases "sp_parentOwned p = Some False")
        case True
        then show ?thesis using rest w3 y2 by (auto simp: andThen_def)
      next
        case False
        obtain s1 where "validateAndApprove (ce_sdk e) cfg (ce_now e) xdr cx (w_sys w) = (s1, Inr ())" using v w2 by auto
        from validate_returns[OF this] obtain x st where a: "\<not> emergencyGlobalPause cfg"
          "rowBy o_id (cx_orderId cx) (orders (w_sys w)) = Some x" "rowBy s_orderId (cx_orderId cx) (settlements (w_sys w)) = Some st"
          "payable (ce_sdk e) cfg (ce_now e) (w_sys w) x st" "paysOut (ce_sdk e) cfg cx x t" using t(1) by auto
        obtain u0 c1 c2 c3 c4 c5 c6 stroops where u0: "xdr = sdk_print (ce_sdk e) (ce_assemble e u0)"
          "tx_operations u0 = [InvokeHostFunction (InvokeContract c1 c2 [c3, c4, c5, c6, ScI128 stroops])]"
          "parseAmountToStroops (sp_amount p) = Some stroops" using g(1) by blast
        have "tx_operations t = tx_operations u0" using t(1) u0(1) assembled[of u0] by (auto simp: parse_built)
        then have "parseAmountToStroops (columnText (ce_sdk e) 7 (o_destinationAmount x)) = Some stroops"
          using a(5) u0(2) by (auto simp: paysOut_def)
        moreover have "paysOut (ce_sdk e) cfg cx x ?t" using a(5) by (simp add: paysOut_def addSignature_def)
        ultimately have "broadcast e cfg p (w_sys w) ?t"
          using a(1-4) g(2-4) u0(3) False by (auto simp: broadcast_def)
        moreover have "w1 = w3\<lparr>w_sent := w_sent w3 @ [?t]\<rparr>"
            "r = (case ce_send e ?t of SendThrows \<Rightarrow> Inl lostAnswer | SendError \<Rightarrow> Inl refusedByRpc | SendAccepted h \<Rightarrow> Inr h)"
          using rest y2 False parsed
          by (auto simp: andThen_def submitSigned_def lostAnswer_def refusedByRpc_def split: send_answer.splits)
        ultimately show ?thesis using w3 by (auto split: send_answer.splits)
      qed
    qed
  qed
qed

lemma buildAndSubmit_cases:
  assumes run: "buildAndSubmit e cfg given p w = (w1, r)"
  shows "auditsOnly (w_sys w) (w_sys w1)
    \<and> (w_sent w1 = w_sent w \<and> (\<exists>err. r = Inl err)
       \<or> (\<exists>t. w_sent w1 = w_sent w @ [t] \<and> broadcast e cfg p (w_sys w) t
            \<and> (r = Inl lostAnswer \<or> r = Inl refusedByRpc \<or> (\<exists>h. r = Inr h \<and> ce_send e t = SendAccepted h))))"
proof (cases "\<exists>sg w2 i. assertLiveSettlementTestnetSafety cfg = Inr () \<and> resolveTransactionSigner (ce_sdk e) cfg given = Inr sg
    \<and> getIdentity (ce_sdk e) (ce_kms e) cfg sg w = (w2, Inr i) \<and> executeUnderLock e cfg sg p w2 = (w1, r)")
  case True
  then obtain sg w2 i where g: "getIdentity (ce_sdk e) (ce_kms e) cfg sg w = (w2, Inr i)"
    and u: "executeUnderLock e cfg sg p w2 = (w1, r)" by blast
  have "w_sys w2 = w_sys w" "w_sent w2 = w_sent w" using getIdentity_frame[of "ce_sdk e" "ce_kms e" cfg sg w] g by simp_all
  then show ?thesis using underLock_cases[OF u] by simp
next
  case False
  have "w_sys w1 = w_sys w \<and> w_sent w1 = w_sent w \<and> (\<exists>err. r = Inl err)"
  proof (cases "assertLiveSettlementTestnetSafety cfg")
    case (Inl err)
    then show ?thesis using run by (auto simp: buildAndSubmit_def andThen_def)
  next
    case live: (Inr u)
    show ?thesis
    proof (cases "resolveTransactionSigner (ce_sdk e) cfg given")
      case (Inl err)
      then show ?thesis using run live by (auto simp: buildAndSubmit_def andThen_def)
    next
      case sg: (Inr sg)
      obtain w2 i where g: "getIdentity (ce_sdk e) (ce_kms e) cfg sg w = (w2, i)" by fastforce
      have w2: "w_sys w2 = w_sys w" "w_sent w2 = w_sent w" using getIdentity_frame[of "ce_sdk e" "ce_kms e" cfg sg w] g by simp_all
      show ?thesis
      proof (cases i)
        case (Inl err)
        then show ?thesis using run live sg g w2 by (auto simp: buildAndSubmit_def andThen_def)
      next
        case (Inr j)
        then show ?thesis
          using run live sg g w2 False
          by (auto simp: buildAndSubmit_def andThen_def split: lock_outcome.splits if_splits)
      qed
    qed
  qed
  then show ?thesis by simp
qed

end

subsection \<open>A concrete chain\<close>

text \<open>The envelope of the examples is the transaction itself.\<close>

definition demo_sdk :: "tx sdk" where
  "demo_sdk = \<lparr>sdk_keys = \<lparr>sk_publicKey = (\<lambda>v. take 1 v = ''G''), sk_secretSeed = (\<lambda>v. take 1 v = ''S''),
       sk_contract = (\<lambda>v. take 1 v = ''C'')\<rparr>,
     sdk_decimal = decimalText, sdk_parse = (\<lambda>t p. Some (t\<lparr>tx_passphrase := p\<rparr>)), sdk_print = (\<lambda>t. t),
     sdk_hash = (\<lambda>_. replicate 32 0), sdk_fromSecret = (\<lambda>_. Some ''GSIGNER''), sdk_sign = (\<lambda>_ _. replicate 64 1),
     sdk_encodeKey = (\<lambda>_. ''GKMS''), sdk_verify = (\<lambda>_ _ _. True)\<rparr>"

definition demo_chain :: "tx chain_env" where
  "demo_chain = \<lparr>ce_sdk = demo_sdk,
     ce_kms = \<lparr>km_publicKey = (\<lambda>_. Inl ''no key''), km_sign = (\<lambda>_ _. Inl ''no key'')\<rparr>, ce_now = 60,
     ce_account = (\<lambda>_. Some 7), ce_simulate = (\<lambda>_. SimulationSuccess), ce_assemble = (\<lambda>t. t),
     ce_send = (\<lambda>_. SendAccepted ''TXHASH''), ce_sequenceLock = Acquired True\<rparr>"

definition demo_submitting :: settlement where
  "demo_submitting = (demo_stl ''t1'')\<lparr>s_status := S_SUBMITTING\<rparr>"

definition demo_world :: world where
  "demo_world = \<lparr>w_sys = demo_payable\<lparr>settlements := [demo_submitting]\<rparr>, w_sent = [], w_kmsKey = None\<rparr>"

definition demo_params :: submit_params where
  "demo_params = \<lparr>sp_settlementId = ''STL_t1'', sp_orderId = ''order'', sp_source = ''GSIGNER'',
     sp_destination = ''GWALLET'', sp_amount = decimalText 4 19800000, sp_asset = ''NGN'',
     sp_contractAddress = None, sp_parentOwned = Some True\<rparr>"

interpretation demo_client: chain_client demo_chain
  by unfold_locales (simp_all add: demo_chain_def demo_sdk_def)

lemma demo_amounts:
  "parseAmountToStroops (decimalText 4 19800000) = Some 19800000000"
  "parseAmountToStroops (decimalText 7 19800000000) = Some 19800000000"
  using plain_text.roundtrip[of 4 19800000] plain_text.roundtrip[of 7 19800000000] by (simp_all add: plainRange_def)

lemmas guard_defs = assertProductionSettlementSafety_def assertTestnetSafety_def
  assertLiveSettlementTestnetSafety_def usdcContract_def passphraseOf_def getNetworkPassphrase_def isMainnet_def
  isPublic_def liveEnv_def toLower_def lower_char_def trim_def is_space_def orDefault_def orElse_def

lemmas submit_defs = buildAndSubmit_def executeUnderLock_def buildUnsigned_def submitSigned_def andThen_eq
  resolveTransactionSigner_def newTestnetLocalSigner_def getIdentity_def signerKey_def signTransaction_def
  onSys_def localSign_def finishSigning_def fetchSequence_def callAddresses_def sourceAddress_def
  assetAddress_def vaultOf_def simulated_def settlementTx_def addSignature_def

lemmas validate_steps = validateAndApprove_def policy_steps require_def expectedVault_def expectedSource_def
  expectedAsset_def columnText_def activeRefund_def outflowSince_def hourMs_def usdc_def ofColumn_def

lemma demo_submitting_row:
  "demo_submitting = \<lparr>s_id = ''t1'', s_settlementId = ''STL_t1'', s_orderId = ''order'', s_userId = ''u'',
     s_status = S_SUBMITTING, s_asset = ''NGN'', s_amount = 19800000, s_source = Some ''GSIGNER'',
     s_destination = Some ''GWALLET'', s_contractAddress = None, s_hash = None, s_ledger = None,
     s_attemptCount = 0, s_lastError = None, s_submittedAt = None, s_confirmedAt = None, s_createdAt = 40\<rparr>"
  by (simp add: demo_submitting_def settlement_demo_defs noneIfFalsy_def toColumn_def ofColumn_def)

lemma demo_due_row:
  "demo_due = \<lparr>o_id = ''order'', o_userId = ''u'', o_quoteId = ''q'', o_idempotencyKey = Some ''key'',
     o_type = ON_RAMP, o_status = O_SETTLEMENT_PENDING, o_sourceCurrency = ''NGN'',
     o_destinationAsset = ''NGN'', o_sourceAmount = 20000000, o_destinationAmount = 19800000000,
     o_walletAddress = Some ''GWALLET''\<rparr>"
  by (simp add: settlement_demo_defs noneIfFalsy_def)

definition demo_tx :: tx where
  "demo_tx = \<lparr>tx_passphrase = Testnet, tx_source = ''GSIGNER'', tx_sequence = 8,
     tx_operations = [InvokeHostFunction (InvokeContract ''CVAULT'' ''create_settlement''
       [ScU64 (parseSettlementIdToU64 ''STL_t1''), ScAddress ''GSIGNER'', ScAddress ''GWALLET'', ScAddress ''CUSDC'',
        ScI128 19800000000])],
     tx_signatures = [(''GSIGNER'', replicate 64 1)]\<rparr>"

lemma demo_submission:
  "buildAndSubmit demo_chain demo_cfg None demo_params demo_world =
     (demo_world\<lparr>w_sys := signedAudit ''system-signer''
          \<lparr>cx_settlementId = ''STL_t1'', cx_orderId = ''order'', cx_expectedSource = ''GSIGNER'',
           cx_expectedDestination = ''GWALLET'', cx_expectedAmountStroops = 19800000000,
           cx_expectedAssetContract = ''CUSDC'', cx_expectedVaultContract = ''CVAULT''\<rparr>
          (auditLog (Some ''system-policy-engine'') None ''SETTLEMENT_POLICY_APPROVED'' ''Settlement'' (Some ''t1'')
             (w_sys demo_world)),
        w_sent := [demo_tx]\<rparr>, Inr ''TXHASH'')"
  by (simp add: submit_defs guard_defs validate_steps demo_params_def demo_chain_def demo_sdk_def demo_world_def
      demo_tx_def demo_payable_def demo_submitting_row demo_due_row demo_amounts demo_defs demo_payment_def Let_def)

text \<open>
  C2. A transaction reaches the network only through an approval: a submission hands over nothing
  and fails, or hands over exactly one transaction. That one is the single call of
  \<open>create_settlement\<close> on the vault with the wallet and the exact amount of the order, and at that
  moment the order awaited its settlement, had a succeeded payment, a confirmed reservation and no
  refund, was young enough and within every limit. In any case the tables stay as they were. An
  error after the broadcast is one of two fixed ones, whatever became of the transaction.
\<close>

theorem broadcast_only_if_payable:
  assumes "chain_client e" and "buildAndSubmit e cfg given p w = (w1, r)"
  shows "auditsOnly (w_sys w) (w_sys w1)
    \<and> (w_sent w1 = w_sent w \<and> (\<exists>err. r = Inl err)
       \<or> (\<exists>t. w_sent w1 = w_sent w @ [t] \<and> broadcast e cfg p (w_sys w) t
            \<and> (r = Inl lostAnswer \<or> r = Inl refusedByRpc \<or> (\<exists>h. r = Inr h \<and> ce_send e t = SendAccepted h))))"
  by (rule chain_client.buildAndSubmit_cases[OF assms])

theorem broadcast_only_if_payable_witness:
  "w_sent (fst (buildAndSubmit demo_chain demo_cfg None demo_params demo_world)) = [demo_tx]
     \<and> broadcast demo_chain demo_cfg demo_params (w_sys demo_world) demo_tx"
  using broadcast_only_if_payable[OF demo_client.chain_client_axioms demo_submission]
  by (auto simp: demo_submission)

subsection \<open>Polling\<close>

lemma pollFrom_eq:
  "pollFrom answers n i =
     (case find (\<lambda>a. sr_status (getTransactionStatus a) \<in> {TX_SUCCESS, TX_FAILED}) (map answers [i..<Suc n]) of
        None \<Rightarrow> timedOut
      | Some a \<Rightarrow>
          (let r = getTransactionStatus a in
           if sr_status r = TX_SUCCESS then \<lparr>cf_confirmed = True, cf_ledger = sr_ledger r, cf_error = None\<rparr>
           else \<lparr>cf_confirmed = False, cf_ledger = None,
                 cf_error = Some (orDefault (sr_error r) ''Transaction execution failed on Stellar network.'')\<rparr>))"
proof (induction answers n i rule: pollFrom.induct)
  case (1 answers n i)
  show ?case
  proof (cases "n < i")
    case True
    then show ?thesis by (subst pollFrom.simps) simp
  next
    case False
    then have "[i..<Suc n] = i # [Suc i..<Suc n]" by (simp add: upt_conv_Cons)
    with False 1[OF False refl] show ?thesis
      by (subst pollFrom.simps) (auto simp: Let_def simp del: upt_Suc)
  qed
qed

text \<open>
  C23. Confirmation is the first decisive answer: of the answers to the first ten polls (or the
  given number, taken as ten when it is zero) the first that is a success or a failure decides,
  and without one it has timed out. It always returns, and confirms exactly when a success comes
  before any failure. A request that throws counts as a failure of the transaction.
\<close>

theorem confirmation_first_decisive:
  "confirmTransaction answers m =
     (case find (\<lambda>a. \<exists>l msg. a = RpcSuccess l \<or> a = RpcFailed l \<or> a = RpcThrows msg)
        (map answers [1..<Suc (case m of Some k \<Rightarrow> (if k = 0 then 10 else k) | None \<Rightarrow> 10)]) of
        None \<Rightarrow> timedOut
      | Some (RpcSuccess l) \<Rightarrow> \<lparr>cf_confirmed = True, cf_ledger = Some l, cf_error = None\<rparr>
      | Some (RpcFailed l) \<Rightarrow> \<lparr>cf_confirmed = False, cf_ledger = None,
          cf_error = Some ''Transaction failed during on-chain execution.''\<rparr>
      | Some (RpcThrows msg) \<Rightarrow> \<lparr>cf_confirmed = False, cf_ledger = None,
          cf_error = Some (orDefault (Some msg) ''Transaction execution failed on Stellar network.'')\<rparr>
      | Some _ \<Rightarrow> timedOut)"
proof -
  have d: "sr_status (getTransactionStatus a) \<in> {TX_SUCCESS, TX_FAILED} \<longleftrightarrow>
      (\<exists>l msg. a = RpcSuccess l \<or> a = RpcFailed l \<or> a = RpcThrows msg)" for a
    by (cases a) simp_all
  have n: "(let n = (case m of Some k \<Rightarrow> k | None \<Rightarrow> 0) in if n = 0 then 10 else n) =
      (case m of Some k \<Rightarrow> (if k = 0 then 10 else k) | None \<Rightarrow> 10)"
    by (simp split: option.splits)
  show ?thesis
    unfolding confirmTransaction_def Let_def n[unfolded Let_def] pollFrom_eq d
    by (auto simp: orDefault_def Let_def split: option.splits rpc_answer.splits dest: find_SomeD)
qed

end
