(* ===== verification/Interleavings.thy ===== *)
theory Interleavings
  imports Reconciliation PolicyProps
begin

text \<open>
  Payout or refund, write by write: the settlements and refunds of an order while workers, the
  reconciliation daemon, users and administrators act at the same time. An operation reads, decides
  and later writes by the id it found, so between the two other operations come. The step relation
  \<open>act\<close> has one step per write, with what the operation read taken from any earlier state, and labels
  the step with whether the write was overtaken: what it rests on has changed since it was read.
\<close>

subsection \<open>A status operation: the read, and the write some time later\<close>

datatype mark =
    ToSubmitted time string
  | ToConfirming
  | ToCompleted time int
  | ToFailed string
  | ToReconcile string

fun markTarget :: "mark \<Rightarrow> settlement_status" where
  "markTarget (ToSubmitted now h) = S_SUBMITTED"
| "markTarget ToConfirming = S_CONFIRMING"
| "markTarget (ToCompleted now l) = S_COMPLETED"
| "markTarget (ToFailed msg) = S_FAILED"
| "markTarget (ToReconcile msg) = S_REQUIRES_RECONCILIATION"

fun markRow :: "mark \<Rightarrow> settlement \<Rightarrow> settlement" where
  "markRow (ToSubmitted now h) y = y\<lparr>s_status := S_SUBMITTED, s_hash := Some h, s_submittedAt := Some now\<rparr>"
| "markRow ToConfirming y = y\<lparr>s_status := S_CONFIRMING\<rparr>"
| "markRow (ToCompleted now l) y = completedRow now l y"
| "markRow (ToFailed msg) y = y\<lparr>s_status := S_FAILED, s_lastError := Some msg\<rparr>"
| "markRow (ToReconcile msg) y = y\<lparr>s_status := S_REQUIRES_RECONCILIATION, s_lastError := Some msg\<rparr>"

fun markAction :: "mark \<Rightarrow> string" where
  "markAction (ToSubmitted now h) = ''SETTLEMENT_SUBMITTED''"
| "markAction ToConfirming = ''SETTLEMENT_CONFIRMING''"
| "markAction (ToCompleted now l) = ''SETTLEMENT_COMPLETED''"
| "markAction (ToFailed msg) = ''SETTLEMENT_FAILED''"
| "markAction (ToReconcile msg) = ''SETTLEMENT_RECONCILIATION_REQUIRED''"

text \<open>
  The write for a settlement \<open>t\<close> as read. A completion writes settlement and order in a transaction; the
  reservation it consumes next is in other tables.
\<close>

definition markWrite :: "config \<Rightarrow> mark \<Rightarrow> settlement \<Rightarrow> settlement op" where
  "markWrite cfg m t =
     (case m of
        ToCompleted now l \<Rightarrow>
          andThen (inTransaction (completeBody now t l)) (\<lambda>t1.
          andThen (consumeReservation cfg now (s_orderId t1) (Some (s_settlementId t1)) (noneIfFalsy (s_hash t1))) (\<lambda>_.
            logged (markAction m) t1))
      | _ \<Rightarrow> andThen (updateSettlement t (markRow m)) (logged (markAction m)))"

lemma markRow_fun:
  "markRow (ToSubmitted now h) = (\<lambda>y. y\<lparr>s_status := S_SUBMITTED, s_hash := Some h, s_submittedAt := Some now\<rparr>)"
  "markRow ToConfirming = (\<lambda>y. y\<lparr>s_status := S_CONFIRMING\<rparr>)" "markRow (ToCompleted now l) = completedRow now l"
  "markRow (ToFailed msg) = (\<lambda>y. y\<lparr>s_status := S_FAILED, s_lastError := Some msg\<rparr>)"
  "markRow (ToReconcile msg) = (\<lambda>y. y\<lparr>s_status := S_REQUIRES_RECONCILIATION, s_lastError := Some msg\<rparr>)"
  by (rule ext; simp)+

lemma mark_is_read_write:
  "markSubmitted now i h = andThen (readFor i S_SUBMITTED) (markWrite cfg (ToSubmitted now h))"
  "markConfirming i = andThen (readFor i S_CONFIRMING) (markWrite cfg ToConfirming)"
  "markCompleted cfg now i l = andThen (readFor i S_COMPLETED) (markWrite cfg (ToCompleted now l))"
  "markFailed i msg = andThen (readFor i S_FAILED) (markWrite cfg (ToFailed msg))"
  "markRequiresReconciliation i msg = andThen (readFor i S_REQUIRES_RECONCILIATION) (markWrite cfg (ToReconcile msg))"
  by (simp_all add: mark_defs markCompleted_def markWith_def markWrite_def[abs_def] markRow_fun)

subsection \<open>The steps\<close>

definition idsApart :: "settlement \<Rightarrow> sys \<Rightarrow> bool" where
  "idsApart t s \<longleftrightarrow> s_id t \<noteq> s_settlementId t
     \<and> (\<forall>y \<in> set (settlements s). s_id t \<noteq> s_settlementId y \<and> s_settlementId t \<noteq> s_id y)"

text \<open>
  When is a write overtaken? A mark: the same read would find another row or another status. A
  refund that is opened: the order's settlements or their statuses are no longer those that were
  read. The answer to a refund: the refund has left the status it was claimed with.
\<close>

definition markOvertaken :: "string \<Rightarrow> settlement \<Rightarrow> sys \<Rightarrow> bool" where
  "markOvertaken i t s \<longleftrightarrow>
     map_option (\<lambda>y. (s_id y, s_status y)) (findSettlement i s) \<noteq> Some (s_id t, s_status t)"

definition planOvertaken :: "order \<Rightarrow> sys \<Rightarrow> sys \<Rightarrow> bool" where
  "planOvertaken x s0 s \<longleftrightarrow>
     map (\<lambda>t. (s_id t, s_status t)) (settlementsOf (o_id x) s) \<noteq>
     map (\<lambda>t. (s_id t, s_status t)) (settlementsOf (o_id x) s0)"

definition answerOvertaken :: "loaded \<Rightarrow> sys \<Rightarrow> bool" where
  "answerOvertaken c s \<longleftrightarrow>
     map_option r_status (rowBy r_id (r_id (fst c)) (refunds s)) \<noteq> Some (r_status (fst c))"

text \<open>What the code has seen by the time it marks: a signature for a hash, a hash for a completion.\<close>

fun markGrounds :: "mark \<Rightarrow> string \<Rightarrow> sys \<times> id set \<Rightarrow> bool" where
  "markGrounds (ToSubmitted now h) i (s, A) \<longleftrightarrow> i \<in> A \<and> h \<noteq> []"
| "markGrounds (ToCompleted now l) i (s, A) \<longleftrightarrow> (\<exists>y. rowBy s_id i (settlements s) = Some y \<and> truthy (s_hash y))"
| "markGrounds _ i (s, A) \<longleftrightarrow> True"

text \<open>
  \<open>act k cfg late\<close> is one write; \<open>late\<close> says that it was overtaken. \<open>s0\<close> is the state in which the
  operation read: any state at all, so that nothing is assumed of what came in between. The two
  claims are conditional updates and cannot be overtaken. The second component is a ghost, the ids of the
  settlements for which a signer's policy found no refund; the policy reads the settlement after it
  was claimed. \<open>Quiet\<close> is whatever leaves the two tables alone.
\<close>

inductive act :: "'x sdk \<Rightarrow> config \<Rightarrow> bool \<Rightarrow> sys \<times> id set \<Rightarrow> sys \<times> id set \<Rightarrow> bool" for k cfg where
  Quiet: "settlements s1 = settlements s \<Longrightarrow> refunds s1 = refunds s \<Longrightarrow> act k cfg False (s, A) (s1, A)"
| Insert: "insertSettlement t s = (s1, Inr ()) \<Longrightarrow> s_status t = S_PENDING \<Longrightarrow> s_hash t = None \<Longrightarrow>
    idsApart t s \<Longrightarrow> s_id t \<notin> A \<Longrightarrow> act k cfg False (s, A) (s1, A)"
| Claim: "readFor i S_SUBMITTING s0 = (s0, Inr t) \<Longrightarrow> act k cfg False (s, A) (fst (claimSubmitting t s), A)"
| Approve: "rowBy s_id i (settlements s) = Some t \<Longrightarrow> s_status t \<noteq> S_PENDING \<Longrightarrow>
    \<not> activeRefund (s_orderId t) s \<Longrightarrow> act k cfg False (s, A) (s, insert i A)"
| Mark: "readFor i (markTarget m) s0 = (s0, Inr t) \<Longrightarrow> markGrounds m i (s, A) \<Longrightarrow>
    act k cfg (markOvertaken i t s) (s, A) (fst (markWrite cfg m t s), A)"
| OpenRefund: "refundPlan e u inp adm hdr s0 = Inr (Inr (x, r)) \<Longrightarrow>
    act k cfg (planOvertaken x s0 s) (s, A) (fst (inTransaction (openRefund u x r) s), A)"
| ClaimRefund: "executeRead rid owned s0 = (s0, Inr (Go c)) \<Longrightarrow> act k cfg False (s, A) (fst (executeClaim (Go c) s), A)"
| SettleRefund: "executeClaim (Go c0) s0 = (s2, Inr (Go c)) \<Longrightarrow>
    act k cfg (answerOvertaken c s) (s, A) (fst (executeSettle cfg now actor c resp s), A)"

inductive_cases actE: "act k cfg late (s, A) (s1, A1)"

subsection \<open>The invariant\<close>

definition separated :: "sys \<Rightarrow> bool" where
  "separated s \<longleftrightarrow> unique_by s_id (settlements s) \<and> unique_by r_id (refunds s)
     \<and> (\<forall>t \<in> set (settlements s). \<forall>y \<in> set (settlements s). s_id t \<noteq> s_settlementId y)"

definition guarded :: "id set \<Rightarrow> sys \<Rightarrow> settlement \<Rightarrow> bool" where
  "guarded A s t \<longleftrightarrow> (truthy (s_hash t) \<longrightarrow> s_id t \<in> A) \<and> (s_status t = S_COMPLETED \<longrightarrow> truthy (s_hash t))
     \<and> (s_id t \<in> A \<longrightarrow> s_status t \<noteq> S_PENDING \<and> (s_status t \<noteq> S_FAILED \<longrightarrow> \<not> activeRefund (s_orderId t) s))"

definition exclusive :: "sys \<times> id set \<Rightarrow> bool" where
  "exclusive = (\<lambda>(s, A). separated s \<and> (\<forall>i \<in> A. rowBy s_id i (settlements s) \<noteq> None)
     \<and> (\<forall>t \<in> set (settlements s). guarded A s t))"

lemma exclusiveD:
  assumes "exclusive (s, A)"
  shows "unique_by s_id (settlements s)" and "unique_by r_id (refunds s)" and "separated s"
    and "t \<in> set (settlements s) \<Longrightarrow> y \<in> set (settlements s) \<Longrightarrow> s_id t \<noteq> s_settlementId y"
    and "i \<in> A \<Longrightarrow> rowBy s_id i (settlements s) \<noteq> None" and "t \<in> set (settlements s) \<Longrightarrow> guarded A s t"
  using assms by (auto simp: exclusive_def separated_def)

lemma guarded_refunds: "refunds s1 = refunds s \<Longrightarrow> guarded A s1 t = guarded A s t"
  by (simp add: guarded_def activeRefund_def)

text \<open>A row found by one of its two ids under an id of column \<open>s_id\<close> is that row.\<close>

lemma findSettlement_id:
  assumes "separated s" and "findSettlement i s = Some t" and "rowBy s_id i (settlements s) = Some y"
  shows "t = y"
proof -
  have y: "y \<in> set (settlements s)" "s_id y = i" using rowBy_SomeD[OF assms(3)] by auto
  have t: "t \<in> set (settlements s)" "s_id t = i \<or> s_settlementId t = i" using findSettlement_row[OF assms(2)] by auto
  have "s_settlementId t \<noteq> i" using assms(1) y t(1) unfolding separated_def by blast
  with t(2) y show ?thesis
    using assms(1) same_row[of s_id "settlements s" t y] t(1) by (simp add: separated_def)
qed

lemma findSettlement_own:
  assumes "separated s" and "rowBy s_id (s_id t) (settlements s) = Some t"
  shows "findSettlement (s_id t) s = Some t"
proof -
  have "t \<in> set (settlements s)" using rowBy_SomeD[OF assms(2)] by simp
  then obtain y where y: "findSettlement (s_id t) s = Some y"
    unfolding findSettlement_def by (metis (mono_tags, lifting) find_None_iff not_Some_eq)
  with findSettlement_id[OF assms(1) y assms(2)] show ?thesis by simp
qed

text \<open>Rewriting one settlement row keeps the invariant if the new row is guarded.\<close>

lemma exclusive_setRow:
  assumes inv: "exclusive (s, A)" and tab: "settlements s1 = setBy s_id i f (settlements s)" "refunds s1 = refunds s"
    and ids: "\<And>y. s_id (f y) = s_id y" "\<And>y. s_settlementId (f y) = s_settlementId y"
    and new: "\<And>y. rowBy s_id i (settlements s) = Some y \<Longrightarrow> guarded A s (f y)"
  shows "exclusive (s1, A)"
proof -
  note d = exclusiveD[OF inv]
  have "guarded A s1 t" if "t \<in> set (settlements s1)" for t
    using in_setBy[OF that[unfolded tab]]
  proof
    assume "\<exists>r0 \<in> set (settlements s). s_id r0 = i \<and> t = f r0"
    then obtain r0 where r0: "r0 \<in> set (settlements s)" "s_id r0 = i" "t = f r0" by blast
    then have "rowBy s_id i (settlements s) = Some r0" using rowBy_unique[OF d(1) r0(1)] by simp
    then show ?thesis using new r0(3) guarded_refunds[OF tab(2)] by simp
  next
    assume "t \<in> set (settlements s) \<and> s_id t \<noteq> i"
    then show ?thesis using d(6) guarded_refunds[OF tab(2)] by simp
  qed
  moreover have "separated s1"
    unfolding separated_def
  proof (intro conjI ballI)
    show "unique_by s_id (settlements s1)" using d(1) ids by (simp add: tab rows)
    show "unique_by r_id (refunds s1)" using d(2) by (simp add: tab)
    fix t y assume "t \<in> set (settlements s1)" "y \<in> set (settlements s1)"
    then obtain t0 y0 where "t0 \<in> set (settlements s)" "y0 \<in> set (settlements s)" "s_id t = s_id t0"
      "s_settlementId y = s_settlementId y0"
      using in_setBy[of t s_id i f "settlements s"] in_setBy[of y s_id i f "settlements s"] ids
      unfolding tab by metis
    then show "s_id t \<noteq> s_settlementId y" using d(4) by simp
  qed
  moreover have "rowBy s_id j (settlements s1) \<noteq> None" if "j \<in> A" for j
    using d(5)[OF that] ids by (cases "j = i") (auto simp: tab rows)
  ultimately show ?thesis by (simp add: exclusive_def)
qed

lemma exclusive_quiet:
  "settlements s1 = settlements s \<Longrightarrow> refunds s1 = refunds s \<Longrightarrow> exclusive (s, A) \<Longrightarrow> exclusive (s1, A)"
  by (simp add: exclusive_def separated_def guarded_def activeRefund_def)

lemma can_targets:
  "canSettlement st S_SUBMITTING \<Longrightarrow> st = S_PENDING \<or> st = S_SUBMITTING"
  "canSettlement st S_SUBMITTED \<Longrightarrow> st = S_SUBMITTING \<or> st = S_SUBMITTED"
  "canSettlement st S_CONFIRMING \<Longrightarrow> st = S_SUBMITTED \<or> st = S_CONFIRMING \<or> st = S_REQUIRES_RECONCILIATION"
  "canSettlement st S_REQUIRES_RECONCILIATION \<Longrightarrow> st \<noteq> S_PENDING \<and> st \<noteq> S_FAILED \<and> st \<noteq> S_COMPLETED"
  "canSettlement st S_COMPLETED \<Longrightarrow> st \<noteq> S_PENDING \<and> st \<noteq> S_FAILED"
  by (cases st; simp add: canSettlement_def)+

subsection \<open>Every step keeps the invariant\<close>

lemma exclusive_insert:
  assumes inv: "exclusive (s, A)" and ins: "insertSettlement t s = (s1, Inr ())"
    and t: "s_status t = S_PENDING" "s_hash t = None" "idsApart t s" "s_id t \<notin> A"
  shows "exclusive (s1, A)"
proof -
  note d = exclusiveD[OF inv]
  have s1: "s1 = s\<lparr>settlements := settlements s @ [t]\<rparr>" and fresh: "rowBy s_id (s_id t) (settlements s) = None"
    using ins by (auto simp: insertSettlement_def split: if_splits)
  have "separated s1"
    using d(1,2,4) fresh t(3) by (auto simp: s1 separated_def rows idsApart_def)
  moreover have "rowBy s_id j (settlements s1) \<noteq> None" if "j \<in> A" for j
    using d(5)[OF that] by (auto simp: s1 rows)
  moreover have "guarded A s1 y" if "y \<in> set (settlements s1)" for y
    using that d(6)[of y] t by (auto simp: s1 guarded_def activeRefund_def)
  ultimately show ?thesis by (simp add: exclusive_def)
qed

lemma exclusive_claim:
  assumes inv: "exclusive (s, A)" and can: "canSettlement (s_status t) S_SUBMITTING"
  shows "exclusive (fst (claimSubmitting t s), A)"
proof (cases "\<exists>now. rowBy s_id (s_id t) (settlements s) = Some now \<and> s_status now = s_status t")
  case True
  then obtain now where now: "rowBy s_id (s_id t) (settlements s) = Some now" "s_status now = s_status t" by blast
  have nowin: "now \<in> set (settlements s)" using rowBy_SomeD[OF now(1)] by simp
  let ?f = "\<lambda>y. y\<lparr>s_status := S_SUBMITTING, s_attemptCount := s_attemptCount y + 1\<rparr>"
  have "guarded A s (?f now)"
    using exclusiveD(6)[OF inv nowin] can_targets(1)[OF can] now(2) by (auto simp: guarded_def)
  then show ?thesis
    using now by (intro exclusive_setRow[OF inv, of _ "s_id t" ?f])
      (simp_all add: claimSubmitting_def andThen_eq updateSettlement_def logged_def)
next
  case False
  then have "fst (claimSubmitting t s) = s" by (auto simp: claimSubmitting_def split: option.splits)
  with inv show ?thesis by simp
qed

lemma markWrite_row:
  assumes "rowBy s_id (s_id t) (settlements s) = Some now" and "\<And>n l. m \<noteq> ToCompleted n l"
  shows "markWrite cfg m t s = (settlementAudit (markAction m) (markRow m now) (setSettlement (s_id t) (markRow m) s), Inr (markRow m now))"
  using assms by (cases m) (auto simp: markWrite_def andThen_eq updateSettlement_def logged_def)

lemma markWrite_settlements:
  shows "refunds (fst (markWrite cfg m t s)) = refunds s"
    and "settlements (fst (markWrite cfg m t s)) = settlements s
      \<or> settlements (fst (markWrite cfg m t s)) = setBy s_id (s_id t) (markRow m) (settlements s)"
proof -
  have "refunds (fst (markWrite cfg m t s)) = refunds s \<and> (settlements (fst (markWrite cfg m t s)) = settlements s
      \<or> settlements (fst (markWrite cfg m t s)) = setBy s_id (s_id t) (markRow m) (settlements s))"
  proof (cases "\<exists>now l. m = ToCompleted now l")
    case False
    then have "fst (markWrite cfg m t s) = fst (andThen (updateSettlement t (markRow m)) (logged (markAction m)) s)"
      by (cases m) (simp_all add: markWrite_def)
    then show ?thesis by (auto simp: andThen_eq updateSettlement_def logged_def split: option.splits sum.splits)
  next
    case True
    then obtain now l where m: "m = ToCompleted now l" by blast
    have fold: "(\<lambda>y. y\<lparr>s_status := S_COMPLETED, s_ledger := Some l, s_confirmedAt := Some now\<rparr>) = markRow m"
      by (rule ext) (simp add: m completedRow_def)
    obtain s1 r1 where tx: "inTransaction (completeBody now t l) s = (s1, r1)" by fastforce
    show ?thesis
    proof (cases r1)
      case (Inl e)
      then have "settlements s1 = settlements s" "refunds s1 = refunds s" using inTransaction_throws[of _ s s1 e] tx by blast+
      then show ?thesis using tx Inl by (simp add: m markWrite_def andThen_eq)
    next
      case (Inr t1)
      have "completeBody now t l s = (s1, Inr t1)" using tx Inr by (simp add: inTransaction_Inr)
      then have "settlements s1 = setBy s_id (s_id t) (markRow m) (settlements s)" "refunds s1 = refunds s"
        unfolding completeBody_def fold
        by (auto simp: andThen_eq updateSettlement_def setOrder_def split: option.splits if_splits)
      moreover obtain s2 r2 where c: "consumeReservation cfg now (s_orderId t1) (Some (s_settlementId t1)) (noneIfFalsy (s_hash t1)) s1 = (s2, r2)"
        by fastforce
      moreover note consume_result[OF c]
      ultimately show ?thesis
        using tx Inr by (auto simp: m markWrite_def andThen_eq logged_def split: sum.splits)
    qed
  qed
  then show "refunds (fst (markWrite cfg m t s)) = refunds s"
    and "settlements (fst (markWrite cfg m t s)) = settlements s
      \<or> settlements (fst (markWrite cfg m t s)) = setBy s_id (s_id t) (markRow m) (settlements s)"
    by blast+
qed

lemma markCompleted_settlements:
  shows "refunds (fst (markCompleted cfg now i l s)) = refunds s"
    and "settlements (fst (markCompleted cfg now i l s)) = settlements s
      \<or> (\<exists>t. findSettlement i s = Some t \<and> canSettlement (s_status t) S_COMPLETED
          \<and> settlements (fst (markCompleted cfg now i l s)) = setBy s_id (s_id t) (completedRow now l) (settlements s))"
proof -
  obtain s0 r where read: "readFor i S_COMPLETED s = (s0, r)" by fastforce
  have s0: "s0 = s" using readFor_state[of i S_COMPLETED s] read by simp
  have row: "markRow (ToCompleted now l) = completedRow now l" by (rule ext) simp
  note w = markWrite_settlements[of cfg "ToCompleted now l", unfolded row]
  show "refunds (fst (markCompleted cfg now i l s)) = refunds s"
    using read s0 w(1) by (cases r) (simp_all add: mark_is_read_write(3) andThen_eq)
  show "settlements (fst (markCompleted cfg now i l s)) = settlements s
      \<or> (\<exists>t. findSettlement i s = Some t \<and> canSettlement (s_status t) S_COMPLETED
          \<and> settlements (fst (markCompleted cfg now i l s)) = setBy s_id (s_id t) (completedRow now l) (settlements s))"
  proof (cases r)
    case (Inr t)
    note f = readFor_returns[OF read[unfolded Inr]]
    then show ?thesis using read s0 Inr w(2)[of t s] by (auto simp: mark_is_read_write(3) andThen_eq)
  qed (use read s0 in \<open>simp add: mark_is_read_write(3) andThen_eq\<close>)
qed

text \<open>A mark that is not overtaken is an allowed move of the row as it is.\<close>

lemma not_overtaken:
  assumes inv: "exclusive (s, A)" and calm: "\<not> markOvertaken i t s"
  obtains y where "findSettlement i s = Some y" and "s_id y = s_id t" and "s_status y = s_status t"
    and "y \<in> set (settlements s)" and "rowBy s_id (s_id t) (settlements s) = Some y"
proof -
  obtain y where y: "findSettlement i s = Some y" "s_id y = s_id t" "s_status y = s_status t"
    using calm by (auto simp: markOvertaken_def)
  have "y \<in> set (settlements s)" using findSettlement_row[OF y(1)] by simp
  then show thesis using that[OF y] rowBy_unique[OF exclusiveD(1)[OF inv]] y(2) by metis
qed

lemma exclusive_mark:
  assumes inv: "exclusive (s, A)" and read: "readFor i (markTarget m) s0 = (s0, Inr t)"
    and grounds: "markGrounds m i (s, A)" and calm: "\<not> markOvertaken i t s"
  shows "exclusive (fst (markWrite cfg m t s), A)"
proof (rule not_overtaken[OF inv calm])
  fix y assume y: "findSettlement i s = Some y" "s_id y = s_id t" "s_status y = s_status t" "y \<in> set (settlements s)"
    "rowBy s_id (s_id t) (settlements s) = Some y"
  have can: "canSettlement (s_status y) (markTarget m)" using readFor_returns(3)[OF read] y(3) by simp
  note g = exclusiveD(6)[OF inv y(4)]
  have own: "z = y" if "rowBy s_id i (settlements s) = Some z" for z
    using findSettlement_id[OF exclusiveD(3)[OF inv] y(1) that] by simp
  have new: "guarded A s (markRow m y)"
  proof (cases m)
    case (ToSubmitted now h)
    then obtain z where "rowBy s_id i (settlements s) = Some z" using grounds exclusiveD(5)[OF inv, of i] by auto
    with own rowBy_SomeD[OF this] have "s_id y = i" by simp
    with ToSubmitted grounds g can can_targets(2)[of "s_status y"] show ?thesis by (auto simp: guarded_def)
  next
    case (ToCompleted now l)
    with grounds own have "truthy (s_hash y)" by auto
    with ToCompleted g can can_targets(5)[of "s_status y"] show ?thesis by (auto simp: guarded_def completedRow_def)
  qed (use g can can_targets(3,4)[of "s_status y"] in \<open>auto simp: guarded_def\<close>)
  let ?s1 = "fst (markWrite cfg m t s)"
  note w = markWrite_settlements[of cfg m t s]
  from w(2) show "exclusive (?s1, A)"
  proof
    assume "settlements ?s1 = settlements s"
    from exclusive_quiet[OF this w(1) inv] show ?thesis .
  next
    assume tab: "settlements ?s1 = setBy s_id (s_id t) (markRow m) (settlements s)"
    have ids: "s_id (markRow m z) = s_id z" "s_settlementId (markRow m z) = s_settlementId z" for z
      by (cases m; simp add: completedRow_def)+
    show ?thesis
      by (rule exclusive_setRow[OF inv tab w(1) ids]) (use new y(5) in auto)
  qed
qed

text \<open>Refunds: opening one on what was read, and the writes to a refund that has not ended.\<close>

lemma openRefund_settlements: "settlements (fst (inTransaction (openRefund u x r) s)) = settlements s"
proof (cases "snd (inTransaction (openRefund u x r) s)")
  case (Inl err)
  then have "inTransaction (openRefund u x r) s = (fst (inTransaction (openRefund u x r) s), Inl err)" by (simp add: prod_eq_iff)
  from inTransaction_throws[OF this] show ?thesis by simp
next
  case (Inr v)
  then have "inTransaction (openRefund u x r) s = (fst (inTransaction (openRefund u x r) s), Inr v)" by (simp add: prod_eq_iff)
  then have "openRefund u x r s = (fst (inTransaction (openRefund u x r) s), Inr v)" unfolding inTransaction_Inr .
  then show ?thesis by (auto simp: openRefund_def ops insertRefund_def setOrder_def split: if_splits)
qed

lemma exclusive_openRefund:
  assumes inv: "exclusive (s, A)" and plan: "refundPlan e u inp adm hdr s0 = Inr (Inr (x, r))"
    and calm: "\<not> planOvertaken x s0 s"
  shows "exclusive (fst (inTransaction (openRefund u x r) s), A)"
proof (cases rule: openRefund_cases[of u x r s])
  case Refused
  from exclusive_quiet[OF openRefund_settlements Refused(1) inv] show ?thesis .
next
  case Opened
  let ?s1 = "fst (inTransaction (openRefund u x r) s)"
  note d = exclusiveD[OF inv] and st = openRefund_settlements[of u x r s]
  from refundPlan_new[OF plan] obtain p a where free: "refundRefused u adm x s0 = None" and r: "r = newRefund e u inp (refundKey e inp hdr) x p a"
    by metis
  have no: "\<not> blocksRefund (s_status t)" if "t \<in> set (settlements s)" "s_orderId t = o_id x" for t
  proof -
    have "(s_id t, s_status t) \<in> set (map (\<lambda>t. (s_id t, s_status t)) (settlementsOf (o_id x) s))"
      using that by (auto simp: settlementsOf_def)
    also have "\<dots> = set (map (\<lambda>t. (s_id t, s_status t)) (settlementsOf (o_id x) s0))"
      using calm by (simp add: planOvertaken_def)
    finally obtain t0 where "t0 \<in> set (settlementsOf (o_id x) s0)" "s_status t0 = s_status t" by auto
    then show ?thesis using free by (auto simp: refundRefused_def split: if_splits)
  qed
  have "guarded A ?s1 t" if "t \<in> set (settlements s)" for t
  proof (cases "s_orderId t = o_id x")
    case True
    have "s_status t = S_PENDING \<or> s_status t = S_FAILED"
      using no[OF that True] by (cases "s_status t") (simp_all add: blocksRefund_def)
    with d(6)[OF that] show ?thesis by (auto simp: guarded_def)
  next
    case False
    have "r_orderId r = o_id x" by (simp add: r newRefund_def)
    with False d(6)[OF that] show ?thesis by (auto simp: guarded_def activeRefund_def Opened(1))
  qed
  moreover have "separated ?s1"
    using d(1,2,4) Opened(3) by (simp add: separated_def Opened(1) st rows)
  ultimately show ?thesis using d(5) by (simp add: exclusive_def st)
qed

lemma exclusive_touched:
  assumes inv: "exclusive (s, A)" and st: "settlements s1 = settlements s" and t: "touches rid s s1"
    and row: "refunds s1 = refunds s \<or> (\<exists>r. rowBy r_id rid (refunds s) = Some r \<and> \<not> isTerminalRefund (r_status r))"
  shows "exclusive (s1, A)"
proof (cases "refunds s1 = refunds s")
  case True
  from exclusive_quiet[OF st True inv] show ?thesis .
next
  case False
  then obtain r where r: "rowBy r_id rid (refunds s) = Some r" "\<not> isTerminalRefund (r_status r)" using row by blast
  obtain f where f: "refunds s1 = setBy r_id rid f (refunds s)" "\<And>y. r_id (f y) = r_id y" "\<And>y. r_orderId (f y) = r_orderId y"
    using t unfolding touches_def by blast
  have u: "unique_by r_id (refunds s)" using exclusiveD(2)[OF inv] .
  have cnt: "countsAsRefund (r_status r)"
    using r(2) by (cases "r_status r") (simp_all add: countsAsRefund_def isTerminalRefund_def)
  have less: "activeRefund i s1 \<Longrightarrow> activeRefund i s" for i
  proof -
    assume "activeRefund i s1"
    then obtain q where q: "q \<in> set (setBy r_id rid f (refunds s))" "r_orderId q = i" "countsAsRefund (r_status q)"
      by (auto simp: activeRefund_def f(1))
    from in_setBy[OF q(1)] show "activeRefund i s"
    proof
      assume "\<exists>r0 \<in> set (refunds s). r_id r0 = rid \<and> q = f r0"
      then obtain r0 where r0: "r0 \<in> set (refunds s)" "r_id r0 = rid" "q = f r0" by blast
      then have "r0 = r" using rowBy_unique[OF u r0(1)] r(1) by simp
      with r0 q(2) f(3) cnt show ?thesis by (auto simp: activeRefund_def)
    qed (use q(2,3) in \<open>auto simp: activeRefund_def\<close>)
  qed
  have "guarded A s1 t" if "t \<in> set (settlements s)" for t
    using exclusiveD(6)[OF inv that] less[of "s_orderId t"] by (auto simp: guarded_def)
  moreover have "separated s1"
    using exclusiveD(1,2,4)[OF inv] by (auto simp: separated_def st f(1,2) rows)
  ultimately show ?thesis using exclusiveD(5)[OF inv] by (simp add: exclusive_def st)
qed

lemma refund_writes_settlements [simp]:
  "settlements (fst (updateRefund rid f s)) = settlements s"
  "settlements (fst (markPaymentRefunded pid s)) = settlements s"
  "settlements (fst (moveOrder i a b s)) = settlements s"
  "settlements (fst (releaseReservation cfg i st s)) = settlements s"
  by (auto simp: updateRefund_def setRefund_def markPaymentRefunded_def setPayment_def moveOrder_def setOrder_def ops
      releaseReservation_def releaseReservationInTx_def Let_def rollback_def split: option.splits sum.splits)

lemma executeClaim_settlements: "settlements (fst (executeClaim g s)) = settlements s"
  by (auto simp: executeClaim_def Let_def setRefund_def split: refund_gate.splits option.splits sum.splits)

lemma executeSettle_settlements: "settlements (fst (executeSettle cfg now actor c resp s)) = settlements s"
proof -
  have tx: "settlements (fst (inTransaction b s)) = settlements s"
    if "settlements (fst (b s)) = settlements s" for b :: "refund op" and s
    using that by (cases "b s") (auto simp: inTransaction_eq split: sum.splits)
  have ok: "settlements (fst (refundSucceeded now c resp s)) = settlements s"
    by (cases c) (simp add: refundSucceeded_def andThen_eq split: sum.splits)
  have no: "settlements (fst (refundFailed now c resp s)) = settlements s"
    by (cases c) (simp add: refundFailed_def andThen_eq split: sum.splits)
  show ?thesis
    using tx[of "refundSucceeded now c resp", OF ok] tx[of "refundFailed now c resp", OF no]
    by (simp add: executeSettle_def andThen_eq refundAmbiguous_def refundAudit_def split: sum.splits)
qed

lemma executeClaim_touches:
  assumes "\<not> isTerminalRefund (r_status (fst c))"
  shows "touches (r_id (fst c)) s (fst (executeClaim (Go c) s))"
    and "refunds (fst (executeClaim (Go c) s)) = refunds s
      \<or> (\<exists>q. rowBy r_id (r_id (fst c)) (refunds s) = Some q \<and> \<not> isTerminalRefund (r_status q))"
proof -
  obtain r x p where c: "c = (r, x, p)" by (cases c)
  have "touches (r_id r) s (fst (executeClaim (Go c) s))
      \<and> (fst (executeClaim (Go c) s) = s \<or> (\<exists>q. rowBy r_id (r_id r) (refunds s) = Some q \<and> \<not> isTerminalRefund (r_status q)))"
    using assms touches_claim[of "r_id r" s R_PROCESSING] touches_same[of s s "r_id r"]
    by (auto simp: executeClaim_def Let_def c split: option.splits sum.splits if_splits)
  then show "touches (r_id (fst c)) s (fst (executeClaim (Go c) s))"
    and "refunds (fst (executeClaim (Go c) s)) = refunds s
      \<or> (\<exists>q. rowBy r_id (r_id (fst c)) (refunds s) = Some q \<and> \<not> isTerminalRefund (r_status q))"
    by (auto simp: c)
qed

lemma claimed_processing:
  assumes "executeClaim (Go c0) s0 = (s2, Inr (Go c))"
  shows "r_status (fst c) = R_PROCESSING" and "rowBy r_id (r_id (fst c)) (refunds s2) = Some (fst c)"
proof -
  obtain r x p where c0: "c0 = (r, x, p)" by (cases c0)
  obtain now where now: "rowBy r_id (r_id r) (refunds s0) = Some now"
    using assms by (auto simp: executeClaim_def c0 split: option.splits)
  have s2: "s2 = setRefund (r_id r) (\<lambda>y. y\<lparr>r_status := R_PROCESSING\<rparr>) s0" and l: "loadRefund (r_id r) s2 = Inr (Some c)"
    using assms now by (auto simp: executeClaim_def c0 Let_def split: if_splits sum.splits option.splits)
  obtain r1 x1 p1 where c: "c = (r1, x1, p1)" by (cases c)
  note row = loadRefund_row[OF l[unfolded c]]
  have "r1 = now\<lparr>r_status := R_PROCESSING\<rparr>" using row(1) now by (simp add: s2 setRefund_def rows)
  with row show "r_status (fst c) = R_PROCESSING" and "rowBy r_id (r_id (fst c)) (refunds s2) = Some (fst c)" by (simp_all add: c)
qed

lemma exclusive_approve:
  assumes inv: "exclusive (s, A)" and row: "rowBy s_id i (settlements s) = Some t" "s_status t \<noteq> S_PENDING"
    and free: "\<not> activeRefund (s_orderId t) s"
  shows "exclusive (s, insert i A)"
proof -
  note d = exclusiveD[OF inv]
  have t: "t \<in> set (settlements s)" "s_id t = i" using rowBy_SomeD[OF row(1)] by auto
  have "guarded (insert i A) s z" if "z \<in> set (settlements s)" for z
  proof (cases "s_id z = i")
    case True
    then have "z = t" using same_row[OF d(1) that t(1)] t(2) by simp
    with d(6)[OF that] row(2) free t(2) show ?thesis by (simp add: guarded_def)
  next
    case False
    with d(6)[OF that] show ?thesis by (simp add: guarded_def)
  qed
  with d(3,5) row(1) show ?thesis by (auto simp: exclusive_def)
qed

lemma act_keeps: "act k cfg late c c1 \<Longrightarrow> \<not> late \<Longrightarrow> exclusive c \<Longrightarrow> exclusive c1"
proof (induction rule: act.induct)
  case (Quiet s1 s A)
  show ?case by (rule exclusive_quiet; fact)
next
  case (Insert t s s1 A)
  show ?case by (rule exclusive_insert; fact)
next
  case (Claim i s0 t s A)
  show ?case by (rule exclusive_claim[OF Claim(3) readFor_returns(3)[OF Claim(1)]])
next
  case (Approve i s t A)
  show ?case by (rule exclusive_approve; fact)
next
  case (Mark i m s0 t s A)
  show ?case by (rule exclusive_mark; fact)
next
  case (OpenRefund e u inp adm hdr s0 x r s A)
  show ?case by (rule exclusive_openRefund; fact)
next
  case (ClaimRefund rid owned s0 c s A)
  note nt = executeRead_go(4)[OF ClaimRefund(1)]
  show ?case
    by (rule exclusive_touched[OF ClaimRefund(3) executeClaim_settlements executeClaim_touches[OF nt]])
next
  case (SettleRefund c0 s0 s2 c s A now actor resp)
  from SettleRefund(2) have "\<exists>q. rowBy r_id (r_id (fst c)) (refunds s) = Some q \<and> r_status q = R_PROCESSING"
    using claimed_processing(1)[OF SettleRefund(1)] by (auto simp: answerOvertaken_def)
  then have row: "refunds (fst (executeSettle cfg now actor c resp s)) = refunds s
      \<or> (\<exists>q. rowBy r_id (r_id (fst c)) (refunds s) = Some q \<and> \<not> isTerminalRefund (r_status q))"
    by (auto simp: isTerminalRefund_def)
  show ?case
    by (rule exclusive_touched[OF SettleRefund(3) executeSettle_settlements executeSettle_touches row])
qed

abbreviation move :: "'x sdk \<Rightarrow> config \<Rightarrow> sys \<times> id set \<Rightarrow> sys \<times> id set \<Rightarrow> bool" where
  "move k cfg \<equiv> act k cfg False"

lemma moves_keep: "(move k cfg)\<^sup>*\<^sup>* c c1 \<Longrightarrow> exclusive c \<Longrightarrow> exclusive c1"
  by (induction rule: rtranclp_induct) (auto intro: act_keeps)

lemma exclusive_start: "settlements s = [] \<Longrightarrow> refunds s = [] \<Longrightarrow> exclusive (s, {})"
  by (simp add: exclusive_def separated_def unique_by_def)

text \<open>
  What a step rests on stays true, overtaken or not: a row keeps its order and its hash, and never is PENDING
  again. So it does not matter when an operation saw a hash or signed, only that it did before.
\<close>

definition outlives :: "settlement \<Rightarrow> settlement \<Rightarrow> bool" where
  "outlives y z \<longleftrightarrow> s_orderId z = s_orderId y \<and> (truthy (s_hash y) \<longrightarrow> truthy (s_hash z))
     \<and> (s_status y \<noteq> S_PENDING \<longrightarrow> s_status z \<noteq> S_PENDING)"

lemma outlives_setBy:
  assumes "rowBy s_id i (settlements s) = Some y" and "settlements s1 = setBy s_id j f (settlements s)"
    and "\<And>z. s_id (f z) = s_id z" and "\<And>z. outlives z (f z)"
  shows "\<exists>z. rowBy s_id i (settlements s1) = Some z \<and> outlives y z"
  using assms by (cases "i = j") (auto simp: rows outlives_def)

lemma act_outlives:
  "act k cfg late c c1 \<Longrightarrow> snd c \<subseteq> snd c1 \<and> (\<forall>i y. rowBy s_id i (settlements (fst c)) = Some y \<longrightarrow>
     (\<exists>z. rowBy s_id i (settlements (fst c1)) = Some z \<and> outlives y z))"
proof (induction rule: act.induct)
  case (Insert t s s1 A)
  then show ?case by (auto simp: insertSettlement_def rows outlives_def split: if_splits)
next
  case (Claim i s0 t s A)
  have "settlements (fst (claimSubmitting t s)) = settlements s \<or> settlements (fst (claimSubmitting t s)) =
      setBy s_id (s_id t) (\<lambda>y. y\<lparr>s_status := S_SUBMITTING, s_attemptCount := s_attemptCount y + 1\<rparr>) (settlements s)"
    by (auto simp: claimSubmitting_def andThen_eq updateSettlement_def logged_def split: option.splits)
  then show ?case
    using outlives_setBy[of _ s _ "fst (claimSubmitting t s)" "s_id t"
        "\<lambda>y. y\<lparr>s_status := S_SUBMITTING, s_attemptCount := s_attemptCount y + 1\<rparr>"]
    by (auto simp: outlives_def)
next
  case (Mark i m s0 t s A)
  have "outlives z (markRow m z)" "s_id (markRow m z) = s_id z" for z
    using Mark(2) by (cases m; auto simp: outlives_def completedRow_def truthy_iff)+
  then show ?case
    using markWrite_settlements(2)[of cfg m t s] outlives_setBy[of _ s _ "fst (markWrite cfg m t s)" "s_id t" "markRow m"]
    by (auto simp: outlives_def)
qed (auto simp: outlives_def openRefund_settlements executeClaim_settlements executeSettle_settlements)

end
