(* ===== verification/Payouts.thy ===== *)
theory Payouts
  imports Interleavings
begin

text \<open>
  The operations of workers, daemons and refunds as runs of the steps of \<open>Interleavings\<close>; what the worker
  needs of its executor; and the claims about paying out or refunding.
\<close>

subsection \<open>An operation that nothing comes into\<close>

lemma mark_moves:
  assumes "markGrounds m i (s, A)"
  shows "move k cfg (s, A) (fst (andThen (readFor i (markTarget m)) (markWrite cfg m) s), A)"
proof -
  obtain s0 r where read: "readFor i (markTarget m) s = (s0, r)" by fastforce
  have s0: "s0 = s" using readFor_state[of i "markTarget m" s] read by simp
  show ?thesis
  proof (cases r)
    case (Inl e)
    then show ?thesis using read s0 by (simp add: andThen_eq act.Quiet)
  next
    case (Inr t)
    have "findSettlement i s = Some t" using readFor_returns(2) read Inr by blast
    then have "\<not> markOvertaken i t s" by (simp add: markOvertaken_def)
    moreover have "act k cfg (markOvertaken i t s) (s, A) (fst (markWrite cfg m t s), A)"
      using read s0 Inr assms by (intro act.Mark) simp_all
    ultimately show ?thesis using read s0 Inr by (simp add: andThen_eq)
  qed
qed

lemma move_Submitted: "i \<in> A \<Longrightarrow> h \<noteq> [] \<Longrightarrow> move k cfg (s, A) (fst (markSubmitted now i h s), A)"
  using mark_moves[of "ToSubmitted now h" i s A k cfg] by (simp add: mark_is_read_write(1)[of now i h cfg])

lemma move_Confirming: "move k cfg (s, A) (fst (markConfirming i s), A)"
  using mark_moves[of ToConfirming i s A k cfg] by (simp add: mark_is_read_write(2)[of i cfg])

lemma move_Completed: "rowBy s_id i (settlements s) = Some t \<Longrightarrow> truthy (s_hash t) \<Longrightarrow>
    move k cfg (s, A) (fst (markCompleted cfg now i l s), A)"
  using mark_moves[of "ToCompleted now l" i s A k cfg] by (simp add: mark_is_read_write(3))

lemma move_Failed: "move k cfg (s, A) (fst (markFailed i msg s), A)"
  using mark_moves[of "ToFailed msg" i s A k cfg] by (simp add: mark_is_read_write(4)[of i msg cfg])

lemma move_Reconcile: "move k cfg (s, A) (fst (markRequiresReconciliation i msg s), A)"
  using mark_moves[of "ToReconcile msg" i s A k cfg] by (simp add: mark_is_read_write(5)[of i msg cfg])

lemma move_Approve: "rowBy s_id i (settlements s) = Some t \<Longrightarrow> s_status t \<noteq> S_PENDING \<Longrightarrow>
    o_id x = s_orderId t \<Longrightarrow> payable k' cfg' now s x y \<Longrightarrow> move k cfg (s, A) (s, insert i A)"
  by (rule act.Approve) (auto simp: payable_def)

subsection \<open>The operations are runs of steps\<close>

abbreviation runs :: "'x sdk \<Rightarrow> config \<Rightarrow> sys \<times> id set \<Rightarrow> sys \<times> id set \<Rightarrow> bool" where
  "runs k cfg \<equiv> (move k cfg)\<^sup>*\<^sup>*"

lemma runs_quiet: "settlements s1 = settlements s \<Longrightarrow> refunds s1 = refunds s \<Longrightarrow> runs k cfg (s, A) (s1, A)"
  by (rule r_into_rtranclp) (rule act.Quiet)

lemma runs_audits: "auditsOnly s s1 \<Longrightarrow> runs k cfg (s, A) (s1, A)"
  using auditsOnly_tables[of s s1] by (intro runs_quiet) simp_all

definition freshIds :: "settlement_env \<Rightarrow> sys \<Rightarrow> id set \<Rightarrow> bool" where
  "freshIds te s A \<longleftrightarrow> te_id te \<noteq> te_settlementId te \<and> te_id te \<notin> A
     \<and> (\<forall>y \<in> set (settlements s). te_id te \<noteq> s_settlementId y \<and> te_settlementId te \<noteq> s_id y)"

lemma newSettlement_apart: "freshIds te s A \<Longrightarrow> idsApart (newSettlement cfg te x) s \<and> s_id (newSettlement cfg te x) \<notin> A
    \<and> s_status (newSettlement cfg te x) = S_PENDING \<and> s_hash (newSettlement cfg te x) = None"
  by (auto simp: freshIds_def idsApart_def newSettlement_def)

lemma insertSettlement_cases:
  obtains "insertSettlement t s = (s, Inl PrismaP2002)" | "insertSettlement t s = (s\<lparr>settlements := settlements s @ [t]\<rparr>, Inr ())"
  using that unfolding insertSettlement_def by (meson if_P if_not_P)

lemma create_runs:
  assumes fresh: "freshIds te s A"
  shows "runs k cfg (s, A) (fst (createSettlementForOrder cfg te orderId actor s), A)"
proof -
  obtain s0 r where read: "settlementRead cfg te orderId s = (s0, r)" by fastforce
  have s0: "s0 = s" using read by (auto simp: settlementRead_def split: option.splits if_splits)
  show ?thesis
  proof (cases r)
    case (Inl e)
    then show ?thesis using read s0 by (simp add: createSettlementForOrder_def andThen_eq)
  next
    case (Inr found)
    show ?thesis
    proof (cases found)
      case (Inl t)
      then show ?thesis using read s0 Inr by (simp add: createSettlementForOrder_def andThen_eq settlementWrite_def)
    next
      case new: (Inr t)
      obtain x where t: "t = newSettlement cfg te x" using settlementRead_new(2) read s0 Inr new by blast
      note apart = newSettlement_apart[OF fresh, of cfg x, folded t]
      show ?thesis
      proof (cases rule: insertSettlement_cases[of t s])
        case 1
        then show ?thesis
          using read s0 Inr new
          by (simp add: createSettlementForOrder_def andThen_eq settlementWrite_def catching_eq split: option.splits)
      next
        case 2
        let ?s1 = "s\<lparr>settlements := settlements s @ [t]\<rparr>"
        have "move k cfg (s, A) (?s1, A)" using 2 apart by (intro act.Insert[of t]) simp_all
        moreover have "fst (createSettlementForOrder cfg te orderId actor s) =
            auditLog (Some (orDefault actor (s_userId t))) (Some (s_userId t)) ''SETTLEMENT_CREATED'' ''Settlement'' (Some (s_id t)) ?s1"
          using read s0 Inr new 2
          by (simp add: createSettlementForOrder_def andThen_eq settlementWrite_def catching_eq)
        ultimately show ?thesis
          by (simp only:) (rule converse_rtranclp_into_rtranclp, assumption, rule runs_audits, simp)
      qed
    qed
  qed
qed

lemma markWith_row:
  assumes "markWith i target f action s = (s1, Inr y)" and "\<And>z. s_id (f z) = s_id z"
  shows "rowBy s_id (s_id y) (settlements s1) = Some y \<and> (\<exists>z. y = f z)"
proof (cases rule: markWith_cases[of i target f action s])
  case 1
  with assms show ?thesis by simp
next
  case (2 t now)
  with assms rowBy_SomeD[OF 2(3)] show ?thesis by (auto simp: rows)
qed

lemma claim_row:
  assumes "claimSubmitting t s = (s1, Inr y)"
  shows "rowBy s_id (s_id y) (settlements s1) = Some y \<and> s_status y = S_SUBMITTING"
proof -
  obtain now where now: "rowBy s_id (s_id t) (settlements s) = Some now"
    using assms by (auto simp: claimSubmitting_def split: option.splits)
  then have "s_id now = s_id t" using rowBy_SomeD by fastforce
  with assms now show ?thesis
    by (auto simp: claimSubmitting_def andThen_eq updateSettlement_def logged_def rows split: if_splits)
qed

lemma markSubmitting_runs:
  "runs k cfg (s, A) (fst (markSubmitting i s), A)"
  and markSubmitting_row: "markSubmitting i s = (s1, Inr y) \<Longrightarrow>
    rowBy s_id (s_id y) (settlements s1) = Some y \<and> s_status y = S_SUBMITTING"
proof -
  obtain s0 r where read: "readFor i S_SUBMITTING s = (s0, r)" by fastforce
  have s0: "s0 = s" using readFor_state[of i S_SUBMITTING s] read by simp
  show "runs k cfg (s, A) (fst (markSubmitting i s), A)"
  proof (cases r)
    case (Inr t)
    have "move k cfg (s, A) (fst (claimSubmitting t s), A)"
      using read[unfolded Inr s0] by (rule act.Claim)
    then show ?thesis using read s0 Inr by (simp add: markSubmitting_def andThen_eq)
  qed (use read s0 in \<open>simp add: markSubmitting_def andThen_eq\<close>)
  assume "markSubmitting i s = (s1, Inr y)"
  then show "rowBy s_id (s_id y) (settlements s1) = Some y \<and> s_status y = S_SUBMITTING"
    using read s0 by (cases r) (auto simp: markSubmitting_def andThen_eq dest: claim_row)
qed

lemma fst_onSys [simp]: "w_sys (fst (onSys f w)) = fst (f (w_sys w))" "snd (onSys f w) = snd (f (w_sys w))"
  "w_sent (fst (onSys f w)) = w_sent w"
  by (simp_all add: onSys_eq)

lemma confirmStep_runs:
  assumes "rowBy s_id (s_id t) (settlements (w_sys w)) = Some t"
  shows "runs k cfg (w_sys w, A) (w_sys (fst (confirmStep cfg ex we t w)), A)"
proof (cases "s_status t = S_CONFIRMING \<and> truthy (s_hash t)")
  case True
  let ?cf = "ex_confirm ex (the (s_hash t))"
  show ?thesis
  proof (cases "cf_confirmed ?cf \<and> cf_ledger ?cf \<noteq> None")
    case ok: True
    have "move k cfg (w_sys w, A) (fst (markCompleted cfg (wk_completedAt we) (s_id t) (the (cf_ledger ?cf)) (w_sys w)), A)"
      using assms True by (intro move_Completed) auto
    then show ?thesis using True ok by (auto simp: confirmStep_def Let_def andThen_eq split: sum.splits)
  next
    case False
    let ?m = "markRequiresReconciliation (s_id t) (orDefault (cf_error ?cf) ''Settlement confirmation failed'')"
    have "w_sys (fst (confirmStep cfg ex we t w)) = fst (?m (w_sys w))"
      unfolding confirmStep_def Let_def if_P[OF True] if_not_P[OF False] by (simp add: andThen_eq split: sum.splits)
    then show ?thesis using move_Reconcile by (simp only:) (rule r_into_rtranclp, rule move_Reconcile)
  qed
next
  case False
  then show ?thesis by (auto simp: confirmStep_def)
qed

lemma flowConfirm_runs:
  assumes row: "rowBy s_id (s_id t) (settlements (w_sys w)) = Some t"
  shows "runs k cfg (w_sys w, A) (w_sys (fst (flowConfirm cfg ex we t w)), A)"
proof (cases "s_status t = S_SUBMITTED")
  case True
  obtain s1 r where m: "markConfirming (s_id t) (w_sys w) = (s1, r)" by fastforce
  have first: "move k cfg (w_sys w, A) (s1, A)" using move_Confirming[of k cfg "w_sys w" A "s_id t"] m by simp
  show ?thesis
  proof (cases r)
    case (Inl e)
    then show ?thesis using True m first by (auto simp: flowConfirm_def andThen_eq onSys_eq)
  next
    case (Inr y)
    have "rowBy s_id (s_id y) (settlements s1) = Some y"
      using markWith_row[OF m[unfolded Inr markConfirming_def]] by simp
    then have "runs k cfg (s1, A) (w_sys (fst (confirmStep cfg ex we y (w\<lparr>w_sys := s1\<rparr>))), A)"
      using confirmStep_runs[of y "w\<lparr>w_sys := s1\<rparr>"] by simp
    with first show ?thesis
      using True m Inr by (auto simp: flowConfirm_def andThen_eq onSys_eq intro: converse_rtranclp_into_rtranclp)
  qed
next
  case False
  then show ?thesis using confirmStep_runs[OF row] by (simp add: flowConfirm_def)
qed

subsection \<open>What the worker needs of its executor\<close>

text \<open>
  \<open>settlement_executor\<close> is the interface: a submission leaves the tables alone. An
  \<open>approved_executor\<close> answers with a hash only for an order the policy would pay at that moment.
\<close>

locale settlement_executor =
  fixes ex :: executor
  assumes submit_audits: "auditsOnly (w_sys w) (w_sys (fst (ex_submit ex p w)))"
begin

lemma submit_tables:
  "settlements (w_sys (fst (ex_submit ex p w))) = settlements (w_sys w)"
  "refunds (w_sys (fst (ex_submit ex p w))) = refunds (w_sys w)"
  "orders (w_sys (fst (ex_submit ex p w))) = orders (w_sys w)"
  using auditsOnly_tables[OF submit_audits[of w p]] by simp_all

end

locale approved_executor = settlement_executor +
  fixes k :: "'x sdk" and cfg :: config and now :: time
  assumes approved: "truthy (su_hash (snd (ex_submit ex p w))) \<Longrightarrow>
    \<exists>x y. o_id x = sp_orderId p \<and> payable k cfg now (w_sys w) x y"
begin

lemma afterSubmit_runs:
  assumes row: "rowBy s_id (s_id t) (settlements (w_sys w)) = Some t" "s_status t \<noteq> S_PENDING"
    and sub: "ex_submit ex (submitParams k own t) w = (w1, r)"
  shows "\<exists>A1. runs k cfg (w_sys w, A) (w_sys (fst (afterSubmit tm lost t r w1)), A1)
    \<and> (\<forall>y. snd (afterSubmit tm lost t r w1) = Inr (Inr y) \<longrightarrow>
         rowBy s_id (s_id y) (settlements (w_sys (fst (afterSubmit tm lost t r w1)))) = Some y)"
proof (cases lost)
  case (Some err)
  have "runs k cfg (w_sys w, A) (w_sys w1, A)" using submit_audits[of w "submitParams k own t"] sub by (simp add: runs_audits)
  moreover have "w_sys (fst (afterSubmit tm lost t r w1)) = w_sys w1" "snd (afterSubmit tm lost t r w1) \<noteq> Inr (Inr y)" for y
    by (auto simp: Some afterSubmit_def Let_def andThen_eq onSys_eq split: sum.splits prod.splits)
  ultimately show ?thesis by auto
next
  case None
  show ?thesis
  proof (cases "\<not> su_submitted r \<or> \<not> truthy (su_hash r)")
  case True
  let ?err = "orDefault (su_error r) ''Settlement submission failed''"
  let ?m = "if permanentError ?err then markFailed (s_id t) ?err else markRequiresReconciliation (s_id t) ?err"
  have "move k cfg (w_sys w1, A) (fst (?m (w_sys w1)), A)" by (simp add: move_Failed move_Reconcile)
  moreover have "runs k cfg (w_sys w, A) (w_sys w1, A)" using submit_audits[of w "submitParams k own t"] sub by (simp add: runs_audits)
  moreover have "w_sys (fst (afterSubmit tm lost t r w1)) = fst (?m (w_sys w1))"
    and "snd (afterSubmit tm lost t r w1) \<noteq> Inr (Inr y)" for y
    unfolding afterSubmit_def Let_def if_P[OF True] None written_None by (simp_all add: andThen_eq split: sum.splits)
  ultimately show ?thesis by (intro exI[of _ A]) (auto intro: rtranclp.rtrancl_into_rtrancl)
next
  case False
  then obtain h where h: "su_hash r = Some h" "h \<noteq> []" by (auto simp: truthy_iff)
  obtain x y where x: "o_id x = s_orderId t" "payable k cfg now (w_sys w) x y"
    using approved[of "submitParams k own t" w] sub h by (auto simp: submitParams_def)
  let ?A = "insert (s_id t) A"
  obtain s1 q where m: "markSubmitted tm (s_id t) h (w_sys w1) = (s1, q)" by fastforce
  have "move k cfg (w_sys w, A) (w_sys w, ?A)" using row x by (rule move_Approve)
  moreover have "runs k cfg (w_sys w, ?A) (w_sys w1, ?A)" using submit_audits[of w "submitParams k own t"] sub by (simp add: runs_audits)
  moreover have "move k cfg (w_sys w1, ?A) (s1, ?A)" using move_Submitted[of "s_id t" ?A h k cfg "w_sys w1" tm] h m by simp
  ultimately have "runs k cfg (w_sys w, A) (s1, ?A)"
    by (meson converse_rtranclp_into_rtranclp rtranclp.rtrancl_into_rtrancl)
  moreover have "w_sys (fst (afterSubmit tm lost t r w1)) = s1"
    using False h m by (simp add: None afterSubmit_def andThen_eq onSys_eq split: sum.splits)
  moreover have "rowBy s_id (s_id z) (settlements s1) = Some z" if "snd (afterSubmit tm lost t r w1) = Inr (Inr z)" for z
  proof -
    have z: "q = Inr z" using that False h m by (auto simp: None afterSubmit_def andThen_eq onSys_eq split: sum.splits)
    then show ?thesis using markWith_row[OF m[unfolded markSubmitted_def z]] by simp
  qed
  ultimately show ?thesis by auto
  qed
qed

lemma flow_runs:
  assumes "\<And>y. rowBy s_id (s_id t) (settlements (w_sys w)) = Some y \<Longrightarrow> s_status y \<noteq> S_PENDING"
  shows "\<exists>A1. runs k cfg (w_sys w, A) (w_sys (fst (executeSettlementFlow k cfg ex we own t w)), A1)"
proof (cases "rowBy s_id (s_id t) (settlements (w_sys w))")
  case None
  then show ?thesis by (auto simp: executeSettlementFlow_def)
next
  case (Some y)
  have y: "rowBy s_id (s_id y) (settlements (w_sys w)) = Some y" using Some rowBy_SomeD[OF Some] by simp
  let ?out = "executeSettlementFlow k cfg ex we own t w"
  show ?thesis
  proof (cases "truthy (s_hash y)")
    case True
    then have "w_sys (fst ?out) = w_sys (fst (flowConfirm cfg ex we y w))"
      using Some by (simp add: executeSettlementFlow_def andThen_eq flowSubmit_def)
    then show ?thesis using flowConfirm_runs[OF y, of k cfg A ex we] by auto
  next
    case nohash: False
    show ?thesis
    proof (cases own)
      case False
      then show ?thesis using Some nohash by (auto simp: executeSettlementFlow_def andThen_eq flowSubmit_def)
    next
      case True
      obtain w1 r where sub: "ex_submit ex (submitParams k (wk_ownedAfter we) y) w = (w1, r)" by fastforce
      obtain w2 q where aft: "afterSubmit (wk_submittedAt we) (wk_recordError we) y r w1 = (w2, q)" by fastforce
      from afterSubmit_runs[OF y assms[OF Some] sub, of A "wk_submittedAt we" "wk_recordError we"] obtain A1
        where a: "runs k cfg (w_sys w, A) (w_sys w2, A1)"
          and rowz: "\<And>z. q = Inr (Inr z) \<Longrightarrow> rowBy s_id (s_id z) (settlements (w_sys w2)) = Some z"
        unfolding aft by auto
      have fs: "flowSubmit k ex we own y w = (w2, q)" using nohash True sub aft by (simp add: flowSubmit_def)
      have out: "?out = (case q of Inl e \<Rightarrow> (w2, Inl e)
          | Inr v \<Rightarrow> (case v of Inl st \<Rightarrow> ret st | Inr z \<Rightarrow> flowConfirm cfg ex we z) w2)"
        using Some fs by (simp add: executeSettlementFlow_def andThen_def)
      show ?thesis
      proof (cases "\<exists>z. q = Inr (Inr z)")
        case True
        then obtain z where z: "q = Inr (Inr z)" by blast
        have "runs k cfg (w_sys w2, A1) (w_sys (fst (flowConfirm cfg ex we z w2)), A1)"
          by (rule flowConfirm_runs) (rule rowz[OF z])
        with a show ?thesis by (auto simp: out z intro: rtranclp_trans)
      next
        case False
        then have "w_sys (fst ?out) = w_sys w2" by (auto simp: out split: sum.splits)
        with a show ?thesis by auto
      qed
    qed
  qed
qed

lemma underLock_runs: "\<exists>A1. runs k cfg (w_sys w, A) (w_sys (fst (underLock k cfg ex we stop own t w)), A1)"
proof -
  define c where "c = (case rowBy s_id (s_id t) (settlements (w_sys w)) of Some y \<Rightarrow> y | None \<Rightarrow> t)"
  let ?out = "underLock k cfg ex we stop own t w"
  have u: "?out = (if s_status c = S_PENDING then andThen (onSys (markSubmitting (s_id c))) (\<lambda>y.
          if stop then ret (s_status y) else executeSettlementFlow k cfg ex we own y) w
      else if \<not> stop \<and> s_status c \<in> {S_SUBMITTING, S_SUBMITTED, S_CONFIRMING} then executeSettlementFlow k cfg ex we own c w
      else (w, Inr (s_status c)))"
    by (simp add: underLock_def Let_def c_def)
  consider (pending) "s_status c = S_PENDING"
    | (resume) "s_status c \<noteq> S_PENDING" "\<not> stop" "s_status c \<in> {S_SUBMITTING, S_SUBMITTED, S_CONFIRMING}"
    | (other) "fst ?out = w"
  proof (cases "s_status c \<noteq> S_PENDING \<and> (stop \<or> s_status c \<notin> {S_SUBMITTING, S_SUBMITTED, S_CONFIRMING})")
    case True
    then have "fst ?out = w" unfolding u by auto
    then show thesis by (rule other)
  next
    case False
    then show thesis using pending resume by blast
  qed
  then show ?thesis
  proof cases
    case pending
    obtain s1 r where m: "markSubmitting (s_id c) (w_sys w) = (s1, r)" by fastforce
    have first: "runs k cfg (w_sys w, A) (s1, A)" using markSubmitting_runs[of k cfg "w_sys w" A "s_id c"] m by simp
    show ?thesis
    proof (cases "\<exists>y. r = Inr y \<and> \<not> stop")
      case True
      then obtain y where y: "r = Inr y" "\<not> stop" by blast
      note row = markSubmitting_row[OF m[unfolded y]]
      have "fst ?out = fst (executeSettlementFlow k cfg ex we own y (w\<lparr>w_sys := s1\<rparr>))"
        unfolding u if_P[OF pending] using m y by (simp add: andThen_eq onSys_eq)
      moreover obtain A1 where "runs k cfg (s1, A) (w_sys (fst (executeSettlementFlow k cfg ex we own y (w\<lparr>w_sys := s1\<rparr>))), A1)"
        using flow_runs[of y "w\<lparr>w_sys := s1\<rparr>" A we own] row by auto
      ultimately show ?thesis using first by (auto intro: rtranclp_trans)
    next
      case False
      then have "w_sys (fst ?out) = s1"
        unfolding u if_P[OF pending] using m by (auto simp: andThen_eq onSys_eq split: sum.splits)
      with first show ?thesis by auto
    qed
  next
    case resume
    have "?out = executeSettlementFlow k cfg ex we own c w"
      using resume unfolding u by simp
    moreover have "\<exists>A1. runs k cfg (w_sys w, A) (w_sys (fst (executeSettlementFlow k cfg ex we own c w)), A1)"
    proof (rule flow_runs)
      fix y assume "rowBy s_id (s_id c) (settlements (w_sys w)) = Some y"
      moreover have "rowBy s_id (s_id c) (settlements (w_sys w)) = Some c \<or> rowBy s_id (s_id c) (settlements (w_sys w)) = None"
      proof (cases "rowBy s_id (s_id t) (settlements (w_sys w))")
        case (Some x)
        then show ?thesis using rowBy_SomeD[OF Some] by (simp add: c_def)
      qed (simp add: c_def)
      ultimately have "y = c" by simp
      then show "s_status y \<noteq> S_PENDING" using resume(1) by simp
    qed
    ultimately show ?thesis by simp
  next
    case other
    then show ?thesis by auto
  qed
qed

lemma worker_runs:
  assumes fresh: "freshIds (wk_settlement we) (w_sys w) A"
  shows "\<exists>A1. runs k cfg (w_sys w, A) (w_sys (fst (processSingleOrder k cfg ex we stop i w)), A1)"
proof -
  let ?out = "processSingleOrder k cfg ex we stop i w"
  obtain s1 r where c: "createSettlementForOrder cfg (wk_settlement we) i (Some ''system-worker'') (w_sys w) = (s1, r)"
    by fastforce
  have first: "runs k cfg (w_sys w, A) (s1, A)"
    using create_runs[OF fresh, of k cfg i "Some ''system-worker''"] c by simp
  show ?thesis
  proof (cases "\<exists>t dup own. r = Inr (t, dup) \<and> wk_lock we = Acquired own")
    case True
    then obtain t dup own where t: "r = Inr (t, dup)" "wk_lock we = Acquired own" by blast
    have "w_sys (fst ?out) = w_sys (fst (underLock k cfg ex we stop own t (w\<lparr>w_sys := s1\<rparr>)))"
      using c t by (simp add: processSingleOrder_def andThen_eq onSys_eq split: sum.splits)
    moreover obtain A1 where "runs k cfg (s1, A) (w_sys (fst (underLock k cfg ex we stop own t (w\<lparr>w_sys := s1\<rparr>))), A1)"
      using underLock_runs[of "w\<lparr>w_sys := s1\<rparr>" A we stop own t] by auto
    ultimately show ?thesis using first by (auto intro: rtranclp_trans)
  next
    case False
    then have "w_sys (fst ?out) = s1"
      using c by (cases r) (auto simp: processSingleOrder_def andThen_eq onSys_eq split: lock_outcome.splits)
    with first show ?thesis by auto
  qed
qed

end

text \<open>The executors meet the contracts, the live one the stronger one over its network.\<close>

lemma executeUnderLock_audits: "auditsOnly (w_sys w) (w_sys (fst (executeUnderLock e cfg sg p w)))"
proof -
  obtain w2 b where b: "buildUnsigned e cfg sg p w = (w2, b)" by fastforce
  have w2: "w_sys w2 = w_sys w" using buildUnsigned_frame[of e cfg sg p w] b by simp
  show ?thesis
  proof (cases b)
    case (Inl err)
    then show ?thesis using b w2 by (simp add: executeUnderLock_def andThen_eq)
  next
    case (Inr u)
    obtain w3 y where y: "signTransaction (ce_sdk e) (ce_kms e) cfg (ce_now e) sg (fst u) (snd u) w2 = (w3, y)" by fastforce
    have "auditsOnly (w_sys w) (w_sys w3)"
      using signTransaction_frame[of w2 "ce_sdk e" "ce_kms e" cfg "ce_now e" sg "fst u" "snd u"] y w2 by simp
    then show ?thesis
      using b Inr y by (auto simp: executeUnderLock_def andThen_eq submitSigned_def split: sum.splits option.splits)
  qed
qed

lemma buildAndSubmit_audits: "auditsOnly (w_sys w) (w_sys (fst (buildAndSubmit e cfg given p w)))"
proof -
  have "auditsOnly (w_sys w) (w_sys (fst (executeUnderLock e cfg sg p (fst (getIdentity a b cfg sg w)))))" for sg a b
    using executeUnderLock_audits[of "fst (getIdentity a b cfg sg w)" e cfg sg p] by simp
  then show ?thesis
    by (auto simp: buildAndSubmit_def andThen_eq split: sum.splits lock_outcome.splits)
qed

lemma submissionOf_world [simp]: "fst (submissionOf out) = fst out"
  by (cases out) (auto simp: submissionOf_def split: sum.splits)

lemma submissionOf_hash: "su_hash (snd (submissionOf out)) = Some h \<longleftrightarrow> snd out = Inr h"
  by (cases out) (auto simp: submissionOf_def split: sum.splits)

interpretation live: settlement_executor "liveExecutor e cfg given rpc" for e cfg given rpc
  by unfold_locales (simp add: liveExecutor_def buildAndSubmit_audits)

interpretation soroban: settlement_executor "sorobanExecutor e cfg given rpc n" for e cfg given rpc n
  by unfold_locales (auto simp: sorobanExecutor_def andThen_eq buildAndSubmit_audits split: sum.splits)

interpretation mock: settlement_executor "mockExecutor a b" for a b
  by unfold_locales (simp add: mockExecutor_def)

sublocale chain_client \<subseteq> payer: approved_executor "liveExecutor e cfg given rpc" "ce_sdk e" cfg "ce_now e"
  for cfg given rpc
proof unfold_locales
  fix p w
  assume "truthy (su_hash (snd (ex_submit (liveExecutor e cfg given rpc) p w)))"
  then obtain h where h: "snd (buildAndSubmit e cfg given p w) = Inr h"
    by (auto simp: liveExecutor_def truthy_iff submissionOf_hash)
  obtain w1 r where run: "buildAndSubmit e cfg given p w = (w1, r)" by fastforce
  with buildAndSubmit_cases[OF run] h obtain t where "broadcast e cfg p (w_sys w) t" by auto
  then obtain x y where x: "rowBy o_id (sp_orderId p) (orders (w_sys w)) = Some x"
    and pay: "payable (ce_sdk e) cfg (ce_now e) (w_sys w) x y" by (auto simp: broadcast_def)
  have "o_id x = sp_orderId p" using rowBy_SomeD[OF x] by simp
  with pay show "\<exists>x y. o_id x = sp_orderId p \<and> payable (ce_sdk e) cfg (ce_now e) (w_sys w) x y" by blast
qed

context chain_client
begin

lemma live_runs:
  "freshIds (wk_settlement we) (w_sys w) A \<Longrightarrow> \<exists>A1. runs (ce_sdk e) cfg (w_sys w, A)
     (w_sys (fst (processSingleOrder (ce_sdk e) cfg (liveExecutor e cfg given rpc) we stop i w)), A1)"
  by (rule payer.worker_runs)

end

subsection \<open>Reconciliation as runs\<close>

lemma release_quiet [simp]:
  "refunds (fst (releaseReservation cfg i st s)) = refunds s"
  by (rule release_refunds)

lemma updateOrderStatus_frame [simp]:
  "settlements (fst (updateOrderStatus i st s)) = settlements s" "refunds (fst (updateOrderStatus i st s)) = refunds s"
  by (auto simp: updateOrderStatus_def setOrder_def)

lemma giveUp_runs: "runs k cfg (s, A) (fst (giveUp cfg t msg s), A)"
proof -
  obtain s1 r where m: "markFailed (s_id t) msg s = (s1, r)" by fastforce
  have first: "move k cfg (s, A) (s1, A)" using move_Failed[of k cfg s A "s_id t" msg] m by simp
  have "settlements (fst (giveUp cfg t msg s)) = settlements s1 \<and> refunds (fst (giveUp cfg t msg s)) = refunds s1"
    by (cases r) (auto simp: giveUp_def andThen_eq m split: sum.splits)
  then have "runs k cfg (s1, A) (fst (giveUp cfg t msg s), A)" by (intro runs_quiet) simp_all
  with first show ?thesis by (rule converse_rtranclp_into_rtranclp)
qed

lemma runs_then_audit:
  assumes "runs k cfg c (fst (f s), A)"
  shows "runs k cfg c (fst (andThen f (\<lambda>x s. (reconciliationAudit a t s, g x)) s), A)"
proof (cases "snd (f s)")
  case (Inr x)
  have "runs k cfg (fst (f s), A) (reconciliationAudit a t (fst (f s)), A)"
    by (intro runs_audits) (simp add: reconciliationAudit_def)
  with assms Inr show ?thesis by (simp add: andThen_eq)
qed (use assms in \<open>simp add: andThen_eq\<close>)

lemma reconcile_runs: "runs k cfg (s, A) (fst (reconcileSingleSettlement cfg now rpc hours i s), A)"
proof (cases "rowBy s_id i (settlements s)")
  case None
  then show ?thesis by (simp add: reconcileSingleSettlement_def)
next
  case (Some t)
  have id: "s_id t = i" using rowBy_SomeD[OF Some] by simp
  have recon: "runs k cfg (s, A) (fst (markRequiresReconciliation j msg s), A)" for j msg
    by (rule r_into_rtranclp) (rule move_Reconcile)
  show ?thesis
  proof (cases "truthy (s_hash t)")
    case False
    have "runs k cfg (s, A) (fst (reconcileWithoutHash cfg now hours t s), A)"
    proof (cases "tooOld now hours t")
      case old: True
      show ?thesis unfolding reconcileWithoutHash_def if_P[OF old] by (rule runs_then_audit) (rule giveUp_runs)
    next
      case young: False
      show ?thesis unfolding reconcileWithoutHash_def if_not_P[OF young] by (rule runs_then_audit) (rule recon)
    qed
    then show ?thesis using Some False by (simp add: reconcileSingleSettlement_def)
  next
    case True
    have compl: "runs k cfg (s, A) (fst (markCompleted cfg now (s_id t) l s), A)" for l
      using Some True id by (intro r_into_rtranclp move_Completed) auto
    have give: "runs k cfg (s, A) (fst (andThen (giveUp cfg t msg) (\<lambda>f. ret (g f)) s), A)" for msg and g :: "settlement \<Rightarrow> reconciled"
      using giveUp_runs[of k cfg s A t msg] by (simp add: andThen_eq split: sum.splits)
    have "runs k cfg (s, A) (fst (reconcileByChain cfg now answer hours t s), A)" for answer
    proof (cases "sr_status (getTransactionStatus answer)")
      case TX_PENDING
      then show ?thesis by (simp add: reconcileByChain_def Let_def)
    next
      case TX_SUCCESS
      show ?thesis unfolding reconcileByChain_def Let_def TX_SUCCESS tx_status.case by (rule runs_then_audit) (rule compl)
    next
      case TX_FAILED
      show ?thesis unfolding reconcileByChain_def Let_def TX_FAILED tx_status.case by (rule runs_then_audit) (rule giveUp_runs)
    next
      case TX_NOT_FOUND
      then show ?thesis using give by (simp add: reconcileByChain_def Let_def)
    qed
    then show ?thesis using Some True by (simp add: reconcileSingleSettlement_def)
  qed
qed

text \<open>Payment reconciliation: everything but the settlement it creates is quiet.\<close>

definition quiet :: "sys \<Rightarrow> sys \<Rightarrow> bool" where
  "quiet s s1 \<longleftrightarrow> settlements s1 = settlements s \<and> refunds s1 = refunds s"

lemma quiet_writes [simp]:
  "quiet s s" "quiet s (paymentAudit a x s)" "quiet s (setPayment i f s)" "quiet s (updateFirstPayment p f s)"
  "quiet s (fst (updateOrderStatus i st s))" "quiet s (fst (confirmReservationInTx i s))"
  "quiet s (fst (releaseReservationInTx cfg i rst s))" "quiet s (rollback s s1)"
  by (auto simp: quiet_def paymentAudit_def setPayment_def updateFirstPayment_def confirmReservationInTx_def
      releaseReservationInTx_def Let_def split: option.splits)

lemma quiet_trans: "quiet s s1 \<Longrightarrow> quiet s1 s2 \<Longrightarrow> quiet s s2"
  by (simp add: quiet_def)

lemma quiet_andThen:
  "quiet s (fst (f s)) \<Longrightarrow> (\<And>x s1. quiet s1 (fst (g x s1))) \<Longrightarrow> quiet s (fst (andThen f g s))"
  by (cases "f s") (auto simp: andThen_def intro: quiet_trans split: sum.splits)

lemma quiet_verify: "quiet s (fst (providerVerify cfg pe pv k ps s))"
  by (cases pv) (auto simp: quiet_def split: prod.splits)

lemma quiet_ask: "quiet s (fst (askProvider cfg pe name x ref s))"
  unfolding askProvider_def by (intro quiet_andThen quiet_verify) simp

lemma quiet_fail: "quiet s (fst (failPayment cfg x ref p s))"
proof -
  have "quiet s1 (fst (andThen (releaseReservationInTx cfg (o_id x) V_CANCELLED_RELEASED) (\<lambda>_ s1.
         (paymentAudit ''PAYMENT_RECONCILIATION_FAILED'' x s1, Inr (paymentResult x ref O_FAILED True MARKED_FAILED)))
       (updateFirstPayment p (\<lambda>y. y\<lparr>p_status := P_FAILED\<rparr>) s1)))" for s1
    by (rule quiet_trans[OF _ quiet_andThen]) simp_all
  then show ?thesis unfolding failPayment_def by (intro quiet_andThen) simp_all
qed

lemma freshIds_quiet: "quiet s s1 \<Longrightarrow> freshIds te s A \<Longrightarrow> freshIds te s1 A"
  by (simp add: freshIds_def quiet_def)

lemma runs_of_quiet: "quiet s s1 \<Longrightarrow> runs k cfg (s, A) (s1, A)"
  by (simp add: quiet_def runs_quiet)

lemma ensureSettlement_runs:
  assumes "freshIds te s A"
  shows "runs k cfg (s, A) (fst (ensureSettlement cfg te x s), A)"
proof (cases rule: insertSettlement_cases[of "newSettlement cfg te x" s])
  case 1
  then show ?thesis by (auto simp: ensureSettlement_def split: option.splits)
next
  case 2
  have "move k cfg (s, A) (s\<lparr>settlements := settlements s @ [newSettlement cfg te x]\<rparr>, A)"
    using newSettlement_apart[OF assms, of cfg x] by (intro act.Insert[OF 2]) blast+
  then show ?thesis using 2 by (auto simp: ensureSettlement_def split: option.splits)
qed

lemma runs_andThen:
  assumes "runs k cfg (s, A) (fst (f s), A)" and "\<And>x. snd (f s) = Inr x \<Longrightarrow> runs k cfg (fst (f s), A) (fst (g x (fst (f s))), A)"
  shows "runs k cfg (s, A) (fst (andThen f g s), A)"
proof (cases "snd (f s)")
  case (Inr x)
  with assms show ?thesis by (simp add: andThen_eq rtranclp_trans)
qed (use assms(1) in \<open>simp add: andThen_eq\<close>)

lemma confirmPayment_runs:
  assumes "freshIds te s A"
  shows "runs k cfg (s, A) (fst (confirmPayment cfg te x ref p resp s), A)"
proof -
  define s1 where "s1 = updateFirstPayment p (\<lambda>y. y\<lparr>p_status := P_SUCCEEDED,
        p_providerPaymentId := Some (orDefault (Some (pr_providerPaymentId resp)) ref)\<rparr>) s"
  define s2 where "s2 = fst (updateOrderStatus (o_id x) O_PAYMENT_CONFIRMED s1)"
  define s3 where "s3 = fst (confirmReservationInTx (o_id x) s2)"
  have q: "quiet s s1" "quiet s1 s2" "quiet s2 s3" by (simp_all add: s1_def s2_def s3_def)
  have fresh: "freshIds te s3 A" using q assms by (meson freshIds_quiet)
  have last: "runs k cfg (s3, A) (fst (andThen (ensureSettlement cfg te x) (\<lambda>_ s.
       (paymentAudit ''PAYMENT_RECONCILED_SUCCESS'' x s, Inr (paymentResult x ref O_PAYMENT_CONFIRMED True CONFIRMED_AND_SETTLED))) s3), A)"
    by (intro runs_andThen ensureSettlement_runs fresh) (simp add: runs_of_quiet)
  have "runs k cfg (s1, A) (fst (andThen (updateOrderStatus (o_id x) O_PAYMENT_CONFIRMED) (\<lambda>_.
     andThen (confirmReservationInTx (o_id x)) (\<lambda>_.
     andThen (ensureSettlement cfg te x) (\<lambda>_ s.
       (paymentAudit ''PAYMENT_RECONCILED_SUCCESS'' x s,
        Inr (paymentResult x ref O_PAYMENT_CONFIRMED True CONFIRMED_AND_SETTLED))))) s1), A)"
  proof (rule runs_andThen)
    show "runs k cfg (s1, A) (fst (updateOrderStatus (o_id x) O_PAYMENT_CONFIRMED s1), A)" by (rule runs_of_quiet) simp
    show "runs k cfg (fst (updateOrderStatus (o_id x) O_PAYMENT_CONFIRMED s1), A)
        (fst (andThen (confirmReservationInTx (o_id x)) (\<lambda>_. andThen (ensureSettlement cfg te x) (\<lambda>_ s.
           (paymentAudit ''PAYMENT_RECONCILED_SUCCESS'' x s,
            Inr (paymentResult x ref O_PAYMENT_CONFIRMED True CONFIRMED_AND_SETTLED))))
          (fst (updateOrderStatus (o_id x) O_PAYMENT_CONFIRMED s1))), A)"
    proof (rule runs_andThen)
      show "runs k cfg (fst (updateOrderStatus (o_id x) O_PAYMENT_CONFIRMED s1), A)
          (fst (confirmReservationInTx (o_id x) (fst (updateOrderStatus (o_id x) O_PAYMENT_CONFIRMED s1))), A)"
        by (rule runs_of_quiet) simp
    qed (unfold s2_def[symmetric] s3_def[symmetric], rule last)
  qed
  then show ?thesis
    unfolding confirmPayment_def s1_def[symmetric] using runs_of_quiet[OF q(1), of k cfg A] by (meson rtranclp_trans)
qed

lemma payment_runs:
  assumes fresh: "freshIds te s A"
  shows "runs k cfg (s, A) (fst (reconcileSinglePaymentOrder cfg pe te i s), A)"
proof -
  let ?body = "reconcilePaymentBody cfg pe te i"
  have "runs k cfg (s, A) (fst (?body s), A)"
  proof (cases "rowBy o_id i (orders s)")
    case None
    then show ?thesis by (simp add: reconcilePaymentBody_def)
  next
    case (Some x)
    let ?p = "rowBy p_orderId i (payments s)"
    let ?ref = "orDefault (orElse (map_option p_reference ?p) (o_idempotencyKey x)) []"
    let ?name = "orDefault (orElse (map_option p_provider ?p) (Some (ngnProvider cfg))) ''SANDBOX''"
    show ?thesis
    proof (cases "?ref = [] \<or> skipsPayment x s")
      case True
      then show ?thesis using Some by (simp add: reconcilePaymentBody_def Let_def)
    next
      case False
      obtain s1 r where ask: "askProvider cfg pe ?name x ?ref s = (s1, r)" by fastforce
      have q: "quiet s s1" using quiet_ask[of s cfg pe ?name x ?ref] ask by simp
      have body: "?body s = (case r of Inl err \<Rightarrow> (paymentAudit ''PAYMENT_RECONCILIATION_DEFERRED'' x s1,
             Inr (paymentResult x ?ref (o_status x) False DEFERRED)) | Inr resp \<Rightarrow> applyVerification cfg te x ?ref ?p resp s1)"
        using Some False ask by (simp add: reconcilePaymentBody_def Let_def split: sum.splits)
      have "runs k cfg (s1, A) (fst (?body s), A)"
      proof (cases r)
        case (Inl err)
        then show ?thesis by (simp add: body runs_of_quiet)
      next
        case (Inr resp)
        have "runs k cfg (s1, A) (fst (confirmPayment cfg te x ?ref ?p resp s1), A)"
          by (rule confirmPayment_runs) (rule freshIds_quiet[OF q fresh])
        moreover have "runs k cfg (s1, A) (fst (failPayment cfg x ?ref ?p s1), A)" by (rule runs_of_quiet) (rule quiet_fail)
        ultimately show ?thesis using Inr by (simp add: body applyVerification_def runs_of_quiet)
      qed
      then show ?thesis using runs_of_quiet[OF q, of k cfg A] by (meson rtranclp_trans)
    qed
  qed
  then show ?thesis
    by (auto simp: reconcileSinglePaymentOrder_def inTransaction_eq runs_of_quiet split: sum.splits)
qed

subsection \<open>Refunds as runs\<close>

lemma createRefund_runs: "runs k cfg (s, A) (fst (createRefund e u inp adm hdr s), A)"
proof -
  have same: "fst (inTransaction b s) = s" if "b s = (s, r)" for b :: "'b op" and r
    using that by (cases r) (auto simp: inTransaction_eq rollback_def)
  consider (kept) r where "createRefundBody e u inp adm hdr s = (s, r)"
    | (new) x r where "refundPlan e u inp adm hdr s = Inr (Inr (x, r))"
  proof (cases "refundPlan e u inp adm hdr s")
    case (Inr b)
    then show thesis by (cases b) (use kept new in \<open>auto simp: createRefundBody_def\<close>)
  qed (use kept in \<open>auto simp: createRefundBody_def\<close>)
  then show ?thesis
  proof cases
    case kept
    then show ?thesis using same[of "createRefundBody e u inp adm hdr"] by (simp add: createRefund_def)
  next
    case new
    have "\<not> planOvertaken x s s" by (simp add: planOvertaken_def)
    moreover have "act k cfg (planOvertaken x s s) (s, A) (fst (inTransaction (openRefund u x r) s), A)"
      by (rule act.OpenRefund) (rule new)
    moreover have "fst (createRefund e u inp adm hdr s) = fst (inTransaction (openRefund u x r) s)"
      using new by (simp add: createRefund_def inTransaction_def createRefundBody_def)
    ultimately show ?thesis by auto
  qed
qed

lemma executeRest_runs:
  assumes "executeClaim (Go c0) s0 = (s, Inr g)"
  shows "runs k cfg (s, A) (fst (executeRest cfg pe now actor owned g s), A)"
proof (cases g)
  case (Go c)
  note p = claimed_processing[OF assms[unfolded Go]]
  have "\<not> answerOvertaken c s" using p(2) by (simp add: answerOvertaken_def)
  moreover have "act k cfg (answerOvertaken c s) (s, A) (fst (executeSettle cfg now actor c resp s), A)" for resp
    by (rule act.SettleRefund) (rule assms[unfolded Go])
  ultimately show ?thesis by (auto simp: Go executeRest_def andThen_eq lift_def split: sum.split)
qed (simp add: executeRest_def)

lemma executeRefund_runs: "runs k cfg (s, A) (fst (executeRefund cfg pe now lk rid actor s), A)"
proof (cases "rl_error lk")
  case None
  obtain s0 r where read: "executeRead rid (rl_first lk) s = (s0, r)" by fastforce
  have s0: "s0 = s" using read by (auto simp: executeRead_def ops split: sum.splits option.splits if_splits)
  have run: "executeRefund cfg pe now lk rid actor s = andThen (andThen (executeRead rid (rl_first lk)) executeClaim)
      (executeRest cfg pe now actor (rl_second lk)) s" using None by (simp add: executeRefund_def)
  show ?thesis
  proof (cases "\<exists>c. r = Inr (Go c)")
    case True
    then obtain c where c: "r = Inr (Go c)" by blast
    obtain s1 g where claim: "executeClaim (Go c) s = (s1, g)" by fastforce
    have first: "move k cfg (s, A) (s1, A)"
      using act.ClaimRefund[OF read[unfolded c s0], of k cfg s A] claim by simp
    show ?thesis
    proof (cases g)
      case (Inr gate)
      with first executeRest_runs[OF claim[unfolded Inr], of k cfg A pe now actor "rl_second lk"] show ?thesis
        using read s0 c claim by (auto simp: run andThen_eq intro: converse_rtranclp_into_rtranclp)
    qed (use first read s0 c claim in \<open>auto simp: run andThen_eq\<close>)
  next
    case False
    then have "fst (executeRefund cfg pe now lk rid actor s) = s"
      using read s0 by (cases r) (auto simp: run andThen_eq executeClaim_def executeRest_def split: refund_gate.splits sum.splits)
    then show ?thesis by simp
  qed
qed (simp add: executeRefund_def)

subsection \<open>A pass over the example order\<close>

definition demo_we :: worker_env where
  "demo_we = \<lparr>wk_settlement = demo_te ''t1'', wk_lock = Acquired True, wk_ownedAfter = True, wk_submittedAt = 61, wk_completedAt = 70,
     wk_recordError = None\<rparr>"

definition demo_fresh :: world where
  "demo_fresh = \<lparr>w_sys = demo_payable, w_sent = [], w_kmsKey = None\<rparr>"

definition demo_live :: executor where
  "demo_live = liveExecutor demo_chain demo_cfg None (\<lambda>_ _. RpcSuccess 9)"

lemma demo_confirm: "ex_confirm demo_live h = \<lparr>cf_confirmed = True, cf_ledger = Some 9, cf_error = None\<rparr>"
  by (simp add: demo_live_def liveExecutor_def confirmation_first_decisive upt_conv_Cons)

lemma demo_stl_row:
  "demo_stl ''t1'' = \<lparr>s_id = ''t1'', s_settlementId = ''STL_t1'', s_orderId = ''order'', s_userId = ''u'',
     s_status = S_PENDING, s_asset = ''NGN'', s_amount = 19800000, s_source = Some ''GSIGNER'',
     s_destination = Some ''GWALLET'', s_contractAddress = None, s_hash = None, s_ledger = None,
     s_attemptCount = 0, s_lastError = None, s_submittedAt = None, s_confirmedAt = None, s_createdAt = 40\<rparr>"
  by (simp add: settlement_demo_defs noneIfFalsy_def toColumn_def ofColumn_def)

definition demo_taken :: settlement where
  "demo_taken = (demo_stl ''t1'')\<lparr>s_status := S_SUBMITTING, s_attemptCount := 1\<rparr>"

lemma demo_taken_row:
  "demo_taken = \<lparr>s_id = ''t1'', s_settlementId = ''STL_t1'', s_orderId = ''order'', s_userId = ''u'',
     s_status = S_SUBMITTING, s_asset = ''NGN'', s_amount = 19800000, s_source = Some ''GSIGNER'',
     s_destination = Some ''GWALLET'', s_contractAddress = None, s_hash = None, s_ledger = None,
     s_attemptCount = 1, s_lastError = None, s_submittedAt = None, s_confirmedAt = None, s_createdAt = 40\<rparr>"
  by (simp add: demo_taken_def demo_stl_row)

lemma demo_created:
  "createSettlementForOrder demo_cfg (demo_te ''t1'') ''order'' (Some ''system-worker'') demo_payable =
     (auditLog (Some ''system-worker'') (Some ''u'') ''SETTLEMENT_CREATED'' ''Settlement'' (Some ''t1'')
        (demo_payable\<lparr>settlements := [demo_stl ''t1'']\<rparr>), Inr (demo_stl ''t1'', False))"
  by (simp add: createSettlementForOrder_def andThen_eq demo_settlementRead settlementWrite_def catching_eq
      insertSettlement_def) (simp add: demo_stl_row demo_payable_def demo_ledger_def empty_sys_def orDefault_def)

lemma demo_taking:
  "settlements s = [demo_stl ''t1''] \<Longrightarrow> markSubmitting ''t1'' s =
     (settlementAudit ''SETTLEMENT_SUBMITTING'' demo_taken (s\<lparr>settlements := [demo_taken]\<rparr>), Inr demo_taken)"
  by (simp add: markSubmitting_def readFor_def andThen_eq getSettlementById_def findSettlement_def settlementGuard_def
      validateSettlementTransition_def claimSubmitting_def updateSettlement_def setSettlement_def logged_def canSettlement_def demo_taken_row)
   (simp add: demo_stl_row)

lemma demo_sent:
  "settlements s = [demo_taken] \<Longrightarrow> orders s = [demo_due] \<Longrightarrow> payments s = [demo_payment\<lparr>p_orderId := ''order''\<rparr>] \<Longrightarrow> refunds s = []
   \<Longrightarrow> reservations s = [demo_resv V_CONFIRMED] \<Longrightarrow> treasuryTxs s = [] \<Longrightarrow>
   snd (ex_submit demo_live (submitParams demo_sdk True demo_taken) \<lparr>w_sys = s, w_sent = [], w_kmsKey = None\<rparr>) =
     \<lparr>su_submitted = True, su_hash = Some ''TXHASH'', su_error = None\<rparr>"
  by (simp add: demo_live_def liveExecutor_def submitParams_def demo_taken_row submit_defs guard_defs
      validate_steps demo_chain_def demo_sdk_def demo_due_row demo_amounts demo_defs demo_payment_def Let_def submissionOf_def)

definition demo_paid :: settlement where
  "demo_paid = demo_taken\<lparr>s_status := S_CONFIRMING, s_hash := Some ''TXHASH'', s_submittedAt := Some 61\<rparr>"

lemma demo_marked:
  assumes "settlements s = [demo_taken]"
  shows "\<exists>s1. markSubmitted 61 ''t1'' ''TXHASH'' s = (s1, Inr (demo_paid\<lparr>s_status := S_SUBMITTED\<rparr>))
      \<and> settlements s1 = [demo_paid\<lparr>s_status := S_SUBMITTED\<rparr>] \<and> orders s1 = orders s \<and> reservations s1 = reservations s"
    and "\<exists>s1. markConfirming ''t1'' (s\<lparr>settlements := [demo_paid\<lparr>s_status := S_SUBMITTED\<rparr>]\<rparr>) = (s1, Inr demo_paid)
      \<and> settlements s1 = [demo_paid] \<and> orders s1 = orders s"
  using assms by (simp_all add: mark_defs markWith_def readFor_def andThen_eq getSettlementById_def findSettlement_def
    settlementGuard_def validateSettlementTransition_def updateSettlement_def setSettlement_def logged_def
    canSettlement_def demo_paid_def demo_taken_row settlementAudit_def auditLog_def)

lemma demo_freshIds: "freshIds (demo_te ''t1'') demo_payable {}"
  by (simp add: freshIds_def demo_te_def demo_payable_def demo_ledger_def empty_sys_def)

lemma demo_pass:
  "\<exists>y \<in> set (settlements (w_sys (fst (processSingleOrder demo_sdk demo_cfg demo_live demo_we False ''order'' demo_fresh)))).
     truthy (s_hash y) \<and> s_status y \<noteq> S_FAILED \<and> s_orderId y = ''order''"
  and demo_pass_sent: "w_sent (fst (processSingleOrder demo_sdk demo_cfg demo_live demo_we False ''order'' demo_fresh)) \<noteq> []"
  and demo_lost_sent: "w_sent (fst (processSingleOrder demo_sdk demo_cfg demo_live
      (demo_we\<lparr>wk_recordError := Some (PlainError ''timeout'')\<rparr>) False ''order'' demo_fresh)) \<noteq> []"
proof -
  obtain s1 where c: "createSettlementForOrder demo_cfg (demo_te ''t1'') ''order'' (Some ''system-worker'') demo_payable = (s1, Inr (demo_stl ''t1'', False))"
    and s1: "settlements s1 = [demo_stl ''t1'']" "orders s1 = [demo_due]" "payments s1 = [demo_payment\<lparr>p_orderId := ''order''\<rparr>]"
      "refunds s1 = []" "reservations s1 = [demo_resv V_CONFIRMED]" "treasuryTxs s1 = []"
    unfolding demo_created by (simp add: auditLog_def demo_payable_def demo_ledger_def empty_sys_def)
  obtain s2 where m: "markSubmitting ''t1'' s1 = (s2, Inr demo_taken)"
    and s2: "settlements s2 = [demo_taken]" "orders s2 = [demo_due]" "payments s2 = [demo_payment\<lparr>p_orderId := ''order''\<rparr>]"
      "refunds s2 = []" "reservations s2 = [demo_resv V_CONFIRMED]" "treasuryTxs s2 = []"
    unfolding demo_taking[OF s1(1)] using s1 by (simp add: settlementAudit_def auditLog_def)
  let ?w = "\<lparr>w_sys = s2, w_sent = [], w_kmsKey = None\<rparr>"
  obtain w3 where sub: "ex_submit demo_live (submitParams demo_sdk True demo_taken) ?w =
      (w3, \<lparr>su_submitted = True, su_hash = Some ''TXHASH'', su_error = None\<rparr>)"
    using demo_sent[OF s2] by (metis prod.collapse)
  have "settlements (w_sys w3) = [demo_taken]"
    using live.submit_tables(1)[of demo_chain demo_cfg None "\<lambda>_ _. RpcSuccess 9" "submitParams demo_sdk True demo_taken" ?w]
      sub s2 by (simp add: demo_live_def)
  then obtain s4 where f4: "markSubmitted 61 ''t1'' ''TXHASH'' (w_sys w3) = (s4, Inr (demo_paid\<lparr>s_status := S_SUBMITTED\<rparr>))"
    and s4: "settlements s4 = [demo_paid\<lparr>s_status := S_SUBMITTED\<rparr>]" using demo_marked(1) by blast
  have "s4\<lparr>settlements := [demo_taken]\<rparr>\<lparr>settlements := [demo_paid\<lparr>s_status := S_SUBMITTED\<rparr>]\<rparr> = s4" using s4 by simp
  then obtain s5 where f5: "markConfirming ''t1'' s4 = (s5, Inr demo_paid)" and s5: "settlements s5 = [demo_paid]"
    using demo_marked(2)[of "s4\<lparr>settlements := [demo_taken]\<rparr>"] by force
  have row: "s_id demo_paid = ''t1''" "s_hash demo_paid = Some ''TXHASH''" "s_status demo_paid = S_CONFIRMING" "s_orderId demo_paid = ''order''"
    "s_id demo_taken = ''t1''" "s_hash demo_taken = None" "s_status demo_taken = S_SUBMITTING"
    "s_id (demo_stl ''t1'') = ''t1''" "s_status (demo_stl ''t1'') = S_PENDING"
    by (simp_all add: demo_paid_def demo_taken_row demo_stl_row)
  have out: "fst (processSingleOrder demo_sdk demo_cfg demo_live demo_we False ''order'' demo_fresh) =
      w3\<lparr>w_sys := fst (markCompleted demo_cfg 70 ''t1'' 9 s5)\<rparr>"
    by (simp add: processSingleOrder_def andThen_eq onSys_eq demo_fresh_def demo_we_def c underLock_def s1 s2 row m
      executeSettlementFlow_def flowSubmit_def sub afterSubmit_def f4 flowConfirm_def f5 confirmStep_def demo_confirm split: sum.splits)
  show "\<exists>y \<in> set (settlements (w_sys (fst (processSingleOrder demo_sdk demo_cfg demo_live demo_we False ''order'' demo_fresh)))).
     truthy (s_hash y) \<and> s_status y \<noteq> S_FAILED \<and> s_orderId y = ''order''"
    using markCompleted_settlements(2)[of demo_cfg 70 "''t1''" 9 s5] s5 row by (auto simp: out completedRow_def rows)
  obtain q where "buildAndSubmit demo_chain demo_cfg None (submitParams demo_sdk True demo_taken) ?w = (w3, q)"
    and "q = Inr ''TXHASH''"
    using sub by (cases "buildAndSubmit demo_chain demo_cfg None (submitParams demo_sdk True demo_taken) ?w")
      (auto simp: demo_live_def liveExecutor_def submissionOf_def split: sum.splits)
  then have w3: "w_sent w3 \<noteq> []"
    using demo_client.buildAndSubmit_cases[of demo_cfg None "submitParams demo_sdk True demo_taken" ?w w3 q] by auto
  then show "w_sent (fst (processSingleOrder demo_sdk demo_cfg demo_live demo_we False ''order'' demo_fresh)) \<noteq> []"
    by (simp add: out)
  have "fst (processSingleOrder demo_sdk demo_cfg demo_live
      (demo_we\<lparr>wk_recordError := Some (PlainError ''timeout'')\<rparr>) False ''order'' demo_fresh) = w3"
    by (simp add: processSingleOrder_def andThen_eq onSys_eq demo_fresh_def demo_we_def c underLock_def s1 s2 row m
      executeSettlementFlow_def flowSubmit_def sub afterSubmit_def written_def split: sum.splits)
  with w3 show "w_sent (fst (processSingleOrder demo_sdk demo_cfg demo_live
      (demo_we\<lparr>wk_recordError := Some (PlainError ''timeout'')\<rparr>) False ''order'' demo_fresh)) \<noteq> []"
    by simp
qed

subsection \<open>The claims\<close>

text \<open>
  C1. An order is paid out or refunded, not both, as long as no write is overtaken: from empty tables,
  along every interleaving of reads and writes of workers, daemon, users and administrators in which
  each write still finds what it rests on as it was read, no settlement that completed, or that has a
  transaction hash and has not failed, belongs to an order with a refund pending, in progress or
  succeeded. The code does not keep writes from being overtaken, and then both happen:
  \<open>overtaken_mark_pays_and_refunds\<close>. A FAILED settlement is left out, with a hash or without.
\<close>

theorem payout_excludes_refund:
  assumes "(act k cfg False)\<^sup>*\<^sup>* (s0, {}) (s, A)" and "settlements s0 = []" and "refunds s0 = []"
    and "t \<in> set (settlements s)"
    and "s_status t = S_COMPLETED \<or> (truthy (s_hash t) \<and> s_status t \<noteq> S_FAILED)"
  shows "\<not> activeRefund (s_orderId t) s"
proof -
  have "exclusive (s, A)" using moves_keep[OF assms(1) exclusive_start[OF assms(2,3)]] .
  then have "guarded A s t" using assms(4) by (rule exclusiveD(6))
  with assms(5) show ?thesis by (auto simp: guarded_def)
qed

theorem payout_excludes_refund_witness:
  "\<not> activeRefund ''order'' (w_sys (fst (processSingleOrder demo_sdk demo_cfg demo_live demo_we False ''order'' demo_fresh)))"
proof -
  have tabs: "settlements demo_payable = []" "refunds demo_payable = []"
    by (simp_all add: demo_payable_def demo_ledger_def empty_sys_def)
  obtain A where run: "(act demo_sdk demo_cfg False)\<^sup>*\<^sup>* (demo_payable, {})
      (w_sys (fst (processSingleOrder demo_sdk demo_cfg demo_live demo_we False ''order'' demo_fresh)), A)"
    using demo_client.live_runs[of demo_we demo_fresh "{}" demo_cfg None "\<lambda>_ _. RpcSuccess 9" False "''order''"] demo_freshIds
    by (auto simp: demo_live_def demo_fresh_def demo_chain_def demo_we_def)
  obtain y where "y \<in> set (settlements (w_sys (fst (processSingleOrder demo_sdk demo_cfg demo_live demo_we False ''order'' demo_fresh))))"
    "truthy (s_hash y)" "s_status y \<noteq> S_FAILED" "s_orderId y = ''order''" using demo_pass by blast
  with payout_excludes_refund[OF run tabs, of y] show ?thesis by simp
qed

text \<open>
  C14. Each operation, run with nothing in between, is a run of those steps with no write overtaken,
  whatever state it starts from: a pass of the settlement worker over an order with the live executor,
  whatever the network answers; the reconciliation of a settlement; the reconciliation of an order's
  payment; the creation and the execution of a refund. Interleavings of several operations are the
  subject of the relation itself, whose steps take what they read from any earlier state.
\<close>

theorem operations_are_runs:
  assumes "chain_client e" and "freshIds (wk_settlement we) (w_sys w) A" and "freshIds te s B"
  shows "(\<exists>A1. (act (ce_sdk e) cfg False)\<^sup>*\<^sup>* (w_sys w, A)
       (w_sys (fst (processSingleOrder (ce_sdk e) cfg (liveExecutor e cfg given rpc) we stop i w)), A1))
    \<and> (act (ce_sdk e) cfg False)\<^sup>*\<^sup>* (s, B) (fst (reconcileSingleSettlement cfg now answers hours j s), B)
    \<and> (act (ce_sdk e) cfg False)\<^sup>*\<^sup>* (s, B) (fst (reconcileSinglePaymentOrder cfg pe te i s), B)
    \<and> (act (ce_sdk e) cfg False)\<^sup>*\<^sup>* (s, B) (fst (createRefund fe u inp adm hdr s), B)
    \<and> (act (ce_sdk e) cfg False)\<^sup>*\<^sup>* (s, B) (fst (executeRefund cfg pe now lk rid actor s), B)"
proof (intro conjI)
  show "\<exists>A1. (act (ce_sdk e) cfg False)\<^sup>*\<^sup>* (w_sys w, A)
       (w_sys (fst (processSingleOrder (ce_sdk e) cfg (liveExecutor e cfg given rpc) we stop i w)), A1)"
    by (rule chain_client.live_runs[OF assms(1,2)])
qed (rule reconcile_runs, rule payment_runs[OF assms(3)], rule createRefund_runs, rule executeRefund_runs)

theorem operations_are_runs_witness:
  "\<exists>A. (act demo_sdk demo_cfg False)\<^sup>*\<^sup>* (demo_payable, {})
       (w_sys (fst (processSingleOrder demo_sdk demo_cfg demo_live demo_we False ''order'' demo_fresh)), A)"
  using operations_are_runs[OF demo_client.chain_client_axioms, of demo_we demo_fresh "{}" "demo_te ''t1''" demo_payable "{}"] demo_freshIds
  by (auto simp: demo_live_def demo_fresh_def demo_chain_def demo_we_def)

subsection \<open>What an overtaken write does\<close>

text \<open>
  A worker reads a settlement as SUBMITTING to record the hash of its broadcast. Before it writes, the daemon
  gives the settlement up and a refund of the order is opened. The write goes by the id alone: the
  settlement is SUBMITTED with its hash, and the refund stays.
\<close>

definition demo_giving :: refund_input where
  "demo_giving = \<lparr>ri_orderId = ''order'', ri_paymentId = None, ri_amount = None, ri_reason = ''given up'', ri_idempotencyKey = Some ''k9''\<rparr>"

lemma overtaken_mark_pays_and_refunds:
  "\<exists>s A t. (\<lambda>c c1. \<exists>late. act demo_sdk demo_cfg late c c1)\<^sup>*\<^sup>* (demo_payable, {}) (s, A) \<and> t \<in> set (settlements s)
     \<and> s_status t = S_SUBMITTED \<and> s_hash t = Some ''TXHASH'' \<and> activeRefund (s_orderId t) s"
proof -
  let ?any = "\<lambda>c c1. \<exists>late. act demo_sdk demo_cfg late c c1"
  let ?t = "demo_stl ''t1''"
  let ?failed = "demo_taken\<lparr>s_status := S_FAILED, s_lastError := Some ''timeout''\<rparr>"
  have d0: "orders demo_payable = [demo_due]" "payments demo_payable = [demo_payment\<lparr>p_orderId := ''order''\<rparr>]"
    "refunds demo_payable = []" "settlements demo_payable = []"
    by (simp_all add: demo_payable_def demo_ledger_def empty_sys_def)
  define s1 where "s1 = demo_payable\<lparr>settlements := [?t]\<rparr>"
  have s1: "settlements s1 = [?t]" "refunds s1 = []" "orders s1 = [demo_due]" "payments s1 = [demo_payment\<lparr>p_orderId := ''order''\<rparr>]"
    by (simp_all add: s1_def d0)
  have i1: "?any (demo_payable, {}) (s1, {})"
    by (rule exI, rule act.Insert[of ?t]) (simp_all add: insertSettlement_def s1_def d0 idsApart_def demo_stl_row)
  note reads = readFor_def andThen_eq getSettlementById_def findSettlement_def settlementGuard_def
    validateSettlementTransition_def canSettlement_def
  define s2 where "s2 = fst (claimSubmitting ?t s1)"
  have s2: "settlements s2 = [demo_taken]" "refunds s2 = []" "orders s2 = [demo_due]" "payments s2 = [demo_payment\<lparr>p_orderId := ''order''\<rparr>]"
    using s1 by (simp_all add: s2_def claimSubmitting_def andThen_eq updateSettlement_def logged_def demo_taken_row demo_stl_row)
  have i2: "?any (s1, {}) (s2, {})"
    unfolding s2_def by (rule exI, rule act.Claim[of "''t1''" s1]) (simp add: reads s1 demo_stl_row)
  have i3: "?any (s2, {}) (s2, {''t1''})"
    by (rule exI, rule act.Approve[of _ s2 demo_taken]) (simp_all add: s2 demo_taken_row activeRefund_def)
  have seen: "readFor ''t1'' (markTarget (ToSubmitted 61 ''TXHASH'')) s2 = (s2, Inr demo_taken)"
    "readFor ''t1'' (markTarget (ToFailed ''timeout'')) s2 = (s2, Inr demo_taken)"
    by (simp_all add: reads s2 demo_taken_row)
  define s3 where "s3 = fst (markWrite demo_cfg (ToFailed ''timeout'') demo_taken s2)"
  have s3: "settlements s3 = [?failed]" "refunds s3 = []" "orders s3 = [demo_due]" "payments s3 = [demo_payment\<lparr>p_orderId := ''order''\<rparr>]"
    using s2 by (simp_all add: s3_def markWrite_def andThen_eq updateSettlement_def logged_def demo_taken_row)
  have i4: "?any (s2, {''t1''}) (s3, {''t1''})"
    unfolding s3_def by (rule exI, rule act.Mark[OF seen(2)]) simp
  obtain r where plan: "refundPlan demo_re ''u'' demo_giving True None s3 = Inr (Inr (demo_due, r))"
    and r: "r_orderId r = ''order''" "r_status r = R_PENDING"
    by (simp add: refundPlan_def s3 demo_giving_def demo_re_def demo_due_row refundRefused_def settlementsOf_def blocksRefund_def
        demo_taken_row refundPayment_def paymentsOf_def demo_payment_def refundKey_def orDefault_def orElse_def refundAmount_def
        alreadyRefunded_def ofColumn_def newRefund_def Let_def)
  define s4 where "s4 = fst (inTransaction (openRefund ''u'' demo_due r) s3)"
  have s4: "settlements s4 = [?failed]" "refunds s4 = [r]"
    using s3 by (simp_all add: s4_def inTransaction_eq openRefund_def ops canOrder_def insertRefund_def setOrder_def demo_due_row)
  have i5: "?any (s3, {''t1''}) (s4, {''t1''})"
    unfolding s4_def by (rule exI, rule act.OpenRefund[OF plan])
  define s5 where "s5 = fst (markWrite demo_cfg (ToSubmitted 61 ''TXHASH'') demo_taken s4)"
  let ?late = "?failed\<lparr>s_status := S_SUBMITTED, s_hash := Some ''TXHASH'', s_submittedAt := Some 61\<rparr>"
  have s5: "settlements s5 = [?late]" "refunds s5 = [r]"
    using s4 by (simp_all add: s5_def markWrite_def andThen_eq updateSettlement_def logged_def demo_taken_row)
  have i6: "?any (s4, {''t1''}) (s5, {''t1''})"
    unfolding s5_def by (rule exI, rule act.Mark[OF seen(1)]) simp
  note step = converse_rtranclp_into_rtranclp[where r = ?any]
  have "?any\<^sup>*\<^sup>* (demo_payable, {}) (s5, {''t1''})"
    by (rule step[OF i1] step[OF i2] step[OF i3] step[OF i4] step[OF i5] step[OF i6] rtranclp.rtrancl_refl)+
  moreover have "activeRefund (s_orderId ?late) s5"
    using r by (simp add: activeRefund_def s5 demo_taken_row countsAsRefund_def)
  ultimately show ?thesis using s5 by (intro exI[of _ s5] exI[of _ "{''t1''}"] exI[of _ ?late]) simp
qed

end
