(* ===== verification/WorkerProps.thy ===== *)
theory WorkerProps
  imports Payouts
begin

text \<open>
  What the settlement worker does and does not do to an order: a payout handed to the network stays
  on record, one that has a hash is never handed over again, and one with more than four decimals
  never is.
\<close>

subsection \<open>A settlement on record\<close>

definition keptOpen :: "settlement_status \<Rightarrow> bool" where
  "keptOpen st \<longleftrightarrow> st \<in> {S_SUBMITTED, S_CONFIRMING, S_COMPLETED, S_REQUIRES_RECONCILIATION}"

lemma keptOpen_simps [simp]:
  "keptOpen S_SUBMITTED" "keptOpen S_CONFIRMING" "keptOpen S_COMPLETED" "keptOpen S_REQUIRES_RECONCILIATION"
  "\<not> keptOpen S_PENDING" "\<not> keptOpen S_SUBMITTING" "\<not> keptOpen S_FAILED"
  by (simp_all add: keptOpen_def)

definition onRecord :: "id \<Rightarrow> id \<Rightarrow> sys \<Rightarrow> bool" where
  "onRecord orderId i s \<longleftrightarrow> unique_by s_orderId (settlements s)
     \<and> (\<exists>y. rowBy s_id i (settlements s) = Some y \<and> s_orderId y = orderId \<and> keptOpen (s_status y))"

lemma onRecord_setBy:
  assumes rec: "onRecord o1 i s" and tab: "settlements s1 = setBy s_id j f (settlements s)"
    and f: "\<And>y. s_id (f y) = s_id y" "\<And>y. s_orderId (f y) = s_orderId y" "\<And>y. keptOpen (s_status (f y))"
  shows "onRecord o1 i s1"
proof -
  obtain y where y: "rowBy s_id i (settlements s) = Some y" "s_orderId y = o1" "keptOpen (s_status y)"
    and u: "unique_by s_orderId (settlements s)" using rec by (auto simp: onRecord_def)
  have "unique_by s_orderId (settlements s1)" using u f(2) by (simp add: tab rows)
  moreover have "\<exists>z. rowBy s_id i (settlements s1) = Some z \<and> s_orderId z = o1 \<and> keptOpen (s_status z)"
    using y f by (cases "j = i") (simp_all add: tab rows)
  ultimately show ?thesis by (simp add: onRecord_def)
qed

lemma onRecord_mark:
  assumes rec: "onRecord o1 i s"
    and f: "\<And>y. s_id (f y) = s_id y" "\<And>y. s_orderId (f y) = s_orderId y" "\<And>y. keptOpen (s_status (f y))"
  shows "onRecord o1 i (fst (markWith j target f action s))"
proof (cases rule: markWith_cases[of j target f action s])
  case 1
  with rec show ?thesis by simp
next
  case (2 t now)
  then show ?thesis using f by (intro onRecord_setBy[OF rec, of _ "s_id t" f]) simp_all
qed

lemma onRecord_marks:
  assumes "onRecord o1 i s"
  shows "onRecord o1 i (fst (markSubmitted now j h s))" and "onRecord o1 i (fst (markConfirming j s))"
    and "onRecord o1 i (fst (markRequiresReconciliation j msg s))" and "onRecord o1 i (fst (markCompleted cfg now j l s))"
proof -
  show "onRecord o1 i (fst (markCompleted cfg now j l s))"
    using markCompleted_settlements(2)[of cfg now j l s]
  proof
    assume "settlements (fst (markCompleted cfg now j l s)) = settlements s"
    with assms show ?thesis by (simp only: onRecord_def)
  next
    assume "\<exists>t. findSettlement j s = Some t \<and> canSettlement (s_status t) S_COMPLETED
        \<and> settlements (fst (markCompleted cfg now j l s)) = setBy s_id (s_id t) (completedRow now l) (settlements s)"
    then show ?thesis by (elim exE conjE) (rule onRecord_setBy[OF assms], assumption, simp_all)
  qed
qed (simp_all add: mark_defs onRecord_mark[OF assms])

lemma onRecord_confirm:
  assumes "onRecord o1 i (w_sys w)"
  shows "onRecord o1 i (w_sys (fst (flowConfirm cfg ex we t w)))"
proof -
  have step: "onRecord o1 i (w_sys v) \<Longrightarrow> onRecord o1 i (w_sys (fst (confirmStep cfg ex we y v)))" for y v
    by (auto simp: confirmStep_def Let_def andThen_eq intro: onRecord_marks split: sum.splits)
  show ?thesis
    using assms onRecord_marks(2)[of o1 i "w_sys w" "s_id t"] step
    by (auto simp: flowConfirm_def andThen_eq split: sum.splits)
qed

text \<open>The settlement a worker has in hand before it submits.\<close>

definition inHand :: "id \<Rightarrow> settlement \<Rightarrow> sys \<Rightarrow> bool" where
  "inHand orderId t s \<longleftrightarrow> separated s \<and> unique_by s_orderId (settlements s)
     \<and> rowBy s_id (s_id t) (settlements s) = Some t \<and> s_orderId t = orderId"

lemma inHand_found: "inHand o1 t s \<Longrightarrow> findSettlement (s_id t) s = Some t"
  by (simp add: inHand_def findSettlement_own)

lemma inHand_mark:
  assumes hand: "inHand o1 t s" and can: "canSettlement (s_status t) target"
    and f: "\<And>y. s_id (f y) = s_id y" "\<And>y. s_orderId (f y) = s_orderId y" "\<And>y. keptOpen (s_status (f y))"
  shows "onRecord o1 (s_id t) (fst (markWith (s_id t) target f action s))"
proof -
  have row: "rowBy s_id (s_id t) (settlements s) = Some t" and u: "unique_by s_orderId (settlements s)" and o: "s_orderId t = o1"
    using hand by (simp_all add: inHand_def)
  have "markWith (s_id t) target f action s = (settlementAudit action (f t) (setSettlement (s_id t) f s), Inr (f t))"
    by (rule markWith_eq[OF inHand_found[OF hand] can row])
  then show ?thesis using row u o f by (simp add: onRecord_def rows)
qed

lemma underLock_statuses:
  assumes "st \<in> {S_SUBMITTING, S_SUBMITTED, S_CONFIRMING}"
  shows "canSettlement st S_REQUIRES_RECONCILIATION" and "canSettlement st S_SUBMITTED \<or> keptOpen st"
  using assms by (auto simp: canSettlement_def keptOpen_def)

lemma onRecord_submitted:
  assumes hand: "inHand o1 t s" and st: "s_status t \<in> {S_SUBMITTING, S_SUBMITTED, S_CONFIRMING}"
    and answer: "su_submitted r \<and> truthy (su_hash r) \<or> \<not> permanentError (orDefault (su_error r) ''Settlement submission failed'')"
    and w: "w_sys w = s"
  shows "onRecord o1 (s_id t) (w_sys (fst (afterSubmit now None t r w)))"
proof (cases "\<not> su_submitted r \<or> \<not> truthy (su_hash r)")
  case True
  with answer have np: "\<not> permanentError (orDefault (su_error r) ''Settlement submission failed'')" by blast
  have "w_sys (fst (afterSubmit now None t r w)) = fst (markRequiresReconciliation (s_id t)
      (orDefault (su_error r) ''Settlement submission failed'') s)"
    unfolding afterSubmit_def Let_def if_P[OF True] if_not_P[OF np] written_None by (simp add: andThen_eq w split: sum.splits)
  then show ?thesis
    using underLock_statuses(1)[OF st] by (simp add: markRequiresReconciliation_def inHand_mark[OF hand])
next
  case False
  have run: "w_sys (fst (afterSubmit now None t r w)) = fst (markSubmitted now (s_id t) (the (su_hash r)) s)"
    unfolding afterSubmit_def if_not_P[OF False] written_None by (simp add: andThen_eq w split: sum.splits)
  from underLock_statuses(2)[OF st] show ?thesis
  proof
    assume "canSettlement (s_status t) S_SUBMITTED"
    then show ?thesis unfolding run markSubmitted_def by (rule inHand_mark[OF hand]) simp_all
  next
    assume "keptOpen (s_status t)"
    with hand have "onRecord o1 (s_id t) s" by (simp add: onRecord_def inHand_def)
    then show ?thesis unfolding run by (rule onRecord_marks)
  qed
qed

subsection \<open>A broadcast stays on record\<close>

lemma messages_not_permanent:
  "\<not> permanentError (messageOf lostAnswer)" "\<not> permanentError (messageOf refusedByRpc)"
  "\<not> permanentError ''Settlement submission failed''"
  by (code_simp)+

text \<open>A created or found settlement and a claimed one are in hand.\<close>

lemma inHand_row:
  assumes "separated s" and "unique_by s_orderId (settlements s)" and "rowBy s_orderId o1 (settlements s) = Some t"
  shows "inHand o1 t s"
  using assms rowBy_SomeD[OF assms(3)] rowBy_unique[of s_id "settlements s" t] by (auto simp: inHand_def separated_def)

lemma create_inHand:
  assumes sep: "separated s" "unique_by s_orderId (settlements s)" and fresh: "freshIds te s A"
    and run: "createSettlementForOrder cfg te o1 actor s = (s1, Inr (t, dup))"
  shows "inHand o1 t s1"
proof -
  obtain s0 found where read: "settlementRead cfg te o1 s = (s0, Inr found)"
    and wr: "settlementWrite actor found s0 = (s1, Inr (t, dup))"
    using run by (auto simp: createSettlementForOrder_def elim!: andThen_returns)
  show ?thesis
  proof (cases found)
    case (Inl d)
    then have "s0 = s" "rowBy s_orderId o1 (settlements s) = Some d"
      using read by (auto simp: settlementRead_def split: option.splits if_splits)
    with wr Inl show ?thesis using inHand_row[OF sep] by (auto simp: settlementWrite_def)
  next
    case (Inr d)
    note new = settlementRead_new[OF read[unfolded Inr]]
    obtain x where d: "d = newSettlement cfg te x" "rowBy o_id o1 (orders s) = Some x" using new(2) by blast
    have do: "s_orderId d = o1" using rowBy_SomeD[OF d(2)] by (simp add: d(1) newSettlement_def)
    note apart = newSettlement_apart[OF fresh, of cfg x, folded d(1)]
    show ?thesis
    proof (cases "rowBy s_id (s_id d) (settlements s) = None \<and> rowBy s_settlementId (s_settlementId d) (settlements s) = None")
      case True
      then have s1: "settlements s1 = settlements s @ [d]" "refunds s1 = refunds s" "t = d"
        using wr Inr new(1,3) do by (auto simp: settlementWrite_def catching_eq andThen_eq insertSettlement_def)
      have "separated s1" using sep(1) apart True by (auto simp: separated_def s1 rows idsApart_def)
      moreover have "unique_by s_orderId (settlements s1)" "rowBy s_orderId o1 (settlements s1) = Some d"
        using sep(2) new(3) do by (simp_all add: s1 rows)
      ultimately show ?thesis using s1(3) inHand_row by blast
    next
      case False
      then show ?thesis
        using wr Inr new(1,3) do by (auto simp: settlementWrite_def catching_eq andThen_eq insertSettlement_def split: if_splits)
    qed
  qed
qed

lemma create_status:
  assumes run: "createSettlementForOrder cfg te o1 actor s = (s1, Inr (t, dup))"
    and before: "\<And>t. rowBy s_orderId o1 (settlements s) = Some t \<Longrightarrow> s_status t \<in> {S_PENDING, S_SUBMITTING}"
  shows "s_status t \<in> {S_PENDING, S_SUBMITTING}"
proof -
  obtain s0 found where read: "settlementRead cfg te o1 s = (s0, Inr found)"
    and wr: "settlementWrite actor found s0 = (s1, Inr (t, dup))"
    using run by (auto simp: createSettlementForOrder_def elim!: andThen_returns)
  show ?thesis
  proof (cases found)
    case (Inl d)
    then have "rowBy s_orderId o1 (settlements s) = Some d"
      using read by (auto simp: settlementRead_def split: option.splits if_splits)
    with wr Inl before show ?thesis by (auto simp: settlementWrite_def)
  next
    case (Inr d)
    note new = settlementRead_new[OF read[unfolded Inr]]
    obtain x where d: "d = newSettlement cfg te x" "rowBy o_id o1 (orders s) = Some x" using new(2) by blast
    have do: "s_orderId d = o1" using rowBy_SomeD[OF d(2)] by (simp add: d(1) newSettlement_def)
    have "s_status d = S_PENDING" by (simp add: d(1) newSettlement_def)
    then show ?thesis
      using wr Inr new(1,3) do by (auto simp: settlementWrite_def catching_eq andThen_eq insertSettlement_def split: if_splits)
  qed
qed

lemma claim_inHand:
  assumes hand: "inHand o1 t s" and run: "markSubmitting (s_id t) s = (s1, Inr y)"
  shows "inHand o1 y s1 \<and> s_status y = S_SUBMITTING \<and> s_hash y = s_hash t \<and> s_id y = s_id t \<and> s_amount y = s_amount t"
proof -
  have row: "rowBy s_id (s_id t) (settlements s) = Some t" using hand by (simp add: inHand_def)
  let ?f = "\<lambda>y. y\<lparr>s_status := S_SUBMITTING, s_attemptCount := s_attemptCount y + 1\<rparr>"
  have y: "y = ?f t" and s1: "settlements s1 = setBy s_id (s_id t) ?f (settlements s)" "refunds s1 = refunds s"
    using run inHand_found[OF hand] row
    by (auto simp: markSubmitting_def readFor_def andThen_eq getSettlementById_def settlementGuard_def
        validateSettlementTransition_def claimSubmitting_def updateSettlement_def logged_def split: if_splits)
  have "separated s1"
    using hand by (fastforce simp: inHand_def separated_def s1 rows dest!: in_setBy)
  then show ?thesis using hand row by (simp add: inHand_def s1 y rows)
qed

lemma afterThrow_onRecord:
  assumes rec: "onRecord o1 i (w_sys w)"
  shows "fst (afterThrow o1 err w) = w"
proof -
  obtain y where y: "rowBy s_id i (settlements (w_sys w)) = Some y" "s_orderId y = o1" "keptOpen (s_status y)"
    and u: "unique_by s_orderId (settlements (w_sys w))" using rec by (auto simp: onRecord_def)
  have "rowBy s_orderId o1 (settlements (w_sys w)) = Some y"
    using rowBy_unique[OF u, of y] rowBy_SomeD[OF y(1)] y(2) by simp
  moreover have "\<not> workerCanTransition (s_status y) S_FAILED" using y(3) by (cases "s_status y") (simp_all add: workerCanTransition_def)
  ultimately show ?thesis by (simp add: afterThrow_def)
qed

context chain_client
begin

text \<open>A submission that broadcast is answered with a hash or with a message that is not permanent.\<close>

lemma broadcast_answer:
  assumes "ex_submit (liveExecutor e cfg given rpc) p w = (w1, r)" and "w_sent w1 \<noteq> w_sent w"
  shows "su_submitted r \<and> truthy (su_hash r) \<or> \<not> permanentError (orDefault (su_error r) ''Settlement submission failed'')"
proof -
  obtain q where run: "buildAndSubmit e cfg given p w = (w1, q)" and r: "r = snd (submissionOf (w1, q))"
    using assms(1) by (cases "buildAndSubmit e cfg given p w") (auto simp: liveExecutor_def submissionOf_def split: sum.splits)
  from buildAndSubmit_cases[OF run] assms(2) have "q = Inl lostAnswer \<or> q = Inl refusedByRpc \<or> (\<exists>h. q = Inr h)" by blast
  then show ?thesis
    using messages_not_permanent by (auto simp: r submissionOf_def orDefault_def split: if_splits)
qed

lemma flow_sent:
  assumes hand: "inHand o1 t (w_sys w)"
    and sent: "w_sent (fst (executeSettlementFlow (ce_sdk e) cfg (liveExecutor e cfg given rpc) we own t w)) \<noteq> w_sent w"
  obtains w1 r where "inHand o1 t (w_sys w1)" and "\<not> truthy (s_hash t)"
    and "su_submitted r \<and> truthy (su_hash r) \<or> \<not> permanentError (orDefault (su_error r) ''Settlement submission failed'')"
    and "executeSettlementFlow (ce_sdk e) cfg (liveExecutor e cfg given rpc) we own t w =
      andThen (afterSubmit (wk_submittedAt we) (wk_recordError we) t r)
        (\<lambda>v. case v of Inl st \<Rightarrow> ret st | Inr z \<Rightarrow> flowConfirm cfg (liveExecutor e cfg given rpc) we z) w1"
proof -
  let ?ex = "liveExecutor e cfg given rpc"
  let ?out = "executeSettlementFlow (ce_sdk e) cfg ?ex we own t w"
  have row: "rowBy s_id (s_id t) (settlements (w_sys w)) = Some t" using hand by (simp add: inHand_def)
  have nosend: "w_sent (fst (flowConfirm cfg ex we y v)) = w_sent v" for ex :: executor and y v
    by (auto simp: flowConfirm_def confirmStep_def Let_def andThen_eq split: sum.splits)
  have go: "\<not> truthy (s_hash t)" "own"
    using sent row nosend by (auto simp: executeSettlementFlow_def andThen_eq flowSubmit_def split: if_splits)
  obtain w1 r where sub: "ex_submit ?ex (submitParams (ce_sdk e) (wk_ownedAfter we) t) w = (w1, r)" by fastforce
  have out: "?out = andThen (afterSubmit (wk_submittedAt we) (wk_recordError we) t r)
      (\<lambda>v. case v of Inl st \<Rightarrow> ret st | Inr z \<Rightarrow> flowConfirm cfg ?ex we z) w1"
    using row go sub by (simp add: executeSettlementFlow_def flowSubmit_def andThen_def)
  have "w_sent (fst (afterSubmit now lost t r w1)) = w_sent w1" for now lost
    by (auto simp: afterSubmit_def Let_def andThen_eq split: if_splits sum.splits)
  then have "w_sent (fst ?out) = w_sent w1"
    using nosend by (auto simp: out andThen_eq split: sum.splits)
  with sent have "w_sent w1 \<noteq> w_sent w" by simp
  note answer = broadcast_answer[OF sub this]
  have "settlements (w_sys w1) = settlements (w_sys w)" "refunds (w_sys w1) = refunds (w_sys w)"
    using auditsOnly_tables[OF payer.submit_audits[of w cfg given rpc "submitParams (ce_sdk e) (wk_ownedAfter we) t"]] sub by simp_all
  then have "inHand o1 t (w_sys w1)" using hand by (simp add: inHand_def separated_def)
  from this go(1) answer out show thesis by (rule that)
qed

lemma flow_onRecord:
  assumes hand: "inHand o1 t (w_sys w)" and kept: "wk_recordError we = None" and st: "s_status t \<in> {S_SUBMITTING, S_SUBMITTED, S_CONFIRMING}"
    and sent: "w_sent (fst (executeSettlementFlow (ce_sdk e) cfg (liveExecutor e cfg given rpc) we own t w)) \<noteq> w_sent w"
  shows "onRecord o1 (s_id t) (w_sys (fst (executeSettlementFlow (ce_sdk e) cfg (liveExecutor e cfg given rpc) we own t w)))"
proof (rule flow_sent[OF hand sent])
  let ?ex = "liveExecutor e cfg given rpc"
  fix w1 r
  assume "inHand o1 t (w_sys w1)"
    and answer: "su_submitted r \<and> truthy (su_hash r) \<or> \<not> permanentError (orDefault (su_error r) ''Settlement submission failed'')"
    and out: "executeSettlementFlow (ce_sdk e) cfg ?ex we own t w =
      andThen (afterSubmit (wk_submittedAt we) (wk_recordError we) t r)
        (\<lambda>v. case v of Inl st \<Rightarrow> ret st | Inr z \<Rightarrow> flowConfirm cfg ?ex we z) w1"
  then have "onRecord o1 (s_id t) (w_sys (fst (afterSubmit (wk_submittedAt we) None t r w1)))"
    using onRecord_submitted[OF _ st answer refl] by blast
  then show ?thesis unfolding out kept by (auto simp: andThen_eq onRecord_confirm split: sum.splits)
qed

text \<open>When the write of the outcome is lost, the flow throws and the row is as it was.\<close>

lemma flow_lost:
  assumes hand: "inHand o1 t (w_sys w)" and lost: "wk_recordError we = Some err"
    and sent: "w_sent (fst (executeSettlementFlow (ce_sdk e) cfg (liveExecutor e cfg given rpc) we own t w)) \<noteq> w_sent w"
  shows "\<exists>w1 err. executeSettlementFlow (ce_sdk e) cfg (liveExecutor e cfg given rpc) we own t w = (w1, Inl err)
    \<and> inHand o1 t (w_sys w1) \<and> \<not> truthy (s_hash t)"
proof (rule flow_sent[OF hand sent])
  let ?ex = "liveExecutor e cfg given rpc"
  fix w1 r
  assume w1: "inHand o1 t (w_sys w1)" "\<not> truthy (s_hash t)"
    and out: "executeSettlementFlow (ce_sdk e) cfg ?ex we own t w =
      andThen (afterSubmit (wk_submittedAt we) (wk_recordError we) t r)
        (\<lambda>v. case v of Inl st \<Rightarrow> ret st | Inr z \<Rightarrow> flowConfirm cfg ?ex we z) w1"
  have wr: "onSys (written (Some err) m) w1 = (w1, Inl (case snd (m (w_sys w1)) of Inl e \<Rightarrow> e | Inr _ \<Rightarrow> err))" for m
    by (simp add: onSys_eq written_def split: sum.split)
  have "\<exists>e. afterSubmit now (Some err) t r w1 = (w1, Inl e)" for now
    by (simp add: afterSubmit_def Let_def andThen_eq wr)
  then obtain e where "afterSubmit (wk_submittedAt we) (Some err) t r w1 = (w1, Inl e)" by blast
  with w1 show ?thesis unfolding out lost by (simp add: andThen_eq)
qed

lemma underLock_onRecord:
  assumes hand: "inHand o1 t (w_sys w)" and kept: "wk_recordError we = None" and sent: "w_sent (fst (underLock (ce_sdk e) cfg (liveExecutor e cfg given rpc) we stop own t w)) \<noteq> w_sent w"
  shows "onRecord o1 (s_id t) (w_sys (fst (underLock (ce_sdk e) cfg (liveExecutor e cfg given rpc) we stop own t w)))"
proof -
  have row: "rowBy s_id (s_id t) (settlements (w_sys w)) = Some t" using hand by (simp add: inHand_def)
  let ?go = "executeSettlementFlow (ce_sdk e) cfg (liveExecutor e cfg given rpc) we own"
  let ?out = "underLock (ce_sdk e) cfg (liveExecutor e cfg given rpc) we stop own t w"
  have u: "?out = (if s_status t = S_PENDING then andThen (onSys (markSubmitting (s_id t))) (\<lambda>y. if stop then ret (s_status y) else ?go y) w
      else if \<not> stop \<and> s_status t \<in> {S_SUBMITTING, S_SUBMITTED, S_CONFIRMING} then ?go t w else (w, Inr (s_status t)))"
    by (simp add: underLock_def row Let_def)
  show ?thesis
  proof (cases "s_status t = S_PENDING")
    case True
    obtain s1 r where m: "markSubmitting (s_id t) (w_sys w) = (s1, r)" by fastforce
    from sent True obtain y where y: "r = Inr y" "\<not> stop" unfolding u by (cases r) (auto simp: andThen_eq onSys_eq m split: if_splits)
    note c = claim_inHand[OF hand m[unfolded y]]
    have out: "?out = ?go y (w\<lparr>w_sys := s1\<rparr>)" unfolding u using True y m by (simp add: andThen_eq onSys_eq)
    then show ?thesis using flow_onRecord[of o1 y "w\<lparr>w_sys := s1\<rparr>"] kept c sent unfolding out by simp
  next
    case False
    with sent have st: "s_status t \<in> {S_SUBMITTING, S_SUBMITTED, S_CONFIRMING}" and out: "?out = ?go t w"
      unfolding u by (auto split: if_splits)
    show ?thesis using sent unfolding out by (rule flow_onRecord[OF hand kept st])
  qed
qed

lemma underLock_lost:
  assumes hand: "inHand o1 t (w_sys w)" and lost: "wk_recordError we = Some err"
    and st: "s_status t \<in> {S_PENDING, S_SUBMITTING}"
    and sent: "w_sent (fst (underLock (ce_sdk e) cfg (liveExecutor e cfg given rpc) we stop own t w)) \<noteq> w_sent w"
  shows "\<exists>w1 err y. underLock (ce_sdk e) cfg (liveExecutor e cfg given rpc) we stop own t w = (w1, Inl err)
    \<and> inHand o1 y (w_sys w1) \<and> s_status y = S_SUBMITTING \<and> \<not> truthy (s_hash y)"
proof -
  have row: "rowBy s_id (s_id t) (settlements (w_sys w)) = Some t" using hand by (simp add: inHand_def)
  let ?go = "executeSettlementFlow (ce_sdk e) cfg (liveExecutor e cfg given rpc) we own"
  let ?out = "underLock (ce_sdk e) cfg (liveExecutor e cfg given rpc) we stop own t w"
  show ?thesis
  proof (cases "s_status t = S_PENDING")
    case True
    have u: "?out = andThen (onSys (markSubmitting (s_id t))) (\<lambda>y. if stop then ret (s_status y) else ?go y) w"
      using True by (simp add: underLock_def row Let_def)
    obtain s1 r where m: "markSubmitting (s_id t) (w_sys w) = (s1, r)" by fastforce
    from sent obtain y where y: "r = Inr y" "\<not> stop" unfolding u by (cases r) (auto simp: andThen_eq onSys_eq m split: if_splits)
    note c = claim_inHand[OF hand m[unfolded y]]
    have out: "?out = ?go y (w\<lparr>w_sys := s1\<rparr>)" unfolding u using y m by (simp add: andThen_eq onSys_eq)
    have hand': "inHand o1 y (w_sys (w\<lparr>w_sys := s1\<rparr>))" using c by simp
    have "w_sent (fst (?go y (w\<lparr>w_sys := s1\<rparr>))) \<noteq> w_sent (w\<lparr>w_sys := s1\<rparr>)" using sent unfolding out by simp
    from flow_lost[OF hand' lost this] show ?thesis unfolding out using c by blast
  next
    case False
    with st sent have st: "s_status t = S_SUBMITTING" and out: "?out = ?go t w"
      by (auto simp: underLock_def row Let_def split: if_splits)
    show ?thesis using sent st flow_lost[OF hand lost] unfolding out by blast
  qed
qed

lemma pass_underLock:
  assumes sep: "separated (w_sys w)" "unique_by s_orderId (settlements (w_sys w))"
    and fresh: "freshIds (wk_settlement (we i)) (w_sys w) A"
    and sent: "w_sent (fst (processOne (ce_sdk e) cfg (liveExecutor e cfg given rpc) we stop i w)) \<noteq> w_sent w"
  obtains w1 t dup own w2 q u where "inHand i t (w_sys w1)" and "w_sent w1 = w_sent w"
    and "createSettlementForOrder cfg (wk_settlement (we i)) i (Some ''system-worker'') (w_sys w) = (w_sys w1, Inr (t, dup))"
    and "underLock (ce_sdk e) cfg (liveExecutor e cfg given rpc) (we i) stop own t w1 = (w2, u)"
    and "processSingleOrder (ce_sdk e) cfg (liveExecutor e cfg given rpc) (we i) stop i w = (w2, q)"
    and "w_sent w2 \<noteq> w_sent w" and "\<And>err. u = Inl err \<Longrightarrow> q = Inl err"
proof -
  let ?ex = "liveExecutor e cfg given rpc"
  let ?single = "processSingleOrder (ce_sdk e) cfg ?ex (we i) stop i w"
  obtain w2 q where single: "?single = (w2, q)" by fastforce
  have thrown: "w_sent (fst (afterThrow i err v)) = w_sent v" for err v
    by (auto simp: afterThrow_def andThen_eq split: option.splits sum.splits)
  have w2: "w_sent w2 \<noteq> w_sent w"
    using sent thrown single by (auto simp: processOne_def catching_eq andThen_eq split: sum.splits)
  obtain s1 r where c: "createSettlementForOrder cfg (wk_settlement (we i)) i (Some ''system-worker'') (w_sys w) = (s1, r)"
    by fastforce
  from w2 obtain t dup own where t: "r = Inr (t, dup)" "wk_lock (we i) = Acquired own"
    using single c by (cases r) (auto simp: processSingleOrder_def andThen_eq onSys_eq split: lock_outcome.splits if_splits)
  obtain v u where ul: "underLock (ce_sdk e) cfg ?ex (we i) stop own t (w\<lparr>w_sys := s1\<rparr>) = (v, u)" by fastforce
  have "w2 = v" "\<And>err. u = Inl err \<Longrightarrow> q = Inl err"
    using single c t ul by (auto simp: processSingleOrder_def andThen_eq onSys_eq split: sum.splits)
  moreover have "inHand i t s1" by (rule create_inHand[OF sep fresh c[unfolded t]])
  ultimately show thesis using that[of t "w\<lparr>w_sys := s1\<rparr>" dup own w2 u q] c t ul single w2 by simp
qed

lemma pass_onRecord:
  assumes sep: "separated (w_sys w)" "unique_by s_orderId (settlements (w_sys w))"
    and fresh: "freshIds (wk_settlement (we i)) (w_sys w) A" and kept: "wk_recordError (we i) = None"
    and sent: "w_sent (fst (processOne (ce_sdk e) cfg (liveExecutor e cfg given rpc) we stop i w)) \<noteq> w_sent w"
  shows "\<exists>j. onRecord i j (w_sys (fst (processOne (ce_sdk e) cfg (liveExecutor e cfg given rpc) we stop i w)))"
proof (rule pass_underLock[OF sep fresh sent])
  fix w1 t dup own w2 q u
  assume t: "inHand i t (w_sys w1)" "w_sent w1 = w_sent w" "w_sent w2 \<noteq> w_sent w"
    and ul: "underLock (ce_sdk e) cfg (liveExecutor e cfg given rpc) (we i) stop own t w1 = (w2, u)"
    and single: "processSingleOrder (ce_sdk e) cfg (liveExecutor e cfg given rpc) (we i) stop i w = (w2, q)"
  have rec: "onRecord i (s_id t) (w_sys w2)"
    using underLock_onRecord[OF t(1) kept, of cfg given rpc stop own] ul t by simp
  then have "fst (processOne (ce_sdk e) cfg (liveExecutor e cfg given rpc) we stop i w) = w2"
    using single afterThrow_onRecord[OF rec] by (cases q) (simp_all add: processOne_def catching_eq andThen_eq)
  with rec show ?thesis by auto
qed

lemma pass_lost:
  assumes sep: "separated (w_sys w)" "unique_by s_orderId (settlements (w_sys w))"
    and fresh: "freshIds (wk_settlement (we i)) (w_sys w) A" and lost: "wk_recordError (we i) = Some err"
    and sent: "w_sent (fst (processOne (ce_sdk e) cfg (liveExecutor e cfg given rpc) we stop i w)) \<noteq> w_sent w"
    and before: "\<And>t. rowBy s_orderId i (settlements (w_sys w)) = Some t \<Longrightarrow> s_status t \<in> {S_PENDING, S_SUBMITTING}"
  shows "\<exists>y. rowBy s_orderId i (settlements (w_sys (fst (processOne (ce_sdk e) cfg (liveExecutor e cfg given rpc) we stop i w)))) = Some y
    \<and> s_status y = S_FAILED \<and> \<not> truthy (s_hash y)"
proof (rule pass_underLock[OF sep fresh sent])
  let ?ex = "liveExecutor e cfg given rpc"
  fix w1 t dup own w2 q u
  assume t: "inHand i t (w_sys w1)" "w_sent w1 = w_sent w" "w_sent w2 \<noteq> w_sent w"
    and c: "createSettlementForOrder cfg (wk_settlement (we i)) i (Some ''system-worker'') (w_sys w) = (w_sys w1, Inr (t, dup))"
    and ul: "underLock (ce_sdk e) cfg ?ex (we i) stop own t w1 = (w2, u)"
    and single: "processSingleOrder (ce_sdk e) cfg ?ex (we i) stop i w = (w2, q)" and q: "\<And>err. u = Inl err \<Longrightarrow> q = Inl err"
  have "s_status t \<in> {S_PENDING, S_SUBMITTING}" by (rule create_status[OF c before])
  from underLock_lost[OF t(1) lost this, of cfg given rpc stop own] ul t
  obtain err' y where y: "u = Inl err'" "inHand i y (w_sys w2)" "s_status y = S_SUBMITTING" "\<not> truthy (s_hash y)" by auto
  have row: "rowBy s_id (s_id y) (settlements (w_sys w2)) = Some y" and u: "unique_by s_orderId (settlements (w_sys w2))"
    and o: "s_orderId y = i" using y(2) by (simp_all add: inHand_def)
  have found: "rowBy s_orderId i (settlements (w_sys w2)) = Some y"
    using rowBy_unique[OF u, of y] rowBy_SomeD[OF row] o by simp
  define f where "f = (\<lambda>y :: settlement. y\<lparr>s_status := S_FAILED, s_lastError := Some (messageOf err')\<rparr>)"
  have can: "canSettlement (s_status y) S_FAILED" by (simp add: y(3) canSettlement_def)
  have "markFailed (s_id y) (messageOf err') (w_sys w2) =
      (settlementAudit ''SETTLEMENT_FAILED'' (f y) (setSettlement (s_id y) f (w_sys w2)), Inr (f y))"
    unfolding markFailed_def f_def[symmetric] by (rule markWith_eq[OF inHand_found[OF y(2)] can row])
  then have "settlements (w_sys (fst (afterThrow i err' w2))) = setBy s_id (s_id y) f (settlements (w_sys w2))"
    using found by (simp add: afterThrow_def workerCanTransition_def y(3) andThen_eq onSys_eq)
  moreover have "fst (processOne (ce_sdk e) cfg ?ex we stop i w) = fst (afterThrow i err' w2)"
    using single q[OF y(1)] by (simp add: processOne_def catching_eq andThen_eq)
  moreover have "rowBy s_orderId i (setBy s_id (s_id y) f (settlements (w_sys w2))) = Some (f y)"
  proof -
    have "unique_by s_orderId (setBy s_id (s_id y) f (settlements (w_sys w2)))" using u by (simp add: rows f_def)
    moreover have "rowBy s_id (s_id y) (setBy s_id (s_id y) f (settlements (w_sys w2))) = Some (f y)"
      using row by (simp add: rows f_def)
    ultimately show ?thesis using rowBy_unique[of s_orderId _ "f y"] rowBy_SomeD o by (fastforce simp: f_def)
  qed
  ultimately show ?thesis using y(4) by (simp add: f_def)
qed

end

subsection \<open>Nothing is handed over twice, and nothing with more than four decimals\<close>

lemma flow_no_resubmission:
  assumes row: "rowBy s_id (s_id t) (settlements (w_sys w)) = Some y" and hash: "truthy (s_hash y)"
  shows "executeSettlementFlow k cfg ex we own t w = executeSettlementFlow k cfg (ex\<lparr>ex_submit := f\<rparr>) we own t w"
    and "w_sent (fst (executeSettlementFlow k cfg ex we own t w)) = w_sent w"
  using row hash
  by (auto simp: executeSettlementFlow_def andThen_eq flowSubmit_def flowConfirm_def confirmStep_def Let_def split: sum.splits)

lemma underLock_no_resubmission:
  assumes hand: "inHand o1 t (w_sys w)" and hash: "truthy (s_hash t)"
  shows "underLock k cfg ex we stop own t w = underLock k cfg (ex\<lparr>ex_submit := f\<rparr>) we stop own t w
    \<and> w_sent (fst (underLock k cfg ex we stop own t w)) = w_sent w"
proof -
  have row: "rowBy s_id (s_id t) (settlements (w_sys w)) = Some t" using hand by (simp add: inHand_def)
  show ?thesis
  proof (cases "s_status t = S_PENDING")
    case True
    obtain s1 r where m: "markSubmitting (s_id t) (w_sys w) = (s1, r)" by fastforce
    show ?thesis
    proof (cases r)
      case (Inl err)
      with True row m show ?thesis by (simp add: underLock_def andThen_eq onSys_eq)
    next
      case (Inr y)
      note c = claim_inHand[OF hand m[unfolded Inr]]
      have "rowBy s_id (s_id y) (settlements s1) = Some y" using c unfolding inHand_def by blast
      then have "rowBy s_id (s_id y) (settlements (w_sys (w\<lparr>w_sys := s1\<rparr>))) = Some y" by simp
      note flow_no_resubmission[OF this, of k cfg ex we own]
      with c hash show ?thesis using True row m Inr by (simp add: underLock_def andThen_eq onSys_eq)
    qed
  next
    case False
    then show ?thesis using flow_no_resubmission[OF row hash, of k cfg ex we own] by (simp add: underLock_def row)
  qed
qed

text \<open>
  C5. A payout that was handed to the network stays on record as long as the outcome of its
  submission can be written: after a pass of the settlement worker over an order that broadcast a
  transaction - whatever the network answered, and whatever the pass did about it - the order has a
  settlement that is SUBMITTED, CONFIRMING, COMPLETED or REQUIRES_RECONCILIATION, for which no refund
  is accepted. When exactly that write is lost to an error of the database, the handler of the sweep
  marks the settlement of the transaction that is on its way FAILED, without its hash, and a refund
  of the order is open. Every other write is assumed to succeed.
\<close>

theorem broadcast_stays_on_record:
  assumes "chain_client e" and "separated (w_sys w)" and "unique_by s_orderId (settlements (w_sys w))"
    and "freshIds (wk_settlement (we i)) (w_sys w) A"
    and "processOne (ce_sdk e) cfg (liveExecutor e cfg given rpc) we stop i w = (w1, r)" and "w_sent w1 \<noteq> w_sent w"
  shows "case wk_recordError (we i) of
      None \<Rightarrow> \<exists>y \<in> set (settlements (w_sys w1)). s_orderId y = i \<and> keptOpen (s_status y) \<and> blocksRefund (s_status y)
    | Some lost \<Rightarrow>
        (\<forall>t. rowBy s_orderId i (settlements (w_sys w)) = Some t \<longrightarrow> s_status t \<in> {S_PENDING, S_SUBMITTING}) \<longrightarrow>
        (\<exists>y. rowBy s_orderId i (settlements (w_sys w1)) = Some y
           \<and> s_status y = S_FAILED \<and> \<not> truthy (s_hash y) \<and> \<not> blocksRefund (s_status y))"
proof (cases "wk_recordError (we i)")
  case None
  obtain j where "onRecord i j (w_sys w1)"
    using chain_client.pass_onRecord[where we = we and i = i, OF assms(1-4) None, of cfg given rpc stop] assms(5,6) by auto
  then obtain y where "rowBy s_id j (settlements (w_sys w1)) = Some y" "s_orderId y = i" "keptOpen (s_status y)"
    by (auto simp: onRecord_def)
  moreover then have "blocksRefund (s_status y)" by (cases "s_status y") (simp_all add: blocksRefund_def)
  ultimately have "\<exists>y \<in> set (settlements (w_sys w1)). s_orderId y = i \<and> keptOpen (s_status y) \<and> blocksRefund (s_status y)"
    using rowBy_SomeD by fastforce
  with None show ?thesis by simp
next
  case (Some lost)
  show ?thesis
    using chain_client.pass_lost[where we = we and i = i, OF assms(1-4) Some, of cfg given rpc stop] assms(5,6) Some
    by (auto simp: blocksRefund_def)
qed

theorem broadcast_stays_on_record_witness:
  "(\<exists>y \<in> set (settlements (w_sys (fst (processOne demo_sdk demo_cfg demo_live (\<lambda>_. demo_we) False ''order'' demo_fresh)))).
     s_orderId y = ''order'' \<and> keptOpen (s_status y) \<and> blocksRefund (s_status y))
   \<and> (\<exists>y. rowBy s_orderId ''order'' (settlements (w_sys (fst (processOne demo_sdk demo_cfg demo_live
         (\<lambda>_. demo_we\<lparr>wk_recordError := Some (PlainError ''timeout'')\<rparr>) False ''order'' demo_fresh)))) = Some y
       \<and> s_status y = S_FAILED \<and> \<not> blocksRefund (s_status y))"
proof
  have thrown: "w_sent (fst (afterThrow i err v)) = w_sent v" for i err v
    by (auto simp: afterThrow_def andThen_eq split: option.splits sum.splits)
  let ?pass = "\<lambda>we. processOne demo_sdk demo_cfg demo_live (\<lambda>_. we) False ''order'' demo_fresh"
  let ?lost = "demo_we\<lparr>wk_recordError := Some (PlainError ''timeout'')\<rparr>"
  have sent: "w_sent (fst (?pass demo_we)) \<noteq> w_sent demo_fresh" "w_sent (fst (?pass ?lost)) \<noteq> w_sent demo_fresh"
    using demo_pass_sent demo_lost_sent thrown
    by (auto simp: processOne_def catching_eq andThen_eq demo_fresh_def split: sum.splits)
  have tab: "separated (w_sys demo_fresh)" "unique_by s_orderId (settlements (w_sys demo_fresh))" "ce_sdk demo_chain = demo_sdk"
    "freshIds (wk_settlement demo_we) (w_sys demo_fresh) {}" "wk_recordError demo_we = None" "settlements (w_sys demo_fresh) = []"
    using demo_freshIds
    by (simp_all add: demo_fresh_def demo_payable_def demo_ledger_def empty_sys_def separated_def unique_by_def demo_chain_def demo_we_def)
  note rule = broadcast_stays_on_record[where i = "''order''" and A = "{}" and cfg = demo_cfg and given = None
      and rpc = "\<lambda>_ _. RpcSuccess 9" and stop = False, OF demo_client.chain_client_axioms tab(1,2)]
  show "\<exists>y \<in> set (settlements (w_sys (fst (?pass demo_we)))). s_orderId y = ''order'' \<and> keptOpen (s_status y) \<and> blocksRefund (s_status y)"
    using rule[where we = "\<lambda>_. demo_we"] tab(3-5) sent(1) by (simp add: demo_live_def prod_eq_iff)
  have "freshIds (wk_settlement ?lost) (w_sys demo_fresh) {}" using tab(4) by simp
  then show "\<exists>y. rowBy s_orderId ''order'' (settlements (w_sys (fst (?pass ?lost)))) = Some y
      \<and> s_status y = S_FAILED \<and> \<not> blocksRefund (s_status y)"
    using rule[where we = "\<lambda>_. ?lost"] tab(3,6) sent(2) by (auto simp: demo_live_def prod_eq_iff)
qed

text \<open>
  C6. What has a hash is not handed over again: once the settlement of an order has a transaction
  hash, a pass of the worker over the order is the same whatever a submission would do, and
  broadcasts nothing.
\<close>

theorem hash_never_resubmitted:
  assumes "separated (w_sys w)" and "unique_by s_orderId (settlements (w_sys w))"
    and "rowBy s_orderId i (settlements (w_sys w)) = Some t" and "truthy (s_hash t)"
  shows "processSingleOrder k cfg ex we stop i w = processSingleOrder k cfg (ex\<lparr>ex_submit := f\<rparr>) we stop i w
    \<and> w_sent (fst (processSingleOrder k cfg ex we stop i w)) = w_sent w"
proof -
  have hand: "inHand i t (w_sys w)" using assms(1-3) by (rule inHand_row)
  have "createSettlementForOrder cfg (wk_settlement we) i (Some ''system-worker'') (w_sys w) = (w_sys w, Inr (t, True))
      \<or> (\<exists>err. createSettlementForOrder cfg (wk_settlement we) i (Some ''system-worker'') (w_sys w) = (w_sys w, Inl err))"
    using assms(3) by (auto simp: createSettlementForOrder_def settlementRead_def andThen_eq settlementWrite_def split: option.splits)
  then show ?thesis
  proof
    assume "createSettlementForOrder cfg (wk_settlement we) i (Some ''system-worker'') (w_sys w) = (w_sys w, Inr (t, True))"
    then show ?thesis
      using underLock_no_resubmission[OF hand assms(4), of k cfg ex we stop]
      by (auto simp: processSingleOrder_def andThen_eq onSys_eq split: lock_outcome.splits sum.splits)
  qed (auto simp: processSingleOrder_def andThen_eq onSys_eq)
qed
theorem hash_never_resubmitted_witness:
  "w_sent (fst (processSingleOrder demo_sdk demo_cfg demo_live demo_we False ''order''
     \<lparr>w_sys = demo_settling S_CONFIRMING, w_sent = [], w_kmsKey = None\<rparr>)) = []"
proof -
  have tab: "settlements (demo_settling S_CONFIRMING) = [(demo_stl ''t1'')\<lparr>s_status := S_CONFIRMING, s_hash := Some ''HASH''\<rparr>]"
    "refunds (demo_settling S_CONFIRMING) = []"
    by (simp_all add: demo_settling_def demo_payable_def demo_ledger_def empty_sys_def)
  have hyp: "separated (demo_settling S_CONFIRMING)" "unique_by s_orderId (settlements (demo_settling S_CONFIRMING))"
    "rowBy s_orderId ''order'' (settlements (demo_settling S_CONFIRMING)) =
       Some ((demo_stl ''t1'')\<lparr>s_status := S_CONFIRMING, s_hash := Some ''HASH''\<rparr>)"
    unfolding separated_def tab by (simp_all add: unique_by_def demo_stl_row)
  let ?w = "\<lparr>w_sys = demo_settling S_CONFIRMING, w_sent = [], w_kmsKey = None\<rparr>"
  have "w_sent (fst (processSingleOrder demo_sdk demo_cfg demo_live demo_we False ''order'' ?w)) = w_sent ?w"
    by (rule conjunct2[OF hash_never_resubmitted[where t = "(demo_stl ''t1'')\<lparr>s_status := S_CONFIRMING, s_hash := Some ''HASH''\<rparr>"]])
      (use hyp in simp_all)
  then show ?thesis by simp
qed

subsection \<open>The amount\<close>

context chain_client
begin

text \<open>What was broadcast for a settlement pays the order's amount, so the two columns agree.\<close>

lemma broadcast_amount:
  assumes dec: "decimal_text (sdk_decimal (ce_sdk e))"
    and sub: "w_sent (fst (ex_submit (liveExecutor e cfg given rpc) (submitParams (ce_sdk e) own t) w)) \<noteq> w_sent w"
    and x: "rowBy o_id (s_orderId t) (orders (w_sys w)) = Some x" "10 \<le> o_destinationAmount x"
    and pos: "0 \<le> s_amount t"
  shows "o_destinationAmount x = s_amount t * 1000"
proof -
  obtain w1 r where run: "buildAndSubmit e cfg given (submitParams (ce_sdk e) own t) w = (w1, r)" by fastforce
  have "w_sent w1 \<noteq> w_sent w" using sub run by (simp add: liveExecutor_def)
  with buildAndSubmit_cases[OF run] obtain tr where "broadcast e cfg (submitParams (ce_sdk e) own t) (w_sys w) tr" by blast
  then have eq: "parseAmountToStroops (columnText (ce_sdk e) 4 (s_amount t)) =
      parseAmountToStroops (columnText (ce_sdk e) 7 (o_destinationAmount x))"
    using x(1) by (auto simp: broadcast_def submitParams_def)
  have "plainRange 4 (nat (s_amount t))" "plainRange 7 (nat (o_destinationAmount x))"
    using x(2) pos by (auto simp: plainRange_def)
  from decimal_text.roundtrip[OF dec this(1)] decimal_text.roundtrip[OF dec this(2)] eq pos x(2)
  show ?thesis by (simp add: columnText_def)
qed

text \<open>Along a pass only the submission of the settlement in hand broadcasts.\<close>

lemma flow_sends:
  assumes "w_sent (fst (executeSettlementFlow (ce_sdk e) cfg (liveExecutor e cfg given rpc) we own t w)) \<noteq> w_sent w"
    and row: "rowBy s_id (s_id t) (settlements (w_sys w)) = Some t"
  shows "w_sent (fst (ex_submit (liveExecutor e cfg given rpc) (submitParams (ce_sdk e) (wk_ownedAfter we) t) w)) \<noteq> w_sent w"
proof -
  have confirm: "w_sent (fst (flowConfirm cfg ex we y v)) = w_sent v" for ex :: executor and y v
    by (auto simp: flowConfirm_def confirmStep_def Let_def andThen_eq split: sum.splits)
  have after: "w_sent (fst (afterSubmit now lost y r v)) = w_sent v" for now lost y r v
    by (auto simp: afterSubmit_def Let_def andThen_eq split: if_splits sum.splits)
  show ?thesis
  proof
    assume "w_sent (fst (ex_submit (liveExecutor e cfg given rpc) (submitParams (ce_sdk e) (wk_ownedAfter we) t) w)) = w_sent w"
    then have "w_sent (fst (flowSubmit (ce_sdk e) (liveExecutor e cfg given rpc) we own t w)) = w_sent w"
      by (auto simp: flowSubmit_def after split: prod.splits)
    then have "w_sent (fst (executeSettlementFlow (ce_sdk e) cfg (liveExecutor e cfg given rpc) we own t w)) = w_sent w"
      using row by (auto simp: executeSettlementFlow_def andThen_eq confirm split: sum.splits)
    with assms(1) show False by simp
  qed
qed

end

lemma createSettlement_orders: "orders (fst (createSettlementForOrder cfg te i a s)) = orders s"
proof -
  obtain s0 r where read: "settlementRead cfg te i s = (s0, r)" by fastforce
  have s0: "s0 = s" using read by (auto simp: settlementRead_def split: option.splits if_splits)
  have "orders (fst (settlementWrite a f s)) = orders s" for f
    by (cases f) (auto simp: settlementWrite_def catching_eq andThen_eq insertSettlement_def split: option.splits)
  then show ?thesis using read s0 by (cases r) (simp_all add: createSettlementForOrder_def andThen_eq)
qed

lemma createSettlement_amount:
  assumes run: "createSettlementForOrder cfg te i a s = (s1, Inr (t, dup))"
    and x: "rowBy o_id i (orders s) = Some x" "0 \<le> o_destinationAmount x"
    and rows: "\<forall>y \<in> set (settlements s). s_orderId y = i \<longrightarrow> 0 \<le> s_amount y"
  shows "0 \<le> s_amount t \<and> s_orderId t = i"
proof -
  obtain s0 found where read: "settlementRead cfg te i s = (s0, Inr found)" and wr: "settlementWrite a found s0 = (s1, Inr (t, dup))"
    using run by (auto simp: createSettlementForOrder_def elim!: andThen_returns)
  have old: "0 \<le> s_amount y \<and> s_orderId y = i" if "rowBy s_orderId i (settlements s) = Some y" for y
    using rows rowBy_SomeD[OF that] by simp
  have s0: "s0 = s" using read by (auto simp: settlementRead_def split: option.splits if_splits)
  show ?thesis
  proof (cases found)
    case (Inl d)
    then have "rowBy s_orderId i (settlements s) = Some d"
      using read by (auto simp: settlementRead_def split: option.splits if_splits)
    with wr Inl old show ?thesis by (auto simp: settlementWrite_def)
  next
    case (Inr d)
    have d: "d = newSettlement cfg te x" using settlementRead_new(2)[OF read[unfolded Inr]] x(1) by auto
    have od: "s_orderId d = i" using rowBy_SomeD[OF x(1)] by (simp add: d newSettlement_def)
    have "0 \<le> settlementAmount x"
      unfolding settlementAmount_def by (rule toColumn_nonneg) (use x(2) in \<open>simp add: ofColumn_def\<close>)
    then have "0 \<le> s_amount d" by (simp add: d newSettlement_def)
    with wr Inr s0 old od show ?thesis
      by (auto simp: settlementWrite_def catching_eq andThen_eq insertSettlement_def split: if_splits option.splits)
  qed
qed

lemma markSubmitting_orders:
  assumes "markSubmitting i s = (s1, Inr y)"
  shows "orders s1 = orders s"
proof -
  obtain t where claim: "claimSubmitting t s = (s1, Inr y)"
    using assms readFor_returns(1) by (fastforce simp: markSubmitting_def elim!: andThen_returns)
  then show ?thesis
    by (auto simp: claimSubmitting_def andThen_eq updateSettlement_def logged_def split: if_splits option.splits)
qed

context chain_client
begin

lemma pass_sends:
  assumes sep: "separated (w_sys w)" "unique_by s_orderId (settlements (w_sys w))"
    and fresh: "freshIds (wk_settlement we) (w_sys w) A"
    and x: "rowBy o_id i (orders (w_sys w)) = Some x" "0 \<le> o_destinationAmount x"
    and rows: "\<forall>y \<in> set (settlements (w_sys w)). s_orderId y = i \<longrightarrow> 0 \<le> s_amount y"
    and sent: "w_sent (fst (processSingleOrder (ce_sdk e) cfg (liveExecutor e cfg given rpc) we stop i w)) \<noteq> w_sent w"
  shows "\<exists>t v. w_sent (fst (ex_submit (liveExecutor e cfg given rpc) (submitParams (ce_sdk e) (wk_ownedAfter we) t) v)) \<noteq> w_sent v
    \<and> orders (w_sys v) = orders (w_sys w) \<and> s_orderId t = i \<and> 0 \<le> s_amount t"
proof -
  let ?ex = "liveExecutor e cfg given rpc"
  obtain s1 r where c: "createSettlementForOrder cfg (wk_settlement we) i (Some ''system-worker'') (w_sys w) = (s1, r)"
    by fastforce
  from sent obtain t dup own where t: "r = Inr (t, dup)" "wk_lock we = Acquired own"
    using c by (cases r) (auto simp: processSingleOrder_def andThen_eq onSys_eq split: lock_outcome.splits if_splits)
  let ?v = "w\<lparr>w_sys := s1\<rparr>"
  have u: "w_sent (fst (underLock (ce_sdk e) cfg ?ex we stop own t ?v)) \<noteq> w_sent ?v"
    using sent c t by (auto simp: processSingleOrder_def andThen_eq onSys_eq split: sum.splits)
  have ords: "orders s1 = orders (w_sys w)" using createSettlement_orders[of cfg "wk_settlement we" i "Some ''system-worker''" "w_sys w"] c by simp
  note amt = createSettlement_amount[OF c[unfolded t] x rows]
  have hand: "inHand i t s1" by (rule create_inHand[OF sep fresh c[unfolded t]])
  then have row: "rowBy s_id (s_id t) (settlements s1) = Some t" by (simp add: inHand_def)
  show ?thesis
  proof (cases "s_status t = S_PENDING")
    case True
    obtain s2 q where m: "markSubmitting (s_id t) s1 = (s2, q)" by fastforce
    from u True row obtain y where y: "q = Inr y" "\<not> stop"
      by (cases q) (auto simp: underLock_def andThen_eq onSys_eq m split: if_splits)
    have go: "w_sent (fst (executeSettlementFlow (ce_sdk e) cfg ?ex we own y (w\<lparr>w_sys := s2\<rparr>))) \<noteq> w_sent (w\<lparr>w_sys := s2\<rparr>)"
      using u True row y m by (simp add: underLock_def andThen_eq onSys_eq)
    have "rowBy s_id (s_id y) (settlements s2) = Some y"
      using claim_inHand[OF hand m[unfolded y]] unfolding inHand_def by blast
    then have "rowBy s_id (s_id y) (settlements (w_sys (w\<lparr>w_sys := s2\<rparr>))) = Some y" by simp
    note send = flow_sends[OF go this]
    have "s_orderId y = s_orderId t \<and> s_amount y = s_amount t"
      using claim_inHand[OF hand m[unfolded y]] hand by (simp add: inHand_def)
    then show ?thesis using send amt ords markSubmitting_orders[OF m[unfolded y]] by (intro exI[of _ y] exI[of _ "w\<lparr>w_sys := s2\<rparr>"]) simp
  next
    case False
    have "w_sent (fst (executeSettlementFlow (ce_sdk e) cfg ?ex we own t ?v)) \<noteq> w_sent ?v"
      using u False row by (auto simp: underLock_def split: if_splits)
    from flow_sends[OF this] row show ?thesis using amt ords by (intro exI[of _ t] exI[of _ ?v]) simp
  qed
qed

end

text \<open>
  C29. An order of more than four decimals is never paid out: the settlement's amount is kept with
  four decimals, the policy compares it with the order's seven, so a pass of the worker over an
  order whose amount is not a multiple of a thousand stroops broadcasts nothing, now and whenever it
  is tried again.
\<close>

theorem fractional_payout_never_sent:
  assumes "chain_client e" and "decimal_text (sdk_decimal (ce_sdk e))"
    and "separated (w_sys w)" and "unique_by s_orderId (settlements (w_sys w))" and "freshIds (wk_settlement we) (w_sys w) A"
    and "rowBy o_id i (orders (w_sys w)) = Some x" and "10 \<le> o_destinationAmount x" and "\<not> 1000 dvd o_destinationAmount x"
    and "\<forall>y \<in> set (settlements (w_sys w)). s_orderId y = i \<longrightarrow> 0 \<le> s_amount y"
  shows "w_sent (fst (processSingleOrder (ce_sdk e) cfg (liveExecutor e cfg given rpc) we stop i w)) = w_sent w"
proof (rule ccontr)
  assume sent: "\<not> ?thesis"
  have pos: "0 \<le> o_destinationAmount x" using assms(7) by simp
  from chain_client.pass_sends[OF assms(1,3-6) pos assms(9) sent] obtain t v where
    "w_sent (fst (ex_submit (liveExecutor e cfg given rpc) (submitParams (ce_sdk e) (wk_ownedAfter we) t) v)) \<noteq> w_sent v"
    and v: "orders (w_sys v) = orders (w_sys w)" "s_orderId t = i" "0 \<le> s_amount t" by blast
  from chain_client.broadcast_amount[OF assms(1,2) this(1), of x] v assms(6,7)
  have "o_destinationAmount x = s_amount t * 1000" by simp
  with assms(8) show False by simp
qed

theorem fractional_payout_never_sent_witness:
  "w_sent (fst (processSingleOrder demo_sdk demo_cfg demo_live demo_we False ''order''
     (demo_fresh\<lparr>w_sys := demo_payable\<lparr>orders := [demo_due\<lparr>o_destinationAmount := 19800000001\<rparr>]\<rparr>\<rparr>))) = []"
proof -
  let ?s = "demo_payable\<lparr>orders := [demo_due\<lparr>o_destinationAmount := 19800000001\<rparr>]\<rparr>"
  let ?w = "demo_fresh\<lparr>w_sys := ?s\<rparr>" and ?x = "demo_due\<lparr>o_destinationAmount := 19800000001\<rparr>"
  have tab: "settlements ?s = []" "refunds ?s = []" "orders ?s = [?x]" "ce_sdk demo_chain = demo_sdk" "o_id ?x = ''order''"
    by (simp_all add: demo_payable_def demo_ledger_def empty_sys_def demo_chain_def demo_due_row)
  have "decimal_text (sdk_decimal (ce_sdk demo_chain))"
    using plain_text.decimal_text_axioms by (simp add: demo_chain_def demo_sdk_def)
  moreover have "separated ?s" "unique_by s_orderId (settlements ?s)" "freshIds (wk_settlement demo_we) ?s {}"
    unfolding separated_def freshIds_def tab by (simp_all add: unique_by_def demo_we_def demo_te_def)
  moreover have "\<not> 1000 dvd o_destinationAmount ?x" by simp
  ultimately have "w_sent (fst (processSingleOrder (ce_sdk demo_chain) demo_cfg (liveExecutor demo_chain demo_cfg None (\<lambda>_ _. RpcSuccess 9))
      demo_we False ''order'' ?w)) = w_sent ?w"
    using tab by (intro fractional_payout_never_sent[of _ _ _ _ _ ?x, OF demo_client.chain_client_axioms]) simp_all
  then show ?thesis by (simp add: tab demo_live_def demo_fresh_def)
qed

end
