(* ===== verification/ReconcileProps.thy ===== *)
theory ReconcileProps
  imports WorkerProps
begin

text \<open>
  What reconciliation and cleanup do to an order: the chain's answer decides, an unreachable RPC
  server included; a confirmed payment is left where no worker looks; only unpaid orders expire.
\<close>

subsection \<open>Giving a settlement up\<close>

lemma release_keeps_orders: "orders (fst (releaseReservationInTx cfg i st s)) = orders s"
  "settlements (fst (releaseReservationInTx cfg i st s)) = settlements s"
  by (auto simp: releaseReservationInTx_def Let_def split: option.splits)

lemma released_closed:
  assumes inv: "ledger_inv s" and st: "\<not> active st"
    and v: "rowBy v_orderId i (reservations (fst (releaseReservationInTx cfg i st s))) = Some v"
  shows "\<not> active (v_status v)"
proof (cases "rowBy v_orderId i (reservations s)")
  case None
  with v show ?thesis by (simp add: release_missing)
next
  case (Some v0)
  have ok: "ledger_ok (pools s) (reservations s)" using inv by (simp add: ledger_inv_def)
  obtain p where p: "rowBy l_id (v_poolId v0) (pools s) = Some p" using ledger_lookup[OF ok Some] by metis
  show ?thesis
  proof (cases "active (v_status v0)")
    case False
    with v Some show ?thesis by (simp add: release_inactive)
  next
    case True
    have "v \<in> set (setBy v_id (v_id v0) (\<lambda>r. r\<lparr>v_status := st\<rparr>) (reservations s))" "v_orderId v = i"
      using rowBy_SomeD[OF v] release_active(2)[OF inv Some True p, of cfg st] by simp_all
    then show ?thesis by (rule closed_row[OF ok Some st])
  qed
qed

text \<open>What giving up leaves: the settlement and the order failed, nothing held for the order.\<close>

definition givenUp :: "settlement \<Rightarrow> sys \<Rightarrow> bool" where
  "givenUp t s \<longleftrightarrow>
     (case rowBy s_id (s_id t) (settlements s) of Some y \<Rightarrow> s_status y = S_FAILED | None \<Rightarrow> False)
     \<and> (case rowBy o_id (s_orderId t) (orders s) of Some x \<Rightarrow> o_status x = O_FAILED | None \<Rightarrow> False)
     \<and> (case rowBy v_orderId (s_orderId t) (reservations s) of Some v \<Rightarrow> \<not> active (v_status v) | None \<Rightarrow> True)
     \<and> ledger_inv s"

lemma giveUp_gives:
  assumes inv: "ledger_inv s" and sep: "separated s" and row: "rowBy s_id (s_id t) (settlements s) = Some t"
    and can: "canSettlement (s_status t) S_FAILED" and x: "rowBy o_id (s_orderId t) (orders s) = Some x"
  shows "\<exists>s1 f. giveUp cfg t msg s = (s1, Inr f) \<and> givenUp t s1 \<and> s_status f = S_FAILED"
proof -
  have found: "findSettlement (s_id t) s = Some t" by (rule findSettlement_own[OF sep row])
  let ?f = "\<lambda>y. y\<lparr>s_status := S_FAILED, s_lastError := Some msg\<rparr>"
  define s1 where "s1 = settlementAudit ''SETTLEMENT_FAILED'' (?f t) (setSettlement (s_id t) ?f s)"
  have m: "markFailed (s_id t) msg s = (s1, Inr (?f t))"
    unfolding markFailed_def s1_def by (rule markWith_eq[OF found can row])
  have inv1: "ledger_inv s1" using inv by (simp add: s1_def ledger_inv_def)
  obtain s2 r where rel: "releaseReservationInTx cfg (s_orderId t) V_CANCELLED_RELEASED s1 = (s2, Inr r)"
    using release_returns[OF inv1, of cfg "s_orderId t" V_CANCELLED_RELEASED] by (metis prod.collapse)
  have s2: "orders s2 = orders s" "settlements s2 = setBy s_id (s_id t) ?f (settlements s)" "ledger_inv s2"
    using release_keeps_orders[of cfg "s_orderId t" V_CANCELLED_RELEASED s1] rel
      release_ledger[OF inv1, of V_CANCELLED_RELEASED cfg "s_orderId t"] by (simp_all add: s1_def)
  have res: "\<not> active (v_status v)" if "rowBy v_orderId (s_orderId t) (reservations s2) = Some v" for v
    using released_closed[OF inv1, of V_CANCELLED_RELEASED "s_orderId t" cfg v] rel that by simp
  let ?s3 = "setOrder (s_orderId t) (\<lambda>x. x\<lparr>o_status := O_FAILED\<rparr>) s2"
  have "giveUp cfg t msg s = (?s3, Inr (?f t))"
    using m rel s2(1) x by (simp add: giveUp_def andThen_eq releaseReservation_eq[OF inv1] updateOrderStatus_def)
  moreover have "givenUp t ?s3"
    using s2 x row res by (auto simp: givenUp_def setOrder_def rows ledger_inv_def split: option.splits)
  ultimately show ?thesis by auto
qed

definition doneWith :: "int \<Rightarrow> settlement \<Rightarrow> sys \<Rightarrow> bool" where
  "doneWith l t s \<longleftrightarrow>
     (case rowBy s_id (s_id t) (settlements s) of
        Some y \<Rightarrow> s_status y = S_COMPLETED \<and> s_ledger y = Some l \<and> s_hash y = s_hash t | None \<Rightarrow> False)
     \<and> (case rowBy o_id (s_orderId t) (orders s) of Some x \<Rightarrow> o_status x = O_COMPLETED | None \<Rightarrow> False)
     \<and> (case rowBy v_orderId (s_orderId t) (reservations s) of Some v \<Rightarrow> \<not> active (v_status v) | None \<Rightarrow> True)
     \<and> ledger_inv s"

lemma completed_does:
  assumes inv: "ledger_inv s" and sep: "separated s" and row: "rowBy s_id (s_id t) (settlements s) = Some t"
    and can: "canSettlement (s_status t) S_COMPLETED" and x: "rowBy o_id (s_orderId t) (orders s) = Some x"
  shows "\<exists>s1 y. markCompleted cfg now (s_id t) l s = (s1, Inr y) \<and> doneWith l t s1 \<and> s_status y = S_COMPLETED"
proof -
  have hand: "findSettlement (s_id t) s = Some t" by (rule findSettlement_own[OF sep row])
  define s0 where "s0 = setOrder (s_orderId t) (\<lambda>y. y\<lparr>o_status := O_COMPLETED\<rparr>) (setSettlement (s_id t) (completedRow now l) s)"
  let ?s1 = "fst (consumeReservation cfg now (s_orderId t) (Some (s_settlementId t)) (noneIfFalsy (s_hash t)) s0)"
  note eq = markCompleted_eq[OF inv hand can row x, of cfg now l, folded s0_def]
  have inv0: "ledger_inv s0" using inv by (simp add: s0_def ledger_inv_def setOrder_def)
  have "doneWith l t (settlementAudit ''SETTLEMENT_COMPLETED'' (completedRow now l t) ?s1)"
    using consume_ledger[OF inv0, of cfg now "s_orderId t" "Some (s_settlementId t)" "noneIfFalsy (s_hash t)"] row x
      consumed_not_active[OF inv0, of "s_orderId t" cfg now "Some (s_settlementId t)" "noneIfFalsy (s_hash t)"]
    by (auto simp: doneWith_def ledger_inv_def s0_def setOrder_def rows completedRow_def split: option.splits)
  then show ?thesis using eq by auto
qed

lemma young_or_pending:
  assumes "sr_status (getTransactionStatus a) = TX_PENDING \<or> (sr_status (getTransactionStatus a) = TX_NOT_FOUND \<and> \<not> tooOld now hours t)"
  shows "reconcileByChain cfg now a hours t s = (s, Inr (reconciledAs t (s_status t) False))"
  using assms by (auto simp: reconcileByChain_def Let_def)

text \<open>
  C7. Reconciliation follows the chain: a settlement that was submitted is completed, with its order,
  when the transaction succeeded; given up, with its order and its reservation, when it failed,
  when the chain does not know it and it is too old - and also when the query itself throws, so
  that one network error is taken for a failed payment; otherwise nothing changes. The ledger
  invariant holds throughout and nothing stays reserved for an order that is settled or given up.
\<close>

theorem reconcile_follows_chain:
  assumes "ledger_inv s" and "separated s" and "rowBy s_id i (settlements s) = Some t"
    and "s_hash t = Some h" and "h \<noteq> []"
    and "s_status t \<in> {S_SUBMITTED, S_CONFIRMING, S_REQUIRES_RECONCILIATION}"
    and "rowBy o_id (s_orderId t) (orders s) = Some x"
  shows "\<exists>s1 r. reconcileSingleSettlement cfg now rpc hours i s = (s1, Inr r)
    \<and> (case rpc h of
         RpcSuccess l \<Rightarrow> doneWith l t s1 \<and> rc_new r = S_COMPLETED \<and> rc_reconciled r
       | RpcFailed l \<Rightarrow> givenUp t s1 \<and> rc_new r = S_FAILED \<and> rc_reconciled r
       | RpcThrows msg \<Rightarrow> givenUp t s1 \<and> rc_new r = S_FAILED \<and> rc_reconciled r
       | RpcNotFound \<Rightarrow>
           if tooOld now hours t then givenUp t s1 \<and> rc_new r = S_FAILED \<and> rc_reconciled r
           else s1 = s \<and> \<not> rc_reconciled r
       | RpcOther \<Rightarrow> s1 = s \<and> \<not> rc_reconciled r)"
proof -
  have id: "s_id t = i" and row: "rowBy s_id (s_id t) (settlements s) = Some t" using rowBy_SomeD[OF assms(3)] assms(3) by auto
  have can: "canSettlement (s_status t) S_COMPLETED" "canSettlement (s_status t) S_FAILED"
    using assms(6) by (auto simp: canSettlement_def)
  have run: "reconcileSingleSettlement cfg now rpc hours i s = reconcileByChain cfg now (rpc h) hours t s"
    using assms(3-5) by (simp add: reconcileSingleSettlement_def)
  have audits: "givenUp t (reconciliationAudit a y s1) = givenUp t s1" "doneWith l t (reconciliationAudit a y s1) = doneWith l t s1" for a y s1 l
    by (simp_all add: reconciliationAudit_def auditLog_def givenUp_def doneWith_def ledger_inv_def)
  have up: "\<exists>s1 f. giveUp cfg t msg s = (s1, Inr f) \<and> givenUp t s1 \<and> s_status f = S_FAILED" for msg
    by (rule giveUp_gives[OF assms(1,2) row can(2) assms(7)])
  show ?thesis
  proof (cases "rpc h")
    case (RpcSuccess l)
    obtain s1 y where "markCompleted cfg now (s_id t) l s = (s1, Inr y)" "doneWith l t s1" "s_status y = S_COMPLETED"
      using completed_does[OF assms(1,2) row can(1) assms(7)] by blast
    then show ?thesis using RpcSuccess by (simp add: run reconcileByChain_def andThen_eq audits reconciledAs_def)
  next
    case (RpcFailed l)
    obtain s1 f where "giveUp cfg t ''Transaction failed during on-chain execution.'' s = (s1, Inr f)" "givenUp t s1" "s_status f = S_FAILED"
      using up by blast
    then show ?thesis using RpcFailed by (simp add: run reconcileByChain_def andThen_eq audits reconciledAs_def orDefault_def)
  next
    case (RpcThrows msg)
    obtain s1 f where "giveUp cfg t (orDefault (Some msg) ''On-chain transaction execution failed.'') s = (s1, Inr f)" "givenUp t s1" "s_status f = S_FAILED"
      using up by blast
    then show ?thesis using RpcThrows by (simp add: run reconcileByChain_def andThen_eq audits reconciledAs_def)
  next
    case RpcNotFound
    obtain s1 f where "giveUp cfg t ''Transaction not found on Stellar network after timeout.'' s = (s1, Inr f)" "givenUp t s1" "s_status f = S_FAILED"
      using up by blast
    then show ?thesis using RpcNotFound by (simp add: run reconcileByChain_def andThen_eq reconciledAs_def)
  next
    case RpcOther
    then show ?thesis by (simp add: run young_or_pending reconciledAs_def)
  qed
qed

theorem reconcile_follows_chain_witness:
  "\<exists>s1 r. reconcileSingleSettlement demo_cfg 60 (\<lambda>_. RpcThrows ''timeout'') 24 ''t1'' (demo_settling S_CONFIRMING) = (s1, Inr r)
     \<and> rc_new r = S_FAILED \<and> (\<exists>x. rowBy o_id ''order'' (orders s1) = Some x \<and> o_status x = O_FAILED)"
proof -
  let ?t = "(demo_stl ''t1'')\<lparr>s_status := S_CONFIRMING, s_hash := Some ''HASH''\<rparr>" and ?s = "demo_settling S_CONFIRMING"
  have tab: "settlements ?s = [?t]" "orders ?s = [demo_due]" "refunds ?s = []"
    by (simp_all add: demo_settling_def demo_payable_def demo_ledger_def empty_sys_def)
  have inv: "ledger_inv ?s" using demo_ledger_inv by (simp add: ledger_inv_def demo_settling_def demo_payable_def)
  have sep: "separated ?s" unfolding separated_def tab by (simp add: unique_by_def demo_stl_row)
  have row: "rowBy s_id ''t1'' (settlements ?s) = Some ?t" "s_hash ?t = Some ''HASH''" "s_status ?t \<in> {S_SUBMITTED, S_CONFIRMING, S_REQUIRES_RECONCILIATION}"
    "rowBy o_id (s_orderId ?t) (orders ?s) = Some demo_due" "s_orderId ?t = ''order''"
    by (simp_all add: tab demo_stl_row demo_due_row)
  from reconcile_follows_chain[OF inv sep row(1,2) _ row(3,4), of demo_cfg 60 "\<lambda>_. RpcThrows ''timeout''" 24] row(5) show ?thesis
    by (fastforce simp: givenUp_def split: option.splits)
qed

subsection \<open>Payments\<close>

definition sameRows :: "sys \<Rightarrow> sys \<Rightarrow> bool" where
  "sameRows s s1 \<longleftrightarrow> orders s1 = orders s \<and> payments s1 = payments s \<and> settlements s1 = settlements s
     \<and> refunds s1 = refunds s \<and> reservations s1 = reservations s \<and> pools s1 = pools s \<and> treasuryTxs s1 = treasuryTxs s"

lemma sameRows_ledger: "sameRows s s1 \<Longrightarrow> ledger_inv s1 = ledger_inv s"
  by (simp add: sameRows_def ledger_inv_def)

lemma sameRows_audit [simp]: "sameRows s (paymentAudit a x s1) = sameRows s s1"
  by (simp add: sameRows_def paymentAudit_def auditLog_def)

lemma askProvider_rows: "sameRows s (fst (askProvider cfg pe name x ref s))"
proof (cases "registryGet cfg name")
  case (Inr pv)
  note storesOnlyD[OF provider.verify_stores[of s cfg pe pv ref "no_params\<lparr>vp_expectedAmount := Some (ofColumn 4 (o_sourceAmount x))\<rparr>"]]
  with Inr show ?thesis by (simp add: askProvider_def andThen_eq sameRows_def)
qed (simp add: askProvider_def andThen_eq sameRows_def)

lemma confirm_rows:
  "orders (fst (confirmReservationInTx i s)) = orders s" "settlements (fst (confirmReservationInTx i s)) = settlements s"
  by (auto simp: confirmReservationInTx_def split: option.splits)

lemma confirm_succeeds: "\<exists>v. snd (confirmReservationInTx i s) = Inr v"
  by (auto simp: confirmReservationInTx_def split: option.splits)

lemma updateFirstPayment_rows [simp]:
  "orders (updateFirstPayment p f s) = orders s" "settlements (updateFirstPayment p f s) = settlements s"
  "reservations (updateFirstPayment p f s) = reservations s" "pools (updateFirstPayment p f s) = pools s"
  by (cases p; simp add: updateFirstPayment_def setPayment_def)+

lemma paymentAudit_rows [simp]:
  "orders (paymentAudit a x s) = orders s" "settlements (paymentAudit a x s) = settlements s"
  "reservations (paymentAudit a x s) = reservations s" "pools (paymentAudit a x s) = pools s"
  by (simp_all add: paymentAudit_def)

text \<open>A payment that failed, or was not the order's amount: order failed, nothing held.\<close>

definition paymentFailed :: "id \<Rightarrow> sys \<Rightarrow> bool" where
  "paymentFailed i s \<longleftrightarrow> ledger_inv s
     \<and> (case rowBy o_id i (orders s) of Some x \<Rightarrow> o_status x = O_FAILED | None \<Rightarrow> False)
     \<and> (case rowBy v_orderId i (reservations s) of Some v \<Rightarrow> \<not> active (v_status v) | None \<Rightarrow> True)"

lemma failPayment_does:
  assumes inv: "ledger_inv s" and run: "failPayment cfg x ref p s = (s1, Inr r)"
  shows "rp_action r = MARKED_FAILED \<and> paymentFailed (o_id x) s1"
proof -
  obtain y where y: "rowBy o_id (o_id x) (orders s) = Some y"
    using run by (auto simp: failPayment_def andThen_eq updateOrderStatus_def split: if_splits option.splits)
  let ?s2 = "updateFirstPayment p (\<lambda>y. y\<lparr>p_status := P_FAILED\<rparr>) (setOrder (o_id x) (\<lambda>y. y\<lparr>o_status := O_FAILED\<rparr>) s)"
  have inv2: "ledger_inv ?s2" using inv by (simp add: ledger_inv_def setOrder_def)
  obtain s3 v where rel: "releaseReservationInTx cfg (o_id x) V_CANCELLED_RELEASED ?s2 = (s3, Inr v)"
    using release_returns[OF inv2, of cfg "o_id x" V_CANCELLED_RELEASED] by (metis prod.collapse)
  have s1: "s1 = paymentAudit ''PAYMENT_RECONCILIATION_FAILED'' x s3" "r = paymentResult x ref O_FAILED True MARKED_FAILED"
    using run y rel by (simp_all add: failPayment_def andThen_eq updateOrderStatus_def)
  have s3: "orders s3 = setBy o_id (o_id x) (\<lambda>y. y\<lparr>o_status := O_FAILED\<rparr>) (orders s)" "ledger_inv s3"
    using release_keeps_orders(1)[of cfg "o_id x" V_CANCELLED_RELEASED ?s2] rel
      release_ledger[OF inv2, of V_CANCELLED_RELEASED cfg "o_id x"] by (simp_all add: setOrder_def)
  have "\<not> active (v_status w)" if "rowBy v_orderId (o_id x) (reservations s3) = Some w" for w
    using released_closed[OF inv2, of V_CANCELLED_RELEASED "o_id x" cfg w] rel that by simp
  then show ?thesis
    using s3 y by (auto simp: s1 paymentFailed_def ledger_inv_def paymentResult_def rows split: option.splits)
qed

text \<open>A payment that is confirmed: where the order is left.\<close>

definition confirmedAside :: "id \<Rightarrow> sys \<Rightarrow> bool" where
  "confirmedAside i s \<longleftrightarrow> ledger_inv s \<and> rowBy s_orderId i (settlements s) \<noteq> None
     \<and> rowBy o_id i (orders s) \<noteq> None \<and> (\<forall>x \<in> set (orders s). o_id x = i \<longrightarrow> o_status x = O_PAYMENT_CONFIRMED)"

lemma confirmPayment_does:
  assumes inv: "ledger_inv s" and run: "confirmPayment cfg te x ref p resp s = (s1, Inr r)"
  shows "rp_action r = CONFIRMED_AND_SETTLED \<and> confirmedAside (o_id x) s1"
proof -
  define s0 where "s0 = updateFirstPayment p (\<lambda>y. y\<lparr>p_status := P_SUCCEEDED,
        p_providerPaymentId := Some (orDefault (Some (pr_providerPaymentId resp)) ref)\<rparr>) s"
  obtain y where y: "rowBy o_id (o_id x) (orders s) = Some y"
    using run by (auto simp: confirmPayment_def andThen_eq updateOrderStatus_def split: if_splits option.splits)
  define s2 where "s2 = setOrder (o_id x) (\<lambda>y. y\<lparr>o_status := O_PAYMENT_CONFIRMED\<rparr>) s0"
  have inv2: "ledger_inv s2" using inv by (simp add: s2_def s0_def ledger_inv_def setOrder_def)
  obtain s3 v where c: "confirmReservationInTx (o_id x) s2 = (s3, Inr v)" using confirm_succeeds by (metis prod.collapse)
  have s3: "orders s3 = setBy o_id (o_id x) (\<lambda>y. y\<lparr>o_status := O_PAYMENT_CONFIRMED\<rparr>) (orders s)" "ledger_inv s3"
    using confirm_rows(1)[of "o_id x" s2] confirm_ledger[OF inv2, of "o_id x"] c by (simp_all add: s2_def s0_def setOrder_def)
  obtain s4 q where e: "ensureSettlement cfg te x s3 = (s4, q)" by fastforce
  have run3: "(case q of Inl err \<Rightarrow> (s4, Inl err) | Inr _ \<Rightarrow> (paymentAudit ''PAYMENT_RECONCILED_SUCCESS'' x s4,
      Inr (paymentResult x ref O_PAYMENT_CONFIRMED True CONFIRMED_AND_SETTLED))) = (s1, Inr r)"
    using run y c e unfolding confirmPayment_def s0_def[symmetric]
    by (simp add: andThen_eq updateOrderStatus_def s2_def s0_def split: sum.splits)
  then obtain u where q: "q = Inr u" and s1: "s1 = paymentAudit ''PAYMENT_RECONCILED_SUCCESS'' x s4"
      "r = paymentResult x ref O_PAYMENT_CONFIRMED True CONFIRMED_AND_SETTLED"
    by (cases q) auto
  have "orders s4 = orders s3" "ledger_inv s4" "rowBy s_orderId (o_id x) (settlements s4) \<noteq> None"
    using e[unfolded q] s3(2) by (auto simp: ensureSettlement_def insertSettlement_def ledger_inv_def newSettlement_def rows split: option.splits if_splits)
  then show ?thesis
    using s3 y by (auto simp: s1 confirmedAside_def ledger_inv_def paymentResult_def rows dest!: in_setBy)
qed

lemma deferred: "rp_action (paymentResult x ref st b a) = a"
  by (simp add: paymentResult_def)

text \<open>
  C8. What the reconciliation of a payment may do: skip, changing nothing; defer, changing no row;
  or decide, only for an order that still waits for its payment - then either the order failed and
  nothing is reserved for it, or its payment succeeded with exactly the order's amount and
  currency. In the latter case the order is left PAYMENT_CONFIRMED with a settlement: no sweep of
  the settlement worker ever takes it up and the policy would refuse its payout, so a payment found
  this way is not paid out by itself.
\<close>

theorem payment_reconciliation_outcome:
  assumes inv: "ledger_inv s" and run: "reconcileSinglePaymentOrder cfg pe te i s = (s1, Inr r)"
  shows "case rp_action r of
      SKIPPED \<Rightarrow> s1 = s
    | DEFERRED \<Rightarrow> sameRows s s1
    | MARKED_FAILED \<Rightarrow> paymentFailed i s1 \<and> (\<exists>x. rowBy o_id i (orders s) = Some x \<and> o_status x \<in> set reconcilableStatuses)
    | CONFIRMED_AND_SETTLED \<Rightarrow>
        (\<exists>x name ref s0 resp. rowBy o_id i (orders s) = Some x \<and> o_status x \<in> set reconcilableStatuses
           \<and> askProvider cfg pe name x ref s = (s0, Inr resp) \<and> pr_status resp = P_SUCCEEDED \<and> paymentMatches x resp)
        \<and> confirmedAside i s1 \<and> (\<forall>n. \<forall>x \<in> set (eligibleOrders n s1). o_id x \<noteq> i)
        \<and> (\<forall>x y. rowBy o_id i (orders s1) = Some x \<longrightarrow> \<not> payable k cfg now s1 x y)"
proof -
  have body: "reconcilePaymentBody cfg pe te i s = (s1, Inr r)"
    using run by (simp add: reconcileSinglePaymentOrder_def inTransaction_Inr)
  have aside: "(\<forall>n. \<forall>x \<in> set (eligibleOrders n z). o_id x \<noteq> i) \<and> (\<forall>x y. rowBy o_id i (orders z) = Some x \<longrightarrow> \<not> payable k cfg now z x y)"
    if "confirmedAside i z" for z
    using that by (auto simp: confirmedAside_def eligibleOrders_def payable_def dest!: in_set_takeD dest: rowBy_SomeD)
  show ?thesis
  proof (cases "rowBy o_id i (orders s)")
    case None
    with body show ?thesis by (auto simp: reconcilePaymentBody_def)
  next
    case (Some x)
    have xid: "o_id x = i" using rowBy_SomeD[OF Some] by simp
    let ?p = "rowBy p_orderId i (payments s)"
    let ?ref = "orDefault (orElse (map_option p_reference ?p) (o_idempotencyKey x)) []"
    let ?name = "orDefault (orElse (map_option p_provider ?p) (Some (ngnProvider cfg))) ''SANDBOX''"
    show ?thesis
    proof (cases "?ref = [] \<or> skipsPayment x s")
      case True
      with body Some show ?thesis by (auto simp: reconcilePaymentBody_def Let_def deferred)
    next
      case False
      then have st: "o_status x \<in> set reconcilableStatuses" by (simp add: skipsPayment_def)
      obtain s0 q where ask: "askProvider cfg pe ?name x ?ref s = (s0, q)" by fastforce
      have same: "sameRows s s0" using askProvider_rows[of s cfg pe ?name x ?ref] ask by simp
      then have inv0: "ledger_inv s0" using inv by (simp add: sameRows_ledger)
      show ?thesis
      proof (cases q)
        case (Inl err)
        with body Some False ask same show ?thesis by (auto simp: reconcilePaymentBody_def Let_def deferred)
      next
        case (Inr resp)
        have app: "applyVerification cfg te x ?ref ?p resp s0 = (s1, Inr r)"
          using body Some False ask Inr by (simp add: reconcilePaymentBody_def Let_def)
        consider (confirm) "pr_status resp = P_SUCCEEDED" "paymentMatches x resp" "confirmPayment cfg te x ?ref ?p resp s0 = (s1, Inr r)"
          | (fail) "failPayment cfg x ?ref ?p s0 = (s1, Inr r)"
          | (later) "s1 = paymentAudit ''PAYMENT_RECONCILIATION_DEFERRED'' x s0" "rp_action r = DEFERRED"
          using app by (auto simp: applyVerification_def deferred split: if_splits)
        then show ?thesis
        proof cases
          case confirm
          note confirmPayment_does[OF inv0 confirm(3), unfolded xid]
          then show ?thesis using Some st ask Inr confirm(1,2) aside by auto
        next
          case fail
          note failPayment_does[OF inv0 fail, unfolded xid]
          then show ?thesis using Some st by auto
        next
          case later
          with same show ?thesis by simp
        qed
      qed
    qed
  qed
qed
subsection \<open>The example of a payment that was missed\<close>

definition demo_waiting :: sys where
  "demo_waiting = demo_payable\<lparr>orders := [demo_due\<lparr>o_status := O_AWAITING_PAYMENT\<rparr>],
     payments := [demo_payment\<lparr>p_orderId := ''order'', p_status := P_PENDING, p_provider := ''SANDBOX''\<rparr>],
     ngnStore := storePut ''ref'' \<lparr>pr_providerPaymentId = ''ref'', pr_status = P_PENDING, pr_amount = 2000,
       pr_currency = ''NGN'', pr_reference = Some ''ref'', pr_accountNumber = None\<rparr> (ngnStore empty_sys)\<rparr>"

definition demo_waiting_order :: order where
  "demo_waiting_order = demo_due\<lparr>o_status := O_AWAITING_PAYMENT\<rparr>"

lemma demo_asked:
  "snd (askProvider demo_cfg demo_penv ''SANDBOX'' demo_waiting_order ''ref'' demo_waiting) =
     Inr \<lparr>pr_providerPaymentId = ''ref'', pr_status = P_SUCCEEDED, pr_amount = 2000, pr_currency = ''NGN'',
           pr_reference = Some ''ref'', pr_accountNumber = None\<rparr>"
proof -
  have "\<not> contains ''ref'' ''fail_''" by code_simp
  then show ?thesis
    by (simp add: askProvider_def andThen_eq registryGet_def toUpper_def upper_char_def demo_waiting_def demo_waiting_order_def
        empty_sys_def storePut_def storeFind_def storeObj_def empty_store_def ngnVerify_def ngnVerifyStatus_def no_params_def
        orDefault_def Let_def demo_payable_def demo_ledger_def storeStatus_def)
qed

lemma demo_reconciled:
  "\<exists>s1 r. reconcileSinglePaymentOrder demo_cfg demo_penv (demo_te ''t1'') ''order'' demo_waiting = (s1, Inr r)
     \<and> rp_action r = CONFIRMED_AND_SETTLED"
proof -
  obtain s0 where ask: "askProvider demo_cfg demo_penv ''SANDBOX'' demo_waiting_order ''ref'' demo_waiting =
      (s0, Inr \<lparr>pr_providerPaymentId = ''ref'', pr_status = P_SUCCEEDED, pr_amount = 2000, pr_currency = ''NGN'',
           pr_reference = Some ''ref'', pr_accountNumber = None\<rparr>)"
    using demo_asked by (metis prod.collapse)
  have tabs: "orders demo_waiting = [demo_waiting_order]" "settlements demo_waiting = []" "refunds demo_waiting = []"
    "reservations demo_waiting = [demo_resv V_CONFIRMED]"
    "payments demo_waiting = [demo_payment\<lparr>p_orderId := ''order'', p_status := P_PENDING, p_provider := ''SANDBOX''\<rparr>]"
    by (simp_all add: demo_waiting_def demo_waiting_order_def demo_payable_def demo_ledger_def empty_sys_def)
  have x: "o_id demo_waiting_order = ''order''" "o_status demo_waiting_order = O_AWAITING_PAYMENT"
    "o_sourceAmount demo_waiting_order = 20000000" "o_sourceCurrency demo_waiting_order = ''NGN''"
    by (simp_all add: demo_waiting_order_def demo_due_row)
  have s0: "orders s0 = [demo_waiting_order]" "settlements s0 = []" "reservations s0 = [demo_resv V_CONFIRMED]"
    using askProvider_rows[of demo_waiting demo_cfg demo_penv "''SANDBOX''" demo_waiting_order "''ref''"] ask tabs
    by (simp_all add: sameRows_def)
  have "\<exists>r. snd (confirmPayment demo_cfg (demo_te ''t1'') demo_waiting_order ''ref'' p resp s0) = Inr r" for p resp
    using s0 x
    by (simp add: confirmPayment_def andThen_eq updateOrderStatus_def setOrder_def confirmReservationInTx_def demo_resv_def
        ensureSettlement_def insertSettlement_def split: option.splits)
  then obtain s1 r where "reconcileSinglePaymentOrder demo_cfg demo_penv (demo_te ''t1'') ''order'' demo_waiting = (s1, Inr r)"
    "confirmPayment demo_cfg (demo_te ''t1'') demo_waiting_order ''ref'' (Some (demo_payment\<lparr>p_orderId := ''order'', p_status := P_PENDING, p_provider := ''SANDBOX''\<rparr>))
      \<lparr>pr_providerPaymentId = ''ref'', pr_status = P_SUCCEEDED, pr_amount = 2000, pr_currency = ''NGN'',
           pr_reference = Some ''ref'', pr_accountNumber = None\<rparr> s0 = (s1, Inr r)"
    using ask x tabs
    by (simp add: reconcileSinglePaymentOrder_def inTransaction_Inr reconcilePaymentBody_def skipsPayment_def reconcilableStatuses_def
        demo_payment_def orDefault_def orElse_def Let_def applyVerification_def paymentMatches_def ofColumn_def demo_resv_def)
      (metis prod.collapse)
  moreover have "ledger_inv s0"
    using demo_ledger_inv s0 askProvider_rows[of demo_waiting demo_cfg demo_penv "''SANDBOX''" demo_waiting_order "''ref''"] ask
    by (simp add: sameRows_def ledger_inv_def demo_waiting_def demo_payable_def)
  ultimately show ?thesis using confirmPayment_does by blast
qed

theorem payment_reconciliation_outcome_witness:
  "\<exists>s1 r. reconcileSinglePaymentOrder demo_cfg demo_penv (demo_te ''t1'') ''order'' demo_waiting = (s1, Inr r)
     \<and> confirmedAside ''order'' s1 \<and> (\<forall>n. \<forall>x \<in> set (eligibleOrders n s1). o_id x \<noteq> ''order'')"
proof -
  have inv: "ledger_inv demo_waiting" using demo_ledger_inv by (simp add: ledger_inv_def demo_waiting_def demo_payable_def)
  obtain s1 r where run: "reconcileSinglePaymentOrder demo_cfg demo_penv (demo_te ''t1'') ''order'' demo_waiting = (s1, Inr r)"
    "rp_action r = CONFIRMED_AND_SETTLED" using demo_reconciled by blast
  from payment_reconciliation_outcome[OF inv run(1), of demo_sdk 60] run show ?thesis by auto
qed

subsection \<open>Expired reservations\<close>

text \<open>A reservation of \<open>s1\<close> is one of \<open>s\<close>, not reopened.\<close>

definition keptReservations :: "sys \<Rightarrow> sys \<Rightarrow> bool" where
  "keptReservations s s1 \<longleftrightarrow> (\<forall>v \<in> set (reservations s1). \<exists>v0 \<in> set (reservations s).
     v_id v = v_id v0 \<and> v_orderId v = v_orderId v0 \<and> v_expiresAt v = v_expiresAt v0
     \<and> (v_status v = V_RESERVED \<longrightarrow> v_status v0 = V_RESERVED))"

definition expiredBy :: "time \<Rightarrow> sys \<Rightarrow> id \<Rightarrow> bool" where
  "expiredBy now s i \<longleftrightarrow> (\<exists>v \<in> set (reservations s). v_orderId v = i \<and> v_status v = V_RESERVED \<and> v_expiresAt v \<le> now)"

definition onlyExpired :: "time \<Rightarrow> sys \<Rightarrow> sys \<Rightarrow> bool" where
  "onlyExpired now s s1 \<longleftrightarrow> map o_id (orders s1) = map o_id (orders s)
     \<and> (\<forall>i x. rowBy o_id i (orders s) = Some x \<longrightarrow>
          rowBy o_id i (orders s1) = Some x
          \<or> (o_status x \<in> {O_CREATED, O_AWAITING_PAYMENT} \<and> expiredBy now s i
             \<and> rowBy o_id i (orders s1) = Some (x\<lparr>o_status := O_EXPIRED\<rparr>)))"

lemma release_reservations:
  "keptReservations s (fst (releaseReservationInTx cfg i V_EXPIRED_RELEASED s))"
proof -
  have refl: "keptReservations s s" by (auto simp: keptReservations_def)
  have "keptReservations s (s\<lparr>reservations := setBy v_id j (\<lambda>r. r\<lparr>v_status := V_EXPIRED_RELEASED\<rparr>) (reservations s)\<rparr>)" for j
    by (auto simp: keptReservations_def dest!: in_setBy)
  with refl show ?thesis
    by (auto simp: releaseReservationInTx_def Let_def keptReservations_def split: option.splits dest!: in_setBy)
qed

lemma keptReservations_trans: "keptReservations s s1 \<Longrightarrow> keptReservations s1 s2 \<Longrightarrow> keptReservations s s2"
  unfolding keptReservations_def by (metis (no_types, lifting))

lemma onlyExpired_expireOrder:
  assumes only: "onlyExpired now s s1" and exp: "expiredBy now s i"
  shows "onlyExpired now s (expireOrder i s1)"
proof (cases "\<exists>y. rowBy o_id i (orders s1) = Some y \<and> o_status y \<in> {O_CREATED, O_AWAITING_PAYMENT}")
  case False
  then have "expireOrder i s1 = s1" by (auto simp: expireOrder_def split: option.splits)
  with only show ?thesis by simp
next
  case True
  then obtain y where y: "rowBy o_id i (orders s1) = Some y" "o_status y \<in> {O_CREATED, O_AWAITING_PAYMENT}" by blast
  have id: "o_id y = i" using rowBy_SomeD[OF y(1)] by simp
  then have run: "orders (expireOrder i s1) = setBy o_id i (\<lambda>y. y\<lparr>o_status := O_EXPIRED\<rparr>) (orders s1)"
    using y by (auto simp: expireOrder_def setOrder_def)
  have "rowBy o_id j (orders (expireOrder i s1)) = Some x
      \<or> (o_status x \<in> {O_CREATED, O_AWAITING_PAYMENT} \<and> expiredBy now s j
         \<and> rowBy o_id j (orders (expireOrder i s1)) = Some (x\<lparr>o_status := O_EXPIRED\<rparr>))"
    if x: "rowBy o_id j (orders s) = Some x" for j x
  proof (cases "j = i")
    case True
    from only x consider "rowBy o_id j (orders s1) = Some x" | "rowBy o_id j (orders s1) = Some (x\<lparr>o_status := O_EXPIRED\<rparr>)"
      by (auto simp: onlyExpired_def)
    then show ?thesis
    proof cases
      case 1
      with y True have "y = x" by simp
      with y True exp 1 show ?thesis by (auto simp: run rows)
    qed (use y True in auto)
  next
    case False
    with only x show ?thesis by (auto simp: onlyExpired_def run rows)
  qed
  moreover have "map o_id (orders (expireOrder i s1)) = map o_id (orders s)"
    using only by (simp add: onlyExpired_def run rows)
  ultimately show ?thesis by (simp add: onlyExpired_def)
qed

lemma cleanup_step:
  assumes inv0: "ledger_inv s" and w: "w \<in> set (reservations s)" "v_status w = V_RESERVED" "v_expiresAt w \<le> now"
    and inv: "ledger_inv s1" "keptReservations s s1" "onlyExpired now s s1"
  shows "ledger_inv (fst (processSingleReservation cfg (v_id w) s1)) \<and> keptReservations s (fst (processSingleReservation cfg (v_id w) s1))
    \<and> onlyExpired now s (fst (processSingleReservation cfg (v_id w) s1))"
proof (cases "\<exists>v. rowBy v_id (v_id w) (reservations s1) = Some v \<and> v_status v = V_RESERVED")
  case False
  then have "fst (processSingleReservation cfg (v_id w) s1) = s1"
    by (auto simp: processSingleReservation_def split: option.splits)
  with inv show ?thesis by simp
next
  case True
  then obtain v where v: "rowBy v_id (v_id w) (reservations s1) = Some v" "v_status v = V_RESERVED" by blast
  have "v \<in> set (reservations s1)" "v_id v = v_id w" using rowBy_SomeD[OF v(1)] by auto
  then obtain v0 where v0: "v0 \<in> set (reservations s)" "v_id v0 = v_id w" "v_orderId v = v_orderId v0"
    using inv(2) by (fastforce simp: keptReservations_def)
  have "v0 = w" using ledger_okD(2)[of "pools s" "reservations s"] inv0 same_row[OF _ v0(1) w(1) v0(2)] by (simp add: ledger_inv_def)
  with v0 w have exp: "expiredBy now s (v_orderId v)" by (auto simp: expiredBy_def)
  obtain s2 r where rel: "releaseReservationInTx cfg (v_orderId v) V_EXPIRED_RELEASED s1 = (s2, Inr r)"
    using release_returns[OF inv(1), of cfg "v_orderId v" V_EXPIRED_RELEASED] by (metis prod.collapse)
  have s2: "ledger_inv s2" "keptReservations s s2" "onlyExpired now s s2"
    using release_ledger[OF inv(1), of V_EXPIRED_RELEASED cfg "v_orderId v"] rel inv(3)
      keptReservations_trans[OF inv(2) release_reservations[of s1 cfg "v_orderId v"]]
      release_keeps_orders(1)[of cfg "v_orderId v" V_EXPIRED_RELEASED s1]
    by (simp_all add: onlyExpired_def)
  have run: "fst (processSingleReservation cfg (v_id w) s1) = (case r of None \<Rightarrow> s2 | Some u \<Rightarrow> expireOrder (v_orderId v) s2)"
    using v rel by (simp add: processSingleReservation_def expireReservation_def releaseReservation_eq[OF inv(1)] andThen_eq split: option.splits)
  have "reservations (expireOrder j z) = reservations z \<and> pools (expireOrder j z) = pools z" for j z
    by (simp add: expireOrder_def setOrder_def split: option.splits)
  then show ?thesis
    using s2 onlyExpired_expireOrder[OF s2(3) exp] by (simp add: run ledger_inv_def keptReservations_def split: option.splits)
qed

text \<open>
  C20. The cleanup of expired reservations keeps the ledger invariant, reopens no reservation and
  touches no order but those still unpaid whose own reservation had expired by then: these become
  EXPIRED, every other order stays as it was, whatever the batch, the lock and the errors on the way.
\<close>

theorem cleanup_expires_unpaid_only:
  assumes "ledger_inv s" and "processExpiredReservations cfg now lk b s = (s1, r)"
  shows "ledger_inv s1 \<and> keptReservations s s1 \<and> onlyExpired now s s1"
proof -
  let ?I = "\<lambda>z. ledger_inv z \<and> keptReservations s z \<and> onlyExpired now s z"
  have start: "?I s" using assms(1) by (auto simp: keptReservations_def onlyExpired_def)
  let ?body = "forEach (\<lambda>i. andThen (processSingleReservation cfg i) (\<lambda>r. ret (case r of Some y \<Rightarrow> [y] | None \<Rightarrow> [])))
      (map v_id (expiredReservations now (batchOf b 20) s))"
  have step: "?I (fst (andThen (processSingleReservation cfg i) (\<lambda>r. ret (case r of Some y \<Rightarrow> [y] | None \<Rightarrow> [])) z))"
    if i: "i \<in> set (map v_id (expiredReservations now (batchOf b 20) s))" and z: "?I z" for i z
  proof -
    from i obtain w where w: "w \<in> set (reservations s)" "v_status w = V_RESERVED" "v_expiresAt w \<le> now" "i = v_id w"
      by (auto simp: expiredReservations_def dest!: in_set_takeD)
    show ?thesis
      using cleanup_step[OF assms(1) w(1-3), of z cfg] z w(4) by (simp add: andThen_eq split: sum.splits)
  qed
  have "?I (fst (?body s))" by (rule forEach_preserves[where I = ?I, OF start]) (rule step)
  then show ?thesis
    using assms(2) start by (auto simp: processExpiredReservations_def underSweepLock_def split: lock_outcome.splits if_splits)
qed

theorem cleanup_expires_unpaid_only_witness:
  "onlyExpired 900000 (demo_payable\<lparr>orders := [demo_waiting_order], reservations := [demo_resv V_RESERVED]\<rparr>)
     (fst (processExpiredReservations demo_cfg 900000 (Acquired True) None
       (demo_payable\<lparr>orders := [demo_waiting_order], reservations := [demo_resv V_RESERVED]\<rparr>)))
   \<and> ledger_inv (fst (processExpiredReservations demo_cfg 900000 (Acquired True) None
       (demo_payable\<lparr>orders := [demo_waiting_order], reservations := [demo_resv V_RESERVED]\<rparr>)))"
proof -
  let ?s = "demo_payable\<lparr>orders := [demo_waiting_order], reservations := [demo_resv V_RESERVED]\<rparr>"
  have "ledger_inv ?s"
    by (simp add: demo_payable_def demo_defs ledger_inv_def ledger_ok_def unique_by_def pool_ok_def held_def heldBy_def)
  from cleanup_expires_unpaid_only[OF this prod.collapse[symmetric], of demo_cfg 900000 "Acquired True" None] show ?thesis by simp
qed

end
