(* ===== verification/RunnerProps.thy ===== *)
theory RunnerProps
  imports Runner ReconcileProps
begin

text \<open>
  The worker process as a whole: every daemon keeps the ledger, so does every run of the loop;
  a daemon that throws leaves the others running; shutdown is bounded; the probe tells the truth.
\<close>

subsection \<open>The operations of the daemons keep the ledger\<close>

lemma keeps_onSys [kept]: "keeps I f \<Longrightarrow> keeps (\<lambda>w. I (w_sys w)) (onSys f)"
  by (simp add: keeps_def)

lemma keeps_inTransaction [kept]: "keeps ledger_inv f \<Longrightarrow> keeps ledger_inv (inTransaction f)"
  by (auto simp: keeps_def inTransaction_eq ledger_inv_def split: sum.splits)

lemma ledger_log [simp]: "ledger_inv (auditLog a u ac rs i s) = ledger_inv s"
  by (simp add: ledger_inv_def)

lemma ledger_mark [kept]: "keeps ledger_inv (markWith i target f action)"
proof (rule keepsI)
  fix s assume "ledger_inv s"
  then show "ledger_inv (fst (markWith i target f action s))"
    by (cases rule: markWith_cases[of i target f action s]) (simp_all add: settlementAudit_def ledger_inv_def)
qed

lemma ledger_marks [kept]:
  "keeps ledger_inv (markSubmitted now i h)" "keeps ledger_inv (markConfirming i)"
  "keeps ledger_inv (markFailed i m)" "keeps ledger_inv (markRequiresReconciliation i m)"
  by (simp_all add: mark_defs ledger_mark)

lemma ledger_readFor [kept]: "keeps ledger_inv (readFor i target)"
  by (simp add: keeps_def readFor_state)

lemma ledger_updateSettlement [kept]: "keeps ledger_inv (updateSettlement t f)"
  by (auto simp: keeps_def updateSettlement_def ledger_inv_def split: option.splits)

lemma ledger_logged [kept]: "keeps ledger_inv (logged a t)"
  by (simp add: keeps_def logged_def settlementAudit_def)

lemma ledger_claim [kept]: "keeps ledger_inv (claimSubmitting t)"
proof -
  have "keeps ledger_inv (andThen (updateSettlement t f) (logged a))" for f a by (intro kept)
  then show ?thesis by (auto simp: keeps_def claimSubmitting_def split: option.splits)
qed

lemma ledger_markSubmitting [kept]: "keeps ledger_inv (markSubmitting i)"
  unfolding markSubmitting_def by (intro kept)

lemma ledger_completeBody [kept]: "keeps ledger_inv (completeBody now t l)"
  by (auto simp: keeps_def completeBody_def andThen_eq updateSettlement_def ledger_inv_def setOrder_def split: option.splits)

lemma ledger_reservation [kept]:
  "keeps ledger_inv (consumeReservation cfg now i ref h)"
  "\<not> active st \<Longrightarrow> keeps ledger_inv (releaseReservationInTx cfg i st)"
  "\<not> active st \<Longrightarrow> keeps ledger_inv (releaseReservation cfg i st)"
  by (simp_all add: keeps_def consume_ledger release_ledger releaseReservation_eq)

lemma ledger_markCompleted [kept]: "keeps ledger_inv (markCompleted cfg now i l)"
  unfolding markCompleted_def by (intro kept)

lemma ledger_create [kept]: "keeps ledger_inv (createSettlementForOrder cfg te i a)"
proof -
  have read: "keeps ledger_inv (settlementRead cfg te i)"
    by (auto simp: keeps_def settlementRead_def split: option.splits)
  have ins: "keeps ledger_inv (insertSettlement t)" for t
    by (auto simp: keeps_def insertSettlement_def ledger_inv_def)
  have "keeps ledger_inv (settlementWrite a found)" for found
  proof (cases found)
    case (Inr t)
    have "keeps ledger_inv (\<lambda>s. if err = PrismaP2002 then
                (case rowBy s_orderId (s_orderId t) (settlements s) of
                   Some d \<Rightarrow> (s, Inr (d, True)) | None \<Rightarrow> (s, Inl err))
              else (s, Inl err))" for err :: app_error
      by (auto simp: keeps_def split: option.splits)
    with Inr ins show ?thesis by (auto simp: settlementWrite_def intro!: kept)
  qed (simp add: settlementWrite_def kept)
  with read show ?thesis unfolding createSettlementForOrder_def by (intro kept)
qed

text \<open>The world of the worker: the ledger is that of its database.\<close>

abbreviation ledgerW :: "world \<Rightarrow> bool" where
  "ledgerW w \<equiv> ledger_inv (w_sys w)"

context settlement_executor
begin

lemma submit_ledger: "ledgerW w \<Longrightarrow> ledgerW (fst (ex_submit ex p w))"
  using auditsOnly_tables[OF submit_audits[of w p]] by (simp add: ledger_inv_def)

lemma flow_ledger: "keeps ledgerW (executeSettlementFlow k cfg ex we own t)"
proof -
  have after: "keeps ledgerW (afterSubmit now lost y r)" for now lost y r
    unfolding afterSubmit_def Let_def written_def by (cases lost) (auto intro!: kept)
  have sub: "keeps ledgerW (flowSubmit k ex we own y)" for y
  proof (rule keepsI)
    fix w assume "ledgerW w"
    then show "ledgerW (fst (flowSubmit k ex we own y w))"
      using keepsD[OF after submit_ledger] by (auto simp: flowSubmit_def split: prod.splits) (metis fst_conv)
  qed
  have conf: "keeps ledgerW (flowConfirm cfg ex we y)" for y
    unfolding flowConfirm_def confirmStep_def Let_def by (auto intro!: kept)
  have run: "keeps ledgerW (andThen (flowSubmit k ex we own fresh)
      (\<lambda>r. case r of Inl st \<Rightarrow> ret st | Inr y \<Rightarrow> flowConfirm cfg ex we y))" for fresh
    using sub conf by (auto intro!: kept split: sum.splits)
  show ?thesis
    using keepsD[OF run] by (auto simp: keeps_def executeSettlementFlow_def split: option.splits)
qed

lemma underLock_ledger: "keeps ledgerW (underLock k cfg ex we stop own t)"
proof (rule keepsI)
  fix w assume w: "ledgerW w"
  have claim: "keeps ledgerW (andThen (onSys (markSubmitting i)) (\<lambda>y.
      if stop then ret (s_status y) else executeSettlementFlow k cfg ex we own y))" for i
    by (intro kept flow_ledger)
  show "ledgerW (fst (underLock k cfg ex we stop own t w))"
    using w keepsD[OF claim w] keepsD[OF flow_ledger[of k cfg we own] w] by (simp add: underLock_def Let_def)
qed

lemma single_ledger: "keeps ledgerW (processSingleOrder k cfg ex we stop i)"
proof -
  have "keeps ledgerW (case wk_lock we of
          LockThrows msg \<Rightarrow> throw (PlainError msg)
        | NotAcquired \<Rightarrow>
            if requiresLocks cfg
            then throw (PlainError (''Could not acquire distributed settlement lock for '' @ s_id t))
            else (\<lambda>w. (w, Inr (case rowBy s_id (s_id t) (settlements (w_sys w)) of
                                Some y \<Rightarrow> s_status y | None \<Rightarrow> s_status t)))
        | Acquired owned \<Rightarrow> underLock k cfg ex we stop owned t)" for t
    by (cases "wk_lock we") (auto intro!: kept underLock_ledger)
  then show ?thesis unfolding processSingleOrder_def by (auto intro!: kept)
qed

lemma orders_ledger: "keeps ledgerW (processPendingOrders k cfg ex we lk b stop)"
proof (rule keepsI)
  fix w assume w: "ledgerW w"
  have thrown: "keeps ledgerW (afterThrow i err)" for i err
  proof (rule keepsI)
    fix v assume v: "ledgerW v"
    have fail: "keeps ledgerW (andThen (onSys (markFailed j m)) (\<lambda>_. ret []))" for j m by (intro kept)
    show "ledgerW (fst (afterThrow i err v))"
      using v keepsD[OF fail v] by (auto simp: afterThrow_def split: option.splits)
  qed
  have "keeps ledgerW (forEach (processOne k cfg ex we stop) is)" for "is"
    unfolding processOne_def by (intro kept single_ledger thrown)
  from keepsD[OF this w] show "ledgerW (fst (processPendingOrders k cfg ex we lk b stop w))"
    using w by (auto simp: processPendingOrders_def underSweepLock_def split: lock_outcome.splits)
qed

end

lemma underSweepLock_keeps: "keeps I f \<Longrightarrow> keeps I (underSweepLock cfg lk f)"
  by (auto simp: underSweepLock_def intro!: kept split: lock_outcome.splits)

lemma expireOrder_ledger [simp]: "ledger_inv (expireOrder i s) = ledger_inv s"
  by (simp add: expireOrder_def setOrder_def ledger_inv_def split: option.splits)

lemma cleanup_ledger: "keeps ledger_inv (processExpiredReservations cfg now lk b)"
proof (rule keepsI)
  fix s assume s: "ledger_inv s"
  have single: "keeps ledger_inv (processSingleReservation cfg i)" for i
  proof (rule keepsI)
    fix z assume z: "ledger_inv z"
    then show "ledger_inv (fst (processSingleReservation cfg i z))"
      using keepsD[OF ledger_reservation(3)[of V_EXPIRED_RELEASED cfg] z]
      by (auto simp: processSingleReservation_def expireReservation_def andThen_eq split: option.splits sum.splits)
  qed
  have "keeps ledger_inv (underSweepLock cfg lk (forEach (\<lambda>i. andThen (processSingleReservation cfg i)
      (\<lambda>r. ret (case r of Some y \<Rightarrow> [y] | None \<Rightarrow> []))) is))" for "is"
    by (intro kept underSweepLock_keeps single)
  from keepsD[OF this s] show "ledger_inv (fst (processExpiredReservations cfg now lk b s))"
    by (simp add: processExpiredReservations_def)
qed

lemma ledger_updateOrderStatus [kept]: "keeps ledger_inv (updateOrderStatus i st)"
  by (auto simp: keeps_def updateOrderStatus_def ledger_inv_def setOrder_def)

lemma reconciliation_ledger: "keeps ledger_inv (processReconciliation cfg now rpc upd lk b h)"
proof (rule keepsI)
  fix s assume s: "ledger_inv s"
  have log: "keeps ledger_inv (\<lambda>s. (reconciliationAudit a t s, r))" for a t and r :: "app_error + reconciled"
    by (simp add: keeps_def reconciliationAudit_def)
  have up: "keeps ledger_inv (giveUp cfg t m)" for t m
    unfolding giveUp_def by (intro kept) simp
  have chain: "keeps ledger_inv (reconcileByChain cfg now a hrs t)" for a hrs t
    unfolding reconcileByChain_def Let_def by (auto intro!: kept log up split: tx_status.splits)
  have nohash: "keeps ledger_inv (reconcileWithoutHash cfg now hrs t)" for hrs t
    unfolding reconcileWithoutHash_def by (auto intro!: kept log up)
  have single: "keeps ledger_inv (reconcileSingleSettlement cfg now rpc hrs i)" for hrs i
    using keepsD[OF chain] keepsD[OF nohash] by (auto simp: keeps_def reconcileSingleSettlement_def split: option.splits)
  have "keeps ledger_inv (underSweepLock cfg lk (forEach (reconcileOne cfg now rpc hrs) ts))" for hrs ts
    unfolding reconcileOne_def by (intro underSweepLock_keeps kept single)
  from keepsD[OF this s] show "ledger_inv (fst (processReconciliation cfg now rpc upd lk b h s))"
    by (simp add: processReconciliation_def)
qed

lemma payments_ledger: "keeps ledger_inv (processPaymentReconciliation cfg pe te now lk b m)"
proof (rule keepsI)
  fix s assume s: "ledger_inv s"
  have ask: "keeps ledger_inv (askProvider cfg pe n x ref)" for n x ref
    using askProvider_rows sameRows_ledger by (fastforce simp: keeps_def)
  have failed: "keeps ledger_inv (failPayment cfg x ref p)" for x ref p
  proof -
    have "keeps ledger_inv (\<lambda>s. andThen (releaseReservationInTx cfg (o_id x) V_CANCELLED_RELEASED) (\<lambda>_ s1.
         (paymentAudit ''PAYMENT_RECONCILIATION_FAILED'' x s1, Inr (paymentResult x ref O_FAILED True MARKED_FAILED)))
       (updateFirstPayment p (\<lambda>y. y\<lparr>p_status := P_FAILED\<rparr>) s))"
    proof (rule keepsI)
      fix z assume "ledger_inv z"
      then have z: "ledger_inv (updateFirstPayment p (\<lambda>y. y\<lparr>p_status := P_FAILED\<rparr>) z)" by (simp add: ledger_inv_def)
      have "keeps ledger_inv (andThen (releaseReservationInTx cfg (o_id x) V_CANCELLED_RELEASED) (\<lambda>_ s1.
         (paymentAudit ''PAYMENT_RECONCILIATION_FAILED'' x s1, Inr (paymentResult x ref O_FAILED True MARKED_FAILED))))"
        by (intro kept) (simp_all add: ledger_inv_def)
      from keepsD[OF this z] show "ledger_inv (fst (andThen (releaseReservationInTx cfg (o_id x) V_CANCELLED_RELEASED) (\<lambda>_ s1.
         (paymentAudit ''PAYMENT_RECONCILIATION_FAILED'' x s1, Inr (paymentResult x ref O_FAILED True MARKED_FAILED)))
       (updateFirstPayment p (\<lambda>y. y\<lparr>p_status := P_FAILED\<rparr>) z)))" .
    qed
    then show ?thesis unfolding failPayment_def by (intro kept)
  qed
  have confirm: "keeps ledger_inv (confirmPayment cfg te1 x ref p resp)" for te1 x ref p resp
  proof (rule keepsI)
    fix z assume "ledger_inv z"
    then have z: "ledger_inv (updateFirstPayment p g z)" for g by (simp add: ledger_inv_def)
    have ens: "keeps ledger_inv (ensureSettlement cfg te1 x)"
      by (auto simp: keeps_def ensureSettlement_def insertSettlement_def ledger_inv_def split: option.splits)
    have "keeps ledger_inv (andThen (updateOrderStatus (o_id x) O_PAYMENT_CONFIRMED) (\<lambda>_.
       andThen (confirmReservationInTx (o_id x)) (\<lambda>_.
       andThen (ensureSettlement cfg te1 x) (\<lambda>_ s1.
         (paymentAudit ''PAYMENT_RECONCILED_SUCCESS'' x s1,
          Inr (paymentResult x ref O_PAYMENT_CONFIRMED True CONFIRMED_AND_SETTLED))))))"
      using confirm_ledger by (intro kept ens keepsI) (simp_all add: ledger_inv_def)
    from keepsD[OF this z] show "ledger_inv (fst (confirmPayment cfg te1 x ref p resp z))"
      by (simp add: confirmPayment_def)
  qed
  have applied: "keeps ledger_inv (applyVerification cfg te1 x ref p resp)" for te1 x ref p resp
    unfolding applyVerification_def by (auto intro!: kept failed confirm simp: ledger_inv_def)
  have "keeps ledger_inv (reconcilePaymentBody cfg pe te1 i)" for te1 i
  proof (rule keepsI)
    fix z assume z: "ledger_inv z"
    show "ledger_inv (fst (reconcilePaymentBody cfg pe te1 i z))"
      using z keepsD[OF ask z] keepsD[OF applied]
      by (auto simp: reconcilePaymentBody_def Let_def ledger_inv_def split: option.splits prod.splits sum.splits) (metis fst_conv)+
  qed
  then have "keeps ledger_inv (underSweepLock cfg lk (forEach (reconcilePaymentOne cfg pe te) ps))" for ps
    unfolding reconcilePaymentOne_def reconcileSinglePaymentOrder_def by (intro underSweepLock_keeps kept)
  from keepsD[OF this s] show "ledger_inv (fst (processPaymentReconciliation cfg pe te now lk b m s))"
    by (simp add: processPaymentReconciliation_def)
qed

subsection \<open>One sweep\<close>

text \<open>
  What a sweep should be: each daemon in turn from the world the one before left, with what it
  returned or threw.
\<close>

fun eachInTurn :: "(sweep_type \<times> nat wop) list \<Rightarrow> world \<Rightarrow> world \<times> (sweep_type \<times> (app_error + nat)) list" where
  "eachInTurn [] w = (w, [])"
| "eachInTurn (d # ds) w = (case snd d w of (w1, r) \<Rightarrow> (case eachInTurn ds w1 of (w2, rs) \<Rightarrow> (w2, (fst d, r) # rs)))"

definition beat :: "(sweep_type \<Rightarrow> time) \<Rightarrow> sweep_type \<times> (app_error + nat) \<Rightarrow> worker_health \<Rightarrow> worker_health" where
  "beat sweptAt x h = (case snd x of Inl e \<Rightarrow> h | Inr n \<Rightarrow> recordSweep (sweptAt (fst x)) (fst x) n h)"

definition thrown :: "(sweep_type \<times> (app_error + nat)) list \<Rightarrow> string list" where
  "thrown rs = concat (map (\<lambda>x. case snd x of Inl e \<Rightarrow> [messageOf e] | Inr n \<Rightarrow> []) rs)"

lemma runDaemon_eq:
  "runDaemon tm d rn = (rn\<lparr>rn_world := fst (snd d (rn_world rn)),
      rn_health := beat tm (fst d, snd (snd d (rn_world rn))) (rn_health rn)\<rparr>, Inr (thrown [(fst d, snd (snd d (rn_world rn)))]))"
  by (cases "snd d (rn_world rn)") (auto simp: runDaemon_def beat_def thrown_def split: sum.splits)

lemma daemons_eq:
  "forEach (runDaemon tm) ds rn =
     (rn\<lparr>rn_world := fst (eachInTurn ds (rn_world rn)),
         rn_health := fold (beat tm) (snd (eachInTurn ds (rn_world rn))) (rn_health rn)\<rparr>,
      Inr (thrown (snd (eachInTurn ds (rn_world rn)))))"
proof (induction ds arbitrary: rn)
  case (Cons d ds)
  obtain w r where d: "snd d (rn_world rn) = (w, r)" by fastforce
  obtain v rs where rest: "eachInTurn ds w = (v, rs)" by fastforce
  have "thrown ((fst d, r) # rs) = thrown [(fst d, r)] @ thrown rs" by (simp add: thrown_def)
  with d rest show ?case
    by (simp add: andThen_Inr[OF runDaemon_eq] andThen_Inr[OF Cons.IH])
qed (simp add: thrown_def)

lemma beat_frame [simp]:
  "h_activeJobs (fold (beat tm) rs h) = h_activeJobs h" "h_lifecycle (fold (beat tm) rs h) = h_lifecycle h"
  by (induction rs arbitrary: h) (auto simp: beat_def recordSweep_def split: sum.splits)

lemma beat_sweeps:
  assumes "distinct (map fst rs)"
  shows "h_sweeps (fold (beat tm) rs h) ty =
    (case map_of rs ty of Some (Inr n) \<Rightarrow> Some \<lparr>b_lastSweepAt = tm ty, b_lastSweepCount = n\<rparr> | _ \<Rightarrow> h_sweeps h ty)"
  using assms
proof (induction rs arbitrary: h)
  case (Cons x rs)
  have "h_sweeps (beat tm x h) ty = (case x of (ty1, r) \<Rightarrow> case r of
      Inr n \<Rightarrow> (if ty1 = ty then Some \<lparr>b_lastSweepAt = tm ty, b_lastSweepCount = n\<rparr> else h_sweeps h ty) | Inl e \<Rightarrow> h_sweeps h ty)"
    by (auto simp: beat_def recordSweep_def split: sum.splits prod.splits)
  moreover have "map_of rs (fst x) = None" using Cons.prems by (simp add: map_of_eq_None_iff)
  ultimately show ?case using Cons by (cases x) (auto split: sum.splits option.splits)
qed simp

lemma eachInTurn_types: "map fst (snd (eachInTurn ds w)) = map fst ds"
proof (induction ds arbitrary: w)
  case (Cons d ds)
  then show ?case by (auto split: prod.splits) (metis snd_conv)
qed simp

lemma daemon_types:
  "map fst (daemons k cfg sv) = [SettlementSweep, ReservationCleanupSweep, PaymentReconciliationSweep, ReconciliationSweep]"
  by (simp add: daemons_def)

lemma job_counters [simp]: "jobEnded (jobStarted d) = d" "h_activeJobs (decrementActiveJobs h) = h_activeJobs h - 1"
  "h_activeJobs (incrementActiveJobs h) = h_activeJobs h + 1" "h_sweeps (decrementActiveJobs h) = h_sweeps h"
  "h_sweeps (incrementActiveJobs h) = h_sweeps h" "h_lifecycle (decrementActiveJobs h) = h_lifecycle h"
  "h_lifecycle (incrementActiveJobs h) = h_lifecycle h"
  by (simp_all add: jobEnded_def jobStarted_def decrementActiveJobs_def incrementActiveJobs_def)

lemma runSweep_eq:
  fixes k :: "'x sdk" and cfg :: config and sv :: sweep_env
  assumes "\<not> sd_shuttingDown (rn_down rn)"
  defines "out \<equiv> eachInTurn (daemons k cfg sv) (rn_world rn)"
  shows "runSweep k cfg sv rn =
    (rn\<lparr>rn_world := fst out,
        rn_health := decrementActiveJobs (fold (beat (sv_sweptAt sv)) (snd out) (incrementActiveJobs (rn_health rn)))\<rparr>,
     if thrown (snd out) = [] then Inr () else Inl (PlainError (joinWith ''; '' (thrown (snd out)))))"
  using assms by (simp add: runSweep_def andThen_eq finallyDo_eq daemons_eq beginSweep_def endSweep_def)

text \<open>
  C21. A daemon that throws does not stop the others: a sweep is the four daemons in the order
  settlements, reservations, payments, reconciliation, each from the world the one before left
  whether it threw or not; a heartbeat is recorded for exactly those that returned; both job
  counters are as before; and the sweep throws if and only if one of them did, with every message.
\<close>

theorem daemons_isolated:
  assumes "\<not> sd_shuttingDown (rn_down rn)"
  shows "\<exists>rn1 w rs. eachInTurn (daemons k cfg sv) (rn_world rn) = (w, rs)
    \<and> fst (runSweep k cfg sv rn) = rn1 \<and> rn_world rn1 = w
    \<and> map fst rs = [SettlementSweep, ReservationCleanupSweep, PaymentReconciliationSweep, ReconciliationSweep]
    \<and> (\<forall>ty. h_sweeps (rn_health rn1) ty = (case map_of rs ty of
          Some (Inr n) \<Rightarrow> Some \<lparr>b_lastSweepAt = sv_sweptAt sv ty, b_lastSweepCount = n\<rparr>
        | _ \<Rightarrow> h_sweeps (rn_health rn) ty))
    \<and> h_activeJobs (rn_health rn1) = h_activeJobs (rn_health rn) \<and> rn_down rn1 = rn_down rn
    \<and> snd (runSweep k cfg sv rn) =
        (if \<forall>x \<in> set rs. \<not> isl (snd x) then Inr () else Inl (PlainError (joinWith ''; '' (thrown rs))))"
proof -
  obtain w rs where out: "eachInTurn (daemons k cfg sv) (rn_world rn) = (w, rs)" by fastforce
  have ty: "map fst rs = [SettlementSweep, ReservationCleanupSweep, PaymentReconciliationSweep, ReconciliationSweep]"
    using eachInTurn_types[of "daemons k cfg sv" "rn_world rn"] out by (simp add: daemon_types)
  have "thrown rs = [] \<longleftrightarrow> (\<forall>x \<in> set rs. \<not> isl (snd x))"
    by (auto simp: thrown_def isl_def split: sum.splits)
  with ty out show ?thesis
    by (simp add: runSweep_eq[OF assms] beat_sweeps cong: option.case_cong sum.case_cong)
qed

subsection \<open>The loop\<close>

lemma daemon_keeps: "keeps I (snd d) \<Longrightarrow> keeps (\<lambda>rn. I (rn_world rn)) (runDaemon tm d)"
  by (simp add: keeps_def runDaemon_eq)

lemma arrive_world [simp]: "rn_world (runSteps arrive as rn) = rn_world rn"
proof (induction "as" arbitrary: rn)
  case (Cons a as)
  then show ?case by (cases a) (simp_all add: stopRunner_def receiveSignal_def)
qed simp

context settlement_executor
begin

lemma sweep_ledger:
  assumes "sv_executor sv = ex"
  shows "keeps (\<lambda>rn. ledgerW (rn_world rn)) (runSweep k cfg sv)"
proof (rule keepsI)
  fix rn :: runner assume rn: "ledgerW (rn_world rn)"
  have each: "keeps ledgerW (snd d)" if "d \<in> set (daemons k cfg sv)" for d
    using that unfolding daemons_def counted_def assms
    by (auto intro!: kept orders_ledger cleanup_ledger payments_ledger reconciliation_ledger)
  have "ledgerW (fst (eachInTurn ds w))" if "\<forall>d \<in> set ds. keeps ledgerW (snd d)" "ledgerW w" for ds w
    using that
  proof (induction ds arbitrary: w)
    case (Cons d ds)
    then have "ledgerW (fst (snd d w))" using keepsD[of ledgerW "snd d" w] by simp
    with Cons show ?case by (cases "snd d w") (fastforce split: prod.splits)
  qed simp
  with each rn show "ledgerW (rn_world (fst (runSweep k cfg sv rn)))"
    by (cases "sd_shuttingDown (rn_down rn)") (simp_all add: runSweep_eq, simp add: runSweep_def)
qed

end

lemma loop_ledger:
  assumes "\<forall>sv \<in> set svs. \<exists>ex. settlement_executor ex \<and> sv_executor sv = ex" and "ledgerW (rn_world rn)"
  shows "ledgerW (rn_world (runLoop k cfg svs rn))"
  using assms
proof (induction svs arbitrary: rn)
  case (Cons sv svs)
  then have "keeps (\<lambda>rn. ledgerW (rn_world rn)) (runSweep k cfg sv)"
    by (auto intro: settlement_executor.sweep_ledger)
  then have "keeps (\<lambda>rn. ledgerW (rn_world rn)) (sweepOrAudit k cfg sv)"
    unfolding sweepOrAudit_def by (intro kept) simp_all
  from keepsD[OF this Cons.prems(2)] Cons show ?case by (simp add: Let_def)
qed simp

text \<open>
  C4. The worker process keeps the ledger: from a database in which every pool's reserved amount is
  the sum of its open reservations and never more than its total, starting the worker and polling
  for any number of turns, with any signer and any answers of locks, providers and chain, with
  daemons that throw and stops and signals that arrive, leaves such a database.
\<close>

theorem worker_keeps_ledger:
  fixes k :: "'x sdk"
  assumes "ledgerW (rn_world rn)"
    and "\<forall>s1 \<in> set (sv # svs). \<exists>(e :: 'x chain_env) given rpc. sv_executor s1 = liveExecutor e cfg given rpc"
  shows "ledgerW (rn_world (fst (startRunner k cfg redisUrl now sv opts rn)))
    \<and> ledgerW (rn_world (runLoop k cfg svs (fst (startRunner k cfg redisUrl now sv opts rn))))"
proof -
  obtain e given rpc where ex: "sv_executor sv = liveExecutor (e :: 'x chain_env) cfg given rpc" using assms(2) by auto
  have sweep: "keeps (\<lambda>rn. ledgerW (rn_world rn)) (runSweep k cfg sv)" by (rule live.sweep_ledger[OF ex])
  have once: "keeps (\<lambda>rn. ledgerW (rn_world rn)) (andThen (runSweep k cfg sv) (\<lambda>_ r. (r\<lparr>rn_isRunning := False\<rparr>, Inr ())))"
    by (intro kept sweep) simp
  have start: "ledgerW (rn_world (fst (startRunner k cfg redisUrl now sv opts rn)))"
    unfolding startRunner_def Let_def
    by (auto split: sum.splits option.splits intro!: keepsD[OF once] simp: assms(1))
  moreover have "\<forall>s1 \<in> set svs. \<exists>x. settlement_executor x \<and> sv_executor s1 = x"
    using assms(2) live.settlement_executor_axioms by fastforce
  ultimately show ?thesis using loop_ledger by blast
qed

lemma loop_stopped: "\<not> keepsOn rn \<Longrightarrow> runLoop k cfg svs rn = rn"
  by (cases svs) simp_all

lemma arrivals_stop:
  assumes "as \<noteq> [] \<or> \<not> keepsOn rn" and "sd_registered (rn_down rn)"
  shows "\<not> keepsOn (runSteps arrive as rn)"
  using assms
proof (induction "as" arbitrary: rn)
  case (Cons a as)
  have "\<not> keepsOn (arrive a rn) \<and> sd_registered (rn_down (arrive a rn))"
    using Cons.prems(2) by (cases a) (simp_all add: keepsOn_def stopRunner_def receiveSignal_def)
  then show ?case using Cons.IH by simp
qed simp

lemma turn_frame:
  assumes "keepsOn rn"
  shows "rn_down (fst (sweepOrAudit k cfg sv rn)) = rn_down rn \<and> rn_isRunning (fst (sweepOrAudit k cfg sv rn)) = rn_isRunning rn
    \<and> rn_health (fst (sweepOrAudit k cfg sv rn)) = rn_health (fst (runSweep k cfg sv rn))"
  using assms by (simp add: sweepOrAudit_def catching_eq runSweep_eq keepsOn_def)

text \<open>
  At most the sweep under way runs after \<open>stop()\<close> or a signal: a turn during which one of them
  arrives is the last one, one that arrives while the loop sleeps is not followed by a turn, and a
  sweep asked for after a signal does nothing.
\<close>

theorem no_sweep_after_stop:
  fixes k :: "'x sdk" and cfg :: config and sv :: sweep_env
  assumes "keepsOn rn" and "sd_registered (rn_down rn)"
  defines "turn \<equiv> fst (sweepOrAudit k cfg sv rn)"
  shows "runLoop k cfg (sv # svs) rn =
      (if sv_during sv \<noteq> [] then runSteps arrive (sv_during sv) turn
       else if sv_asleep sv \<noteq> [] then runSteps arrive (sv_asleep sv) turn
       else runLoop k cfg svs turn)
    \<and> (sv_during sv \<noteq> [] \<or> sv_asleep sv \<noteq> [] \<longrightarrow> rn_world (runLoop k cfg (sv # svs) rn) = rn_world turn)
    \<and> runSweep k cfg sv (receiveSignal rn) = (receiveSignal rn, Inr ())"
proof -
  have turn: "rn_down turn = rn_down rn" "keepsOn turn"
    using assms(1) turn_frame[OF assms(1), of k cfg sv] by (simp_all add: turn_def keepsOn_def)
  have off: "\<not> keepsOn (runSteps arrive as turn)" if "as \<noteq> []" for "as"
    using arrivals_stop[of "as" turn] that turn assms(2) by simp
  have "runLoop k cfg (sv # svs) rn =
      (if sv_during sv \<noteq> [] then runSteps arrive (sv_during sv) turn
       else if sv_asleep sv \<noteq> [] then runSteps arrive (sv_asleep sv) turn
       else runLoop k cfg svs turn)"
    using assms(1) turn(2) off by (simp add: Let_def loop_stopped flip: turn_def)
  moreover have "runSweep k cfg sv (receiveSignal rn) = (receiveSignal rn, Inr ())"
    using assms(2) by (simp add: runSweep_def receiveSignal_def)
  ultimately show ?thesis by simp
qed

subsection \<open>Shutdown\<close>

lemma waitForJobs_least:
  assumes "n \<le> 20"
  shows "n \<le> waitForJobs jobs n \<and> waitForJobs jobs n \<le> 20 \<and> (\<forall>j. n \<le> j \<and> j < waitForJobs jobs n \<longrightarrow> 0 < jobs j)
    \<and> (jobs (waitForJobs jobs n) = 0 \<or> waitForJobs jobs n = 20)"
  using assms
proof (induction jobs n rule: waitForJobs.induct)
  case (1 jobs n)
  show ?case
  proof (cases "jobs n > 0 \<and> n < 20")
    case True
    then have "waitForJobs jobs n = waitForJobs jobs (n + 1)" by (simp add: waitForJobs.simps[of jobs n])
    with 1 True show ?thesis by simp (metis Suc_leI le_neq_implies_less)
  next
    case False
    then have "waitForJobs jobs n = n" by (subst waitForJobs.simps) auto
    with False 1(2) show ?thesis by auto
  qed
qed

text \<open>
  C33. Shutdown is bounded: from the signal the process is gone after ten seconds at most. It waits in
  pauses of a quarter of a second for exactly as long as a job is active, twenty pauses at most,
  and reports success exactly when the connections then close in time: also when the job was
  still running after five seconds, which is cut off.
\<close>

theorem shutdown_bounded:
  "snd (handleSignal g) \<le> 10000
   \<and> (\<exists>n \<le> 20. (\<forall>j < n. 0 < sh_jobs g j) \<and> (sh_jobs g n = 0 \<or> n = 20)
       \<and> (fst (handleSignal g) = 0 \<longleftrightarrow> \<not> sh_closeFails g \<and> (\<exists>c. sh_closing g = Some c \<and> 250 * n + c < 10000))
       \<and> (fst (handleSignal g) = 0 \<longrightarrow> snd (handleSignal g) \<le> 250 * n + the (sh_closing g)))"
proof -
  let ?n = "waitForJobs (sh_jobs g) 0"
  note w = waitForJobs_least[of 0 "sh_jobs g"]
  have "snd (handleSignal g) \<le> 10000"
    by (simp add: handleSignal_def Let_def split: option.splits)
  moreover have "fst (handleSignal g) = 0 \<longleftrightarrow> \<not> sh_closeFails g \<and> (\<exists>c. sh_closing g = Some c \<and> 250 * ?n + c < 10000)"
    "fst (handleSignal g) = 0 \<longrightarrow> snd (handleSignal g) \<le> 250 * ?n + the (sh_closing g)"
    by (simp_all add: handleSignal_def Let_def split: option.splits)
  ultimately show ?thesis using w by (intro conjI exI[of _ ?n]) auto
qed

theorem shutdown_bounded_witness:
  "handleSignal \<lparr>sh_jobs = (\<lambda>n. if n < 3 then 1 else 0), sh_closing = Some 40, sh_closeFails = False\<rparr> = (0, 790)
   \<and> snd (handleSignal \<lparr>sh_jobs = (\<lambda>n. 1), sh_closing = None, sh_closeFails = False\<rparr>) \<le> 10000"
proof -
  let ?g = "\<lparr>sh_jobs = (\<lambda>n. 1), sh_closing = None, sh_closeFails = False\<rparr>"
  from shutdown_bounded[of ?g] show ?thesis by (simp add: handleSignal_def waitForJobs.simps)
qed

subsection \<open>The probe\<close>

text \<open>
  C34. The probe tells the truth about sweeping: after a turn of a running worker, GET of the path, with
  or without a query, answers 200 if a daemon returned in that turn, or one that threw had returned
  before, no longer ago than the maximum age; otherwise 503, however busy the loop is with
  daemons that throw. Any other path or method gets 404 without a snapshot.
\<close>

theorem probe_tells_sweeps:
  fixes k :: "'x sdk" and cfg :: config and sv :: sweep_env
  assumes "keepsOn rn" and "h_lifecycle (rn_health rn) = H_RUNNING" and "truthy (Some path)" and "CHR ''?'' \<notin> set path"
  defines "h1 \<equiv> rn_health (fst (sweepOrAudit k cfg sv rn))" and "rs \<equiv> snd (eachInTurn (daemons k cfg sv) (rn_world rn))"
  shows "fst (livenessAnswer path ''GET'' (Some (path @ ''?'' @ q)) now (Some maxAge) h1) =
      (if \<exists>ty. case map_of rs ty of
             Some (Inr n) \<Rightarrow> now - sv_sweptAt sv ty \<le> maxAge
           | _ \<Rightarrow> (\<exists>b. h_sweeps (rn_health rn) ty = Some b \<and> now - b_lastSweepAt b \<le> maxAge)
       then 200 else 503)
    \<and> livenessAnswer path ''GET'' (Some path) now (Some maxAge) h1 = livenessAnswer path ''GET'' (Some (path @ ''?'' @ q)) now (Some maxAge) h1
    \<and> (url \<noteq> path \<longrightarrow> CHR ''?'' \<notin> set url \<longrightarrow> livenessAnswer path meth (Some url) now (Some maxAge) h1 = (404, None))"
proof -
  have ty: "distinct (map fst rs)" by (simp add: rs_def eachInTurn_types daemon_types)
  have h1: "h1 = decrementActiveJobs (fold (beat (sv_sweptAt sv)) rs (incrementActiveJobs (rn_health rn)))"
    using turn_frame[OF assms(1), of k cfg sv] assms(1) by (simp add: h1_def rs_def runSweep_eq keepsOn_def)
  have sweeps: "h_sweeps h1 ty = (case map_of rs ty of Some (Inr n) \<Rightarrow> Some \<lparr>b_lastSweepAt = sv_sweptAt sv ty, b_lastSweepCount = n\<rparr>
      | _ \<Rightarrow> h_sweeps (rn_health rn) ty)" for ty
    by (simp add: h1 beat_sweeps[OF ty] cong: option.case_cong sum.case_cong)
  have "(\<exists>b. h_sweeps h1 ty = Some b \<and> now - b_lastSweepAt b \<le> maxAge) \<longleftrightarrow> (case map_of rs ty of
             Some (Inr n) \<Rightarrow> now - sv_sweptAt sv ty \<le> maxAge
           | _ \<Rightarrow> (\<exists>b. h_sweeps (rn_health rn) ty = Some b \<and> now - b_lastSweepAt b \<le> maxAge))" for ty
    by (auto simp: sweeps split: option.splits sum.splits)
  then have fresh: "hasFreshSweep now maxAge h1 \<longleftrightarrow> (\<exists>ty. case map_of rs ty of
             Some (Inr n) \<Rightarrow> now - sv_sweptAt sv ty \<le> maxAge
           | _ \<Rightarrow> (\<exists>b. h_sweeps (rn_health rn) ty = Some b \<and> now - b_lastSweepAt b \<le> maxAge))"
    by (simp add: hasFreshSweep_iff)
  have run: "h_lifecycle h1 = H_RUNNING" using assms(2) by (simp add: h1)
  have cut: "takeWhile (\<lambda>c. c \<noteq> CHR ''?'') (path @ ''?'' @ q) = path" "takeWhile (\<lambda>c. c \<noteq> CHR ''?'') path = path"
    using assms(4) by (auto simp: takeWhile_append takeWhile_eq_all_conv)
  have other: "takeWhile (\<lambda>c. c \<noteq> CHR ''?'') url = url" if "CHR ''?'' \<notin> set url"
    using that by (auto simp: takeWhile_eq_all_conv)
  have answer: "livenessAnswer path ''GET'' (Some u) now (Some maxAge) h1 =
      (if hasFreshSweep now maxAge h1 then 200 else 503, Some (getHealthSnapshot now (Some maxAge) h1))"
    if "takeWhile (\<lambda>c. c \<noteq> CHR ''?'') u = path" for u
  proof -
    have "u \<noteq> []" using that assms(3) by auto
    with that run show ?thesis by (simp add: livenessAnswer_def getHealthSnapshot_def Let_def)
  qed
  have "livenessAnswer path meth (Some url) now (Some maxAge) h1 = (404, None)" if "url \<noteq> path" "CHR ''?'' \<notin> set url"
    unfolding livenessAnswer_def option.sel other[OF that(2)] using that(1) by simp
  then show ?thesis
    by (simp only: answer[OF cut(1)] answer[OF cut(2)] fst_conv fresh) blast
qed

subsection \<open>Concrete sweeps\<close>

definition demo_sweep :: sweep_env where
  "demo_sweep = \<lparr>sv_worker = (\<lambda>_. demo_we), sv_executor = demo_live, sv_workerLock = Acquired True,
     sv_cleanupLock = LockThrows ''redis down'', sv_cleanupAt = 50, sv_paymentLock = Acquired True, sv_paymentAt = 50,
     sv_provider = demo_penv, sv_settlementEnv = (\<lambda>_. demo_te ''t9''), sv_settlementLock = Acquired True,
     sv_settlementAt = 50, sv_rpc = (\<lambda>_. RpcOther), sv_updatedAt = (\<lambda>_. 0), sv_sweptAt = (\<lambda>_. 70),
     sv_during = [], sv_asleep = [SignalArrived]\<rparr>"

definition demo_runner :: "sys \<Rightarrow> runner" where
  "demo_runner s = \<lparr>rn_world = \<lparr>w_sys = s, w_sent = [], w_kmsKey = None\<rparr>, rn_health = markStarted 10 (resetHealth 0),
     rn_down = registerShutdownHandlers initialShutdown, rn_isRunning = True, rn_intervalMs = 5000, rn_liveness = True\<rparr>"

lemma demo_runner_on: "keepsOn (demo_runner s)" "sd_registered (rn_down (demo_runner s))"
  "\<not> sd_shuttingDown (rn_down (demo_runner s))" "h_lifecycle (rn_health (demo_runner s)) = H_RUNNING"
  by (simp_all add: demo_runner_def keepsOn_def registerShutdownHandlers_def initialShutdown_def markStarted_def)

lemma demo_turn:
  "eachInTurn (daemons demo_sdk demo_cfg demo_sweep) (rn_world (demo_runner empty_sys)) =
     (rn_world (demo_runner empty_sys),
      [(SettlementSweep, Inr 0), (ReservationCleanupSweep, Inl (PlainError ''redis down'')),
       (PaymentReconciliationSweep, Inr 0), (ReconciliationSweep, Inr 0)])"
  by (simp add: daemons_def counted_def andThen_eq processPendingOrders_def underSweepLock_def eligibleOrders_def
      processExpiredReservations_def processPaymentReconciliation_def pendingPayments_def processReconciliation_def
      pendingReconciliation_def demo_sweep_def demo_runner_def demo_cfg_def empty_sys_def onSys_eq)

theorem daemons_isolated_witness:
  "snd (runSweep demo_sdk demo_cfg demo_sweep (demo_runner empty_sys)) = Inl (PlainError ''redis down'')
   \<and> h_sweeps (rn_health (fst (runSweep demo_sdk demo_cfg demo_sweep (demo_runner empty_sys)))) ReconciliationSweep
       = Some \<lparr>b_lastSweepAt = 70, b_lastSweepCount = 0\<rparr>
   \<and> h_sweeps (rn_health (fst (runSweep demo_sdk demo_cfg demo_sweep (demo_runner empty_sys)))) ReservationCleanupSweep = None"
proof -
  have "h_sweeps (rn_health (demo_runner empty_sys)) ReservationCleanupSweep = None" "sv_sweptAt demo_sweep = (\<lambda>_. 70)"
    by (simp_all add: demo_runner_def markStarted_def resetHealth_def demo_sweep_def)
  with daemons_isolated[OF demo_runner_on(3)[of empty_sys], of demo_sdk demo_cfg demo_sweep] show ?thesis
    by (auto simp: demo_turn thrown_def)
qed

theorem worker_keeps_ledger_witness:
  "ledgerW (rn_world (runLoop demo_sdk demo_cfg [demo_sweep, demo_sweep]
     (fst (startRunner demo_sdk demo_cfg ''redis'' 10 demo_sweep
        \<lparr>so_intervalMs = None, so_runOnce = False, so_livenessEnabled = True, so_listens = True, so_pid = ''7''\<rparr>
        (demo_runner demo_payable)))))"
proof -
  have inv: "ledgerW (rn_world (demo_runner demo_payable))"
    using demo_ledger_inv by (simp add: demo_runner_def demo_payable_def ledger_inv_def)
  have live: "\<forall>s1 \<in> set [demo_sweep, demo_sweep, demo_sweep]. \<exists>(e :: tx chain_env) given rpc. sv_executor s1 = liveExecutor e demo_cfg given rpc"
    by (auto simp: demo_sweep_def demo_live_def)
  from worker_keeps_ledger[OF inv live, of demo_sdk "''redis''" 10] show ?thesis by blast
qed

theorem no_sweep_after_stop_witness:
  "runLoop demo_sdk demo_cfg [demo_sweep, demo_sweep] (demo_runner empty_sys) =
     receiveSignal (fst (sweepOrAudit demo_sdk demo_cfg demo_sweep (demo_runner empty_sys)))"
  using no_sweep_after_stop[OF demo_runner_on(1,2), of demo_sdk demo_cfg demo_sweep "[demo_sweep]" empty_sys]
  by (simp add: demo_sweep_def)

theorem probe_tells_sweeps_witness:
  "fst (livenessAnswer ''/health'' ''GET'' (Some (''/health'' @ ''?'' @ ''x'')) 100 (Some 40)
       (rn_health (fst (sweepOrAudit demo_sdk demo_cfg demo_sweep (demo_runner empty_sys))))) = 200
   \<and> fst (livenessAnswer ''/health'' ''GET'' (Some (''/health'' @ ''?'' @ ''x'')) 200 (Some 40)
       (rn_health (fst (sweepOrAudit demo_sdk demo_cfg demo_sweep (demo_runner empty_sys))))) = 503"
proof -
  let ?rs = "[(SettlementSweep, Inr 0), (ReservationCleanupSweep, Inl (PlainError ''redis down'')),
       (PaymentReconciliationSweep, Inr 0), (ReconciliationSweep, Inr 0)] :: (sweep_type \<times> (app_error + nat)) list"
  have path: "truthy (Some ''/health'')" "CHR ''?'' \<notin> set ''/health''" by simp_all
  note probe = conjunct1[OF probe_tells_sweeps[where k = demo_sdk and cfg = demo_cfg and sv = demo_sweep and rn = "demo_runner empty_sys"
      and q = "''x''" and maxAge = 40 and path = "''/health''", OF demo_runner_on(1,4) path]]
  have at: "sv_sweptAt demo_sweep ty = 70" "h_sweeps (rn_health (demo_runner empty_sys)) ty = None" for ty
    by (simp_all add: demo_sweep_def demo_runner_def markStarted_def resetHealth_def)
  have "case map_of ?rs SettlementSweep of Some (Inr n) \<Rightarrow> 100 - sv_sweptAt demo_sweep SettlementSweep \<le> 40 | _ \<Rightarrow> False"
    by (simp add: at)
  then have new: "\<exists>ty. case map_of ?rs ty of Some (Inr n) \<Rightarrow> 100 - sv_sweptAt demo_sweep ty \<le> 40
      | _ \<Rightarrow> (\<exists>b. h_sweeps (rn_health (demo_runner empty_sys)) ty = Some b \<and> 100 - b_lastSweepAt b \<le> 40)"
    by (intro exI[of _ SettlementSweep]) simp
  have old: "\<not> (\<exists>ty. case map_of ?rs ty of Some (Inr n) \<Rightarrow> 200 - sv_sweptAt demo_sweep ty \<le> 40
      | _ \<Rightarrow> (\<exists>b. h_sweeps (rn_health (demo_runner empty_sys)) ty = Some b \<and> 200 - b_lastSweepAt b \<le> 40))"
    by (auto simp: at split: option.splits sum.splits)
  show ?thesis
    using probe[of 100] probe[of 200] new old by (simp only: demo_turn snd_conv if_True if_False)
qed

end
