(* ===== verification/AuditTrail.thy ===== *)
theory AuditTrail
  imports Orders
begin

text \<open>
  The audit log, \<^verbatim>\<open>src/modules/audit/audit.service.ts\<close>: what is left of the details of an
  action before they are written, and how the log is read. The writing is \<open>auditLog\<close> of \<open>Schema\<close>.
\<close>

subsection \<open>JSON values\<close>

text \<open>
  \<open>JNum\<close> holds the decimal text of the number. An object lists its own keys in order; a value that
  JSON cannot hold is left out of the details before this type.
\<close>

datatype json =
    JNull
  | JBool bool
  | JNum string
  | JStr string
  | JArr "json list"
  | JObj "(string \<times> json) list"

definition SENSITIVE_KEYS :: "string list" where
  "SENSITIVE_KEYS = [''password'', ''passwordhash'', ''password_hash'', ''token'', ''secret'', ''apikey'',
     ''api_key'', ''privatekey'', ''private_key'', ''seed'', ''seedphrase'', ''seed_phrase'']"

definition sensitive :: "string \<Rightarrow> bool" where
  "sensitive key \<longleftrightarrow> toLower key \<in> set SENSITIVE_KEYS"

text \<open>The reviver given to \<open>JSON.parse\<close>.\<close>

definition reviver :: "string \<Rightarrow> json \<Rightarrow> json" where
  "reviver key value = (if sensitive key then JStr ''[REDACTED]'' else value)"

text \<open>The key under which \<open>JSON.parse\<close> calls the reviver for an element of an array.\<close>

definition indexDigit :: "nat \<Rightarrow> char" where
  "indexDigit d = char_of (48 + d)"

fun indexKey :: "nat \<Rightarrow> string" where
  "indexKey n = (if n < 10 then [indexDigit n] else indexKey (n div 10) @ [indexDigit (n mod 10)])"

declare indexKey.simps [simp del]

text \<open>
  \<open>JSON.parse(text, f)\<close> on the value \<open>text\<close> denotes: the parts of an array or an object first, then
  the value itself, each with its key.
\<close>

fun revive :: "(string \<Rightarrow> json \<Rightarrow> json) \<Rightarrow> string \<Rightarrow> json \<Rightarrow> json"
  and reviveElements :: "(string \<Rightarrow> json \<Rightarrow> json) \<Rightarrow> nat \<Rightarrow> json list \<Rightarrow> json list"
  and reviveFields :: "(string \<Rightarrow> json \<Rightarrow> json) \<Rightarrow> (string \<times> json) list \<Rightarrow> (string \<times> json) list" where
  "revive f key (JArr xs) = f key (JArr (reviveElements f 0 xs))"
| "revive f key (JObj fs) = f key (JObj (reviveFields f fs))"
| "revive f key v = f key v"
| "reviveElements f i [] = []"
| "reviveElements f i (x # xs) = revive f (indexKey i) x # reviveElements f (i + 1) xs"
| "reviveFields f [] = []"
| "reviveFields f ((k, v) # fs) = (k, revive f k v) # reviveFields f fs"

text \<open>
  The details a caller passes: none, a text, a value, or one that \<open>JSON.stringify\<close> refuses with a
  throw. What is written is a text as it is, or the JSON text of a value.
\<close>

datatype details = NoDetails | TextDetails string | ValueDetails json | CyclicDetails

datatype written = WrittenText string | WrittenJson json

fun sanitizeDetails :: "details \<Rightarrow> written option" where
  "sanitizeDetails NoDetails = None"
| "sanitizeDetails (TextDetails t) = (if t = [] then None else Some (WrittenText t))"
| "sanitizeDetails (ValueDetails v) =
     (if v \<in> {JNull, JBool False, JNum ''0''} then None
      else case v of JStr t \<Rightarrow> (if t = [] then None else Some (WrittenText t))
           | _ \<Rightarrow> Some (WrittenJson (revive reviver [] v)))"
| "sanitizeDetails CyclicDetails = None"

text \<open>Newest first; \<open>limit\<close> and \<open>offset\<close> as the route passes them.\<close>

definition listLogs :: "nat \<Rightarrow> nat \<Rightarrow> sys \<Rightarrow> audit_entry list \<times> nat" where
  "listLogs limit offset s = (take limit (drop offset (rev (audits s))), length (audits s))"

subsection \<open>What is left of the details\<close>

text \<open>From the top: a value under a sensitive key is replaced, every other is kept.\<close>

fun redact :: "json \<Rightarrow> json" where
  "redact (JArr xs) = JArr (map redact xs)"
| "redact (JObj fs) = JObj (map (\<lambda>(k, v). (k, if sensitive k then JStr ''[REDACTED]'' else redact v)) fs)"
| "redact v = v"

text \<open>Every path of keys to a sensitive one ends in the mark.\<close>

fun clean :: "json \<Rightarrow> bool" where
  "clean (JArr xs) = list_all clean xs"
| "clean (JObj fs) = list_all (\<lambda>(k, v). (sensitive k \<longrightarrow> v = JStr ''[REDACTED]'') \<and> clean v) fs"
| "clean v = True"

lemma index_digits: "c \<in> set (indexKey n) \<Longrightarrow> \<exists>d < 10. c = indexDigit d"
proof (induction n rule: indexKey.induct)
  case (1 n)
  show ?case
  proof (cases "n < 10")
    case True
    with 1(2) show ?thesis by (subst (asm) indexKey.simps) auto
  next
    case False
    with 1(2) have "c \<in> set (indexKey (n div 10)) \<or> c = indexDigit (n mod 10)" by (subst (asm) indexKey.simps) auto
    with 1(1)[OF False] show ?thesis by (metis mod_less_divisor zero_less_numeral)
  qed
qed

lemma index_nonempty: "indexKey n \<noteq> []"
  by (subst indexKey.simps) simp

lemma digit_lower: "d < 10 \<Longrightarrow> lower_char (indexDigit d) = indexDigit d \<and> (of_char (indexDigit d) :: nat) = 48 + d"
  by (simp add: lower_char_def indexDigit_def)

lemma index_not_sensitive: "\<not> sensitive (indexKey n)"
proof
  assume s: "sensitive (indexKey n)"
  have "\<forall>k \<in> set SENSITIVE_KEYS. k \<noteq> [] \<and> 97 \<le> (of_char (hd k) :: nat)"
    by (simp add: SENSITIVE_KEYS_def)
  with s have big: "97 \<le> (of_char (hd (toLower (indexKey n))) :: nat)" by (auto simp: sensitive_def)
  obtain d where "d < 10" "hd (indexKey n) = indexDigit d"
    using index_digits[of "hd (indexKey n)" n] index_nonempty[of n] by auto
  then have "(of_char (hd (toLower (indexKey n))) :: nat) = 48 + d"
    using digit_lower[of d] index_nonempty[of n] by (simp add: toLower_def hd_map)
  with big \<open>d < 10\<close> show False by simp
qed

lemma revive_redact:
  "revive reviver key v = (if sensitive key then JStr ''[REDACTED]'' else redact v)"
  "reviveElements reviver i xs = map redact xs"
  "reviveFields reviver fs = map (\<lambda>(k, v). (k, if sensitive k then JStr ''[REDACTED]'' else redact v)) fs"
  by (induction reviver key v and reviver i xs and reviver fs rule: revive_reviveElements_reviveFields.induct)
    (auto simp: reviver_def index_not_sensitive)

lemma redact_clean: "clean (redact v)"
  by (induction v rule: redact.induct) (auto simp: list_all_iff)

lemma clean_redact: "clean v \<Longrightarrow> redact v = v"
  by (induction v rule: redact.induct) (auto simp: list_all_iff intro!: map_idI)

text \<open>
  C26. What the audit log writes of a value is its redaction: working from the leaves as \<open>JSON.parse\<close>
  does gives what replacing from the top gives; below no sensitive key, in objects and arrays at
  any depth, is anything but the mark left; a value without such keys is written as it is; and
  redacting once more changes nothing.
\<close>

theorem audit_details_redacted:
  assumes "sanitizeDetails (ValueDetails v) = Some (WrittenJson j)"
  shows "j = redact v \<and> clean j \<and> (clean v \<longrightarrow> j = v) \<and> revive reviver [] j = j"
proof -
  have "\<not> sensitive []" by (simp add: sensitive_def SENSITIVE_KEYS_def toLower_def)
  then have "revive reviver [] v = redact v" by (simp add: revive_redact(1))
  then have "j = redact v" using assms by (auto simp del: revive.simps split: if_splits json.splits)
  with \<open>\<not> sensitive []\<close> show ?thesis
    by (simp add: redact_clean clean_redact revive_redact clean_redact[OF redact_clean])
qed

theorem audit_details_redacted_witness:
  "sanitizeDetails (ValueDetails (JObj [(''user'', JObj [(''Password'', JStr ''x''), (''id'', JNum ''7'')])])) =
     Some (WrittenJson (JObj [(''user'', JObj [(''Password'', JStr ''[REDACTED]''), (''id'', JNum ''7'')])]))"
proof -
  let ?v = "JObj [(''user'', JObj [(''Password'', JStr ''x''), (''id'', JNum ''7'')])]"
  have keys: "sensitive ''Password''" "\<not> sensitive ''user''" "\<not> sensitive ''id''"
    by code_simp+
  obtain j where j: "sanitizeDetails (ValueDetails ?v) = Some (WrittenJson j)" by simp
  with audit_details_redacted[OF j] keys show ?thesis by simp
qed

end
