(* ===== verification/Accounts.thy ===== *)
theory Accounts
  imports AuditTrail
begin

text \<open>
  Users, their tokens and their wallets: \<^verbatim>\<open>modules/auth/auth.service.ts\<close>,
  \<^verbatim>\<open>middleware/auth.ts\<close>, \<^verbatim>\<open>modules/users/users.service.ts\<close>,
  \<^verbatim>\<open>modules/wallets/wallets.service.ts\<close> and \<^verbatim>\<open>modules/transactions/transactions.service.ts\<close>.
  The libraries that hash passwords and sign tokens are parameters.
\<close>

subsection \<open>Data\<close>

datatype user_status = U_ACTIVE | U_SUSPENDED | U_PENDING

record user =
  u_id :: id
  u_email :: string
  u_phone :: "string option"
  u_passwordHash :: string
  u_role :: role
  u_status :: user_status
  u_isKycVerified :: bool
  u_createdAt :: time

record wallet =
  wl_id :: id
  wl_userId :: id
  wl_address :: string
  wl_label :: string
  wl_network :: string
  wl_verified :: bool
  wl_createdAt :: time

text \<open>The tables of this component, beside the tables of the others.\<close>

record accounts =
  ac_users :: "user list"
  ac_wallets :: "wallet list"
  ac_sys :: sys

type_synonym 'a aop = "(accounts, app_error, 'a) oper"

text \<open>The profile the clients see: every column but the hash.\<close>

record profile =
  up_id :: id
  up_email :: string
  up_phone :: "string option"
  up_role :: role
  up_status :: user_status
  up_isKycVerified :: bool
  up_createdAt :: time

definition profileOf :: "user \<Rightarrow> profile" where
  "profileOf u = \<lparr>up_id = u_id u, up_email = u_email u, up_phone = u_phone u, up_role = u_role u,
     up_status = u_status u, up_isKycVerified = u_isKycVerified u, up_createdAt = u_createdAt u\<rparr>"

text \<open>The payload of a token; each field may be missing in one that somebody else made.\<close>

record claims =
  jc_id :: "string option"
  jc_email :: "string option"
  jc_role :: "role option"
  jc_status :: "user_status option"

datatype jwt_error = TokenExpired | TokenRejected | OtherFailure

text \<open>
  \<open>bcryptjs\<close> and \<open>jsonwebtoken\<close>: \<open>cr_hash\<close> takes the salt it draws, \<open>cr_sign\<close> and \<open>cr_verify\<close> the
  secret and the time; \<open>cr_verify\<close> answers \<open>None\<close> for a payload that is no object.
\<close>

record credentials =
  cr_hash :: "string \<Rightarrow> string \<Rightarrow> string"
  cr_compare :: "string \<Rightarrow> string \<Rightarrow> bool"
  cr_sign :: "claims \<Rightarrow> string \<Rightarrow> time \<Rightarrow> string"
  cr_verify :: "string \<Rightarrow> string \<Rightarrow> time \<Rightarrow> jwt_error + claims option"

definition onAccounts :: "(sys \<Rightarrow> sys) \<Rightarrow> accounts \<Rightarrow> accounts" where
  "onAccounts f a = a\<lparr>ac_sys := f (ac_sys a)\<rparr>"

subsection \<open>Registration and login\<close>

record register_input =
  ri_email :: string
  ri_password :: string
  ri_phone :: "string option"
  ri_role :: "role option"

text \<open>The clock, the drawn salt and the drawn row id of one request.\<close>

record auth_env =
  ae_id :: id
  ae_salt :: string
  ae_now :: time

definition claimsOf :: "user \<Rightarrow> claims" where
  "claimsOf u = \<lparr>jc_id = Some (u_id u), jc_email = Some (u_email u), jc_role = Some (u_role u), jc_status = Some (u_status u)\<rparr>"

definition newUser :: "credentials \<Rightarrow> auth_env \<Rightarrow> register_input \<Rightarrow> user" where
  "newUser c e inp = \<lparr>u_id = ae_id e, u_email = toLower (ri_email inp), u_phone = ri_phone inp,
     u_passwordHash = cr_hash c (ri_password inp) (ae_salt e),
     u_role = (case ri_role inp of Some r \<Rightarrow> r | None \<Rightarrow> USER), u_status = U_ACTIVE, u_isKycVerified = False,
     u_createdAt = ae_now e\<rparr>"

definition insertUser :: "user \<Rightarrow> unit aop" where
  "insertUser u a =
     (if \<exists>v \<in> set (ac_users a). u_id v = u_id u \<or> u_email v = u_email u \<or> (u_phone u \<noteq> None \<and> u_phone v = u_phone u)
      then (a, Inl PrismaP2002) else (a\<lparr>ac_users := ac_users a @ [u]\<rparr>, Inr ()))"

definition accountAudit :: "string option \<Rightarrow> id \<Rightarrow> string \<Rightarrow> string \<Rightarrow> id \<Rightarrow> accounts \<Rightarrow> accounts" where
  "accountAudit actor userId action resource resourceId =
     onAccounts (auditLog actor (Some userId) action resource (Some resourceId))"

definition registerUser :: "credentials \<Rightarrow> string \<Rightarrow> auth_env \<Rightarrow> register_input \<Rightarrow> (profile \<times> string) aop" where
  "registerUser c secret e inp a =
     (if \<exists>v \<in> set (ac_users a). u_email v = toLower (ri_email inp) \<or> (truthy (ri_phone inp) \<and> u_phone v = ri_phone inp)
      then (a, Inl (ConflictError ''User with this email or phone already exists.''))
      else
        let u = newUser c e inp in
        andThen (insertUser u) (\<lambda>_ a1.
          (accountAudit (Some (u_email u)) (u_id u) ''USER_REGISTERED'' ''User'' (u_id u) a1,
           Inr (profileOf u, cr_sign c (claimsOf u) secret (ae_now e)))) a)"

definition login :: "credentials \<Rightarrow> string \<Rightarrow> time \<Rightarrow> string \<Rightarrow> string \<Rightarrow> (profile \<times> string) aop" where
  "login c secret now email password a =
     (case rowBy u_email (toLower email) (ac_users a) of
        None \<Rightarrow> (a, Inl (UnauthorizedError ''Invalid email or password.''))
      | Some u \<Rightarrow>
          if u_passwordHash u = [] \<or> \<not> cr_compare c password (u_passwordHash u)
          then (a, Inl (UnauthorizedError ''Invalid email or password.''))
          else if u_status u = U_SUSPENDED then (a, Inl (UnauthorizedError ''Account is suspended.''))
          else (accountAudit (Some (u_email u)) (u_id u) ''USER_LOGIN'' ''User'' (u_id u) a,
                Inr (profileOf u, cr_sign c (claimsOf u) secret now)))"

subsection \<open>The middleware\<close>

definition bearer :: "string" where
  "bearer = ''Bearer ''"

definition authenticateToken :: "credentials \<Rightarrow> string \<Rightarrow> time \<Rightarrow> string option \<Rightarrow> app_error + claims" where
  "authenticateToken c secret now header =
     (if \<not> truthy header \<or> \<not> prefix bearer (the header)
      then Inl (UnauthorizedError ''Authentication token is required.'')
      else case cr_verify c (takeWhile (\<lambda>x. x \<noteq> CHR '' '') (drop (length bearer) (the header))) secret now of
        Inl TokenExpired \<Rightarrow> Inl (UnauthorizedError ''Authentication token has expired. Please log in again.'')
      | Inl TokenRejected \<Rightarrow> Inl (UnauthorizedError ''Invalid authentication token format or signature.'')
      | Inl OtherFailure \<Rightarrow> Inl (UnauthorizedError ''Invalid or expired authentication token.'')
      | Inr None \<Rightarrow> Inl (UnauthorizedError ''Invalid authentication token payload.'')
      | Inr (Some p) \<Rightarrow>
          if \<not> truthy (jc_id p) \<or> jc_role p = None then Inl (UnauthorizedError ''Invalid authentication token payload.'')
          else if jc_status p = Some U_SUSPENDED then Inl (ForbiddenError ''User account is suspended.'')
          else Inr p)"

definition requireRole :: "role list \<Rightarrow> claims option \<Rightarrow> app_error + unit" where
  "requireRole allowed who =
     (case who of
        None \<Rightarrow> Inl (UnauthorizedError ''Authentication required.'')
      | Some p \<Rightarrow>
          (case jc_role p of
             Some r \<Rightarrow> if r \<in> set allowed then Inr () else Inl (ForbiddenError ''Access denied.'')
           | None \<Rightarrow> Inl (ForbiddenError ''Access denied.'')))"

text \<open>The audit route: a token, one of two roles, then the log.\<close>

definition auditRoute ::
  "credentials \<Rightarrow> string \<Rightarrow> time \<Rightarrow> string option \<Rightarrow> nat \<Rightarrow> nat \<Rightarrow> sys \<Rightarrow> app_error + audit_entry list \<times> nat" where
  "auditRoute c secret now header limit offset s =
     (case authenticateToken c secret now header of
        Inl err \<Rightarrow> Inl err
      | Inr p \<Rightarrow>
          (case requireRole [ADMIN, SUPER_ADMIN] (Some p) of
             Inl err \<Rightarrow> Inl err
           | Inr _ \<Rightarrow> Inr (listLogs (if limit = 0 then 50 else limit) offset s)))"

subsection \<open>Profiles, wallets and transactions\<close>

definition getUserProfile :: "id \<Rightarrow> accounts \<Rightarrow> app_error + profile" where
  "getUserProfile userId a =
     (case rowBy u_id userId (ac_users a) of
        None \<Rightarrow> Inl (NotFoundError ''User profile not found.'') | Some u \<Rightarrow> Inr (profileOf u))"

record wallet_input =
  wi_address :: string
  wi_label :: "string option"
  wi_network :: "string option"

definition createWallet :: "auth_env \<Rightarrow> id \<Rightarrow> wallet_input \<Rightarrow> wallet aop" where
  "createWallet e userId inp a =
     (if \<exists>y \<in> set (ac_wallets a). wl_userId y = userId \<and> wl_address y = wi_address inp
      then (a, Inl (ConflictError ''Wallet address is already registered to this user.''))
      else
        let y = \<lparr>wl_id = ae_id e, wl_userId = userId, wl_address = wi_address inp,
                 wl_label = orDefault (wi_label inp) ''Main Wallet'', wl_network = orDefault (wi_network inp) ''testnet'',
                 wl_verified = False, wl_createdAt = ae_now e\<rparr>
        in if rowBy wl_id (wl_id y) (ac_wallets a) \<noteq> None then (a, Inl PrismaP2002)
           else (accountAudit None userId ''WALLET_ADDED'' ''Wallet'' (wl_id y) (a\<lparr>ac_wallets := ac_wallets a @ [y]\<rparr>), Inr y))"

definition listUserWallets :: "id \<Rightarrow> accounts \<Rightarrow> wallet list" where
  "listUserWallets userId a = rev (filter (\<lambda>y. wl_userId y = userId) (ac_wallets a))"

definition deleteWallet :: "id \<Rightarrow> id \<Rightarrow> id aop" where
  "deleteWallet userId walletId a =
     (case find (\<lambda>y. wl_id y = walletId \<and> wl_userId y = userId) (ac_wallets a) of
        None \<Rightarrow> (a, Inl (NotFoundError ''Wallet not found or access denied.''))
      | Some y \<Rightarrow>
          (accountAudit None userId ''WALLET_REMOVED'' ''Wallet'' walletId
             (a\<lparr>ac_wallets := filter (\<lambda>y. wl_id y \<noteq> walletId) (ac_wallets a)\<rparr>), Inr walletId))"

definition getUserTransactions :: "id \<Rightarrow> nat \<Rightarrow> nat \<Rightarrow> sys \<Rightarrow> app_tx list \<times> nat" where
  "getUserTransactions userId limit offset s =
     (let xs = filter (\<lambda>x. x_userId x = userId) (transactions s) in (take limit (drop offset (rev xs)), length xs))"

definition getTransactionById :: "id \<Rightarrow> id \<Rightarrow> bool \<Rightarrow> sys \<Rightarrow> app_error + app_tx" where
  "getTransactionById userId txId isAdmin s =
     (case rowBy x_id txId (transactions s) of
        None \<Rightarrow> Inl (NotFoundError ''Transaction not found.'')
      | Some x \<Rightarrow>
          if \<not> isAdmin \<and> x_userId x \<noteq> userId then Inl (ForbiddenError ''Unauthorized access to this transaction.'')
          else Inr x)"

end
