(* ===== verification/Routes.thy ===== *)
theory Routes
  imports Accounts
begin

text \<open>
  Which request reaches which handler, and as whom: the routers of \<^verbatim>\<open>src/app.ts\<close> and of the
  \<^verbatim>\<open>index.ts\<close> files of the modules, with the middleware in front of each handler. Handlers are
  named; what they do is in the theories of their components.
\<close>

subsection \<open>Routers\<close>


text \<open>\<open>Validated s\<close> is \<open>validate(...)\<close> with the schema \<open>s\<close>; whether the request passes is a parameter.\<close>

datatype guard = Authenticated | RoleIn "role list" | Validated string




















subsection \<open>Serving a request\<close>



text \<open>The one check that stands in a handler, of the raw body of a webhook, has an error of its own.\<close>

definition refusal :: "string \<Rightarrow> app_error" where
  "refusal schema =
     (if schema = ''rawBody'' then WebhookVerificationError ''Raw request body is missing for webhook verification''
      else ValidationError ''Invalid request input data.'')"

text \<open>The middleware of a request in order; the user it leaves on the request.\<close>

fun passes ::
  "(string \<Rightarrow> bool) \<Rightarrow> app_error + claims \<Rightarrow> guard list \<Rightarrow> claims option \<Rightarrow> app_error + claims option" where
  "passes valid token [] who = Inr who"
| "passes valid token (Authenticated # gs) who =
     (case token of Inl e \<Rightarrow> Inl e | Inr p \<Rightarrow> passes valid token gs (Some p))"
| "passes valid token (RoleIn rs # gs) who =
     (case requireRole rs who of Inl e \<Rightarrow> Inl e | Inr _ \<Rightarrow> passes valid token gs who)"
| "passes valid token (Validated schema # gs) who =
     (if valid schema then passes valid token gs who else Inl (refusal schema))"



subsection \<open>Who gets where\<close>





lemma passes_anonymous:
  "passes valid token gs who = Inr who1 \<Longrightarrow> Authenticated \<notin> set gs \<Longrightarrow> who1 = who"
  by (induction valid token gs who rule: passes.induct) (auto split: sum.splits if_splits)










end
