(* ===== verification/AccountProps.thy ===== *)
theory AccountProps
  imports Accounts
begin

text \<open>
  Who gets in: a registered user's password and token lead back to that user with the role that was
  asked for; the tables stay well formed; nobody reaches another user's wallets or transactions.
\<close>

subsection \<open>The libraries\<close>

text \<open>
  Documented behaviour of \<^verbatim>\<open>bcryptjs\<close> and \<^verbatim>\<open>jsonwebtoken\<close>: a password compares with its own
  hash, which is not empty; a signed payload comes back from its token under the same secret until
  it expires, \<open>ttl\<close> after it was signed; a token holds no space.
\<close>

definition libraries :: "credentials \<Rightarrow> time \<Rightarrow> bool" where
  "libraries c ttl \<longleftrightarrow>
     (\<forall>p salt. cr_compare c p (cr_hash c p salt) \<and> cr_hash c p salt \<noteq> [])
     \<and> (\<forall>p s t now. t \<le> now \<and> now < t + ttl \<longrightarrow> cr_verify c (cr_sign c p s t) s now = Inr (Some p))
     \<and> (\<forall>p s t. CHR '' '' \<notin> set (cr_sign c p s t))"

lemma token_back:
  assumes "libraries c ttl" and "t \<le> now" "now < t + ttl" and "u_id u \<noteq> []" and "u_status u \<noteq> U_SUSPENDED"
  shows "authenticateToken c secret now (Some (bearer @ cr_sign c (claimsOf u) secret t)) = Inr (claimsOf u)"
proof -
  let ?tok = "cr_sign c (claimsOf u) secret t"
  have "CHR '' '' \<notin> set ?tok" using assms(1) by (simp add: libraries_def)
  then have cut: "takeWhile (\<lambda>x. x \<noteq> CHR '' '') ?tok = ?tok" by (auto simp: takeWhile_eq_all_conv)
  have verified: "cr_verify c ?tok secret now = Inr (Some (claimsOf u))" using assms(1-3) by (simp add: libraries_def)
  have fields: "jc_id (claimsOf u) = Some (u_id u)" "jc_role (claimsOf u) = Some (u_role u)"
    "jc_status (claimsOf u) = Some (u_status u)" by (simp_all add: claimsOf_def)
  show ?thesis using assms(4,5) by (simp add: authenticateToken_def cut verified fields) (simp add: bearer_def)
qed

lemma register_returns:
  assumes "registerUser c secret e inp a = (a1, Inr (p, tok))"
  shows "p = profileOf (newUser c e inp) \<and> tok = cr_sign c (claimsOf (newUser c e inp)) secret (ae_now e)
    \<and> ac_users a1 = ac_users a @ [newUser c e inp] \<and> ac_wallets a1 = ac_wallets a
    \<and> (\<forall>v \<in> set (ac_users a). u_id v \<noteq> ae_id e \<and> u_email v \<noteq> toLower (ri_email inp)
         \<and> (ri_phone inp \<noteq> None \<longrightarrow> u_phone v \<noteq> ri_phone inp))"
  using assms
  by (auto simp: registerUser_def Let_def andThen_eq insertUser_def accountAudit_def onAccounts_def newUser_def
      split: if_splits sum.splits)

text \<open>
  C16. Registration, login and tokens fit together: whoever registers can log in with the same
  password under any spelling of the address in case, gets the same profile, and both tokens
  authenticate as that user, with that role, until they expire; a route then admits the user exactly
  when it allows the role - which is the one the registration asked for, administrators included. A
  password that does not match the hash is refused like an unknown address.
\<close>

theorem registered_user_authenticates:
  assumes "libraries c ttl" and "registerUser c secret e inp a = (a1, Inr (p, tok))" and "ae_id e \<noteq> []"
    and "toLower email = toLower (ri_email inp)"
  shows "up_role p = (case ri_role inp of Some r \<Rightarrow> r | None \<Rightarrow> USER)
    \<and> (\<exists>k. jc_id k = Some (up_id p) \<and> jc_role k = Some (up_role p)
        \<and> (\<forall>now. ae_now e \<le> now \<and> now < ae_now e + ttl \<longrightarrow> authenticateToken c secret now (Some (bearer @ tok)) = Inr k)
        \<and> (\<forall>allowed. requireRole allowed (Some k) = Inr () \<longleftrightarrow> up_role p \<in> set allowed)
        \<and> (\<exists>tok2. snd (login c secret later email (ri_password inp) a1) = Inr (p, tok2)
             \<and> (\<forall>now. later \<le> now \<and> now < later + ttl \<longrightarrow> authenticateToken c secret now (Some (bearer @ tok2)) = Inr k)))
    \<and> (\<not> cr_compare c guess (cr_hash c (ri_password inp) (ae_salt e)) \<longrightarrow>
        login c secret later email guess a1 = (a1, Inl (UnauthorizedError ''Invalid email or password.'')))"
proof -
  note r = register_returns[OF assms(2)]
  let ?u = "newUser c e inp"
  have row: "rowBy u_email (toLower email) (ac_users a1) = Some ?u"
    using r assms(4) by (auto simp: rowBy_append rowBy_None_iff newUser_def split: option.splits dest: rowBy_SomeD)
  have u: "u_id ?u \<noteq> []" "u_status ?u \<noteq> U_SUSPENDED" "u_passwordHash ?u = cr_hash c (ri_password inp) (ae_salt e)"
    using assms(3) by (simp_all add: newUser_def)
  have pw: "cr_compare c (ri_password inp) (u_passwordHash ?u)" "u_passwordHash ?u \<noteq> []"
    using assms(1) by (simp_all add: u(3) libraries_def)
  have log: "snd (login c secret later email (ri_password inp) a1) = Inr (p, cr_sign c (claimsOf ?u) secret later)"
    using row pw u(2) r by (simp add: login_def)
  have bad: "login c secret later email guess a1 = (a1, Inl (UnauthorizedError ''Invalid email or password.''))"
    if "\<not> cr_compare c guess (cr_hash c (ri_password inp) (ae_salt e))"
    using row that u(3) by (simp add: login_def)
  have "\<forall>now. t \<le> now \<and> now < t + ttl \<longrightarrow>
      authenticateToken c secret now (Some (bearer @ cr_sign c (claimsOf ?u) secret t)) = Inr (claimsOf ?u)" for t
    using token_back[OF assms(1) _ _ u(1,2)] by blast
  note auth = this
  have p: "up_role p = (case ri_role inp of Some r \<Rightarrow> r | None \<Rightarrow> USER)" "jc_id (claimsOf ?u) = Some (up_id p)"
    "jc_role (claimsOf ?u) = Some (up_role p)"
    using r by (simp_all add: profileOf_def claimsOf_def newUser_def)
  have "requireRole allowed (Some (claimsOf ?u)) = Inr () \<longleftrightarrow> up_role p \<in> set allowed" for allowed
    by (simp add: requireRole_def p(3))
  with p r log bad auth show ?thesis by blast
qed

subsection \<open>The tables\<close>

definition accounts_inv :: "accounts \<Rightarrow> bool" where
  "accounts_inv a \<longleftrightarrow> unique_by u_id (ac_users a) \<and> unique_by u_email (ac_users a)
     \<and> (\<forall>u \<in> set (ac_users a). toLower (u_email u) = u_email u)
     \<and> unique_by wl_id (ac_wallets a) \<and> unique_by (\<lambda>y. (wl_userId y, wl_address y)) (ac_wallets a)"

datatype account_event =
    AvRegister auth_env register_input
  | AvLogin time string string
  | AvAddWallet auth_env id wallet_input
  | AvRemoveWallet id id

fun accountStep :: "credentials \<Rightarrow> string \<Rightarrow> account_event \<Rightarrow> accounts \<Rightarrow> accounts" where
  "accountStep c secret (AvRegister e inp) a = fst (registerUser c secret e inp a)"
| "accountStep c secret (AvLogin now email pw) a = fst (login c secret now email pw a)"
| "accountStep c secret (AvAddWallet e userId inp) a = fst (createWallet e userId inp a)"
| "accountStep c secret (AvRemoveWallet userId i) a = fst (deleteWallet userId i a)"

fun byOther :: "id \<Rightarrow> account_event \<Rightarrow> bool" where
  "byOther v (AvAddWallet e userId inp) = (userId \<noteq> v)"
| "byOther v (AvRemoveWallet userId i) = (userId \<noteq> v)"
| "byOther v _ = True"

lemma lower_twice: "toLower (toLower t) = toLower t"
proof -
  have "lower_char (lower_char c) = lower_char c" for c
  proof (cases "65 \<le> (of_char c :: nat) \<and> (of_char c :: nat) \<le> 90")
    case True
    then have "(of_char (lower_char c) :: nat) = of_char c + 32" by (simp add: lower_char_def)
    with True show ?thesis by (simp add: lower_char_def)
  qed (auto simp: lower_char_def)
  then show ?thesis by (simp add: toLower_def)
qed

lemma register_step:
  "ac_users (fst (registerUser c secret e inp a)) = ac_users a
   \<or> (ac_users (fst (registerUser c secret e inp a)) = ac_users a @ [newUser c e inp]
      \<and> (\<forall>v \<in> set (ac_users a). u_id v \<noteq> ae_id e \<and> u_email v \<noteq> toLower (ri_email inp)))"
  "ac_wallets (fst (registerUser c secret e inp a)) = ac_wallets a"
  by (auto simp: registerUser_def Let_def andThen_eq insertUser_def accountAudit_def onAccounts_def newUser_def)

lemma login_frame: "ac_users (fst (login c secret now email pw a)) = ac_users a"
  "ac_wallets (fst (login c secret now email pw a)) = ac_wallets a"
  by (auto simp: login_def accountAudit_def onAccounts_def split: option.splits)

lemma create_step:
  "ac_users (fst (createWallet e userId inp a)) = ac_users a"
  "ac_wallets (fst (createWallet e userId inp a)) = ac_wallets a
   \<or> (\<exists>y. ac_wallets (fst (createWallet e userId inp a)) = ac_wallets a @ [y] \<and> wl_userId y = userId
        \<and> wl_id y \<notin> wl_id ` set (ac_wallets a) \<and> (\<forall>z \<in> set (ac_wallets a). wl_userId z = userId \<longrightarrow> wl_address z \<noteq> wl_address y))"
  by (auto simp: createWallet_def Let_def accountAudit_def onAccounts_def rowBy_None_iff)

lemma delete_step:
  "ac_users (fst (deleteWallet userId i a)) = ac_users a"
  "ac_wallets (fst (deleteWallet userId i a)) = ac_wallets a
   \<or> (\<exists>y \<in> set (ac_wallets a). wl_userId y = userId \<and> wl_id y = i
        \<and> ac_wallets (fst (deleteWallet userId i a)) = filter (\<lambda>y. wl_id y \<noteq> i) (ac_wallets a))"
  by (auto simp: deleteWallet_def accountAudit_def onAccounts_def split: option.splits dest!: find_SomeD)

lemma unique_filter: "unique_by key rs \<Longrightarrow> unique_by key (filter P rs)"
  by (simp add: unique_by_def distinct_map_filter)

lemma unique_snoc: "unique_by key (rs @ [r]) \<longleftrightarrow> unique_by key rs \<and> key r \<notin> key ` set rs"
  by (auto simp: unique_by_def)

lemma accountStep_keeps:
  assumes "accounts_inv a"
  shows "accounts_inv (accountStep c secret ev a)"
proof (cases ev)
  case (AvRegister e inp)
  with assms register_step[of c secret e inp a] show ?thesis
    by (auto simp: accounts_inv_def unique_snoc newUser_def lower_twice) (blast, blast)
next
  case (AvLogin now email pw)
  with assms show ?thesis by (simp add: accounts_inv_def login_frame)
next
  case (AvAddWallet e userId inp)
  with assms create_step[of e userId inp a] show ?thesis
    by (auto simp: accounts_inv_def unique_snoc) (metis+)?
next
  case (AvRemoveWallet userId i)
  with assms delete_step[of userId i a] show ?thesis
    by (auto simp: accounts_inv_def unique_filter)
qed

lemma accountStep_others:
  assumes "accounts_inv a" and "byOther v ev"
  shows "listUserWallets v (accountStep c secret ev a) = listUserWallets v a"
proof (cases ev)
  case (AvRegister e inp)
  with register_step(2)[of c secret e inp a] show ?thesis by (simp add: listUserWallets_def)
next
  case (AvLogin now email pw)
  then show ?thesis by (simp add: listUserWallets_def login_frame)
next
  case (AvAddWallet e userId inp)
  with assms(2) create_step(2)[of e userId inp a] show ?thesis by (auto simp: listUserWallets_def)
next
  case (AvRemoveWallet userId i)
  have gone: "filter (\<lambda>y. wl_userId y = v) (filter (\<lambda>y. wl_id y \<noteq> i) ws) = filter (\<lambda>y. wl_userId y = v) ws"
    if "unique_by wl_id ws" "y \<in> set ws" "wl_userId y \<noteq> v" "wl_id y = i" for ws y
    using that by (auto simp: filter_filter intro!: filter_cong dest: same_row)
  have ids: "unique_by wl_id (ac_wallets a)" "userId \<noteq> v" using assms AvRemoveWallet by (simp_all add: accounts_inv_def)
  from delete_step(2)[of userId i a] show ?thesis
  proof
    assume "\<exists>y \<in> set (ac_wallets a). wl_userId y = userId \<and> wl_id y = i
        \<and> ac_wallets (fst (deleteWallet userId i a)) = filter (\<lambda>y. wl_id y \<noteq> i) (ac_wallets a)"
    then obtain y where y: "y \<in> set (ac_wallets a)" "wl_userId y = userId" "wl_id y = i"
      and tab: "ac_wallets (fst (deleteWallet userId i a)) = filter (\<lambda>y. wl_id y \<noteq> i) (ac_wallets a)" by blast
    have other: "wl_userId y \<noteq> v" using ids(2) y(2) by simp
    show ?thesis unfolding AvRemoveWallet accountStep.simps listUserWallets_def tab gone[OF ids(1) y(1) other y(3)] ..
  qed (simp add: AvRemoveWallet listUserWallets_def)
qed

interpretation accounts_run: component "\<lambda>ev a. True" "accountStep c secret" accounts_inv for c secret
  by unfold_locales (rule accountStep_keeps)

interpretation others_run: component "\<lambda>ev a. byOther v ev" "accountStep c secret"
    "\<lambda>a. accounts_inv a \<and> listUserWallets v a = ws" for c secret v ws
  by unfold_locales (simp add: accountStep_keeps accountStep_others)

lemma others_admissible: "\<forall>ev \<in> set evs. byOther v ev \<Longrightarrow> admissible (\<lambda>ev a. byOther v ev) step evs a"
  by (induction evs arbitrary: a) auto

text \<open>
  C35. Wallets belong to their users: through any sequence of registrations, logins and wallet
  requests the ids, addresses and e-mail addresses stay unique and no user holds a Stellar address
  twice; requests of others leave the wallets a user sees as they were; and a transaction is shown
  to its own user and to administrators only.
\<close>

theorem wallets_isolated:
  fixes c :: credentials and secret :: string and evs :: "account_event list"
  assumes "accounts_inv a"
  defines "a1 \<equiv> runSteps (accountStep c secret) evs a"
  shows "accounts_inv a1
    \<and> ((\<forall>ev \<in> set evs. byOther v ev) \<longrightarrow> listUserWallets v a1 = listUserWallets v a)
    \<and> (getTransactionById v i isAdmin (ac_sys a1) = Inr x \<longrightarrow>
         rowBy x_id i (transactions (ac_sys a1)) = Some x \<and> (isAdmin \<or> x_userId x = v))"
proof -
  have "admissible (\<lambda>ev a. True) (accountStep c secret) evs a" by (induction evs arbitrary: a) auto
  then have "accounts_inv a1" unfolding a1_def by (rule accounts_run.run_keeps[OF assms(1)])
  moreover have "listUserWallets v a1 = listUserWallets v a" if "\<forall>ev \<in> set evs. byOther v ev"
  proof -
    have start: "accounts_inv a \<and> listUserWallets v a = listUserWallets v a" using assms(1) by simp
    from others_run.run_keeps[OF this others_admissible[OF that]] show ?thesis by (simp add: a1_def)
  qed
  ultimately show ?thesis by (auto simp: getTransactionById_def split: option.splits if_splits)
qed

subsection \<open>Concrete libraries\<close>

text \<open>Hashing by adding the salt, and tokens that spell the payload in bits.\<close>

fun bitsOf :: "char \<Rightarrow> string" where
  "bitsOf (Char b0 b1 b2 b3 b4 b5 b6 b7) = map (\<lambda>b. if b then CHR ''1'' else CHR ''0'') [b0, b1, b2, b3, b4, b5, b6, b7]"

definition spell :: "string option \<Rightarrow> string" where
  "spell v = (case v of None \<Rightarrow> ''-'' | Some w \<Rightarrow> concat (map bitsOf w) @ ''.'')"

fun unspell :: "string \<Rightarrow> string option \<times> string" where
  "unspell (b0 # b1 # b2 # b3 # b4 # b5 # b6 # b7 # rest) =
     (if b0 = CHR ''-'' then (None, b1 # b2 # b3 # b4 # b5 # b6 # b7 # rest)
      else if b0 = CHR ''.'' then (Some [], b1 # b2 # b3 # b4 # b5 # b6 # b7 # rest)
      else case unspell rest of (v, r) \<Rightarrow>
        (map_option (\<lambda>w. Char (b0 = CHR ''1'') (b1 = CHR ''1'') (b2 = CHR ''1'') (b3 = CHR ''1'') (b4 = CHR ''1'')
           (b5 = CHR ''1'') (b6 = CHR ''1'') (b7 = CHR ''1'') # w) v, r))"
| "unspell (b0 # rest) = (if b0 = CHR ''-'' then (None, rest) else (Some [], rest))"
| "unspell [] = (None, [])"

lemma unspell_spell: "unspell (spell v @ rest) = (v, rest)"
proof (cases v)
  case None
  have "unspell (CHR ''-'' # rest) = (None, rest)" by (cases rule: unspell.cases[of "CHR ''-'' # rest"]) auto
  with None show ?thesis by (simp add: spell_def)
next
  case (Some w)
  have nil: "unspell (CHR ''.'' # rest) = (Some [], rest)" by (cases rule: unspell.cases[of "CHR ''.'' # rest"]) auto
  have "unspell (concat (map bitsOf w) @ CHR ''.'' # rest) = (Some w, rest)"
  proof (induction w)
    case (Cons x w)
    then show ?case by (cases x) auto
  qed (simp add: nil)
  with Some show ?thesis by (simp add: spell_def)
qed

lemma spell_no_space: "CHR '' '' \<notin> set (spell v)"
proof -
  have "CHR '' '' \<notin> set (bitsOf x)" for x by (cases x) auto
  then show ?thesis by (auto simp: spell_def split: option.splits)
qed

fun roleWord :: "role option \<Rightarrow> string option" where
  "roleWord None = None"
| "roleWord (Some USER) = Some ''u''"
| "roleWord (Some MERCHANT) = Some ''m''"
| "roleWord (Some ADMIN) = Some ''a''"
| "roleWord (Some SUPER_ADMIN) = Some ''s''"

definition wordRole :: "string option \<Rightarrow> role option" where
  "wordRole v = map_of [(Some ''u'', USER), (Some ''m'', MERCHANT), (Some ''a'', ADMIN), (Some ''s'', SUPER_ADMIN)] v"

fun statusWord :: "user_status option \<Rightarrow> string option" where
  "statusWord None = None"
| "statusWord (Some U_ACTIVE) = Some ''a''"
| "statusWord (Some U_SUSPENDED) = Some ''s''"
| "statusWord (Some U_PENDING) = Some ''p''"

definition wordStatus :: "string option \<Rightarrow> user_status option" where
  "wordStatus v = map_of [(Some ''a'', U_ACTIVE), (Some ''s'', U_SUSPENDED), (Some ''p'', U_PENDING)] v"

lemma words_back: "wordRole (roleWord r) = r" "wordStatus (statusWord st) = st"
  by (cases r rule: roleWord.cases; simp add: wordRole_def) (cases st rule: statusWord.cases; simp add: wordStatus_def)

definition demo_credentials :: credentials where
  "demo_credentials = \<lparr>cr_hash = (\<lambda>p salt. CHR ''#'' # p), cr_compare = (\<lambda>p h. h = CHR ''#'' # p),
     cr_sign = (\<lambda>p s t. spell (Some s) @ spell (jc_id p) @ spell (jc_email p) @ spell (roleWord (jc_role p)) @ spell (statusWord (jc_status p))),
     cr_verify = (\<lambda>tok s now. let (s1, r0) = unspell tok; (i, r1) = unspell r0; (m, r2) = unspell r1; (ro, r3) = unspell r2; (st, r4) = unspell r3
        in if s1 = Some s then Inr (Some \<lparr>jc_id = i, jc_email = m, jc_role = wordRole ro, jc_status = wordStatus st\<rparr>) else Inl TokenRejected)\<rparr>"

lemma demo_libraries: "libraries demo_credentials ttl"
proof -
  have last: "unspell (spell v) = (v, [])" for v using unspell_spell[of v "[]"] by simp
  show ?thesis
    by (simp add: libraries_def demo_credentials_def unspell_spell last words_back spell_no_space)
qed

definition demo_accounts :: accounts where
  "demo_accounts = \<lparr>ac_users = [], ac_wallets = [], ac_sys = empty_sys\<rparr>"

definition demo_registration :: register_input where
  "demo_registration = \<lparr>ri_email = ''Eve@x.io'', ri_password = ''pw'', ri_phone = None, ri_role = Some ADMIN\<rparr>"

theorem registered_user_authenticates_witness:
  "\<exists>a1 tok k. registerUser demo_credentials ''key'' \<lparr>ae_id = ''u9'', ae_salt = [], ae_now = 0\<rparr> demo_registration demo_accounts = (a1, Inr tok)
     \<and> authenticateToken demo_credentials ''key'' 5 (Some (bearer @ snd tok)) = Inr k
     \<and> requireRole [ADMIN, SUPER_ADMIN] (Some k) = Inr ()"
proof -
  let ?e = "\<lparr>ae_id = ''u9'', ae_salt = [], ae_now = 0\<rparr>"
  obtain a1 p tok where run: "registerUser demo_credentials ''key'' ?e demo_registration demo_accounts = (a1, Inr (p, tok))"
    by (simp add: registerUser_def Let_def andThen_eq insertUser_def demo_accounts_def)
  have "ae_id ?e \<noteq> []" "ri_role demo_registration = Some ADMIN" by (simp_all add: demo_registration_def)
  with registered_user_authenticates[OF demo_libraries[of 60] run _ refl, of 7 "''no''"] run show ?thesis by auto
qed

definition demo_wallet :: wallet where
  "demo_wallet = \<lparr>wl_id = ''w1'', wl_userId = ''v'', wl_address = ''GA'', wl_label = [], wl_network = [],
     wl_verified = False, wl_createdAt = 0\<rparr>"

definition demo_requests :: "account_event list" where
  "demo_requests = [AvAddWallet \<lparr>ae_id = ''w2'', ae_salt = [], ae_now = 0\<rparr> ''e'' \<lparr>wi_address = ''GB'', wi_label = None, wi_network = None\<rparr>,
     AvRemoveWallet ''e'' ''w1'']"

theorem wallets_isolated_witness:
  "listUserWallets ''v'' (runSteps (accountStep demo_credentials ''key'') demo_requests
      (demo_accounts\<lparr>ac_wallets := [demo_wallet]\<rparr>)) = [demo_wallet]"
proof -
  let ?a = "demo_accounts\<lparr>ac_wallets := [demo_wallet]\<rparr>"
  have inv: "accounts_inv ?a" by (simp add: accounts_inv_def demo_accounts_def unique_by_def)
  have others: "\<forall>ev \<in> set demo_requests. byOther ''v'' ev" by (simp add: demo_requests_def)
  have own: "listUserWallets ''v'' ?a = [demo_wallet]" by (simp add: listUserWallets_def demo_wallet_def)
  from wallets_isolated[OF inv] others own show ?thesis by metis
qed

end
