(* ===== verification/StellarRead.thy ===== *)
theory StellarRead
  imports StellarConfig
begin

text \<open>
  What the API reads from the chain: \<^verbatim>\<open>stellar/assets/asset.service.ts\<close>,
  \<^verbatim>\<open>stellar/balances/balance.service.ts\<close>, \<^verbatim>\<open>stellar/accounts/account.service.ts\<close>,
  \<^verbatim>\<open>stellar/transactions/transaction.service.ts\<close>, \<^verbatim>\<open>stellar/horizon/client.ts\<close>,
  \<^verbatim>\<open>stellar/cache/cache.service.ts\<close> and the routes of \<^verbatim>\<open>stellar/routes/index.ts\<close>. The answers
  of Horizon, as they are at each time, and the checks of StrKey are parameters.
\<close>

subsection \<open>Assets\<close>

datatype asset_type = Native | CreditAlphanum4 | CreditAlphanum12

record asset =
  as_type :: asset_type
  as_code :: string
  as_issuer :: "string option"
  as_network :: string

definition cleanCode :: "string \<Rightarrow> string" where
  "cleanCode code = trim (toUpper code)"

definition nativeCode :: "string \<Rightarrow> bool" where
  "nativeCode c \<longleftrightarrow> c = ''XLM'' \<or> c = ''NATIVE''"

definition validateAssetIdentifier :: "strkey \<Rightarrow> string \<Rightarrow> string option \<Rightarrow> bool" where
  "validateAssetIdentifier sk code issuer \<longleftrightarrow> code \<noteq> []
     \<and> (nativeCode (cleanCode code)
        \<or> (1 \<le> length (cleanCode code) \<and> length (cleanCode code) \<le> 12
           \<and> truthy issuer \<and> sk_publicKey sk (the issuer)))"

definition nativeAsset :: "config \<Rightarrow> asset" where
  "nativeAsset cfg = \<lparr>as_type = Native, as_code = ''XLM'', as_issuer = None, as_network = network cfg\<rparr>"

definition normalizeAsset :: "strkey \<Rightarrow> config \<Rightarrow> string \<Rightarrow> string option \<Rightarrow> app_error + asset" where
  "normalizeAsset sk cfg code issuer =
     (let c = cleanCode code in
      if nativeCode c then Inr (nativeAsset cfg)
      else if \<not> validateAssetIdentifier sk c issuer then Inl StellarInvalidAssetError
      else Inr \<lparr>as_type = (if length c \<le> 4 then CreditAlphanum4 else CreditAlphanum12), as_code = c,
                as_issuer = issuer, as_network = network cfg\<rparr>)"

datatype sdk_asset = SdkNative | SdkAsset string string

definition toStellarSdkAsset :: "strkey \<Rightarrow> config \<Rightarrow> string \<Rightarrow> string option \<Rightarrow> app_error + sdk_asset" where
  "toStellarSdkAsset sk cfg code issuer =
     (case normalizeAsset sk cfg code issuer of
        Inl e \<Rightarrow> Inl e
      | Inr a \<Rightarrow> Inr (if as_type a = Native then SdkNative else SdkAsset (as_code a) (the (as_issuer a))))"

definition isAllowlistedAsset :: "strkey \<Rightarrow> config \<Rightarrow> string \<Rightarrow> string option \<Rightarrow> bool" where
  "isAllowlistedAsset sk cfg code issuer =
     (case normalizeAsset sk cfg code issuer of
        Inl _ \<Rightarrow> False
      | Inr a \<Rightarrow> as_type a = Native \<or> (as_code a = ''USDC'' \<and> as_issuer a = Some (usdcIssuer cfg)))"

definition getKnownAssets :: "config \<Rightarrow> asset list" where
  "getKnownAssets cfg = [nativeAsset cfg,
     \<lparr>as_type = CreditAlphanum4, as_code = ''USDC'', as_issuer = Some (usdcIssuer cfg), as_network = network cfg\<rparr>]"

subsection \<open>Balances and accounts\<close>

text \<open>The lines Horizon lists; a line of another type, such as a pool share, has neither code nor issuer.\<close>

datatype balance_line =
    NativeLine string
  | CreditLine string string string "string option"
  | OtherLine string

record balance =
  ba_type :: asset_type
  ba_code :: string
  ba_issuer :: "string option"
  ba_balance :: string
  ba_limit :: "string option"

fun normalizeBalance :: "strkey \<Rightarrow> config \<Rightarrow> balance_line \<Rightarrow> app_error + balance" where
  "normalizeBalance sk cfg (NativeLine b) =
     (case normalizeAsset sk cfg ''XLM'' None of
        Inl e \<Rightarrow> Inl e
      | Inr a \<Rightarrow> Inr \<lparr>ba_type = as_type a, ba_code = as_code a, ba_issuer = None, ba_balance = b, ba_limit = None\<rparr>)"
| "normalizeBalance sk cfg (CreditLine code issuer b limit) =
     (case normalizeAsset sk cfg code (Some issuer) of
        Inl e \<Rightarrow> Inl e
      | Inr a \<Rightarrow> Inr \<lparr>ba_type = as_type a, ba_code = as_code a, ba_issuer = as_issuer a, ba_balance = b, ba_limit = limit\<rparr>)"
| "normalizeBalance sk cfg (OtherLine b) =
     Inr \<lparr>ba_type = CreditAlphanum4, ba_code = ''UNKNOWN'', ba_issuer = None, ba_balance = b, ba_limit = None\<rparr>"

fun normalizeBalances :: "strkey \<Rightarrow> config \<Rightarrow> balance_line list \<Rightarrow> app_error + balance list" where
  "normalizeBalances sk cfg [] = Inr []"
| "normalizeBalances sk cfg (l # ls) =
     (case normalizeBalance sk cfg l of
        Inl e \<Rightarrow> Inl e
      | Inr b \<Rightarrow> (case normalizeBalances sk cfg ls of Inl e \<Rightarrow> Inl e | Inr bs \<Rightarrow> Inr (b # bs)))"

record horizon_account =
  ha_id :: string
  ha_sequence :: string
  ha_subentries :: nat
  ha_balances :: "balance_line list"

record horizon_tx =
  ht_hash :: string
  ht_ledger :: int
  ht_successful :: bool

datatype horizon_error = Status404 | OtherHorizonError

text \<open>Horizon as a function of the time it is asked.\<close>

record horizon =
  hz_account :: "string \<Rightarrow> time \<Rightarrow> horizon_error + horizon_account"
  hz_tx :: "string \<Rightarrow> time \<Rightarrow> horizon_error + horizon_tx"

definition horizonError :: "string \<Rightarrow> string \<Rightarrow> horizon_error \<Rightarrow> app_error" where
  "horizonError code msg err = (case err of Status404 \<Rightarrow> AppError 404 code | OtherHorizonError \<Rightarrow> StellarNetworkError msg)"

definition loadAccount :: "config \<Rightarrow> horizon \<Rightarrow> time \<Rightarrow> string \<Rightarrow> app_error + horizon_account" where
  "loadAccount cfg hz now address =
     (case assertTestnetSafety cfg of
        Inl e \<Rightarrow> Inl e
      | Inr _ \<Rightarrow>
          (case hz_account hz address now of
             Inl err \<Rightarrow> Inl (horizonError ''STELLAR_ACCOUNT_NOT_FOUND'' ''Failed to load account from Horizon'' err)
           | Inr a \<Rightarrow> Inr a))"

definition checkAccountExists :: "config \<Rightarrow> horizon \<Rightarrow> time \<Rightarrow> string \<Rightarrow> app_error + bool" where
  "checkAccountExists cfg hz now address =
     (case assertTestnetSafety cfg of
        Inl e \<Rightarrow> Inl e
      | Inr _ \<Rightarrow>
          (case hz_account hz address now of
             Inl Status404 \<Rightarrow> Inr False
           | Inl OtherHorizonError \<Rightarrow> Inl (StellarNetworkError ''Failed to check existence for account'')
           | Inr a \<Rightarrow> Inr True))"

definition fetchTransaction :: "config \<Rightarrow> horizon \<Rightarrow> time \<Rightarrow> string \<Rightarrow> app_error + horizon_tx" where
  "fetchTransaction cfg hz now hash =
     (case assertTestnetSafety cfg of
        Inl e \<Rightarrow> Inl e
      | Inr _ \<Rightarrow>
          (case hz_tx hz hash now of
             Inl err \<Rightarrow> Inl (horizonError ''STELLAR_TRANSACTION_NOT_FOUND'' ''Failed to fetch transaction from Horizon'' err)
           | Inr x \<Rightarrow> Inr x))"

definition validateAddress :: "strkey \<Rightarrow> string \<Rightarrow> app_error + bool" where
  "validateAddress sk address =
     (if address = [] then Inr False
      else if take 1 address = ''S'' \<or> sk_secretSeed sk address
      then Inl (StellarInvalidAddressError ''Secret keys and seed phrases are strictly forbidden.'')
      else Inr (sk_publicKey sk address))"

definition validated :: "strkey \<Rightarrow> string \<Rightarrow> (unit \<Rightarrow> app_error + 'a) \<Rightarrow> app_error + 'a" where
  "validated sk address k =
     (case validateAddress sk address of
        Inl e \<Rightarrow> Inl e
      | Inr ok \<Rightarrow> if ok then k () else Inl (StellarInvalidAddressError ''Invalid Stellar public key format''))"

record account =
  an_address :: string
  an_sequence :: string
  an_subentries :: nat
  an_balances :: "balance list"

definition accountExists :: "strkey \<Rightarrow> config \<Rightarrow> horizon \<Rightarrow> time \<Rightarrow> string \<Rightarrow> app_error + bool" where
  "accountExists sk cfg hz now address = validated sk address (\<lambda>_. checkAccountExists cfg hz now address)"

definition getAccountDetails :: "strkey \<Rightarrow> config \<Rightarrow> horizon \<Rightarrow> time \<Rightarrow> string \<Rightarrow> app_error + account" where
  "getAccountDetails sk cfg hz now address =
     validated sk address (\<lambda>_.
       case loadAccount cfg hz now address of
         Inl e \<Rightarrow> Inl e
       | Inr r \<Rightarrow>
           (case normalizeBalances sk cfg (ha_balances r) of
              Inl e \<Rightarrow> Inl e
            | Inr bs \<Rightarrow> Inr \<lparr>an_address = ha_id r, an_sequence = ha_sequence r, an_subentries = ha_subentries r,
                             an_balances = bs\<rparr>))"

definition getAccountSequence :: "strkey \<Rightarrow> config \<Rightarrow> horizon \<Rightarrow> time \<Rightarrow> string \<Rightarrow> app_error + string" where
  "getAccountSequence sk cfg hz now address =
     validated sk address (\<lambda>_. case loadAccount cfg hz now address of Inl e \<Rightarrow> Inl e | Inr r \<Rightarrow> Inr (ha_sequence r))"

subsection \<open>Transactions\<close>

definition isHex :: "char \<Rightarrow> bool" where
  "isHex c \<longleftrightarrow> c \<in> set ''0123456789abcdefABCDEF''"

definition validateHash :: "string \<Rightarrow> bool" where
  "validateHash hash \<longleftrightarrow> hash \<noteq> [] \<and> length (trim hash) = 64 \<and> list_all isHex (trim hash)"

definition getTransaction :: "config \<Rightarrow> horizon \<Rightarrow> time \<Rightarrow> string \<Rightarrow> app_error + horizon_tx" where
  "getTransaction cfg hz now hash =
     (if \<not> validateHash (trim hash) then Inl (BadRequestError ''Invalid Stellar transaction hash format. Expected 64-char hex string.'')
      else fetchTransaction cfg hz now (trim hash))"

definition verifyStellarTransaction :: "config \<Rightarrow> horizon \<Rightarrow> time \<Rightarrow> string \<Rightarrow> bool" where
  "verifyStellarTransaction cfg hz now hash = (case getTransaction cfg hz now hash of Inl _ \<Rightarrow> False | Inr x \<Rightarrow> ht_successful x)"

subsection \<open>The cache and the routes\<close>

datatype cached = CachedAccount account | CachedBalances "balance list"

type_synonym cache = "string \<Rightarrow> (cached \<times> time) option"

definition cacheGet :: "time \<Rightarrow> string \<Rightarrow> cache \<Rightarrow> cache \<times> cached option" where
  "cacheGet now key c =
     (case c key of
        None \<Rightarrow> (c, None)
      | Some (v, expiresAt) \<Rightarrow> if now > expiresAt then (c(key := None), None) else (c, Some v))"

definition cacheSet :: "time \<Rightarrow> string \<Rightarrow> cached \<Rightarrow> int \<Rightarrow> cache \<Rightarrow> cache" where
  "cacheSet now key v seconds c = c(key \<mapsto> (v, now + seconds * 1000))"

definition cacheDelete :: "string \<Rightarrow> cache \<Rightarrow> cache" where
  "cacheDelete key c = c(key := None)"

definition cacheClear :: "cache \<Rightarrow> cache" where
  "cacheClear c = (\<lambda>_. None)"

text \<open>
  \<open>validate({ params })\<close> first, then the cache, then Horizon; \<open>asked\<close> is the time of the request
  and of the look into the cache, \<open>answered\<close> that of Horizon's answer and of the write.
\<close>

definition cachedRoute ::
  "strkey \<Rightarrow> string \<Rightarrow> (account \<Rightarrow> cached) \<Rightarrow> (time \<Rightarrow> string \<Rightarrow> app_error + account) \<Rightarrow> time \<Rightarrow> time \<Rightarrow> string
    \<Rightarrow> cache \<Rightarrow> cache \<times> (app_error + cached)" where
  "cachedRoute sk keyPrefix part details asked answered address c =
     (if \<not> sk_publicKey sk address then (c, Inl (ValidationError ''Invalid request input data.''))
      else case cacheGet asked (keyPrefix @ address) c of
        (c1, Some v) \<Rightarrow> (c1, Inr v)
      | (c1, None) \<Rightarrow>
          (case details answered address of
             Inl e \<Rightarrow> (c1, Inl e)
           | Inr a \<Rightarrow> (cacheSet answered (keyPrefix @ address) (part a) 15 c1, Inr (part a))))"

definition accountRoute ::
  "strkey \<Rightarrow> config \<Rightarrow> horizon \<Rightarrow> time \<Rightarrow> time \<Rightarrow> string \<Rightarrow> cache \<Rightarrow> cache \<times> (app_error + cached)" where
  "accountRoute sk cfg hz = cachedRoute sk ''stellar:account:'' CachedAccount (getAccountDetails sk cfg hz)"

definition balancesRoute ::
  "strkey \<Rightarrow> config \<Rightarrow> horizon \<Rightarrow> time \<Rightarrow> time \<Rightarrow> string \<Rightarrow> cache \<Rightarrow> cache \<times> (app_error + cached)" where
  "balancesRoute sk cfg hz =
     cachedRoute sk ''stellar:balances:'' (\<lambda>a. CachedBalances (an_balances a)) (getAccountDetails sk cfg hz)"

definition transactionRoute :: "config \<Rightarrow> horizon \<Rightarrow> time \<Rightarrow> string \<Rightarrow> app_error + horizon_tx" where
  "transactionRoute cfg hz now hash =
     (if length hash = 64 \<and> list_all isHex hash then getTransaction cfg hz now hash
      else Inl (ValidationError ''Invalid request input data.''))"

subsection \<open>Normal forms of assets\<close>

lemma trim_subset: "set (trim v) \<subseteq> set v"
  by (auto simp: trim_def dest!: set_dropWhileD)

lemma trim_twice [simp]: "trim (trim v) = trim v"
proof -
  define y where "y = dropWhile is_space v"
  define z where "z = rev (dropWhile is_space (rev y))"
  have y: "y = [] \<or> \<not> is_space (hd y)" unfolding y_def by (metis hd_dropWhile)
  obtain w where w: "y = z @ w"
    unfolding z_def by (metis rev_append rev_rev_ident takeWhile_dropWhile_id)
  have "dropWhile is_space z = z" using y w by (cases z) auto
  moreover have "dropWhile is_space (rev z) = rev z" by (simp add: z_def)
  ultimately have "trim z = z" by (simp add: trim_def)
  moreover have "trim v = z" by (simp add: trim_def y_def z_def)
  ultimately show ?thesis by simp
qed

lemma upper_char_twice: "upper_char (upper_char c) = upper_char c"
proof (cases "97 \<le> (of_char c :: nat) \<and> (of_char c :: nat) \<le> 122")
  case True
  then have "(of_char c :: nat) - 32 < 256" by linarith
  then have "(of_char (upper_char c) :: nat) = of_char c - 32" using True by (simp add: upper_char_def)
  moreover have "\<not> 97 \<le> (of_char c :: nat) - 32" using True by linarith
  ultimately have "\<not> 97 \<le> (of_char (upper_char c) :: nat)" by simp
  then show ?thesis by (subst upper_char_def) simp
qed (auto simp: upper_char_def)

lemma cleanCode_twice [simp]: "cleanCode (cleanCode code) = cleanCode code"
proof -
  have "upper_char c = c" if "c \<in> set (trim (toUpper code))" for c
    using that trim_subset[of "toUpper code"] upper_char_twice by (auto simp: toUpper_def)
  then have "toUpper (trim (toUpper code)) = trim (toUpper code)" by (simp add: toUpper_def map_idI)
  then show ?thesis by (simp add: cleanCode_def)
qed

lemma cleanCode_known: "cleanCode ''XLM'' = ''XLM''" "cleanCode ''USDC'' = ''USDC''"
  by code_simp+

text \<open>
  C37. Assets have one normal form: normalising the code and the issuer of a normalised asset gives the
  same asset; what is not native has a code of one to twelve characters, the type of its length
  and the issuer it came with, a valid key; and the allow list is exactly the list of known
  assets. Native is decided by the code alone: a credit asset that calls itself XLM, by whatever
  issuer, is taken for the native one.
\<close>

theorem asset_normal_form:
  assumes "normalizeAsset sk cfg code issuer = Inr a"
  shows "normalizeAsset sk cfg (as_code a) (as_issuer a) = Inr a
    \<and> (as_type a = Native \<longleftrightarrow> nativeCode (cleanCode code)) \<and> (as_type a = Native \<longrightarrow> a = nativeAsset cfg)
    \<and> (as_type a \<noteq> Native \<longrightarrow> as_issuer a = issuer \<and> truthy issuer \<and> sk_publicKey sk (the issuer)
        \<and> 1 \<le> length (as_code a) \<and> length (as_code a) \<le> 12 \<and> (as_type a = CreditAlphanum4 \<longleftrightarrow> length (as_code a) \<le> 4))
    \<and> (isAllowlistedAsset sk cfg code issuer \<longleftrightarrow> a \<in> set (getKnownAssets cfg))
    \<and> normalizeBalance sk cfg (CreditLine ''XLM'' anyone b limit) =
        Inr \<lparr>ba_type = Native, ba_code = ''XLM'', ba_issuer = None, ba_balance = b, ba_limit = limit\<rparr>"
proof (cases "nativeCode (cleanCode code)")
  case True
  then have "a = nativeAsset cfg" using assms by (simp add: normalizeAsset_def Let_def)
  with True show ?thesis
    by (simp add: normalizeAsset_def Let_def nativeAsset_def cleanCode_known nativeCode_def isAllowlistedAsset_def getKnownAssets_def)
next
  case False
  let ?c = "cleanCode code"
  have ok: "validateAssetIdentifier sk ?c issuer" and
    a: "a = \<lparr>as_type = (if length ?c \<le> 4 then CreditAlphanum4 else CreditAlphanum12), as_code = ?c, as_issuer = issuer, as_network = network cfg\<rparr>"
    using assms False by (auto simp: normalizeAsset_def Let_def split: if_splits)
  have "1 \<le> length ?c \<and> length ?c \<le> 12 \<and> truthy issuer \<and> sk_publicKey sk (the issuer)"
    using ok False by (simp add: validateAssetIdentifier_def)
  with False ok show ?thesis
    by (auto simp: a normalizeAsset_def Let_def isAllowlistedAsset_def getKnownAssets_def nativeAsset_def cleanCode_known nativeCode_def)
qed

theorem asset_normal_form_witness:
  "normalizeAsset \<lparr>sk_publicKey = (\<lambda>v. v = ''GI''), sk_secretSeed = (\<lambda>_. False), sk_contract = (\<lambda>_. False)\<rparr> demo_cfg '' usdc'' (Some ''GI'') =
     Inr \<lparr>as_type = CreditAlphanum4, as_code = ''USDC'', as_issuer = Some ''GI'', as_network = ''testnet''\<rparr>
   \<and> \<not> isAllowlistedAsset \<lparr>sk_publicKey = (\<lambda>v. v = ''GI''), sk_secretSeed = (\<lambda>_. False), sk_contract = (\<lambda>_. False)\<rparr> demo_cfg '' usdc'' (Some ''GI'')"
proof -
  let ?sk = "\<lparr>sk_publicKey = (\<lambda>v. v = ''GI''), sk_secretSeed = (\<lambda>_. False), sk_contract = (\<lambda>_. False)\<rparr>"
  have c: "cleanCode '' usdc'' = ''USDC''" by code_simp
  have n: "normalizeAsset ?sk demo_cfg '' usdc'' (Some ''GI'') =
      Inr \<lparr>as_type = CreditAlphanum4, as_code = ''USDC'', as_issuer = Some ''GI'', as_network = ''testnet''\<rparr>"
    by (simp add: normalizeAsset_def c nativeCode_def validateAssetIdentifier_def cleanCode_known demo_cfg_def)
  from asset_normal_form[OF n] n show ?thesis by (simp add: getKnownAssets_def nativeAsset_def demo_cfg_def)
qed

subsection \<open>Freshness of the cached reads\<close>

text \<open>The steps that requests make on the cache, in any interleaving: looks, and writes of what Horizon answered.\<close>

datatype read_event = RvLook time string | RvAccount time string | RvBalances time string

fun readStep :: "(time \<Rightarrow> string \<Rightarrow> app_error + account) \<Rightarrow> read_event \<Rightarrow> cache \<Rightarrow> cache" where
  "readStep details (RvLook now key) c = fst (cacheGet now key c)"
| "readStep details (RvAccount now address) c =
     (case details now address of Inl e \<Rightarrow> c | Inr a \<Rightarrow> cacheSet now (''stellar:account:'' @ address) (CachedAccount a) 15 c)"
| "readStep details (RvBalances now address) c =
     (case details now address of
        Inl e \<Rightarrow> c | Inr a \<Rightarrow> cacheSet now (''stellar:balances:'' @ address) (CachedBalances (an_balances a)) 15 c)"

definition answeredFrom :: "(time \<Rightarrow> string \<Rightarrow> app_error + account) \<Rightarrow> cache \<Rightarrow> bool" where
  "answeredFrom details c \<longleftrightarrow>
     (\<forall>address v exp. c (''stellar:account:'' @ address) = Some (v, exp) \<longrightarrow>
        (\<exists>a. details (exp - 15000) address = Inr a \<and> v = CachedAccount a))
     \<and> (\<forall>address v exp. c (''stellar:balances:'' @ address) = Some (v, exp) \<longrightarrow>
        (\<exists>a. details (exp - 15000) address = Inr a \<and> v = CachedBalances (an_balances a)))"

lemma answeredFrom_get: "answeredFrom details c \<Longrightarrow> answeredFrom details (fst (cacheGet now key c))"
  by (auto simp: answeredFrom_def cacheGet_def split: option.splits)

lemma answeredFrom_set:
  assumes "answeredFrom details c" and "details now address = Inr a"
  shows "answeredFrom details (cacheSet now (''stellar:account:'' @ address) (CachedAccount a) 15 c)"
    and "answeredFrom details (cacheSet now (''stellar:balances:'' @ address) (CachedBalances (an_balances a)) 15 c)"
  using assms by (auto simp: answeredFrom_def cacheSet_def)

interpretation reads: component "\<lambda>ev c. True" "readStep details" "answeredFrom details" for details
proof unfold_locales
  fix c ev
  assume c: "answeredFrom details c"
  show "answeredFrom details (readStep details ev c)"
  proof (cases ev)
    case (RvLook now key)
    with c show ?thesis by (simp add: answeredFrom_get)
  next
    case (RvAccount now address)
    then show ?thesis using c answeredFrom_set(1)[OF c] by (cases "details now address") simp_all
  next
    case (RvBalances now address)
    then show ?thesis using c answeredFrom_set(2)[OF c] by (cases "details now address") simp_all
  qed
qed

lemma route_fresh:
  assumes "\<And>v exp. c (k @ address) = Some (v, exp) \<Longrightarrow> \<exists>a. details (exp - 15000) address = Inr a \<and> v = part a"
    and "cachedRoute sk k part details asked answered address c = (c1, r)"
  shows "case r of
      Inr v \<Rightarrow> \<exists>t a. (asked - 15000 \<le> t \<or> t = answered) \<and> details t address = Inr a \<and> v = part a
    | Inl e \<Rightarrow> \<not> sk_publicKey sk address \<or> details answered address = Inl e"
proof (cases "\<not> sk_publicKey sk address")
  case True
  with assms(2) show ?thesis by (auto simp: cachedRoute_def)
next
  case False
  show ?thesis
  proof (cases "\<exists>v exp. c (k @ address) = Some (v, exp) \<and> \<not> asked > exp")
    case True
    then obtain v exp where hit: "c (k @ address) = Some (v, exp)" "\<not> asked > exp" by blast
    then have "r = Inr v" using assms(2) False by (simp add: cachedRoute_def cacheGet_def)
    moreover from assms(1)[OF hit(1)] obtain a where "details (exp - 15000) address = Inr a" "v = part a" by blast
    moreover have "asked - 15000 \<le> exp - 15000" using hit(2) by simp
    ultimately show ?thesis by (auto intro!: exI[of _ "exp - 15000"])
  next
    case miss: False
    have "snd (cacheGet asked (k @ address) c) = None"
      using miss by (auto simp: cacheGet_def split: option.splits)
    then have "r = (case details answered address of Inl e \<Rightarrow> Inl e | Inr a \<Rightarrow> Inr (part a))"
      using assms(2) False by (cases "cacheGet asked (k @ address) c") (auto simp: cachedRoute_def split: sum.splits)
    then show ?thesis by (auto split: sum.splits)
  qed
qed

text \<open>
  C36. Cached reads are at most fifteen seconds old: after any interleaving of looks and writes of
  earlier requests, what the account route answers is the account, and what the balance route
  answers are the balances, that Horizon had for that very address at the time of this answer or
  no more than fifteen seconds before this request; and no error is ever cached.
\<close>

theorem cached_reads_fresh:
  fixes sk :: strkey and cfg :: config and hz :: horizon
  defines "details \<equiv> getAccountDetails sk cfg hz"
  assumes "accountRoute sk cfg hz asked answered address (runSteps (readStep details) evs (\<lambda>_. None)) = (c1, r1)"
    and "balancesRoute sk cfg hz asked answered address (runSteps (readStep details) evs (\<lambda>_. None)) = (c2, r2)"
  shows "(\<forall>v. r1 = Inr v \<longrightarrow> (\<exists>t a. (asked - 15000 \<le> t \<or> t = answered) \<and> details t address = Inr a \<and> v = CachedAccount a))
    \<and> (\<forall>v. r2 = Inr v \<longrightarrow> (\<exists>t a. (asked - 15000 \<le> t \<or> t = answered) \<and> details t address = Inr a \<and> v = CachedBalances (an_balances a)))
    \<and> (sk_publicKey sk address \<longrightarrow> (\<forall>e. r1 = Inl e \<or> r2 = Inl e \<longrightarrow> details answered address = Inl e))"
proof -
  let ?c = "runSteps (readStep details) evs (\<lambda>_. None)"
  have "admissible (\<lambda>ev c. True) (readStep details) evs c" for c by (induction evs arbitrary: c) auto
  moreover have "answeredFrom details (\<lambda>_. None)" by (simp add: answeredFrom_def)
  ultimately have c: "answeredFrom details ?c" using reads.run_keeps by blast
  have r1: "case r1 of Inr v \<Rightarrow> \<exists>t a. (asked - 15000 \<le> t \<or> t = answered) \<and> details t address = Inr a \<and> v = CachedAccount a
      | Inl e \<Rightarrow> \<not> sk_publicKey sk address \<or> details answered address = Inl e"
    by (rule route_fresh[OF _ assms(2)[unfolded accountRoute_def, folded details_def]]) (use c in \<open>auto simp: answeredFrom_def\<close>)
  have r2: "case r2 of Inr v \<Rightarrow> \<exists>t a. (asked - 15000 \<le> t \<or> t = answered) \<and> details t address = Inr a \<and> v = CachedBalances (an_balances a)
      | Inl e \<Rightarrow> \<not> sk_publicKey sk address \<or> details answered address = Inl e"
    by (rule route_fresh[OF _ assms(3)[unfolded balancesRoute_def, folded details_def]]) (use c in \<open>auto simp: answeredFrom_def\<close>)
  from r1 r2 show ?thesis by (auto split: sum.splits)
qed

theorem cached_reads_fresh_witness:
  "\<exists>hz a. getAccountDetails \<lparr>sk_publicKey = (\<lambda>_. True), sk_secretSeed = (\<lambda>_. False), sk_contract = (\<lambda>_. False)\<rparr> demo_cfg hz 0 ''GA'' = Inr a
     \<and> snd (accountRoute \<lparr>sk_publicKey = (\<lambda>_. True), sk_secretSeed = (\<lambda>_. False), sk_contract = (\<lambda>_. False)\<rparr> demo_cfg hz 9000 9100 ''GA''
          (runSteps (readStep (getAccountDetails \<lparr>sk_publicKey = (\<lambda>_. True), sk_secretSeed = (\<lambda>_. False), sk_contract = (\<lambda>_. False)\<rparr> demo_cfg hz))
             [RvAccount 0 ''GA''] (\<lambda>_. None))) = Inr (CachedAccount a)"
proof -
  let ?sk = "\<lparr>sk_publicKey = (\<lambda>_. True), sk_secretSeed = (\<lambda>_. False), sk_contract = (\<lambda>_. False)\<rparr>"
  let ?hz = "\<lparr>hz_account = (\<lambda>i t. Inr \<lparr>ha_id = i, ha_sequence = ''7'', ha_subentries = 0, ha_balances = []\<rparr>), hz_tx = (\<lambda>h t. Inl Status404)\<rparr>"
  let ?a = "\<lparr>an_address = ''GA'', an_sequence = ''7'', an_subentries = 0, an_balances = []\<rparr>"
  let ?run = "runSteps (readStep (getAccountDetails ?sk demo_cfg ?hz)) [RvAccount 0 ''GA''] (\<lambda>_. None)"
  have safe: "assertTestnetSafety demo_cfg = Inr ()" by code_simp
  have details: "getAccountDetails ?sk demo_cfg ?hz t ''GA'' = Inr ?a" for t
    by (simp add: getAccountDetails_def validated_def validateAddress_def loadAccount_def safe)
  obtain c1 r1 where one: "accountRoute ?sk demo_cfg ?hz 9000 9100 ''GA'' ?run = (c1, r1)" by fastforce
  obtain c2 r2 where two: "balancesRoute ?sk demo_cfg ?hz 9000 9100 ''GA'' ?run = (c2, r2)" by fastforce
  note fresh = cached_reads_fresh[OF one two]
  have "r1 = Inr (CachedAccount ?a)"
  proof (cases r1)
    case (Inl e)
    have "sk_publicKey ?sk ''GA''" by simp
    with fresh Inl have "getAccountDetails ?sk demo_cfg ?hz 9100 ''GA'' = Inl e" by blast
    with details[of 9100] show ?thesis by simp
  next
    case (Inr v)
    with fresh details show ?thesis by auto
  qed
  with one details show ?thesis by (intro exI[of _ ?hz] exI[of _ ?a]) simp
qed

end
