(* ===== verification/Connections.thy ===== *)
theory Connections
  imports StellarRead Soroban Runner
begin

text \<open>
  The long-lived clients of the process: \<^verbatim>\<open>redis.service.ts\<close>, the clients of Horizon and of the Soroban
  RPC server that are built once, the liveness server of \<^verbatim>\<open>worker-liveness.server.ts\<close> as an object
  that is started and stopped, and the health page of \<^verbatim>\<open>app.ts\<close>, which asks one of them.
\<close>

subsection \<open>The Redis client\<close>

text \<open>A client is what its constructor returned; \<open>'c\<close> is the type of clients.\<close>

record 'c redis_service =
  rd_instance :: "'c option"
  rd_mock :: "'c option"

definition setMockClient :: "'c option \<Rightarrow> 'c redis_service \<Rightarrow> 'c redis_service" where
  "setMockClient m r = r\<lparr>rd_mock := m\<rparr>"

definition getClient :: "config \<Rightarrow> 'c \<Rightarrow> 'c \<Rightarrow> 'c redis_service \<Rightarrow> 'c redis_service \<times> 'c" where
  "getClient cfg newMock newRedis r =
     (case rd_mock r of
        Some m \<Rightarrow> (r, m)
      | None \<Rightarrow>
          if env cfg = ''test'' then (r\<lparr>rd_mock := Some newMock\<rparr>, newMock)
          else case rd_instance r of
            Some i \<Rightarrow> (r, i)
          | None \<Rightarrow> (r\<lparr>rd_instance := Some newRedis\<rparr>, newRedis))"

text \<open>The address of the server: the configuration, the environment, the default.\<close>

definition redisAddress :: "string option \<Rightarrow> string option \<Rightarrow> string" where
  "redisAddress configured fromEnv = orDefault (orElse configured fromEnv) ''redis://localhost:6379''"

text \<open>The pause before the attempt of that number to connect again; \<open>None\<close> gives up.\<close>

definition retryStrategy :: "nat \<Rightarrow> nat option" where
  "retryStrategy attempts = (if attempts > 3 then None else Some (min (attempts * 100) 2000))"

text \<open>Whether quitting fails does not matter: the client is dropped either way.\<close>

definition closeRedis :: "'c redis_service \<Rightarrow> 'c redis_service" where
  "closeRedis r = r\<lparr>rd_instance := None, rd_mock := None\<rparr>"

subsection \<open>Clients built once\<close>

text \<open>\<open>if (!instance) instance = new C(); return instance\<close>, with a constructor that may throw.\<close>

definition singleton :: "app_error + 'c \<Rightarrow> ('c option, app_error, 'c) oper" where
  "singleton built inst =
     (case inst of
        Some c \<Rightarrow> (inst, Inr c)
      | None \<Rightarrow> (case built of Inl e \<Rightarrow> (None, Inl e) | Inr c \<Rightarrow> (Some c, Inr c)))"

definition newHorizonClient :: "config \<Rightarrow> 'c \<Rightarrow> app_error + 'c" where
  "newHorizonClient cfg server = (case assertTestnetSafety cfg of Inl e \<Rightarrow> Inl e | Inr _ \<Rightarrow> Inr server)"

definition getHorizonClient :: "config \<Rightarrow> 'c \<Rightarrow> ('c option, app_error, 'c) oper" where
  "getHorizonClient cfg server = singleton (newHorizonClient cfg server)"

definition newSorobanClient :: "config \<Rightarrow> 'c \<Rightarrow> app_error + 'c" where
  "newSorobanClient cfg server = (case assertTestnetSafety cfg of Inl e \<Rightarrow> Inl e | Inr _ \<Rightarrow> Inr server)"

definition getSorobanClient :: "config \<Rightarrow> 'c \<Rightarrow> ('c option, app_error, 'c) oper" where
  "getSorobanClient cfg server = singleton (newSorobanClient cfg server)"

text \<open>Two requests the client wraps; the server's answer is \<open>None\<close> when it throws.\<close>

definition getLatestLedger :: "int option \<Rightarrow> app_error + int" where
  "getLatestLedger ans =
     (case ans of Some n \<Rightarrow> Inr n | None \<Rightarrow> Inl (StellarRpcError ''Failed to fetch latest Soroban ledger sequence.''))"

definition getLedgerEntries :: "('k list \<Rightarrow> 'a option) \<Rightarrow> 'k list \<Rightarrow> app_error + 'a" where
  "getLedgerEntries ans ks =
     (case ans ks of Some r \<Rightarrow> Inr r | None \<Rightarrow> Inl (StellarRpcError ''Failed to fetch Soroban ledger entries.''))"

definition fetchPayments :: "(string \<Rightarrow> nat \<Rightarrow> horizon_error + 'a list) \<Rightarrow> string \<Rightarrow> nat option \<Rightarrow> app_error + 'a list" where
  "fetchPayments ans address limit =
     (case ans address (case limit of Some n \<Rightarrow> n | None \<Rightarrow> 10) of
        Inr rs \<Rightarrow> Inr rs
      | Inl err \<Rightarrow> Inl (horizonError ''STELLAR_ACCOUNT_NOT_FOUND'' (''Failed to fetch payments for account '' @ address) err))"

definition stellarTransactionStatus :: "config \<Rightarrow> horizon \<Rightarrow> time \<Rightarrow> string \<Rightarrow> app_error + string \<times> bool \<times> int" where
  "stellarTransactionStatus cfg hz now hash =
     map_sum id (\<lambda>x. (ht_hash x, ht_successful x, ht_ledger x)) (getTransaction cfg hz now hash)"

subsection \<open>The health page\<close>

record health_page =
  hp_environment :: string
  hp_network :: string
  hp_status :: string
  hp_latestLedger :: "int option"

text \<open>The page is always answered with 200.\<close>

definition healthPage :: "config \<Rightarrow> int option \<Rightarrow> unit option \<Rightarrow> unit option \<times> nat \<times> health_page" where
  "healthPage cfg ledger inst =
     (let (inst1, r) = (if env cfg = ''test'' then (inst, Inr None)
            else case getSorobanClient cfg () inst of
              (i, Inl e) \<Rightarrow> (i, Inl e)
            | (i, Inr _) \<Rightarrow> (i, map_sum id Some (getLatestLedger ledger)))
      in (inst1, 200,
          \<lparr>hp_environment = env cfg, hp_network = toLower (network cfg),
           hp_status = (case r of Inl _ \<Rightarrow> ''unreachable'' | Inr _ \<Rightarrow> ''healthy''),
           hp_latestLedger = (case r of Inl _ \<Rightarrow> None | Inr l \<Rightarrow> l)\<rparr>))"

subsection \<open>The liveness server\<close>

text \<open>\<open>lv_server\<close> is \<open>this.server !== null\<close>; \<open>lv_listening\<close> says whether that server has a socket.\<close>

record liveness_server =
  lv_server :: bool
  lv_listening :: bool
  lv_port :: nat
  lv_path :: string

definition newLivenessServer :: "nat option \<Rightarrow> string option \<Rightarrow> liveness_server" where
  "newLivenessServer port path =
     \<lparr>lv_server = False, lv_listening = False, lv_port = (case port of Some p \<Rightarrow> p | None \<Rightarrow> 4001),
      lv_path = (case path of Some p \<Rightarrow> p | None \<Rightarrow> ''/health'')\<rparr>"

definition getPort :: "liveness_server \<Rightarrow> nat option" where
  "getPort lv = (if lv_server lv \<and> lv_listening lv then Some (lv_port lv) else None)"

text \<open>\<open>bind port\<close> is the port the socket was bound to, or the error of \<open>listen\<close>.\<close>

definition startServer :: "(nat \<Rightarrow> string + nat) \<Rightarrow> (liveness_server, string, unit) oper" where
  "startServer bind lv =
     (if lv_server lv then (lv, Inr ())
      else case bind (lv_port lv) of
        Inl err \<Rightarrow> (lv\<lparr>lv_server := True, lv_listening := False\<rparr>, Inl err)
      | Inr p \<Rightarrow> (lv\<lparr>lv_server := True, lv_listening := True, lv_port := p\<rparr>, Inr ()))"

definition stopServer :: "liveness_server \<Rightarrow> liveness_server" where
  "stopServer lv = (if lv_server lv then lv\<lparr>lv_server := False, lv_listening := False\<rparr> else lv)"

subsection \<open>What they keep\<close>

text \<open>However often the client is asked for, it is the one the first call made, until it is closed or replaced.\<close>

lemma client_shared:
  "getClient cfg m2 i2 (fst (getClient cfg m1 i1 r)) = getClient cfg m1 i1 r"
  by (auto simp: getClient_def split: option.splits)

lemma client_after_close:
  "snd (getClient cfg m i (closeRedis r)) = (if env cfg = ''test'' then m else i)"
  by (simp add: getClient_def closeRedis_def)

lemma singleton_shared: "singleton b1 inst = (inst1, Inr c) \<Longrightarrow> singleton b2 inst1 = (inst1, Inr c)"
  by (auto simp: singleton_def split: option.splits sum.splits)

text \<open>No client of the chain exists outside the configurations the guard admits.\<close>

lemma clients_guarded:
  "snd (getHorizonClient cfg c None) = Inr d \<Longrightarrow> assertTestnetSafety cfg = Inr ()"
  "snd (getSorobanClient cfg c None) = Inr d \<Longrightarrow> assertTestnetSafety cfg = Inr ()"
  by (auto simp: getHorizonClient_def getSorobanClient_def newHorizonClient_def newSorobanClient_def singleton_def
      split: sum.splits)

text \<open>The attempts to connect again end after three, 600 milliseconds in all; the bound of two seconds is never met.\<close>

lemma retries_bounded:
  "map retryStrategy [1, 2, 3, 4] = [Some 100, Some 200, Some 300, None]" "retryStrategy n = Some d \<Longrightarrow> d < 2000"
  by (auto simp: retryStrategy_def split: if_splits)

text \<open>
  A start of the liveness server that fails is not repaired by another start: the server object
  stays, so the second call returns as if it listened and no port is open, whatever port could be
  had now; only a stop in between lets a start open one.
\<close>

theorem failed_start_sticks:
  assumes "\<not> lv_server lv" and "bind1 (lv_port lv) = Inl err" and "bind2 (lv_port lv) = Inr p"
  defines "failed \<equiv> fst (startServer bind1 lv)"
  shows "snd (startServer bind1 lv) = Inl err \<and> startServer bind2 failed = (failed, Inr ()) \<and> getPort failed = None
    \<and> getPort (fst (startServer bind2 (stopServer failed))) = Some p"
  using assms by (simp add: startServer_def stopServer_def getPort_def)

end
