(* ===== verification/Disbursements.thy ===== *)
theory Disbursements
  imports ProviderProps Payments
begin

text \<open>
  The part of the provider interface nothing calls: payouts over the payment providers
  (\<open>createPayout\<close> and \<open>getPayoutStatus\<close> of \<^verbatim>\<open>mock.provider.ts\<close>, \<^verbatim>\<open>ngn.provider.ts\<close> and
  \<^verbatim>\<open>paystack.provider.ts\<close>), the payment instructions they hand out, and the upkeep of the registry and
  of the sandbox stores.
\<close>

subsection \<open>Payouts\<close>

record payout_request =
  oq_amount :: rat
  oq_currency :: string
  oq_reference :: string

record payout_response =
  or_provider :: string
  or_providerPayoutId :: string
  or_status :: payment_status
  or_amount :: rat
  or_currency :: string

definition sandboxPayout :: "string \<Rightarrow> string \<Rightarrow> payout_request \<Rightarrow> payout_response" where
  "sandboxPayout name newId rq =
     \<lparr>or_provider = name, or_providerPayoutId = newId,
      or_status = (if contains (oq_reference rq) ''fail_'' then P_FAILED else P_PROCESSING),
      or_amount = oq_amount rq, or_currency = oq_currency rq\<rparr>"

definition mockPayout :: "string \<Rightarrow> payout_request \<Rightarrow> payout_response" where
  "mockPayout newId rq = sandboxPayout (providerId MockProv) newId rq"

definition ngnPayout :: "string \<Rightarrow> payout_request \<Rightarrow> payout_response" where
  "ngnPayout newId rq = sandboxPayout (providerId NgnProv) newId rq"

definition paystackPayout :: "string \<Rightarrow> payout_request \<Rightarrow> payout_response" where
  "paystackPayout newId rq =
     \<lparr>or_provider = providerId PaystackProv, or_providerPayoutId = newId, or_status = P_PROCESSING,
      or_amount = oq_amount rq, or_currency = oq_currency rq\<rparr>"

definition payoutStatus :: "string \<Rightarrow> string \<Rightarrow> payout_response" where
  "payoutStatus name i =
     \<lparr>or_provider = name, or_providerPayoutId = i, or_status = P_SUCCEEDED, or_amount = 0, or_currency = ''NGN''\<rparr>"

definition mockPayoutStatus :: "string \<Rightarrow> payout_response" where
  "mockPayoutStatus i = payoutStatus (providerId MockProv) i"

definition ngnPayoutStatus :: "string \<Rightarrow> payout_response" where
  "ngnPayoutStatus i = payoutStatus (providerId NgnProv) i"

definition paystackPayoutStatus :: "string \<Rightarrow> payout_response" where
  "paystackPayoutStatus i = payoutStatus (providerId PaystackProv) i"

fun providerPayout :: "provider \<Rightarrow> string \<Rightarrow> payout_request \<Rightarrow> payout_response" where
  "providerPayout MockProv newId rq = mockPayout newId rq"
| "providerPayout NgnProv newId rq = ngnPayout newId rq"
| "providerPayout PaystackProv newId rq = paystackPayout newId rq"

fun providerPayoutStatus :: "provider \<Rightarrow> string \<Rightarrow> payout_response" where
  "providerPayoutStatus MockProv i = mockPayoutStatus i"
| "providerPayoutStatus NgnProv i = ngnPayoutStatus i"
| "providerPayoutStatus PaystackProv i = paystackPayoutStatus i"

subsection \<open>Instructions\<close>

text \<open>What the payer is told, of the request that made the payment.\<close>

record instruction =
  in_bankName :: string
  in_accountNumber :: "string option"
  in_accountName :: "string option"
  in_reference :: string
  in_amount :: rat
  in_currency :: string
  in_paymentUrl :: "string option"
  in_expiresAt :: "time option"

definition mockInstructions :: "pay_request \<Rightarrow> instruction" where
  "mockInstructions rq =
     \<lparr>in_bankName = ''LuminaRail Test Bank (Providus)'', in_accountNumber = Some ''9982014821'',
      in_accountName = Some ''LuminaRail Sandbox Vault'', in_reference = pq_reference rq, in_amount = pq_amount rq,
      in_currency = pq_currency rq, in_paymentUrl = None, in_expiresAt = None\<rparr>"

definition ngnInstructions :: "time \<Rightarrow> pay_request \<Rightarrow> instruction" where
  "ngnInstructions now rq =
     \<lparr>in_bankName = ''Providus Bank / LuminaRail Rail'', in_accountNumber = Some (accountNumber (pq_reference rq)),
      in_accountName = Some ''LuminaRail On-Ramp Vault'', in_reference = pq_reference rq, in_amount = pq_amount rq,
      in_currency = ''NGN'', in_paymentUrl = None, in_expiresAt = Some (now + 60 * 60 * 1000)\<rparr>"

definition paystackInstructions :: "string \<Rightarrow> pay_request \<Rightarrow> instruction" where
  "paystackInstructions authorizationUrl rq =
     \<lparr>in_bankName = ''Paystack Test Mode Checkout'', in_accountNumber = None, in_accountName = None,
      in_reference = pq_reference rq, in_amount = pq_amount rq, in_currency = ''NGN'',
      in_paymentUrl = Some authorizationUrl, in_expiresAt = None\<rparr>"

subsection \<open>Upkeep\<close>

definition clearMockStore :: "sys \<Rightarrow> sys" where
  "clearMockStore s = s\<lparr>mockStore := empty_store\<rparr>"

definition clearStore :: "sys \<Rightarrow> sys" where
  "clearStore s = s\<lparr>ngnStore := empty_store\<rparr>"

text \<open>The registry as a map of names; \<open>registered\<close> is what it holds once the module is loaded.\<close>

type_synonym registry = "string \<Rightarrow> provider option"

definition registerProvider :: "provider \<Rightarrow> registry \<Rightarrow> registry" where
  "registerProvider p r = r(toUpper (providerId p) \<mapsto> p)"

definition loadedRegistry :: registry where
  "loadedRegistry = registerProvider PaystackProv (registerProvider NgnProv (registerProvider MockProv (\<lambda>_. None)))"

definition clearRegistry :: "registry \<Rightarrow> registry" where
  "clearRegistry r = (\<lambda>_. None)"

subsection \<open>What they say\<close>

lemma registry_loaded: "loadedRegistry = registered"
proof
  fix k
  have "toUpper ''MOCK'' = ''MOCK''" "toUpper ''NGN_BANK_TRANSFER'' = ''NGN_BANK_TRANSFER''"
    "toUpper ''PAYSTACK_NGN_BANK_TRANSFER'' = ''PAYSTACK_NGN_BANK_TRANSFER''" by code_simp+
  then show "loadedRegistry k = registered k"
    by (auto simp: loadedRegistry_def registerProvider_def registered_def)
qed

text \<open>
  A payout is never confirmed by its own provider: whatever happened to it, also when its creation was
  answered FAILED, its status is SUCCEEDED with an amount of zero.
\<close>

theorem payout_status_says_nothing:
  "or_status (providerPayoutStatus p (or_providerPayoutId (providerPayout p i rq))) = P_SUCCEEDED
   \<and> or_amount (providerPayoutStatus p (or_providerPayoutId (providerPayout p i rq))) = 0
   \<and> (p \<noteq> PaystackProv \<and> contains (oq_reference rq) ''fail_'' \<longrightarrow> or_status (providerPayout p i rq) = P_FAILED)"
  by (cases p) (simp_all add: mockPayout_def ngnPayout_def paystackPayout_def sandboxPayout_def mockPayoutStatus_def
      ngnPayoutStatus_def paystackPayoutStatus_def payoutStatus_def)

text \<open>
  The instructions agree with the answer of the provider they come with: a payment the sandbox
  providers create carries the account number of its instructions, and repeating the reference
  returns the first payment, whatever amount the instructions of the second name.
\<close>

lemma instructions_agree:
  "storeObj st (byRef st (pq_reference rq)) = None \<Longrightarrow>
     pr_accountNumber (snd (mockCreate e rq st)) = in_accountNumber (mockInstructions rq)"
  "storeObj st (byRef st (pq_reference rq)) = None \<Longrightarrow> ngnCreate e rq st = (st1, Inr r) \<Longrightarrow>
     pr_accountNumber r = in_accountNumber (ngnInstructions now rq)"
  by (auto simp: mockCreate_def mockInstructions_def ngnCreate_def ngnInstructions_def Let_def split: if_splits)

end
