(* ===== verification/OperatorScripts.thy ===== *)
theory OperatorScripts
  imports WorkerProps
begin

text \<open>
  The one script under \<^verbatim>\<open>scripts/\<close> that writes: \<^verbatim>\<open>reset-test-settlement.ts\<close> puts the settlement of one order
  back to the beginning. The others print what the chain and the database hold.
\<close>

definition resetOrderId :: id where
  "resetOrderId = ''e96ca0ac-f45d-4f2c-96b5-00a0c9064aa6''"

definition resetRow :: "config \<Rightarrow> settlement \<Rightarrow> settlement" where
  "resetRow cfg t = t\<lparr>s_status := S_PENDING, s_source := signerPublicKey cfg, s_hash := None, s_ledger := None,
     s_lastError := None, s_submittedAt := None, s_confirmedAt := None\<rparr>"

definition resetSettlement :: "config \<Rightarrow> settlement op" where
  "resetSettlement cfg s =
     (case rowBy s_orderId resetOrderId (settlements s) of
        None \<Rightarrow> (s, Inl (PlainError ''Settlement not found''))
      | Some t \<Rightarrow> (setSettlement (s_id t) (resetRow cfg) s, Inr (resetRow cfg t)))"

text \<open>
  The script goes around the guards that keep an order from being paid twice or paid and refunded.
  It takes a settlement that is on its way or completed, which the status machine never lets go back
  to PENDING, and forgets its transaction hash: the worker, for which a hash is the reason not to submit,
  hands the payout to the executor again, and the settlement no longer blocks a refund.
\<close>

theorem reset_allows_second_payout:
  assumes "rowBy s_orderId resetOrderId (settlements s) = Some t" and "s_status t \<in> {S_SUBMITTED, S_CONFIRMING, S_COMPLETED}"
  shows "\<exists>u. snd (resetSettlement cfg s) = Inr u \<and> s_status u = S_PENDING \<and> \<not> canSettlement (s_status t) S_PENDING
    \<and> blocksRefund (s_status t) \<and> \<not> blocksRefund (s_status u)
    \<and> (truthy (s_hash t) \<longrightarrow> flowSubmit k ex we True t w = (w, Inr (Inr t)))
    \<and> flowSubmit k ex we True u w =
        (let out = ex_submit ex (submitParams k (wk_ownedAfter we) u) w in afterSubmit (wk_submittedAt we) (wk_recordError we) u (snd out) (fst out))"
proof -
  have "\<not> canSettlement (s_status t) S_PENDING" using assms(2) by (auto simp: canSettlement_def)
  with assms show ?thesis
    by (auto simp: resetSettlement_def resetRow_def flowSubmit_def Let_def blocksRefund_def split: prod.splits)
qed

theorem reset_allows_second_payout_witness:
  "\<exists>u. snd (resetSettlement demo_cfg (empty_sys\<lparr>settlements := [\<lparr>s_id = ''t'', s_settlementId = ''STL_t'', s_orderId = resetOrderId,
       s_userId = ''u'', s_status = S_COMPLETED, s_asset = ''USDC'', s_amount = 10, s_source = None, s_destination = None,
       s_contractAddress = None, s_hash = Some ''H'', s_ledger = Some 3, s_attemptCount = 1, s_lastError = None,
       s_submittedAt = None, s_confirmedAt = None, s_createdAt = 0\<rparr>]\<rparr>)) = Inr u
     \<and> \<not> blocksRefund (s_status u)"
proof -
  let ?t = "\<lparr>s_id = ''t'', s_settlementId = ''STL_t'', s_orderId = resetOrderId,
       s_userId = ''u'', s_status = S_COMPLETED, s_asset = ''USDC'', s_amount = 10, s_source = None, s_destination = None,
       s_contractAddress = None, s_hash = Some ''H'', s_ledger = Some 3, s_attemptCount = 1, s_lastError = None,
       s_submittedAt = None, s_confirmedAt = None, s_createdAt = 0\<rparr>"
  have "rowBy s_orderId resetOrderId (settlements (empty_sys\<lparr>settlements := [?t]\<rparr>)) = Some ?t"
    by (simp add: rowBy_def)
  from reset_allows_second_payout[OF this, of demo_cfg demo_sdk demo_live demo_we demo_fresh] show ?thesis by auto
qed

end
