(* ===== verification/Locks.thy ===== *)
theory Locks
  imports WorkerHealth
begin

text \<open>
  The distributed lock: the in-memory Redis of \<^verbatim>\<open>redis.mock.ts\<close>, the lock service of
  \<^verbatim>\<open>distributed-lock.service.ts\<close>, and the contract between them. The service reaches Redis
  through a client record, because in production the client is the \<open>ioredis\<close> package: what
  the service relies on is the locale \<open>lock_store\<close>, which the in-memory Redis interprets.
\<close>

subsection \<open>The in-memory Redis\<close>

text \<open>
  \<open>store\<close> maps a key to its value and deadline, \<open>timers\<close> a key to the time its \<open>setTimeout\<close>
  fires. A deadline of 0 is falsy and therefore no deadline to \<open>cleanExpired\<close>.
\<close>

record mock_redis =
  store :: "string \<Rightarrow> (string \<times> time option) option"
  timers :: "string \<Rightarrow> time option"

definition empty_redis :: mock_redis where
  "empty_redis = \<lparr>store = (\<lambda>_. None), timers = (\<lambda>_. None)\<rparr>"

definition expiredAt :: "time \<Rightarrow> (string \<times> time option) option \<Rightarrow> bool" where
  "expiredAt now item =
     (case item of Some (_, Some e) \<Rightarrow> e \<noteq> 0 \<and> e \<le> now | _ \<Rightarrow> False)"

definition cleanExpired :: "time \<Rightarrow> string \<Rightarrow> mock_redis \<Rightarrow> mock_redis" where
  "cleanExpired now key r =
     (if expiredAt now (store r key)
      then r\<lparr>store := (store r)(key := None), timers := (timers r)(key := None)\<rparr> else r)"

definition redisSet ::
  "time \<Rightarrow> string \<Rightarrow> string \<Rightarrow> string option \<Rightarrow> int option \<Rightarrow> string option \<Rightarrow> mock_redis
    \<Rightarrow> mock_redis \<times> string option" where
  "redisSet now key val mode1 durationMs mode2 r0 =
     (let r = cleanExpired now key r0;
          isNx = (mode1 = Some ''NX'' \<or> mode2 = Some ''NX'');
          hasTtl = (mode1 = Some ''PX'' \<or> mode2 = Some ''PX'');
          ttl = (case durationMs of Some d \<Rightarrow> (if d = 0 then None else Some d) | None \<Rightarrow> None)
      in if isNx \<and> store r key \<noteq> None then (r, None)
         else
           let deadline = (if hasTtl then map_option (\<lambda>d. now + d) ttl else None)
           in (r\<lparr>store := (store r)(key \<mapsto> (val, deadline)), timers := (timers r)(key := deadline)\<rparr>,
               Some ''OK''))"

definition redisGet :: "time \<Rightarrow> string \<Rightarrow> mock_redis \<Rightarrow> mock_redis \<times> string option" where
  "redisGet now key r0 =
     (let r = cleanExpired now key r0 in (r, map_option fst (store r key)))"

definition redisDel1 :: "time \<Rightarrow> string \<Rightarrow> mock_redis \<Rightarrow> mock_redis \<times> nat" where
  "redisDel1 now key r0 =
     (let r = cleanExpired now key r0
      in (r\<lparr>store := (store r)(key := None), timers := (timers r)(key := None)\<rparr>,
          if store r key = None then 0 else 1))"

fun redisDel :: "time \<Rightarrow> string list \<Rightarrow> mock_redis \<Rightarrow> mock_redis \<times> nat" where
  "redisDel now [] r = (r, 0)"
| "redisDel now (k # ks) r =
     (let (r1, n) = redisDel1 now k r; (r2, m) = redisDel now ks r1 in (r2, n + m))"

definition redisPexpire :: "time \<Rightarrow> string \<Rightarrow> int \<Rightarrow> mock_redis \<Rightarrow> mock_redis \<times> int" where
  "redisPexpire now key ttlMs r0 =
     (let r = cleanExpired now key r0
      in case store r key of
           None \<Rightarrow> (r, 0)
         | Some (v, _) \<Rightarrow>
             (r\<lparr>store := (store r)(key \<mapsto> (v, Some (now + ttlMs))),
                timers := (timers r)(key \<mapsto> now + ttlMs)\<rparr>, 1))"

definition redisEval ::
  "time \<Rightarrow> string \<Rightarrow> string \<Rightarrow> string \<Rightarrow> int option \<Rightarrow> mock_redis \<Rightarrow> mock_redis \<times> int" where
  "redisEval now script key val ttlArg r0 =
     (let (r, current) = redisGet now key (cleanExpired now key r0);
          ttl = (case ttlArg of Some t \<Rightarrow> (if t = 0 then None else Some t) | None \<Rightarrow> None)
      in if contains script ''pexpire'' then
           (if current = Some val
            then ((case ttl of Some t \<Rightarrow> fst (redisPexpire now key t r) | None \<Rightarrow> r), 1)
            else (r, 0))
         else if contains script ''del'' then
           (if current = Some val then (fst (redisDel now [key] r), 1) else (r, 0))
         else (r, 0))"

definition redisFlushall :: "mock_redis \<Rightarrow> mock_redis" where
  "redisFlushall r = empty_redis"

text \<open>A \<open>setTimeout\<close> callback: it deletes the key whatever is stored there.\<close>

definition redisTimer :: "time \<Rightarrow> string \<Rightarrow> mock_redis \<Rightarrow> mock_redis" where
  "redisTimer now key r =
     (case timers r key of
        Some t \<Rightarrow> (if t \<le> now then r\<lparr>store := (store r)(key := None), timers := (timers r)(key := None)\<rparr> else r)
      | None \<Rightarrow> r)"

subsection \<open>The lock service\<close>

text \<open>The client the service uses: \<open>SET key value PX ttl NX\<close> and \<open>EVAL\<close>, either may throw.\<close>

record 'r redis_client =
  rc_set :: "time \<Rightarrow> string \<Rightarrow> string \<Rightarrow> int \<Rightarrow> ('r, string, bool) oper"
  rc_eval :: "time \<Rightarrow> string \<Rightarrow> string \<Rightarrow> string \<Rightarrow> int option \<Rightarrow> ('r, string, bool) oper"

record 'r lock_world =
  lw_redis :: 'r
  lw_sys :: sys
  lw_health :: worker_health

record lock =
  lk_key :: string
  lk_ownerToken :: string
  lk_ttlMs :: int
  lk_owned :: bool

record lock_options =
  lo_ttlMs :: "int option"
  lo_workerId :: "string option"

definition markLost :: "lock \<Rightarrow> lock" where
  "markLost l = l\<lparr>lk_owned := False\<rparr>"

definition generateOwnerToken :: "string \<Rightarrow> string option \<Rightarrow> string \<Rightarrow> string" where
  "generateOwnerToken processId workerId uuid = orDefault workerId processId @ '':'' @ uuid"

definition lockTtl :: "config \<Rightarrow> lock_options \<Rightarrow> int" where
  "lockTtl cfg opts =
     (let t = (case lo_ttlMs opts of Some t \<Rightarrow> t | None \<Rightarrow> 0)
      in if t \<noteq> 0 then t else if lockTtlMs cfg \<noteq> 0 then lockTtlMs cfg else 15000)"

text \<open>
  The handle as \<open>SET\<close> leaves it. Its heartbeat runs from then on, also while the audit entry is
  written that \<open>acquire\<close> awaits before it returns: what the heartbeats of that wait make of the
  handle is \<open>auditWait\<close> in \<open>SequenceLock\<close>, those of the body of \<open>withLock\<close> are its parameter \<open>later\<close>.
\<close>

definition acquire ::
  "'r redis_client \<Rightarrow> config \<Rightarrow> time \<Rightarrow> string \<Rightarrow> string \<Rightarrow> string \<Rightarrow> lock_options
    \<Rightarrow> ('r lock_world, string, lock option) oper" where
  "acquire c cfg now processId uuid key opts w =
     (let ttl = lockTtl cfg opts; token = generateOwnerToken processId (lo_workerId opts) uuid
      in case rc_set c now key token ttl (lw_redis w) of
           (r, Inr ok) \<Rightarrow>
             if \<not> ok then (w\<lparr>lw_redis := r\<rparr>, Inr None)
             else (w\<lparr>lw_redis := r,
                     lw_sys := auditLog (Some (orDefault (lo_workerId opts) processId)) None
                       ''DISTRIBUTED_LOCK_ACQUIRED'' ''DistributedLock'' None (lw_sys w)\<rparr>,
                   Inr (Some \<lparr>lk_key = key, lk_ownerToken = token, lk_ttlMs = ttl, lk_owned = True\<rparr>))
         | (r, Inl err) \<Rightarrow>
             let w1 = w\<lparr>lw_redis := r, lw_health := recordLockAcquisitionFailure (lw_health w)\<rparr>
             in if requireDistributedLocks cfg \<or> env cfg = ''production''
                then (w1, Inl (''Distributed lock required but unavailable: '' @ err))
                else (w1, Inr None))"

text \<open>The two Lua scripts, with single blanks for the white space between their tokens.\<close>

definition luaRenewScript :: string where \<open>luaRenewScript =
  ''if redis.call("get", KEYS[1]) == ARGV[1] then return redis.call("pexpire", KEYS[1], ARGV[2]) else return 0 end''\<close>

definition luaReleaseScript :: string where \<open>luaReleaseScript =
  ''if redis.call("get", KEYS[1]) == ARGV[1] then return redis.call("del", KEYS[1]) else return 0 end''\<close>

definition renew :: "'r redis_client \<Rightarrow> time \<Rightarrow> lock \<Rightarrow> 'r \<Rightarrow> 'r \<times> lock \<times> bool" where
  "renew c now l r =
     (if \<not> lk_owned l then (r, l, False)
      else case rc_eval c now luaRenewScript (lk_key l) (lk_ownerToken l) (Some (lk_ttlMs l)) r of
             (r1, Inr renewed) \<Rightarrow> (r1, if renewed then l else markLost l, renewed)
           | (r1, Inl _) \<Rightarrow> (r1, markLost l, False))"

text \<open>One tick of the heartbeat interval.\<close>

definition heartbeatTick :: "'r redis_client \<Rightarrow> time \<Rightarrow> lock \<Rightarrow> 'r \<Rightarrow> 'r \<times> lock" where
  "heartbeatTick c now l r =
     (if \<not> lk_owned l then (r, l)
      else let (r1, l1, renewed) = renew c now l r in (r1, if renewed then l1 else markLost l1))"

definition releaseLock ::
  "'r redis_client \<Rightarrow> time \<Rightarrow> string \<Rightarrow> lock option \<Rightarrow> 'r lock_world \<Rightarrow> 'r lock_world \<times> lock option \<times> bool" where
  "releaseLock c now processId lk w =
     (case lk of
        None \<Rightarrow> (w, None, False)
      | Some l \<Rightarrow>
          if \<not> lk_owned l then (w, Some l, False)
          else case rc_eval c now luaReleaseScript (lk_key l) (lk_ownerToken l) None (lw_redis w) of
                 (r, Inr released) \<Rightarrow>
                   (w\<lparr>lw_redis := r,
                      lw_sys := auditLog (Some processId) None ''DISTRIBUTED_LOCK_RELEASED''
                        ''DistributedLock'' None (lw_sys w)\<rparr>, Some (markLost l), released)
               | (r, Inl _) \<Rightarrow> (w\<lparr>lw_redis := r\<rparr>, Some (markLost l), False))"

text \<open>
  \<open>withLock\<close>: the body gets the lock, and the release runs in \<open>finally\<close>, at a later time and
  on the handle as the heartbeats of the body left it (\<open>later\<close>).
\<close>

definition withLock ::
  "'r redis_client \<Rightarrow> config \<Rightarrow> time \<Rightarrow> time \<Rightarrow> string \<Rightarrow> string \<Rightarrow> string \<Rightarrow> lock_options
    \<Rightarrow> (lock \<Rightarrow> lock) \<Rightarrow> (lock \<Rightarrow> ('r lock_world, string, 'a) oper)
    \<Rightarrow> ('r lock_world, string, 'a option) oper" where
  "withLock c cfg now until processId uuid key opts later body =
     andThen (acquire c cfg now processId uuid key opts)
       (\<lambda>lk. case lk of
           None \<Rightarrow> ret None
         | Some l \<Rightarrow>
             finallyDo (andThen (body l) (\<lambda>x. ret (Some x)))
               (\<lambda>w. fst (releaseLock c until processId (Some (later l)) w)))"

subsection \<open>Runs of the lock service\<close>

text \<open>
  What happens to a lock store: any process tries to acquire, renews or releases a handle it
  has, and a timer of the store fires.
\<close>

datatype lock_event =
    LvAcquire time string string string lock_options
  | LvRenew time lock
  | LvRelease time string lock
  | LvTimer time string

fun evTime :: "lock_event \<Rightarrow> time" where
  "evTime (LvAcquire now pid uuid key opts) = now"
| "evTime (LvRenew now l) = now"
| "evTime (LvRelease now pid l) = now"
| "evTime (LvTimer now key) = now"

fun lockStep ::
  "'r redis_client \<Rightarrow> (time \<Rightarrow> string \<Rightarrow> 'r \<Rightarrow> 'r) \<Rightarrow> config \<Rightarrow> lock_event \<Rightarrow> 'r lock_world \<Rightarrow> 'r lock_world" where
  "lockStep c tick cfg (LvAcquire now pid uuid key opts) w = fst (acquire c cfg now pid uuid key opts w)"
| "lockStep c tick cfg (LvRenew now l) w = w\<lparr>lw_redis := fst (renew c now l (lw_redis w))\<rparr>"
| "lockStep c tick cfg (LvRelease now pid l) w = fst (releaseLock c now pid (Some l) w)"
| "lockStep c tick cfg (LvTimer now key) w = w\<lparr>lw_redis := tick now key (lw_redis w)\<rparr>"

text \<open>Every event but the release of the token's own lock; its own renewal has a positive TTL.\<close>

fun keepsToken :: "string \<Rightarrow> string \<Rightarrow> lock_event \<Rightarrow> bool" where
  "keepsToken k tok (LvRenew now l) = (lk_key l = k \<and> lk_ownerToken l = tok \<longrightarrow> 0 < lk_ttlMs l)"
| "keepsToken k tok (LvRelease now pid l) = (lk_key l = k \<longrightarrow> lk_ownerToken l \<noteq> tok)"
| "keepsToken k tok _ = True"

definition beforeDeadline ::
  "('r \<Rightarrow> string \<Rightarrow> (string \<times> time) option) \<Rightarrow> string \<Rightarrow> string \<Rightarrow> lock_event \<Rightarrow> 'r lock_world \<Rightarrow> bool" where
  "beforeDeadline owner k tok ev w \<longleftrightarrow> keepsToken k tok ev \<and> 0 \<le> evTime ev
     \<and> (\<forall>d. owner (lw_redis w) k = Some (tok, d) \<longrightarrow> evTime ev < d)"

subsection \<open>What the service relies on\<close>

text \<open>
  \<open>owner s k\<close> is the token and the deadline stored under \<open>k\<close>. Until the deadline a SET NX
  is refused, both scripts act only for the token that is stored, and no timer of the store
  drops the key. \<open>wf\<close> is the store's own invariant.
\<close>

locale lock_store =
  fixes c :: "'r redis_client"
    and tick :: "time \<Rightarrow> string \<Rightarrow> 'r \<Rightarrow> 'r"
    and owner :: "'r \<Rightarrow> string \<Rightarrow> (string \<times> time) option"
    and wf :: "'r \<Rightarrow> bool"
  assumes set_held: "owner r k = Some (tok, d) \<Longrightarrow> now < d \<Longrightarrow> rc_set c now k v ttl r = (r, Inr False)"
    and set_free: "rc_set c now k v ttl r = (r1, Inr True) \<Longrightarrow> 0 < ttl \<Longrightarrow> 0 \<le> now \<Longrightarrow>
      owner r1 k = Some (v, now + ttl)"
    and set_other: "k' \<noteq> k \<Longrightarrow> owner (fst (rc_set c now k v ttl r)) k' = owner r k'"
    and set_wf: "wf r \<Longrightarrow> wf (fst (rc_set c now k v ttl r))"
    and renew_own: "owner r k = Some (tok, d) \<Longrightarrow> now < d \<Longrightarrow> 0 < ttl \<Longrightarrow> 0 \<le> now \<Longrightarrow>
      snd (rc_eval c now luaRenewScript k tok (Some ttl) r) = Inr True
      \<and> owner (fst (rc_eval c now luaRenewScript k tok (Some ttl) r)) k = Some (tok, now + ttl)"
    and eval_foreign: "owner r k = Some (tok, d) \<Longrightarrow> now < d \<Longrightarrow> v \<noteq> tok \<Longrightarrow>
      rc_eval c now script k v t r = (r, Inr False)"
    and eval_other: "k' \<noteq> k \<Longrightarrow> owner (fst (rc_eval c now script k v t r)) k' = owner r k'"
    and eval_wf: "wf r \<Longrightarrow> wf (fst (rc_eval c now script k v t r))"
    and release_own: "owner r k = Some (tok, d) \<Longrightarrow> now < d \<Longrightarrow>
      snd (rc_eval c now luaReleaseScript k tok None r) = Inr True
      \<and> owner (fst (rc_eval c now luaReleaseScript k tok None r)) k = None"
    and tick_held: "wf r \<Longrightarrow> owner r k = Some (tok, d) \<Longrightarrow> now < d \<Longrightarrow>
      owner (tick now k' r) k = Some (tok, d)"
    and tick_wf: "wf r \<Longrightarrow> wf (tick now k' r)"
begin

lemma acquire_held:
  "owner (lw_redis w) k = Some (tok, d) \<Longrightarrow> now < d \<Longrightarrow> acquire c cfg now pid uuid k opts w = (w, Inr None)"
  by (simp add: acquire_def Let_def set_held)

lemma acquire_redis:
  "lw_redis (fst (acquire c cfg now pid uuid k opts w)) =
     fst (rc_set c now k (generateOwnerToken pid (lo_workerId opts) uuid) (lockTtl cfg opts) (lw_redis w))"
  by (auto simp: acquire_def Let_def split: prod.splits sum.splits)

lemma acquire_taken:
  assumes "acquire c cfg now pid uuid k opts w = (w1, Inr (Some l))" and "0 < lockTtl cfg opts" and "0 \<le> now"
  shows "owner (lw_redis w1) k = Some (lk_ownerToken l, now + lk_ttlMs l)"
    and "lk_key l = k" and "lk_owned l" and "0 < lk_ttlMs l"
  using assms set_free[of now k "generateOwnerToken pid (lo_workerId opts) uuid" "lockTtl cfg opts" "lw_redis w"]
  by (auto simp: acquire_def Let_def split: prod.splits sum.splits if_splits)

lemma renew_redis:
  "fst (renew c now l r) = (if lk_owned l
     then fst (rc_eval c now luaRenewScript (lk_key l) (lk_ownerToken l) (Some (lk_ttlMs l)) r) else r)"
  by (auto simp: renew_def split: prod.splits sum.splits)

lemma release_redis:
  "lw_redis (fst (releaseLock c now pid (Some l) w)) = (if lk_owned l
     then fst (rc_eval c now luaReleaseScript (lk_key l) (lk_ownerToken l) None (lw_redis w)) else lw_redis w)"
  by (auto simp: releaseLock_def split: prod.splits sum.splits)

text \<open>The token stays stored through every event before its deadline but its own release.\<close>

lemma step_holds:
  assumes wf: "wf (lw_redis w)" and own: "owner (lw_redis w) k = Some (tok, d)"
    and en: "beforeDeadline owner k tok ev w"
  shows "\<exists>d'. owner (lw_redis (lockStep c tick cfg ev w)) k = Some (tok, d')"
proof -
  have t: "evTime ev < d" "0 \<le> evTime ev" "keepsToken k tok ev"
    using en own by (auto simp: beforeDeadline_def)
  show ?thesis
  proof (cases ev)
    case (LvAcquire now pid uuid key opts)
    with t own show ?thesis
      by (cases "key = k") (auto simp: acquire_held acquire_redis set_other)
  next
    case (LvRenew now l)
    with t own show ?thesis
      by (cases "lk_key l = k"; cases "lk_ownerToken l = tok")
        (auto simp: renew_redis eval_foreign eval_other renew_own)
  next
    case (LvRelease now pid l)
    with t own show ?thesis
      by (cases "lk_key l = k") (auto simp: release_redis eval_foreign eval_other)
  next
    case (LvTimer now key)
    with t own wf show ?thesis by (auto simp: tick_held)
  qed
qed

lemma step_wf: "wf (lw_redis w) \<Longrightarrow> wf (lw_redis (lockStep c tick cfg ev w))"
  by (cases ev) (auto simp: acquire_redis renew_redis release_redis set_wf eval_wf tick_wf)

definition holds :: "string \<Rightarrow> string \<Rightarrow> 'r lock_world \<Rightarrow> bool" where
  "holds k tok w \<longleftrightarrow> wf (lw_redis w) \<and> (\<exists>d. owner (lw_redis w) k = Some (tok, d))"

lemma step_keeps_holder:
  "holds k tok w \<Longrightarrow> beforeDeadline owner k tok ev w \<Longrightarrow> holds k tok (lockStep c tick cfg ev w)"
  using step_holds step_wf by (auto simp: holds_def)

lemma run_keeps_holder:
  assumes "wf (lw_redis w)" and "owner (lw_redis w) k = Some (tok, d)"
    and "admissible (beforeDeadline owner k tok) (lockStep c tick cfg) evs w"
  shows "\<exists>d. owner (lw_redis (runSteps (lockStep c tick cfg) evs w)) k = Some (tok, d)"
proof -
  have "holds k tok (runSteps (lockStep c tick cfg) evs w)"
    if "holds k tok w" and "admissible (beforeDeadline owner k tok) (lockStep c tick cfg) evs w" for w
    using that by (induction evs arbitrary: w) (auto intro: step_keeps_holder)
  then show ?thesis using assms unfolding holds_def by blast
qed

end

subsection \<open>The in-memory Redis provides it\<close>

definition mock_client :: "mock_redis redis_client" where
  "mock_client = \<lparr>
     rc_set = (\<lambda>now key val ttl r.
       let (r1, res) = redisSet now key val (Some ''PX'') (Some ttl) (Some ''NX'') r
       in (r1, Inr (res = Some ''OK''))),
     rc_eval = (\<lambda>now script key val ttl r.
       let (r1, n) = redisEval now script key val ttl r in (r1, Inr (n = 1)))\<rparr>"

definition mockOwner :: "mock_redis \<Rightarrow> string \<Rightarrow> (string \<times> time) option" where
  "mockOwner r k = (case store r k of Some (v, Some d) \<Rightarrow> Some (v, d) | _ \<Rightarrow> None)"

text \<open>The timer of a key fires at the deadline of its item.\<close>

definition mockWf :: "mock_redis \<Rightarrow> bool" where
  "mockWf r \<longleftrightarrow> (\<forall>k v d. store r k = Some (v, d) \<longrightarrow> timers r k = d)"

lemma mockOwner_Some: "mockOwner r k = Some (v, d) \<longleftrightarrow> store r k = Some (v, Some d)"
  by (auto simp: mockOwner_def split: option.splits)

lemma mockOwner_cong: "store r k = store r' k \<Longrightarrow> mockOwner r k = mockOwner r' k"
  by (simp add: mockOwner_def)

lemma cleanExpired_alive [simp]: "store r k = Some (v, Some d) \<Longrightarrow> now < d \<Longrightarrow> cleanExpired now k r = r"
  by (simp add: cleanExpired_def expiredAt_def)

lemma cleanExpired_other [simp]: "k' \<noteq> k \<Longrightarrow> store (cleanExpired now k r) k' = store r k'"
  by (simp add: cleanExpired_def)

lemma cleanExpired_wf: "mockWf r \<Longrightarrow> mockWf (cleanExpired now k r)"
  by (auto simp: cleanExpired_def mockWf_def)

lemma scripts [simp]:
  "contains luaRenewScript ''pexpire''" "\<not> contains luaReleaseScript ''pexpire''"
  "contains luaReleaseScript ''del''"
  by (code_simp, code_simp, code_simp)

lemmas redis_defs = mock_client_def redisSet_def redisEval_def redisGet_def redisPexpire_def redisDel1_def Let_def

lemma redisSet_wf: "mockWf r \<Longrightarrow> mockWf (fst (redisSet now k v (Some ''PX'') (Some ttl) (Some ''NX'') r))"
  using cleanExpired_wf[of r now k] by (auto simp: redisSet_def Let_def mockWf_def)

lemma redisEval_wf: "mockWf r \<Longrightarrow> mockWf (fst (redisEval now script k v t r))"
  using cleanExpired_wf[of r now k] cleanExpired_wf[of "cleanExpired now k r" now k]
    cleanExpired_wf[of "cleanExpired now k (cleanExpired now k r)" now k]
  by (auto simp: redis_defs mockWf_def split: option.splits)

interpretation mock_store: lock_store mock_client redisTimer mockOwner mockWf
proof unfold_locales
  show "mockOwner r k = Some (tok, d) \<Longrightarrow> now < d \<Longrightarrow> rc_set mock_client now k v ttl r = (r, Inr False)"
    for r k tok d now v ttl
    by (simp add: mockOwner_Some redis_defs)
  show "rc_set mock_client now k v ttl r = (r1, Inr True) \<Longrightarrow> 0 < ttl \<Longrightarrow> 0 \<le> now \<Longrightarrow>
      mockOwner r1 k = Some (v, now + ttl)" for r k now v ttl r1
    by (auto simp: mockOwner_Some redis_defs split: if_splits)
  show "k' \<noteq> k \<Longrightarrow> mockOwner (fst (rc_set mock_client now k v ttl r)) k' = mockOwner r k'"
    for k' k r now v ttl
    by (rule mockOwner_cong) (auto simp: redis_defs)
  show "mockWf r \<Longrightarrow> mockWf (fst (rc_set mock_client now k v ttl r))" for r now k v ttl
    using redisSet_wf[of r now k v ttl] by (auto simp: mock_client_def split: prod.split)
  show "mockOwner r k = Some (tok, d) \<Longrightarrow> now < d \<Longrightarrow> 0 < ttl \<Longrightarrow> 0 \<le> now \<Longrightarrow>
      snd (rc_eval mock_client now luaRenewScript k tok (Some ttl) r) = Inr True
      \<and> mockOwner (fst (rc_eval mock_client now luaRenewScript k tok (Some ttl) r)) k = Some (tok, now + ttl)"
    for r k tok d now ttl
    by (simp add: mockOwner_Some redis_defs)
  show "mockOwner r k = Some (tok, d) \<Longrightarrow> now < d \<Longrightarrow> v \<noteq> tok \<Longrightarrow>
      rc_eval mock_client now script k v t r = (r, Inr False)" for r k tok d now v script t
    by (simp add: mockOwner_Some redis_defs)
  show "k' \<noteq> k \<Longrightarrow> mockOwner (fst (rc_eval mock_client now script k v t r)) k' = mockOwner r k'"
    for k' k now script v t r
    by (rule mockOwner_cong) (auto simp: redis_defs split: option.splits)
  show "mockWf r \<Longrightarrow> mockWf (fst (rc_eval mock_client now script k v t r))" for r now script k v t
    using redisEval_wf[of r now script k v t] by (auto simp: mock_client_def split: prod.split)
  show "mockOwner r k = Some (tok, d) \<Longrightarrow> now < d \<Longrightarrow>
      snd (rc_eval mock_client now luaReleaseScript k tok None r) = Inr True
      \<and> mockOwner (fst (rc_eval mock_client now luaReleaseScript k tok None r)) k = None"
    for r k tok d now
    by (auto simp: mockOwner_def redis_defs split: option.splits)
  show "mockWf r \<Longrightarrow> mockOwner r k = Some (tok, d) \<Longrightarrow> now < d \<Longrightarrow>
      mockOwner (redisTimer now k' r) k = Some (tok, d)" for r k tok d now k'
    by (auto simp: mockOwner_Some redisTimer_def mockWf_def split: option.splits)
  show "mockWf r \<Longrightarrow> mockWf (redisTimer now k' r)" for r now k'
    by (auto simp: redisTimer_def mockWf_def split: option.splits)
qed

subsection \<open>Properties\<close>

text \<open>
  C11. Mutual exclusion: once a process acquired a lock, and as long as each event comes before
  the deadline its latest renewal gave it, nothing but its own release - no acquisition,
  renewal, release or timer, of any other process, on any key - takes the lock from it: its
  token stays stored, and every acquisition of the key before the deadline gets no lock.
\<close>

theorem lock_mutual_exclusion:
  fixes evs :: "lock_event list"
  assumes "acquire mock_client cfg now pid uuid k opts w = (w1, Inr (Some l))"
    and "mockWf (lw_redis w)" and "0 < lockTtl cfg opts" and "0 \<le> now"
    and "admissible (beforeDeadline mockOwner k (lk_ownerToken l))
           (lockStep mock_client redisTimer cfg) evs w1"
  shows "\<exists>d. mockOwner (lw_redis (runSteps (lockStep mock_client redisTimer cfg) evs w1)) k =
             Some (lk_ownerToken l, d)
    \<and> (\<forall>t < d. \<forall>pid' uuid' opts'.
         acquire mock_client cfg t pid' uuid' k opts' (runSteps (lockStep mock_client redisTimer cfg) evs w1) =
           (runSteps (lockStep mock_client redisTimer cfg) evs w1, Inr None))"
proof -
  have w1: "mockWf (lw_redis w1)"
    using assms(2) mock_store.acquire_redis[of cfg now pid uuid k opts w] assms(1)
    by (simp add: mock_store.set_wf)
  obtain d where d: "mockOwner (lw_redis (runSteps (lockStep mock_client redisTimer cfg) evs w1)) k =
      Some (lk_ownerToken l, d)"
    using mock_store.run_keeps_holder[OF w1 mock_store.acquire_taken(1)[OF assms(1,3,4)] assms(5)] by blast
  then show ?thesis by (blast intro: mock_store.acquire_held)
qed

definition demo_world :: "mock_redis lock_world" where
  "demo_world = \<lparr>lw_redis = empty_redis, lw_sys = empty_sys, lw_health = resetHealth 0\<rparr>"

definition demo_opts :: lock_options where
  "demo_opts = \<lparr>lo_ttlMs = Some 10000, lo_workerId = Some ''w1''\<rparr>"

definition demo_lock :: lock where
  "demo_lock = \<lparr>lk_key = ''k'', lk_ownerToken = ''w1:u1'', lk_ttlMs = 10000, lk_owned = True\<rparr>"

definition demo_locked :: "mock_redis lock_world" where
  "demo_locked = fst (acquire mock_client demo_cfg 1000 ''p'' ''u1'' ''k'' demo_opts demo_world)"

theorem lock_mutual_exclusion_witness:
  "\<exists>d. mockOwner (lw_redis (runSteps (lockStep mock_client redisTimer demo_cfg)
       [LvAcquire 2000 ''q'' ''u2'' ''k'' demo_opts, LvRenew 9000 demo_lock,
        LvTimer 11000 ''k'', LvRelease 18000 ''q'' (demo_lock\<lparr>lk_ownerToken := ''w2:u2''\<rparr>)] demo_locked)) ''k''
     = Some (''w1:u1'', d)"
proof -
  let ?evs = "[LvAcquire 2000 ''q'' ''u2'' ''k'' demo_opts, LvRenew 9000 demo_lock,
        LvTimer 11000 ''k'', LvRelease 18000 ''q'' (demo_lock\<lparr>lk_ownerToken := ''w2:u2''\<rparr>)]"
  note simps = demo_lock_def demo_locked_def demo_cfg_def demo_world_def demo_opts_def acquire_def
    lockTtl_def redis_defs empty_redis_def cleanExpired_def expiredAt_def generateOwnerToken_def orDefault_def
  have acq: "acquire mock_client demo_cfg 1000 ''p'' ''u1'' ''k'' demo_opts demo_world =
      (demo_locked, Inr (Some demo_lock))"
    by (simp add: simps)
  have wf: "mockWf (lw_redis demo_world)" by (simp add: mockWf_def simps)
  have ttl: "0 < lockTtl demo_cfg demo_opts" by (simp add: simps)
  have adm: "admissible (beforeDeadline mockOwner ''k'' (lk_ownerToken demo_lock))
      (lockStep mock_client redisTimer demo_cfg) ?evs demo_locked"
    by (simp add: beforeDeadline_def simps mockOwner_def renew_def redisTimer_def)
  have n: "(0 :: int) \<le> 1000" by simp
  have tok: "lk_ownerToken demo_lock = ''w1:u1''" by (simp add: demo_lock_def)
  show ?thesis
    using lock_mutual_exclusion[OF acq wf ttl n adm] unfolding tok by blast
qed

text \<open>
  C32. A body run under a lock runs only when the lock was obtained, and the lock is given back
  whether the body returns or throws: afterwards the key is free if the body still owned it,
  while a lock that passed to another owner in the meantime is left with that owner.
\<close>

theorem with_lock_gives_back:
  fixes body :: "lock \<Rightarrow> (mock_redis lock_world, string, 'a) oper" and until :: time and later :: "lock \<Rightarrow> lock"
  assumes held: "\<And>l. lk_key (later l) = lk_key l \<and> lk_ownerToken (later l) = lk_ownerToken l"
    and acq: "acquire mock_client cfg now pid uuid k opts w = (w1, Inr lk)"
  defines "run \<equiv> withLock mock_client cfg now until pid uuid k opts later body w"
  shows "case lk of
      None \<Rightarrow> run = (w1, Inr None)
    | Some l \<Rightarrow> snd run = (case snd (body l w1) of Inl e \<Rightarrow> Inl e | Inr x \<Rightarrow> Inr (Some x))
        \<and> (\<forall>d tok. mockOwner (lw_redis (fst (body l w1))) k = Some (tok, d) \<longrightarrow> until < d \<longrightarrow>
             mockOwner (lw_redis (fst run)) k =
               (if tok = lk_ownerToken l \<and> lk_owned (later l) then None else Some (tok, d)))"
proof (cases lk)
  case None
  with acq show ?thesis by (simp add: run_def withLock_def andThen_Inr)
next
  case (Some l)
  have k: "lk_key l = k"
    using acq Some by (auto simp: acquire_def Let_def split: prod.splits sum.splits if_splits)
  have run: "run = (fst (releaseLock mock_client until pid (Some (later l)) (fst (body l w1))),
      case snd (body l w1) of Inl e \<Rightarrow> Inl e | Inr x \<Rightarrow> Inr (Some x))"
    using acq Some by (simp add: run_def withLock_def andThen_Inr finallyDo_eq andThen_eq split: sum.split)
  have "mockOwner (lw_redis (fst run)) k = (if tok = lk_ownerToken l \<and> lk_owned (later l) then None else Some (tok, d))"
    if "mockOwner (lw_redis (fst (body l w1))) k = Some (tok, d)" "until < d" for tok d
    using that held[of l] mock_store.release_own[OF that] mock_store.eval_foreign[OF that]
    by (auto simp: run mock_store.release_redis k)
  with Some run show ?thesis by simp
qed

theorem with_lock_gives_back_witness:
  "mockOwner (lw_redis (fst (withLock mock_client demo_cfg 1000 2000 ''p'' ''u1'' ''k'' demo_opts
     (\<lambda>l. l) (\<lambda>l. throw ''boom'' :: (mock_redis lock_world, string, unit) oper) demo_world))) ''k'' = None"
proof -
  note simps = demo_lock_def demo_locked_def demo_cfg_def demo_world_def demo_opts_def acquire_def
    lockTtl_def redis_defs empty_redis_def cleanExpired_def expiredAt_def generateOwnerToken_def orDefault_def
  have acq: "acquire mock_client demo_cfg 1000 ''p'' ''u1'' ''k'' demo_opts demo_world =
      (demo_locked, Inr (Some demo_lock))"
    by (simp add: simps)
  have own: "mockOwner (lw_redis demo_locked) ''k'' = Some (''w1:u1'', 11000)"
    by (simp add: simps mockOwner_def)
  show ?thesis
    using with_lock_gives_back[OF _ acq, of "\<lambda>l. l" 2000
        "\<lambda>l. throw ''boom'' :: (mock_redis lock_world, string, unit) oper"] own
    by (simp only: option.case throw_apply fst_conv) (simp add: demo_lock_def)
qed

end
