(* ===== verification/SequenceLock.thy ===== *)
theory SequenceLock
  imports Soroban Locks
begin

text \<open>
  The lock a transaction is built under, one per account of the chain: the beginning of
  \<open>buildAndSubmitSettlementTransaction\<close> in \<^verbatim>\<open>transaction.service.ts\<close>, which asks the lock service again
  and again for three seconds. \<open>Soroban\<close> starts from its outcome.
\<close>

subsection \<open>Asking for the lock\<close>

definition sequenceOpts :: "string \<Rightarrow> lock_options" where
  "sequenceOpts processId = \<lparr>lo_ttlMs = Some 20000, lo_workerId = Some processId\<rparr>"

text \<open>
  An attempt that set the key starts the heartbeat and then awaits the write of its audit entry.
  A \<open>beat\<close> is a tick of the heartbeat in that wait, with what others did to the store before it; a
  renewal that fails marks the handle lost before it is returned.
\<close>

type_synonym beat = "lock_event list \<times> time"

fun auditWait ::
  "'r redis_client \<Rightarrow> (time \<Rightarrow> string \<Rightarrow> 'r \<Rightarrow> 'r) \<Rightarrow> config \<Rightarrow> beat list \<Rightarrow> lock \<Rightarrow> 'r lock_world
    \<Rightarrow> 'r lock_world \<times> lock" where
  "auditWait c tick cfg [] l w = (w, l)"
| "auditWait c tick cfg ((evs, now) # bs) l w =
     (let w1 = runSteps (lockStep c tick cfg) evs w; (r, l1) = heartbeatTick c now l (lw_redis w1)
      in auditWait c tick cfg bs l1 (w1\<lparr>lw_redis := r\<rparr>))"

definition acquireAwaited ::
  "'r redis_client \<Rightarrow> (time \<Rightarrow> string \<Rightarrow> 'r \<Rightarrow> 'r) \<Rightarrow> config \<Rightarrow> beat list \<Rightarrow> time \<Rightarrow> string \<Rightarrow> string \<Rightarrow> string \<Rightarrow> lock_options
    \<Rightarrow> ('r lock_world, string, lock option) oper" where
  "acquireAwaited c tick cfg beats now pid uuid key opts =
     andThen (acquire c cfg now pid uuid key opts) (\<lambda>x w.
       case x of
         None \<Rightarrow> (w, Inr None)
       | Some l \<Rightarrow> (case auditWait c tick cfg beats l w of (w1, l1) \<Rightarrow> (w1, Inr (Some l1))))"

text \<open>
  What the loop sees: the clock at its start and at each test of its condition, then, after the
  sleep, what others did to the store in the meantime, the clock and the drawn id of the attempt,
  and the heartbeats of its audit wait.
\<close>

record waiting =
  wt_start :: time
  wt_check :: "nat \<Rightarrow> time"
  wt_others :: "nat \<Rightarrow> lock_event list"
  wt_now :: "nat \<Rightarrow> time"
  wt_uuid :: "nat \<Rightarrow> string"
  wt_beats :: "nat \<Rightarrow> beat list"

definition attempt ::
  "'r redis_client \<Rightarrow> (time \<Rightarrow> string \<Rightarrow> 'r \<Rightarrow> 'r) \<Rightarrow> config \<Rightarrow> string \<Rightarrow> string \<Rightarrow> waiting \<Rightarrow> nat
    \<Rightarrow> ('r lock_world, string, lock option) oper" where
  "attempt c tick cfg pid key wt i w =
     acquireAwaited c tick cfg (wt_beats wt i) (wt_now wt i) pid (wt_uuid wt i) key (sequenceOpts pid)
       (runSteps (lockStep c tick cfg) (wt_others wt i) w)"

text \<open>\<open>while (!seqLock && Date.now() - retryStart < 3000)\<close>; \<open>None\<close> is a loop that never ends.\<close>

partial_function (option) retryLock ::
  "'r redis_client \<Rightarrow> (time \<Rightarrow> string \<Rightarrow> 'r \<Rightarrow> 'r) \<Rightarrow> config \<Rightarrow> string \<Rightarrow> string \<Rightarrow> waiting \<Rightarrow> nat \<Rightarrow> 'r lock_world
    \<Rightarrow> ('r lock_world \<times> (string + lock option)) option" where
  "retryLock c tick cfg pid key wt i w =
     (if wt_check wt i - wt_start wt < 3000 then
        (if snd (attempt c tick cfg pid key wt i w) = Inr None
         then retryLock c tick cfg pid key wt (i + 1) (fst (attempt c tick cfg pid key wt i w))
         else Some (attempt c tick cfg pid key wt i w))
      else Some (w, Inr None))"

definition acquireSequenceLock ::
  "'r redis_client \<Rightarrow> (time \<Rightarrow> string \<Rightarrow> 'r \<Rightarrow> 'r) \<Rightarrow> config \<Rightarrow> string \<Rightarrow> string \<Rightarrow> beat list \<Rightarrow> time \<Rightarrow> string \<Rightarrow> waiting \<Rightarrow> 'r lock_world
    \<Rightarrow> ('r lock_world \<times> (string + lock option)) option" where
  "acquireSequenceLock c tick cfg pid publicKey beats now uuid wt w =
     (case acquireAwaited c tick cfg beats now pid uuid (sequenceLockKey publicKey) (sequenceOpts pid) w of
        (w1, Inr None) \<Rightarrow> retryLock c tick cfg pid (sequenceLockKey publicKey) wt 0 w1
      | (w1, r) \<Rightarrow> Some (w1, r))"

text \<open>What the rest of the method asks of the result: it threw, there is no lock, is it owned.\<close>

definition lockOutcome :: "string + lock option \<Rightarrow> lock_outcome" where
  "lockOutcome r = (case r of Inl msg \<Rightarrow> LockThrows msg | Inr None \<Rightarrow> NotAcquired | Inr (Some l) \<Rightarrow> Acquired (lk_owned l))"

subsection \<open>The waiting ends\<close>

text \<open>The attempts \<open>i\<close>, \<open>i + 1\<close>, \dots up to the first that does not come back empty-handed.\<close>

fun tries ::
  "(nat \<Rightarrow> ('w, 'e, 'l option) oper) \<Rightarrow> nat list \<Rightarrow> ('w, 'e, 'l option) oper" where
  "tries f [] = ret None"
| "tries f (i # is) = andThen (f i) (\<lambda>r. case r of None \<Rightarrow> tries f is | Some l \<Rightarrow> ret (Some l))"

text \<open>A timer of fifty milliseconds sleeps that long.\<close>

definition sleeps :: "waiting \<Rightarrow> bool" where
  "sleeps wt \<longleftrightarrow> wt_start wt \<le> wt_check wt 0 \<and> (\<forall>i. wt_check wt i + 50 \<le> wt_check wt (Suc i))"

lemma clock_grows: "sleeps wt \<Longrightarrow> wt_start wt + 50 * int i \<le> wt_check wt i"
proof (induction i)
  case (Suc i)
  then have "wt_check wt i + 50 \<le> wt_check wt (Suc i)" by (simp add: sleeps_def)
  with Suc show ?case by simp
qed (simp add: sleeps_def)

lemma tries_step:
  "tries f (i # is) w = (if snd (f i w) = Inr None then tries f is (fst (f i w)) else f i w)"
  by (cases "f i w") (auto simp: andThen_eq split: sum.splits option.splits)

lemma retry_bounded:
  assumes "sleeps wt"
  shows "i \<le> 60 \<Longrightarrow> \<exists>n. i \<le> n \<and> n \<le> 60
    \<and> retryLock c tick cfg pid key wt i w = Some (tries (attempt c tick cfg pid key wt) [i..<n] w)
    \<and> (snd (tries (attempt c tick cfg pid key wt) [i..<n] w) = Inr None \<longrightarrow> 3000 \<le> wt_check wt n - wt_start wt)"
proof (induction "60 - i" arbitrary: i w)
  case 0
  then have "3000 \<le> wt_check wt i - wt_start wt" using clock_grows[OF assms, of i] by simp
  with 0 show ?case by (intro exI[of _ i]) (simp add: retryLock.simps)
next
  case (Suc k)
  let ?f = "attempt c tick cfg pid key wt"
  show ?case
  proof (cases "wt_check wt i - wt_start wt < 3000")
    case False
    with Suc(3) show ?thesis by (intro exI[of _ i]) (simp add: retryLock.simps)
  next
    case True
    show ?thesis
    proof (cases "snd (?f i w) = Inr None")
      case again: True
      have "k = 60 - (i + 1)" "i + 1 \<le> 60" using Suc(2) by simp_all
      from Suc(1)[OF this, of "fst (?f i w)"] obtain n where n: "i + 1 \<le> n" "n \<le> 60"
        "retryLock c tick cfg pid key wt (i + 1) (fst (?f i w)) = Some (tries ?f [i + 1..<n] (fst (?f i w)))"
        "snd (tries ?f [i + 1..<n] (fst (?f i w))) = Inr None \<longrightarrow> 3000 \<le> wt_check wt n - wt_start wt"
        by blast
      have "[i..<n] = i # [i + 1..<n]" using n(1) by (simp add: upt_conv_Cons)
      with n True again show ?thesis
        by (intro exI[of _ n]) (simp add: retryLock.simps[of c tick cfg pid key wt i] tries_step del: tries.simps)
    next
      case other: False
      have "i < 60" using Suc(2) by simp
      moreover have "[i..<i + 1] = [i]" by simp
      ultimately show ?thesis using True other
        by (intro exI[of _ "i + 1"]) (simp add: retryLock.simps[of c tick cfg pid key wt i] tries_step del: tries.simps upt_Suc)
    qed
  qed
qed

lemma acquired_owned: "acquire c cfg now pid uuid key opts w = (w1, Inr (Some l)) \<Longrightarrow> lk_owned l"
  by (auto simp: acquire_def Let_def split: prod.splits sum.splits if_splits)

lemma awaited_owned: "acquireAwaited c tick cfg [] now pid uuid key opts w = (w1, Inr (Some l)) \<Longrightarrow> lk_owned l"
  by (auto simp: acquireAwaited_def andThen_eq acquire_def Let_def split: prod.splits sum.splits option.splits if_splits)

lemma tries_owned:
  assumes "\<And>i. wt_beats wt i = []"
  shows "tries (attempt c tick cfg pid key wt) is w = (w1, Inr (Some l)) \<Longrightarrow> lk_owned l"
proof (induction "is" arbitrary: w)
  case (Cons i "is")
  then show ?case
    by (auto simp: tries_step attempt_def assms simp del: tries.simps split: if_splits dest: awaited_owned)
qed simp

text \<open>
  C40. Waiting for the sequence lock ends: with a clock that advances by the fifty milliseconds the
  code sleeps between attempts, the service asks at most sixty-one times - the first attempt and at most
  sixty more, each on the store as others left it - and it gives up only after three seconds. A
  lock it returns is owned if no heartbeat came before the audit entry of its acquisition was
  written; otherwise it may be lost already, which is what the check that follows is for.
\<close>

theorem sequence_lock_wait_bounded:
  fixes c :: "'r redis_client"
  assumes "sleeps wt"
  shows "\<exists>w1 r n. acquireSequenceLock c tick cfg pid pk beats now uuid wt w = Some (w1, r) \<and> n \<le> 60
    \<and> (w1, r) = andThen (acquireAwaited c tick cfg beats now pid uuid (sequenceLockKey pk) (sequenceOpts pid))
         (\<lambda>x. case x of None \<Rightarrow> tries (attempt c tick cfg pid (sequenceLockKey pk) wt) [0..<n] | Some l \<Rightarrow> ret (Some l)) w
    \<and> (r = Inr None \<longrightarrow> 3000 \<le> wt_check wt n - wt_start wt)
    \<and> (beats = [] \<and> (\<forall>i. wt_beats wt i = []) \<longrightarrow> lockOutcome r \<noteq> Acquired False)"
proof -
  let ?key = "sequenceLockKey pk"
  obtain w0 r0 where first: "acquireAwaited c tick cfg beats now pid uuid ?key (sequenceOpts pid) w = (w0, r0)" by fastforce
  show ?thesis
  proof (cases "r0 = Inr None")
    case True
    from retry_bounded[OF assms, of 0 c tick cfg pid ?key w0] obtain n where n: "n \<le> 60"
      "retryLock c tick cfg pid ?key wt 0 w0 = Some (tries (attempt c tick cfg pid ?key wt) [0..<n] w0)"
      "snd (tries (attempt c tick cfg pid ?key wt) [0..<n] w0) = Inr None \<longrightarrow> 3000 \<le> wt_check wt n - wt_start wt" by auto
    obtain w1 r where t: "tries (attempt c tick cfg pid ?key wt) [0..<n] w0 = (w1, r)" by fastforce
    with n first True have "acquireSequenceLock c tick cfg pid pk beats now uuid wt w = Some (w1, r)"
      "r = Inr None \<longrightarrow> 3000 \<le> wt_check wt n - wt_start wt" by (auto simp: acquireSequenceLock_def)
    moreover have "lockOutcome r \<noteq> Acquired False" if "\<forall>i. wt_beats wt i = []"
      using tries_owned[of wt c tick cfg pid ?key "[0..<n]" w0 w1] that t by (auto simp: lockOutcome_def split: sum.splits option.splits)
    ultimately show ?thesis using n(1) t first True by (auto simp: andThen_Inr)
  next
    case False
    with first have "acquireSequenceLock c tick cfg pid pk beats now uuid wt w = Some (w0, r0)"
      by (auto simp: acquireSequenceLock_def split: sum.splits option.splits)
    moreover have "lockOutcome r0 \<noteq> Acquired False" if "beats = []"
      using awaited_owned[of c tick cfg now pid uuid ?key "sequenceOpts pid" w w0] first that
      by (auto simp: lockOutcome_def split: sum.splits option.splits)
    ultimately show ?thesis using False first
      by (intro exI[of _ w0] exI[of _ r0] exI[of _ 0]) (auto simp: andThen_def split: sum.splits option.splits)
  qed
qed

definition demo_waiting :: waiting where
  "demo_waiting = \<lparr>wt_start = 100, wt_check = (\<lambda>i. 100 + 50 * int i), wt_others = (\<lambda>_. []), wt_now = (\<lambda>i. 150 + 50 * int i),
     wt_uuid = (\<lambda>_. ''u''), wt_beats = (\<lambda>_. [])\<rparr>"

theorem sequence_lock_wait_bounded_witness:
  "\<exists>w1 r. acquireSequenceLock mock_client redisTimer demo_cfg ''p'' ''GA'' [] 90 ''u'' demo_waiting demo_locked = Some (w1, r)
     \<and> lockOutcome r \<noteq> Acquired False"
proof -
  have "sleeps demo_waiting" by (simp add: sleeps_def demo_waiting_def)
  moreover have "\<forall>i. wt_beats demo_waiting i = []" by (simp add: demo_waiting_def)
  ultimately show ?thesis
    using sequence_lock_wait_bounded[of demo_waiting mock_client redisTimer demo_cfg "''p''" "''GA''" "[]" 90 "''u''" demo_locked]
    by blast
qed

text \<open>
  The check is needed: when the audit entry takes longer than the lease and the first heartbeat
  finds the key gone, the lock that is returned is not owned.
\<close>

lemma lock_lost_while_audited:
  "\<exists>w1 l. acquireAwaited mock_client redisTimer demo_cfg [([LvTimer 21000 ''seq''], 21000)] 1000 ''p'' ''u'' ''seq''
      (sequenceOpts ''p'') demo_world = (w1, Inr (Some l)) \<and> lockOutcome (Inr (Some l)) = Acquired False"
  by (simp add: acquireAwaited_def andThen_eq acquire_def lockTtl_def sequenceOpts_def demo_world_def redis_defs empty_redis_def
      cleanExpired_def expiredAt_def generateOwnerToken_def orDefault_def heartbeatTick_def renew_def redisTimer_def
      lockOutcome_def markLost_def Let_def)

end
