(* ===== verification/ErrorHandler.thy ===== *)
theory ErrorHandler
  imports Soroban
begin

text \<open>
  What a client is told of an error: the codes of the classes of \<^verbatim>\<open>src/errors/index.ts\<close> and the
  last middleware of the application, \<^verbatim>\<open>src/middleware/errorHandler.ts\<close>.
\<close>

subsection \<open>The classes\<close>

text \<open>\<open>errorCode\<close> of each class; the two Prisma codes get theirs in the handler.\<close>

fun errorCode :: "app_error \<Rightarrow> string" where
  "errorCode (ValidationError _) = ''VALIDATION_ERROR''"
| "errorCode (BadRequestError _) = ''BAD_REQUEST''"
| "errorCode (UnauthorizedError _) = ''UNAUTHORIZED''"
| "errorCode (ForbiddenError _) = ''FORBIDDEN''"
| "errorCode (NotFoundError _) = ''NOT_FOUND''"
| "errorCode (ConflictError _) = ''CONFLICT''"
| "errorCode PaymentNotFoundError = ''PAYMENT_NOT_FOUND''"
| "errorCode InvalidPaymentStateError = ''INVALID_PAYMENT_STATE''"
| "errorCode (WebhookVerificationError _) = ''WEBHOOK_VERIFICATION_FAILED''"
| "errorCode (ProviderError _) = ''PROVIDER_ERROR''"
| "errorCode SettlementNotFoundError = ''SETTLEMENT_NOT_FOUND''"
| "errorCode InvalidSettlementStateError = ''INVALID_SETTLEMENT_STATE''"
| "errorCode (InvalidOrderStateForSettlementError _) = ''INVALID_ORDER_STATE_FOR_SETTLEMENT''"
| "errorCode (StellarNetworkError _) = ''STELLAR_NETWORK_ERROR''"
| "errorCode (StellarInvalidAddressError _) = ''STELLAR_INVALID_ADDRESS''"
| "errorCode StellarInvalidAssetError = ''STELLAR_INVALID_ASSET''"
| "errorCode (StellarRpcError _) = ''STELLAR_RPC_ERROR''"
| "errorCode (SorobanSimulationError _) = ''SOROBAN_SIMULATION_FAILED''"
| "errorCode (SorobanSubmissionError _) = ''SOROBAN_SUBMISSION_FAILED''"
| "errorCode SorobanConfirmationError = ''SOROBAN_CONFIRMATION_FAILED''"
| "errorCode (SorobanSignerConfigError _) = ''SOROBAN_SIGNER_CONFIG_ERROR''"
| "errorCode (SorobanContractConfigError _) = ''SOROBAN_CONTRACT_CONFIG_ERROR''"
| "errorCode RefundNotFoundError = ''REFUND_NOT_FOUND''"
| "errorCode InvalidRefundStateError = ''INVALID_REFUND_STATE''"
| "errorCode (AppError _ code) = code"
| "errorCode PrismaP2002 = ''DUPLICATE_ENTRY''"
| "errorCode PrismaP2025 = ''NOT_FOUND''"
| "errorCode (PlainError _) = ''INTERNAL_SERVER_ERROR''"

subsection \<open>The handler\<close>

text \<open>
  What reaches the handler: an \<open>AppError\<close> with its fields, a Prisma error with its code, a body that
  is no JSON, or any other error with the \<open>statusCode\<close> and \<open>status\<close> it carries, zero when it has none.
\<close>

datatype raised =
    RaisedApp nat string string "string option"
  | RaisedPrisma string string
  | RaisedBodySyntax
  | RaisedOther nat nat string

record response =
  rs_status :: nat
  rs_code :: string
  rs_message :: string
  rs_details :: "string option"

definition answer :: "nat \<Rightarrow> string \<Rightarrow> string \<Rightarrow> response" where
  "answer status code msg = \<lparr>rs_status = status, rs_code = code, rs_message = msg, rs_details = None\<rparr>"

definition prismaAnswer :: "string \<Rightarrow> response" where
  "prismaAnswer code =
     (if code = ''P2002'' then answer 409 ''DUPLICATE_ENTRY'' ''A record with this unique identifier already exists.''
      else if code = ''P2025'' then answer 404 ''NOT_FOUND'' ''Target record not found in database.''
      else answer 400 ''DATABASE_ERROR'' ''Database operation failed.'')"

fun errorHandler :: "string \<Rightarrow> raised \<Rightarrow> response" where
  "errorHandler environment (RaisedApp status code msg details) =
     \<lparr>rs_status = status, rs_code = code, rs_message = msg, rs_details = details\<rparr>"
| "errorHandler environment (RaisedPrisma code msg) = prismaAnswer code"
| "errorHandler environment RaisedBodySyntax = answer 400 ''BAD_REQUEST'' ''Invalid JSON payload in request body.''"
| "errorHandler environment (RaisedOther given status msg) =
     (let http = (if given \<noteq> 0 then given else status) in
      if 400 \<le> http \<and> http < 500
      then answer http (if http = 401 then ''UNAUTHORIZED'' else if http = 403 then ''FORBIDDEN'' else ''BAD_REQUEST'')
             (if msg = [] then ''Invalid request.'' else msg)
      else answer 500 ''INTERNAL_SERVER_ERROR''
             (if environment = ''production'' then ''An unexpected error occurred.'' else msg))"

text \<open>The errors of the services as they reach the handler.\<close>

fun raisedAs :: "app_error \<Rightarrow> raised" where
  "raisedAs PrismaP2002 = RaisedPrisma ''P2002'' (messageOf PrismaP2002)"
| "raisedAs PrismaP2025 = RaisedPrisma ''P2025'' (messageOf PrismaP2025)"
| "raisedAs (PlainError msg) = RaisedOther 0 0 msg"
| "raisedAs e = RaisedApp (statusCode e) (errorCode e) (messageOf e) None"

subsection \<open>What clients see\<close>

text \<open>The classes with a status of their own; \<open>AppError\<close> takes it from the place that throws.\<close>

fun ownStatus :: "app_error \<Rightarrow> bool" where
  "ownStatus (AppError n _) = (400 \<le> n \<and> n < 600)"
| "ownStatus _ = True"

lemma class_statuses: "ownStatus e \<Longrightarrow> 400 \<le> statusCode e \<and> statusCode e < 600"
  by (cases e) simp_all

lemma handler_agrees: "rs_status (errorHandler environment (raisedAs e)) = statusCode e"
  "rs_code (errorHandler environment (raisedAs e)) = errorCode e"
  by (cases e; simp add: prismaAnswer_def answer_def)+

text \<open>
  Every error is reported as a failure and internals stay inside: an error of the services is
  answered with the status and the code of its class, a 4xx or 5xx; and in production the answer
  to an error that carries no status, or to an error of the database, is the same whatever its
  message was.
\<close>

theorem errors_reported_safely:
  "(ownStatus e \<longrightarrow> 400 \<le> rs_status (errorHandler environment (raisedAs e)) \<and> rs_status (errorHandler environment (raisedAs e)) < 600)
   \<and> rs_status (errorHandler environment (raisedAs e)) = statusCode e
   \<and> rs_code (errorHandler environment (raisedAs e)) = errorCode e
   \<and> (n < 400 \<or> 500 \<le> n \<longrightarrow> errorHandler ''production'' (RaisedOther n 0 m1) = errorHandler ''production'' (RaisedOther n 0 m2)
        \<and> rs_status (errorHandler ''production'' (RaisedOther n 0 m1)) = 500)
   \<and> errorHandler environment (RaisedPrisma c m1) = errorHandler environment (RaisedPrisma c m2)
   \<and> rs_status (errorHandler environment (RaisedPrisma c m1)) \<in> {400, 404, 409}"
  using class_statuses[of e] by (simp add: handler_agrees Let_def prismaAnswer_def answer_def)

theorem errors_reported_safely_witness:
  "errorHandler ''production'' (RaisedOther 0 0 ''password of db'') = errorHandler ''production'' (RaisedOther 0 0 [])
   \<and> 400 \<le> rs_status (errorHandler ''test'' (raisedAs (ForbiddenError ''no'')))"
  using errors_reported_safely[of "ForbiddenError ''no''" "''test''" 0 "''password of db''" "[]" "''P2002''"] by simp

end
