(* ===== verification/Schemas.thy ===== *)
theory Schemas
  imports Accounts Refunds ErrorHandler
begin

text \<open>
  What a request must look like: the schemas of the \<^verbatim>\<open>*.schemas.ts\<close> files and of
  \<^verbatim>\<open>stellar/routes/index.ts\<close>, and the middleware \<^verbatim>\<open>middleware/validate.ts\<close>. A schema maps the JSON
  value of a part of the request to the typed input of the service or to the issues found, as
  zod documents it: the fields of an object in the order of its shape, all of them although one
  fails, unknown fields dropped.
\<close>

subsection \<open>What the schemas take from libraries\<close>

text \<open>A number of JavaScript; \<open>Infinite\<close> carries whether it is positive.\<close>

datatype js_number = NotANumber | Infinite bool | Finite rat

fun finite_value :: "js_number \<Rightarrow> rat option" where
  "finite_value (Finite a) = Some a"
| "finite_value _ = None"

fun positive_number :: "js_number \<Rightarrow> bool" where
  "positive_number NotANumber = False"
| "positive_number (Infinite up) = up"
| "positive_number (Finite a) = (0 < a)"

text \<open>
  The format checks of zod and of the Stellar SDK, the number a JSON number denotes, the conversions
  \<open>Number\<close>, \<open>parseFloat\<close> and \<open>new Decimal\<close>, the texts of zod for failures without a text of their own,
  and how a list of issues is printed: as the details of a validation error, as the message of a
  \<open>ZodError\<close>, and by its \<open>format\<close>.
\<close>

record zod_env =
  zo_keys :: strkey
  zo_email :: "string \<Rightarrow> bool"
  zo_uuid :: "string \<Rightarrow> bool"
  zo_number :: "string \<Rightarrow> js_number"
  zo_coerce :: "json \<Rightarrow> js_number"
  zo_parseFloat :: "string \<Rightarrow> js_number"
  zo_decimal :: "string \<Rightarrow> rat option"
  zo_wrongType :: "string \<Rightarrow> json option \<Rightarrow> string"
  zo_text :: "string \<Rightarrow> string"
  zo_details :: "(string \<times> string) list \<Rightarrow> string"
  zo_message :: "(string \<times> string) list \<Rightarrow> string"
  zo_format :: "(string \<times> string) list \<Rightarrow> string"

subsection \<open>Values\<close>

text \<open>
  A failed check; \<open>True\<close> marks one of a \<open>refine\<close>, which an asynchronous parse reports after all
  others.
\<close>

type_synonym fault = "bool \<times> string"

type_synonym 'a leaf = "json option \<Rightarrow> fault list + 'a"

type_synonym check = "string \<Rightarrow> string option"

definition satisfies :: "(string \<Rightarrow> bool) \<Rightarrow> string \<Rightarrow> check" where
  "satisfies p msg t = (if p t then None else Some msg)"

definition atLeast :: "nat \<Rightarrow> string \<Rightarrow> check" where
  "atLeast n msg = satisfies (\<lambda>t. n \<le> length t) msg"

definition atMost :: "nat \<Rightarrow> string \<Rightarrow> check" where
  "atMost n msg = satisfies (\<lambda>t. length t \<le> n) msg"

text \<open>\<open>z.string()\<close> with its checks: all of them are made and each that fails is an issue.\<close>

definition zString :: "zod_env \<Rightarrow> check list \<Rightarrow> string leaf" where
  "zString z checks v =
     (case v of
        Some (JStr t) \<Rightarrow>
          (case List.map_filter (\<lambda>c. c t) checks of [] \<Rightarrow> Inr t | ms \<Rightarrow> Inl (map (Pair False) ms))
      | _ \<Rightarrow> Inl [(False, zo_wrongType z ''string'' v)])"

definition zMap :: "('a \<Rightarrow> 'b) \<Rightarrow> 'a leaf \<Rightarrow> 'b leaf" where
  "zMap f p v = map_sum id f (p v)"

definition zOptional :: "'a leaf \<Rightarrow> 'a option leaf" where
  "zOptional p v = (case v of None \<Rightarrow> Inr None | Some _ \<Rightarrow> map_sum id Some (p v))"

definition zDefault :: "'a \<Rightarrow> 'a leaf \<Rightarrow> 'a leaf" where
  "zDefault d p v = (case v of None \<Rightarrow> Inr d | Some _ \<Rightarrow> p v)"

text \<open>\<open>refine\<close> of a schema whose other failures keep it from running.\<close>

definition zRefine :: "('a \<Rightarrow> bool) \<Rightarrow> string \<Rightarrow> 'a leaf \<Rightarrow> 'a leaf" where
  "zRefine ok msg p v = (case p v of Inl es \<Rightarrow> Inl es | Inr x \<Rightarrow> if ok x then Inr x else Inl [(True, msg)])"

definition zEnum :: "zod_env \<Rightarrow> (string \<times> 'a) list \<Rightarrow> 'a leaf" where
  "zEnum z names v =
     (case v of
        Some (JStr t) \<Rightarrow>
          (case map_of names t of Some x \<Rightarrow> Inr x | None \<Rightarrow> Inl [(False, zo_text z ''invalid_enum_value'')])
      | _ \<Rightarrow> Inl [(False, zo_wrongType z ''enum'' v)])"

text \<open>\<open>z.number().positive(msg)\<close>: infinity is a number.\<close>

definition zPositive :: "zod_env \<Rightarrow> string \<Rightarrow> js_number leaf" where
  "zPositive z msg v =
     (case v of
        Some (JNum t) \<Rightarrow>
          if zo_number z t = NotANumber then Inl [(False, zo_wrongType z ''number'' v)]
          else if positive_number (zo_number z t) then Inr (zo_number z t) else Inl [(False, msg)]
      | _ \<Rightarrow> Inl [(False, zo_wrongType z ''number'' v)])"

text \<open>
  \<open>z.coerce.number().int()\<close> with a lower bound, \<open>positive()\<close> or \<open>nonnegative()\<close>, and an optional
  upper one.
\<close>

definition zCount :: "zod_env \<Rightarrow> (rat \<Rightarrow> bool) \<Rightarrow> rat option \<Rightarrow> nat leaf" where
  "zCount z low high v =
     (case (case v of None \<Rightarrow> NotANumber | Some x \<Rightarrow> zo_coerce z x) of
        NotANumber \<Rightarrow> Inl [(False, zo_wrongType z ''number'' v)]
      | Infinite up \<Rightarrow>
          Inl ((False, zo_text z ''int'') # (if up then [] else [(False, zo_text z ''too_small'')])
               @ (if up \<and> high \<noteq> None then [(False, zo_text z ''too_big'')] else []))
      | Finite a \<Rightarrow>
          let es = (if of_int \<lfloor>a\<rfloor> = a then [] else [(False, zo_text z ''int'')])
                   @ (if low a then [] else [(False, zo_text z ''too_small'')])
                   @ (case high of Some h \<Rightarrow> (if a \<le> h then [] else [(False, zo_text z ''too_big'')]) | None \<Rightarrow> [])
          in if es = [] then Inr (nat \<lfloor>a\<rfloor>) else Inl es)"

subsection \<open>Objects\<close>

text \<open>An issue: whether a \<open>refine\<close> found it, its path, its text.\<close>

type_synonym issue = "bool \<times> string \<times> string"

type_synonym 'a shape = "(string \<times> json) list \<Rightarrow> issue list + 'a"

type_synonym 'a schema = "json option \<Rightarrow> issue list + 'a"

definition field :: "string \<Rightarrow> 'a leaf \<Rightarrow> 'a shape" where
  "field name p fs = map_sum (map (\<lambda>(late, msg). (late, name, msg))) id (p (map_of fs name))"

fun both :: "issue list + 'a \<Rightarrow> issue list + 'b \<Rightarrow> issue list + 'a \<times> 'b" where
  "both (Inr a) (Inr b) = Inr (a, b)"
| "both (Inl es) (Inr b) = Inl es"
| "both (Inr a) (Inl es) = Inl es"
| "both (Inl es) (Inl fs) = Inl (es @ fs)"

definition also_field :: "'a shape \<Rightarrow> string \<Rightarrow> 'b leaf \<Rightarrow> ('a \<times> 'b) shape" where
  "also_field sh name p fs = both (sh fs) (field name p fs)"

definition zObject :: "zod_env \<Rightarrow> ('a \<Rightarrow> 'b) \<Rightarrow> 'a shape \<Rightarrow> 'b schema" where
  "zObject z build sh v =
     (case v of
        Some (JObj fs) \<Rightarrow> map_sum id build (sh fs)
      | _ \<Rightarrow> Inl [(False, [], zo_wrongType z ''object'' v)])"

definition zId :: "zod_env \<Rightarrow> string \<Rightarrow> string \<Rightarrow> string schema" where
  "zId z name msg = zObject z id (field name (zString z [satisfies (zo_uuid z) msg]))"

subsection \<open>The enumerations of the database\<close>

definition roles :: "(string \<times> role) list" where
  "roles = [(''USER'', USER), (''MERCHANT'', MERCHANT), (''ADMIN'', ADMIN), (''SUPER_ADMIN'', SUPER_ADMIN)]"

definition orderTypes :: "(string \<times> order_type) list" where
  "orderTypes = [(''ON_RAMP'', ON_RAMP), (''OFF_RAMP'', OFF_RAMP), (''MERCHANT_PAYMENT'', MERCHANT_PAYMENT)]"

definition paymentTypes :: "(string \<times> payment_type) list" where
  "paymentTypes = [(''DEPOSIT'', DEPOSIT), (''PAYMENT'', PAYMENT), (''PAYOUT'', PAYOUT), (''REFUND'', REFUND)]"

definition sides :: "(string \<times> side) list" where
  "sides = [(''source'', Source), (''destination'', Destination)]"

definition settlementStatuses :: "(string \<times> settlement_status) list" where
  "settlementStatuses = [(''PENDING'', S_PENDING), (''SUBMITTING'', S_SUBMITTING), (''SUBMITTED'', S_SUBMITTED),
     (''CONFIRMING'', S_CONFIRMING), (''COMPLETED'', S_COMPLETED), (''FAILED'', S_FAILED),
     (''REQUIRES_RECONCILIATION'', S_REQUIRES_RECONCILIATION)]"

definition orderStatuses :: "(string \<times> order_status) list" where
  "orderStatuses = [(''CREATED'', O_CREATED), (''AWAITING_PAYMENT'', O_AWAITING_PAYMENT),
     (''PAYMENT_DETECTED'', O_PAYMENT_DETECTED), (''PAYMENT_CONFIRMED'', O_PAYMENT_CONFIRMED),
     (''SETTLEMENT_PENDING'', O_SETTLEMENT_PENDING), (''SETTLEMENT_COMPLETED'', O_SETTLEMENT_COMPLETED),
     (''COMPLETED'', O_COMPLETED), (''FAILED'', O_FAILED), (''CANCELLED'', O_CANCELLED),
     (''REFUND_PENDING'', O_REFUND_PENDING), (''REFUNDED'', O_REFUNDED), (''REFUND_FAILED'', O_REFUND_FAILED),
     (''EXPIRED'', O_EXPIRED)]"

subsection \<open>The schemas\<close>

definition registerSchema :: "zod_env \<Rightarrow> register_input schema" where
  "registerSchema z =
     zObject z (\<lambda>(((email, password), phone), role).
         \<lparr>ri_email = email, ri_password = password, ri_phone = phone, ri_role = Some role\<rparr>)
       (also_field (also_field (also_field
          (field ''email'' (zString z [satisfies (zo_email z) ''Invalid email address format.'']))
          ''password'' (zString z [atLeast 8 ''Password must be at least 8 characters long.'']))
          ''phone'' (zOptional (zString z [])))
          ''role'' (zDefault USER (zEnum z roles)))"

definition loginSchema :: "zod_env \<Rightarrow> (string \<times> string) schema" where
  "loginSchema z =
     zObject z id
       (also_field (field ''email'' (zString z [satisfies (zo_email z) ''Invalid email address format.'']))
          ''password'' (zString z [atLeast 1 ''Password is required.'']))"

definition addressCheck :: "zod_env \<Rightarrow> string option \<Rightarrow> bool" where
  "addressCheck z v \<longleftrightarrow> \<not> truthy v \<or> sk_publicKey (zo_keys z) (the v)"

definition createOrderSchema :: "zod_env \<Rightarrow> order_dto schema" where
  "createOrderSchema z =
     zObject z (\<lambda>(((quoteId, type), wallet), key).
         \<lparr>d_quoteId = quoteId, d_type = Some type, d_walletAddress = wallet, d_idempotencyKey = key\<rparr>)
       (also_field (also_field (also_field
          (field ''quoteId'' (zString z [satisfies (zo_uuid z) ''Invalid quote ID format.'']))
          ''type'' (zDefault ON_RAMP (zEnum z orderTypes)))
          ''walletAddress'' (zRefine (addressCheck z) ''Invalid Stellar wallet address format.'' (zOptional (zString z []))))
          ''idempotencyKey'' (zOptional (zString z [atMost 128 (zo_text z ''too_big'')])))"

definition orderIdParamSchema :: "zod_env \<Rightarrow> string schema" where
  "orderIdParamSchema z = zId z ''id'' ''Invalid order ID format.''"

definition updateOrderStatusSchema :: "zod_env \<Rightarrow> order_status schema" where
  "updateOrderStatusSchema z = zObject z id (field ''status'' (zEnum z orderStatuses))"

definition addressField :: "zod_env \<Rightarrow> string \<Rightarrow> string leaf" where
  "addressField z msg = zRefine (sk_publicKey (zo_keys z)) msg (zString z [])"

definition updateOrderWalletSchema :: "zod_env \<Rightarrow> string schema" where
  "updateOrderWalletSchema z =
     zObject z id (field ''walletAddress'' (addressField z ''Invalid Stellar wallet address format.''))"

definition createPaymentSchema :: "zod_env \<Rightarrow> payment_input schema" where
  "createPaymentSchema z =
     zObject z (\<lambda>(((orderId, currency), type), provider).
         \<lparr>ci_orderId = orderId, ci_currency = Some currency, ci_type = Some type, ci_provider = provider\<rparr>)
       (also_field (also_field (also_field
          (field ''orderId'' (zString z [satisfies (zo_uuid z) ''orderId must be a valid UUID'']))
          ''currency'' (zDefault ''NGN'' (zString z [atLeast 3 (zo_text z ''too_small''), atMost 5 (zo_text z ''too_big'')])))
          ''type'' (zDefault DEPOSIT (zEnum z paymentTypes)))
          ''provider'' (zOptional (zString z [])))"

definition paymentIdParamSchema :: "zod_env \<Rightarrow> string schema" where
  "paymentIdParamSchema z = zId z ''id'' ''Payment ID must be a valid UUID''"

text \<open>\<open>z.string().min(2).max(n).toUpperCase()\<close>.\<close>

definition codeField :: "zod_env \<Rightarrow> nat \<Rightarrow> string leaf" where
  "codeField z n = zMap toUpper (zString z [atLeast 2 (zo_text z ''too_small''), atMost n (zo_text z ''too_big'')])"

definition quoteShape :: "zod_env \<Rightarrow> js_number leaf \<Rightarrow> (((string \<times> string) \<times> js_number) \<times> side) shape" where
  "quoteShape z amount =
     also_field (also_field (also_field
       (field ''sourceCurrency'' (codeField z 10)) ''destinationAsset'' (codeField z 20))
       ''amount'' amount) ''side'' (zDefault Source (zEnum z sides))"

definition quoteInput :: "((string \<times> string) \<times> js_number) \<times> side \<Rightarrow> quote_input" where
  "quoteInput = (\<lambda>(((src, dst), amount), sd).
     \<lparr>qi_sourceCurrency = src, qi_destinationAsset = dst, qi_amount = finite_value amount, qi_side = Some sd\<rparr>)"

definition createQuoteSchema :: "zod_env \<Rightarrow> quote_input schema" where
  "createQuoteSchema z = zObject z quoteInput (quoteShape z (zPositive z ''Amount must be positive.''))"

definition quoteQuerySchema :: "zod_env \<Rightarrow> quote_input schema" where
  "quoteQuerySchema z = zObject z quoteInput (quoteShape z
     (zRefine positive_number ''Amount must be a positive number.'' (zMap (zo_parseFloat z) (zString z []))))"

definition quoteIdParamSchema :: "zod_env \<Rightarrow> string schema" where
  "quoteIdParamSchema z = zId z ''id'' ''Invalid quote ID format.''"

text \<open>The amount of a refund stays a text; the service reads it with \<open>new Decimal\<close> unless it is empty.\<close>

definition refundDecimal :: "zod_env \<Rightarrow> string option \<Rightarrow> rat option option" where
  "refundDecimal z v = (if truthy v then Some (zo_decimal z (the v)) else None)"

definition createRefundSchema :: "zod_env \<Rightarrow> refund_input schema" where
  "createRefundSchema z =
     zObject z (\<lambda>((((orderId, paymentId), amount), reason), key).
         \<lparr>ri_orderId = orderId, ri_paymentId = paymentId, ri_amount = refundDecimal z amount, ri_reason = reason,
          ri_idempotencyKey = key\<rparr>)
       (also_field (also_field (also_field (also_field
          (field ''orderId'' (zString z [satisfies (zo_uuid z) ''orderId must be a valid UUID'']))
          ''paymentId'' (zOptional (zString z [satisfies (zo_uuid z) ''paymentId must be a valid UUID''])))
          ''amount'' (zRefine (\<lambda>v. \<not> truthy v \<or> positive_number (zo_parseFloat z (the v)))
             ''amount must be a positive numeric string'' (zOptional (zString z []))))
          ''reason'' (zString z [atLeast 3 ''reason is required and must be at least 3 characters'']))
          ''idempotencyKey'' (zOptional (zString z [])))"

definition settlementIdParamSchema :: "zod_env \<Rightarrow> string schema" where
  "settlementIdParamSchema z = zId z ''id'' ''Invalid settlement ID format''"

definition settlementOrderIdSchema :: "zod_env \<Rightarrow> string schema" where
  "settlementOrderIdSchema z = zId z ''orderId'' ''Invalid order ID format''"

definition createSettlementSchema :: "zod_env \<Rightarrow> string schema" where
  "createSettlementSchema z = zId z ''orderId'' ''Invalid order ID format''"

definition listSettlementsQuerySchema :: "zod_env \<Rightarrow> ((nat \<times> nat) \<times> settlement_status option) schema" where
  "listSettlementsQuerySchema z =
     zObject z id
       (also_field (also_field
          (field ''limit'' (zDefault 50 (zCount z (\<lambda>a. 0 < a) (Some 100))))
          ''offset'' (zDefault 0 (zCount z (\<lambda>a. 0 \<le> a) None)))
          ''status'' (zOptional (zEnum z settlementStatuses)))"

definition createWalletSchema :: "zod_env \<Rightarrow> wallet_input schema" where
  "createWalletSchema z =
     zObject z (\<lambda>((address, label), network).
         \<lparr>wi_address = address, wi_label = Some label, wi_network = Some network\<rparr>)
       (also_field (also_field
          (field ''address'' (addressField z ''Invalid Stellar public key address format.''))
          ''label'' (zDefault ''Main Wallet'' (zString z [atMost 50 (zo_text z ''too_big'')])))
          ''network'' (zDefault ''testnet'' (zString z [])))"

definition walletIdParamSchema :: "zod_env \<Rightarrow> string schema" where
  "walletIdParamSchema z = zId z ''id'' ''Invalid wallet ID format.''"

definition addressParamSchema :: "zod_env \<Rightarrow> string schema" where
  "addressParamSchema z = zObject z id (field ''address'' (addressField z ''Invalid Stellar public address format.''))"

definition isHash :: "string \<Rightarrow> bool" where
  "isHash t \<longleftrightarrow> length t = 64 \<and> list_all (\<lambda>c. c \<in> set ''0123456789abcdefABCDEF'') t"

definition txHashParamSchema :: "zod_env \<Rightarrow> string schema" where
  "txHashParamSchema z = zObject z id (field ''hash'' (zString z
     [satisfies isHash ''Invalid Stellar transaction hash format. Expected 64 hex characters.'']))"

subsection \<open>What becomes of the issues\<close>

text \<open>Path and text of the issues in the order an asynchronous parse reports them.\<close>

definition reportOrder :: "issue list \<Rightarrow> (string \<times> string) list" where
  "reportOrder es = map snd (filter (Not \<circ> fst) es @ filter fst es)"

text \<open>
  \<open>validate\<close>: body, query, parameters and headers in this order, each under its schema when there is
  one; the parsed values replace those of the request.
\<close>

definition parsePart :: "zod_env \<Rightarrow> 'a schema option \<Rightarrow> json option \<Rightarrow> raised + 'a option" where
  "parsePart z sch v =
     (case sch of
        None \<Rightarrow> Inr None
      | Some p \<Rightarrow>
          (case p v of
             Inr x \<Rightarrow> Inr (Some x)
           | Inl es \<Rightarrow> Inl (RaisedApp 400 ''VALIDATION_ERROR'' ''Invalid request input data.''
               (Some (zo_details z (reportOrder es))))))"

definition validate ::
  "zod_env \<Rightarrow> 'b schema option \<Rightarrow> 'q schema option \<Rightarrow> 'p schema option \<Rightarrow> 'h schema option
    \<Rightarrow> json option \<Rightarrow> json option \<Rightarrow> json option \<Rightarrow> json option \<Rightarrow> raised + 'b option \<times> 'q option \<times> 'p option" where
  "validate z sb sq sp sh body query params headers =
     (case parsePart z sb body of Inl e \<Rightarrow> Inl e | Inr b \<Rightarrow>
      (case parsePart z sq query of Inl e \<Rightarrow> Inl e | Inr q \<Rightarrow>
       (case parsePart z sp params of Inl e \<Rightarrow> Inl e | Inr p \<Rightarrow>
        (case parsePart z sh headers of Inl e \<Rightarrow> Inl e | Inr _ \<Rightarrow> Inr (b, q, p)))))"

text \<open>\<open>schema.parse\<close> in a controller: the \<open>ZodError\<close> itself reaches the error handler.\<close>

definition parseOrThrow :: "zod_env \<Rightarrow> 'a schema \<Rightarrow> json option \<Rightarrow> raised + 'a" where
  "parseOrThrow z sch v =
     (case sch v of Inr x \<Rightarrow> Inr x | Inl es \<Rightarrow> Inl (RaisedOther 0 0 (zo_message z (map snd es))))"

end
