(* ===== verification/Requests.thy ===== *)
theory Requests
  imports Schemas
begin

text \<open>
  The handlers of \<^verbatim>\<open>modules/*/index.ts\<close> and of the controllers on the JSON they receive: the part of
  the request a schema parses, then the operation of the service, and what of either becomes an
  error the handler of \<open>ErrorHandler\<close> answers.
\<close>

subsection \<open>Handlers\<close>

text \<open>The errors of a service as they reach the error handler.\<close>

definition service :: "('s, app_error, 'a) oper \<Rightarrow> ('s, raised, 'a) oper" where
  "service f s = (case f s of (s1, r) \<Rightarrow> (s1, map_sum raisedAs id r))"

text \<open>\<open>validate({ body })\<close> and \<open>validate({ params })\<close>.\<close>

definition validBody :: "zod_env \<Rightarrow> 'b schema \<Rightarrow> json option \<Rightarrow> raised + 'b" where
  "validBody z sch v =
     (case validate z (Some sch) (None :: unit schema option) (None :: unit schema option) (None :: unit schema option)
        v None None None of
        Inl e \<Rightarrow> Inl e | Inr (b, _, _) \<Rightarrow> Inr (the b))"

definition validParams :: "zod_env \<Rightarrow> 'p schema \<Rightarrow> json option \<Rightarrow> raised + 'p" where
  "validParams z sch v =
     (case validate z (None :: unit schema option) (None :: unit schema option) (Some sch) (None :: unit schema option)
        None None v None of
        Inl e \<Rightarrow> Inl e | Inr (_, _, p) \<Rightarrow> Inr (the p))"

definition registerRequest ::
  "zod_env \<Rightarrow> credentials \<Rightarrow> string \<Rightarrow> auth_env \<Rightarrow> json option \<Rightarrow> (accounts, raised, profile \<times> string) oper" where
  "registerRequest z c secret e body =
     andThen (lift (validBody z (registerSchema z) body)) (\<lambda>inp. service (registerUser c secret e inp))"

definition loginRequest ::
  "zod_env \<Rightarrow> credentials \<Rightarrow> string \<Rightarrow> time \<Rightarrow> json option \<Rightarrow> (accounts, raised, profile \<times> string) oper" where
  "loginRequest z c secret now body =
     andThen (lift (validBody z (loginSchema z) body)) (\<lambda>(email, password). service (login c secret now email password))"

definition createWalletRequest ::
  "zod_env \<Rightarrow> auth_env \<Rightarrow> id \<Rightarrow> json option \<Rightarrow> (accounts, raised, wallet) oper" where
  "createWalletRequest z e userId body =
     andThen (lift (validBody z (createWalletSchema z) body)) (\<lambda>inp. service (createWallet e userId inp))"

definition deleteWalletRequest :: "zod_env \<Rightarrow> id \<Rightarrow> json option \<Rightarrow> (accounts, raised, id) oper" where
  "deleteWalletRequest z userId params =
     andThen (lift (validParams z (walletIdParamSchema z) params)) (\<lambda>i. service (deleteWallet userId i))"

text \<open>No token is read in front of the quote routes: the quote belongs to nobody.\<close>

definition postQuoteRequest ::
  "zod_env \<Rightarrow> dec_ops \<Rightarrow> config \<Rightarrow> quote_env \<Rightarrow> json option \<Rightarrow> (sys, raised, quote) oper" where
  "postQuoteRequest z D cfg e body =
     andThen (lift (validBody z (createQuoteSchema z) body)) (\<lambda>inp. service (createQuote D cfg e inp None))"

text \<open>The three query parameters that must be there; \<open>None\<close> is the answer 400 the handler writes itself.\<close>

definition jsTruthy :: "json option \<Rightarrow> bool" where
  "jsTruthy v = (case v of None \<Rightarrow> False | Some JNull \<Rightarrow> False | Some (JBool b) \<Rightarrow> b | Some (JStr t) \<Rightarrow> t \<noteq> [] | _ \<Rightarrow> True)"

definition getQuoteRequest ::
  "zod_env \<Rightarrow> dec_ops \<Rightarrow> config \<Rightarrow> quote_env \<Rightarrow> (string \<times> json) list \<Rightarrow> (sys, raised, quote option) oper" where
  "getQuoteRequest z D cfg e query =
     (if list_all (\<lambda>k. jsTruthy (map_of query k)) [''sourceCurrency'', ''destinationAsset'', ''amount'']
      then andThen (lift (parseOrThrow z (quoteQuerySchema z) (Some (JObj query)))) (\<lambda>inp.
             andThen (service (createQuote D cfg e inp None)) (\<lambda>q. ret (Some q)))
      else ret None)"

definition quoteByIdRequest :: "zod_env \<Rightarrow> time \<Rightarrow> json option \<Rightarrow> (sys, raised, quote) oper" where
  "quoteByIdRequest z now params =
     andThen (lift (validParams z (quoteIdParamSchema z) params)) (\<lambda>i. service (getQuoteById now i))"

definition postOrderRequest ::
  "zod_env \<Rightarrow> config \<Rightarrow> order_env \<Rightarrow> id \<Rightarrow> string option \<Rightarrow> json option \<Rightarrow> (sys, raised, nat \<times> order) oper" where
  "postOrderRequest z cfg e userId header body =
     andThen (lift (validBody z (createOrderSchema z) body)) (\<lambda>dto. service (postOrder cfg e userId header dto))"

definition getOrderRequest :: "zod_env \<Rightarrow> id \<Rightarrow> role \<Rightarrow> json option \<Rightarrow> (sys, raised, order) oper" where
  "getOrderRequest z userId rl params =
     andThen (lift (validParams z (orderIdParamSchema z) params)) (\<lambda>i. service (getOrderRoute userId rl i))"

text \<open>Both parts are validated in one call, the body first.\<close>

definition orderWalletRequest ::
  "zod_env \<Rightarrow> id \<Rightarrow> role \<Rightarrow> json option \<Rightarrow> json option \<Rightarrow> (sys, raised, order) oper" where
  "orderWalletRequest z userId rl params body =
     andThen (lift (validate z (Some (updateOrderWalletSchema z)) (None :: unit schema option) (Some (orderIdParamSchema z))
          (None :: unit schema option) body None params None))
       (\<lambda>(b, _, p). service (walletRoute userId rl (the p) (the b)))"

definition createPaymentRequest ::
  "zod_env \<Rightarrow> config \<Rightarrow> provider_env \<Rightarrow> payment_env \<Rightarrow> id \<Rightarrow> string option \<Rightarrow> json option
    \<Rightarrow> (sys, raised, nat \<times> payment) oper" where
  "createPaymentRequest z cfg pe e userId header body =
     andThen (lift (parseOrThrow z (createPaymentSchema z) body)) (\<lambda>inp. service (createPaymentRoute cfg pe e userId header inp))"

definition getPaymentRequest :: "zod_env \<Rightarrow> id \<Rightarrow> role \<Rightarrow> json option \<Rightarrow> (sys, raised, payment) oper" where
  "getPaymentRequest z userId rl params =
     andThen (lift (parseOrThrow z (paymentIdParamSchema z) params)) (\<lambda>i. service (getPaymentRoute i userId rl))"

definition verifyPaymentRequest ::
  "zod_env \<Rightarrow> config \<Rightarrow> provider_env \<Rightarrow> id \<Rightarrow> role \<Rightarrow> json option \<Rightarrow> verify_params \<Rightarrow> (sys, raised, payment) oper" where
  "verifyPaymentRequest z cfg pe userId rl params body =
     andThen (lift (parseOrThrow z (paymentIdParamSchema z) params)) (\<lambda>i. service (verifyRoute cfg pe i userId rl body))"

definition settlementByIdRequest :: "zod_env \<Rightarrow> id \<Rightarrow> role \<Rightarrow> json option \<Rightarrow> (sys, raised, settlement) oper" where
  "settlementByIdRequest z userId rl params =
     andThen (lift (parseOrThrow z (settlementIdParamSchema z) params)) (\<lambda>i. service (settlementRoute userId rl i))"

definition settlementByOrderRequest :: "zod_env \<Rightarrow> id \<Rightarrow> role \<Rightarrow> json option \<Rightarrow> (sys, raised, settlement) oper" where
  "settlementByOrderRequest z userId rl params =
     andThen (lift (parseOrThrow z (settlementOrderIdSchema z) params)) (\<lambda>i. service (settlementByOrderRoute userId rl i))"

text \<open>The status of the query is parsed and not used.\<close>

definition listSettlementsRequest ::
  "zod_env \<Rightarrow> json option \<Rightarrow> (sys, raised, settlement list \<times> nat) oper" where
  "listSettlementsRequest z query =
     andThen (lift (parseOrThrow z (listSettlementsQuerySchema z) query))
       (\<lambda>((limit, offset), _) s. (s, Inr (listPendingSettlements limit offset s)))"

definition createRefundRequest ::
  "zod_env \<Rightarrow> config \<Rightarrow> provider_env \<Rightarrow> refund_env \<Rightarrow> refund_lock \<Rightarrow> id \<Rightarrow> role \<Rightarrow> json option \<Rightarrow> string option
    \<Rightarrow> (sys, raised, nat \<times> refund) oper" where
  "createRefundRequest z cfg pe e lk userId rl body header =
     (case createRefundSchema z body of
        Inl es \<Rightarrow> throw (RaisedApp 400 ''VALIDATION_ERROR'' ''Invalid refund request payload.''
          (Some (zo_format z (map snd es))))
      | Inr inp \<Rightarrow> service (createRefundRoute cfg pe e lk userId rl inp header))"

end
