(* ===== verification/RequestProps.thy ===== *)
theory RequestProps
  imports Requests
begin

text \<open>
  What the schemas promise: a malformed request changes nothing and is reported, an accepted one is
  well formed and parses to itself, and with it the addresses on record.
\<close>

subsection \<open>Malformed requests\<close>

text \<open>The handler stops before it changes anything and the client gets this status and code.\<close>

definition refusedWith :: "string \<Rightarrow> ('s, raised, 'a) oper \<Rightarrow> 's \<Rightarrow> nat \<Rightarrow> string \<Rightarrow> bool" where
  "refusedWith environment f s status code \<longleftrightarrow>
     (case f s of
        (s1, Inl e) \<Rightarrow> s1 = s \<and> rs_status (errorHandler environment e) = status \<and> rs_code (errorHandler environment e) = code
      | (s1, Inr _) \<Rightarrow> False)"

named_theorems schema_part "parsing one part of a request"

lemma validBody_eq [schema_part]:
  "validBody z sch v = (case sch v of Inr x \<Rightarrow> Inr x | Inl es \<Rightarrow>
     Inl (RaisedApp 400 ''VALIDATION_ERROR'' ''Invalid request input data.'' (Some (zo_details z (reportOrder es)))))"
  by (simp add: validBody_def validate_def parsePart_def split: sum.splits)

lemma validParams_eq [schema_part]:
  "validParams z sch v = (case sch v of Inr x \<Rightarrow> Inr x | Inl es \<Rightarrow>
     Inl (RaisedApp 400 ''VALIDATION_ERROR'' ''Invalid request input data.'' (Some (zo_details z (reportOrder es)))))"
  by (simp add: validParams_def validate_def parsePart_def split: sum.splits)

lemma lift_eq [schema_part]: "andThen (lift r) k s = (case r of Inl e \<Rightarrow> (s, Inl e) | Inr x \<Rightarrow> k x s)"
  by (simp add: andThen_def lift_def split: sum.splits)

lemma refused_body:
  "isl (sch v) \<Longrightarrow> refusedWith environment (andThen (lift (validBody z sch v)) k) s 400 ''VALIDATION_ERROR''"
  by (cases "sch v") (simp_all add: refusedWith_def schema_part)

lemma refused_params:
  "isl (sch v) \<Longrightarrow> refusedWith environment (andThen (lift (validParams z sch v)) k) s 400 ''VALIDATION_ERROR''"
  by (cases "sch v") (simp_all add: refusedWith_def schema_part)

lemma refused_parse:
  "isl (sch v) \<Longrightarrow> refusedWith environment (andThen (lift (parseOrThrow z sch v)) k) s 500 ''INTERNAL_SERVER_ERROR''"
  by (cases "sch v") (simp_all add: refusedWith_def schema_part parseOrThrow_def answer_def)

lemma refused_wallet:
  "isl (updateOrderWalletSchema z b) \<or> isl (orderIdParamSchema z p)
    \<Longrightarrow> refusedWith environment (orderWalletRequest z userId rl p b) s 400 ''VALIDATION_ERROR''"
  by (cases "updateOrderWalletSchema z b"; cases "orderIdParamSchema z p")
    (simp_all add: refusedWith_def orderWalletRequest_def schema_part validate_def parsePart_def)

lemma refused_refund:
  "isl (createRefundSchema z b)
    \<Longrightarrow> refusedWith environment (createRefundRequest z cfg pe e lk userId rl b header) s 400 ''VALIDATION_ERROR''"
  by (cases "createRefundSchema z b") (simp_all add: refusedWith_def createRefundRequest_def)

text \<open>
  C38. A request that does not match its schema changes nothing, and the client is told so with 400
  and VALIDATION_ERROR where the middleware or \<open>safeParse\<close> stands: registration, login, wallets,
  orders, quotes asked for with POST, refunds. The payment and settlement controllers and quotes
  asked for with GET parse with the schema itself; there a malformed request is reported as a fault
  of the server, 500 and INTERNAL_SERVER_ERROR.
\<close>

theorem malformed_requests_reported:
  "(isl (registerSchema z v) \<longrightarrow> refusedWith stage (registerRequest z c key ae v) a 400 ''VALIDATION_ERROR'')
   \<and> (isl (loginSchema z v) \<longrightarrow> refusedWith stage (loginRequest z c key now v) a 400 ''VALIDATION_ERROR'')
   \<and> (isl (createWalletSchema z v) \<longrightarrow> refusedWith stage (createWalletRequest z ae u v) a 400 ''VALIDATION_ERROR'')
   \<and> (isl (walletIdParamSchema z v) \<longrightarrow> refusedWith stage (deleteWalletRequest z u v) a 400 ''VALIDATION_ERROR'')
   \<and> (isl (createQuoteSchema z v) \<longrightarrow> refusedWith stage (postQuoteRequest z D cfg qe v) s 400 ''VALIDATION_ERROR'')
   \<and> (isl (quoteIdParamSchema z v) \<longrightarrow> refusedWith stage (quoteByIdRequest z now v) s 400 ''VALIDATION_ERROR'')
   \<and> (isl (createOrderSchema z v) \<longrightarrow> refusedWith stage (postOrderRequest z cfg oe u h v) s 400 ''VALIDATION_ERROR'')
   \<and> (isl (orderIdParamSchema z v) \<longrightarrow> refusedWith stage (getOrderRequest z u rl v) s 400 ''VALIDATION_ERROR'')
   \<and> (isl (updateOrderWalletSchema z b) \<or> isl (orderIdParamSchema z v)
        \<longrightarrow> refusedWith stage (orderWalletRequest z u rl v b) s 400 ''VALIDATION_ERROR'')
   \<and> (isl (createRefundSchema z v)
        \<longrightarrow> refusedWith stage (createRefundRequest z cfg pe fe lk u rl v h) s 400 ''VALIDATION_ERROR'')
   \<and> (isl (createPaymentSchema z v)
        \<longrightarrow> refusedWith stage (createPaymentRequest z cfg pe ye u h v) s 500 ''INTERNAL_SERVER_ERROR'')
   \<and> (isl (paymentIdParamSchema z v) \<longrightarrow> refusedWith stage (getPaymentRequest z u rl v) s 500 ''INTERNAL_SERVER_ERROR''
        \<and> refusedWith stage (verifyPaymentRequest z cfg pe u rl v ps) s 500 ''INTERNAL_SERVER_ERROR'')
   \<and> (isl (settlementIdParamSchema z v) \<longrightarrow> refusedWith stage (settlementByIdRequest z u rl v) s 500 ''INTERNAL_SERVER_ERROR'')
   \<and> (isl (settlementOrderIdSchema z v)
        \<longrightarrow> refusedWith stage (settlementByOrderRequest z u rl v) s 500 ''INTERNAL_SERVER_ERROR'')
   \<and> (isl (listSettlementsQuerySchema z v)
        \<longrightarrow> refusedWith stage (listSettlementsRequest z v) s 500 ''INTERNAL_SERVER_ERROR'')
   \<and> (isl (quoteQuerySchema z (Some (JObj fs)))
        \<and> (\<forall>k \<in> {''sourceCurrency'', ''destinationAsset'', ''amount''}. jsTruthy (map_of fs k))
        \<longrightarrow> refusedWith stage (getQuoteRequest z D cfg qe fs) s 500 ''INTERNAL_SERVER_ERROR'')"
  by (simp add: refused_body refused_params refused_parse refused_wallet refused_refund registerRequest_def loginRequest_def
      createWalletRequest_def deleteWalletRequest_def postQuoteRequest_def quoteByIdRequest_def postOrderRequest_def
      getOrderRequest_def createPaymentRequest_def getPaymentRequest_def verifyPaymentRequest_def settlementByIdRequest_def
      settlementByOrderRequest_def listSettlementsRequest_def getQuoteRequest_def)

subsection \<open>Accepted requests\<close>

named_theorems parsed "when a schema accepts, and with what"

lemma map_sum_Inr [simp]: "map_sum f g r = Inr y \<longleftrightarrow> (\<exists>x. r = Inr x \<and> y = g x)"
  by (cases r) auto

lemma map_filter_Nil: "List.map_filter f xs = [] \<longleftrightarrow> (\<forall>x \<in> set xs. f x = None)"
  by (auto simp: List.map_filter_def filter_empty_conv)

lemma zString_Inr [parsed]: "zString z cs v = Inr t \<longleftrightarrow> v = Some (JStr t) \<and> (\<forall>c \<in> set cs. c t = None)"
  by (auto simp: zString_def map_filter_Nil[symmetric] split: option.splits json.splits list.splits)

lemma zMap_Inr [parsed]: "zMap f p v = Inr y \<longleftrightarrow> (\<exists>x. p v = Inr x \<and> y = f x)"
  by (simp add: zMap_def)

lemma zOptional_Inr [parsed]:
  "zOptional p v = Inr y \<longleftrightarrow> (v = None \<and> y = None) \<or> (\<exists>x. v \<noteq> None \<and> p v = Inr x \<and> y = Some x)"
  by (auto simp: zOptional_def split: option.splits)

lemma zDefault_Inr [parsed]: "zDefault d p v = Inr y \<longleftrightarrow> (v = None \<and> y = d) \<or> (v \<noteq> None \<and> p v = Inr y)"
  by (auto simp: zDefault_def split: option.splits)

lemma zRefine_Inr [parsed]: "zRefine ok msg p v = Inr y \<longleftrightarrow> p v = Inr y \<and> ok y"
  by (auto simp: zRefine_def split: sum.splits)

lemma zEnum_Inr [parsed]: "zEnum z names v = Inr y \<longleftrightarrow> (\<exists>t. v = Some (JStr t) \<and> map_of names t = Some y)"
  by (auto simp: zEnum_def split: option.splits json.splits)

lemma zPositive_Inr [parsed]:
  "zPositive z msg v = Inr n \<longleftrightarrow> (\<exists>t. v = Some (JNum t) \<and> zo_number z t = n \<and> positive_number n)"
  by (auto simp: zPositive_def split: option.splits json.splits if_splits)

lemma field_Inr [parsed]: "field name p fs = Inr y \<longleftrightarrow> p (map_of fs name) = Inr y"
  by (simp add: field_def)

lemma both_Inr: "both r q = Inr x \<longleftrightarrow> r = Inr (fst x) \<and> q = Inr (snd x)"
  by (cases x; cases r; cases q) auto

lemma also_field_Inr [parsed]: "also_field sh name p fs = Inr x \<longleftrightarrow> sh fs = Inr (fst x) \<and> p (map_of fs name) = Inr (snd x)"
  by (simp add: also_field_def both_Inr field_Inr)

lemma zObject_Inr [parsed]: "zObject z build sh v = Inr y \<longleftrightarrow> (\<exists>fs x. v = Some (JObj fs) \<and> sh fs = Inr x \<and> y = build x)"
  by (auto simp: zObject_def split: option.splits json.splits)

lemma satisfies_None [simp]: "satisfies p msg t = None \<longleftrightarrow> p t"
  by (simp add: satisfies_def)

lemma atLeast_None [simp]: "atLeast n msg t = None \<longleftrightarrow> n \<le> length t"
  by (simp add: atLeast_def)

lemma atMost_None [simp]: "atMost n msg t = None \<longleftrightarrow> length t \<le> n"
  by (simp add: atMost_def)

lemma zCount_bounds:
  "zCount z low high v = Inr n \<Longrightarrow> \<exists>i. n = nat i \<and> low (of_int i) \<and> (\<forall>h. high = Some h \<longrightarrow> of_int i \<le> h)"
  by (auto simp: zCount_def Let_def split: option.splits js_number.splits if_splits)

subsection \<open>What is accepted is well formed\<close>

lemma registered_wf:
  "registerSchema z v = Inr r \<Longrightarrow> zo_email z (ri_email r) \<and> 8 \<le> length (ri_password r) \<and> ri_role r \<noteq> None"
  by (auto simp: registerSchema_def parsed)

lemma order_wf:
  "createOrderSchema z v = Inr d \<Longrightarrow> zo_uuid z (d_quoteId d) \<and> d_type d \<noteq> None
    \<and> addressCheck z (d_walletAddress d) \<and> (\<forall>k. d_idempotencyKey d = Some k \<longrightarrow> length k \<le> 128)"
  by (auto simp: createOrderSchema_def parsed)

lemma wallet_change_wf: "updateOrderWalletSchema z v = Inr w \<Longrightarrow> sk_publicKey (zo_keys z) w"
  by (auto simp: updateOrderWalletSchema_def addressField_def parsed)

lemma wallet_wf:
  "createWalletSchema z v = Inr w \<Longrightarrow> sk_publicKey (zo_keys z) (wi_address w)
    \<and> (\<exists>l. wi_label w = Some l \<and> length l \<le> 50) \<and> wi_network w \<noteq> None"
  by (auto simp: createWalletSchema_def addressField_def parsed)

lemma payment_wf:
  "createPaymentSchema z v = Inr y \<Longrightarrow> zo_uuid z (ci_orderId y)
    \<and> (\<exists>c. ci_currency y = Some c \<and> 3 \<le> length c \<and> length c \<le> 5) \<and> ci_type y \<noteq> None"
  by (auto simp: createPaymentSchema_def parsed)

lemma positive_value: "positive_number n \<Longrightarrow> finite_value n = Some a \<Longrightarrow> 0 < a"
  by (cases n) auto

lemma toUpper_length [simp]: "length (toUpper t) = length t"
  by (simp add: toUpper_def)

definition quoteOk :: "quote_input \<Rightarrow> bool" where
  "quoteOk q \<longleftrightarrow> 2 \<le> length (qi_sourceCurrency q) \<and> length (qi_sourceCurrency q) \<le> 10
     \<and> 2 \<le> length (qi_destinationAsset q) \<and> length (qi_destinationAsset q) \<le> 20
     \<and> (\<forall>a. qi_amount q = Some a \<longrightarrow> 0 < a) \<and> qi_side q \<noteq> None"

lemma quote_wf: "createQuoteSchema z v = Inr q \<Longrightarrow> quoteOk q" "quoteQuerySchema z v = Inr q \<Longrightarrow> quoteOk q"
  by (auto simp: createQuoteSchema_def quoteQuerySchema_def quoteShape_def quoteInput_def codeField_def quoteOk_def parsed
      dest: positive_value)

lemma refund_wf: "createRefundSchema z v = Inr r \<Longrightarrow> zo_uuid z (ri_orderId r) \<and> 3 \<le> length (ri_reason r)"
  by (auto simp: createRefundSchema_def parsed)

lemma listing_wf: "listSettlementsQuerySchema z v = Inr x \<Longrightarrow> 1 \<le> fst (fst x) \<and> fst (fst x) \<le> 100"
  by (auto simp: listSettlementsQuerySchema_def parsed dest!: zCount_bounds)

subsection \<open>The addresses on record\<close>

definition orderAddresses :: "zod_env \<Rightarrow> sys \<Rightarrow> bool" where
  "orderAddresses z s \<longleftrightarrow> (\<forall>x \<in> set (orders s). addressCheck z (o_walletAddress x))"

definition walletAddresses :: "zod_env \<Rightarrow> accounts \<Rightarrow> bool" where
  "walletAddresses z a \<longleftrightarrow> (\<forall>y \<in> set (ac_wallets a). sk_publicKey (zo_keys z) (wl_address y) \<and> length (wl_label y) \<le> 50)"

lemma keeps_service [kept]: "keeps I f \<Longrightarrow> keeps I (service f)"
  by (auto simp: keeps_def service_def split: prod.splits)

lemma keeps_lift: "(\<And>x. r = Inr x \<Longrightarrow> keeps I (k x)) \<Longrightarrow> keeps I (andThen (lift r) k)"
  by (auto simp: keeps_def lift_eq split: sum.splits)

lemma body_accepted: "validBody z sch v = Inr x \<Longrightarrow> sch v = Inr x"
  by (auto simp: validBody_eq split: sum.splits)

lemma createOrder_addresses:
  assumes "addressCheck z (d_walletAddress dto)"
  shows "keeps (orderAddresses z) (createOrder cfg e userId dto)"
proof (rule keepsI)
  fix s assume ok: "orderAddresses z s"
  obtain s1 r where run: "createOrder cfg e userId dto s = (s1, r)" by fastforce
  show "orderAddresses z (fst (createOrder cfg e userId dto s))"
  proof (cases r)
    case (Inl err)
    with run ok createOrder_throws show ?thesis by (simp add: orderAddresses_def)
  next
    case (Inr res)
    show ?thesis
    proof (cases res)
      case (Pair x dup)
      show ?thesis
      proof (cases dup)
        case True
        then have "s1 = s" using run Inr Pair by (auto simp: createOrder_def andThen_eq split: option.splits sum.splits)
        with ok run show ?thesis by simp
      next
        case False
        then obtain q p s2 s3 where "orderPool cfg (oe_poolId e) q s = (s2, Inr p)"
          and "commitOrder cfg e userId dto q p s2 = (s3, Inr x)"
          and "s1 = auditLog (Some userId) (Some userId) ''ORDER_CREATED'' ''Order'' (Some (o_id x)) s3"
          using run Inr Pair by (metis createOrder_commits)
        with orderPool_frame[of cfg "oe_poolId e" q s] have "orders s1 = orders s @ [newOrder userId dto q (oe_orderId e)]"
          by (auto elim: commit_returns)
        with ok run assms show ?thesis
          by (auto simp: orderAddresses_def newOrder_def noneIfFalsy_def addressCheck_def)
      qed
    qed
  qed
qed

lemma updateWallet_addresses:
  assumes "sk_publicKey (zo_keys z) wallet"
  shows "keeps (orderAddresses z) (updateOrderWallet orderId userId wallet isAdmin)"
  using assms
  by (auto simp: keeps_def updateOrderWallet_def getOrderById_def andThen_eq Let_def orderAddresses_def addressCheck_def
      setBy_def split: option.splits sum.splits if_splits)

lemma post_order_addresses: "keeps (orderAddresses z) (postOrderRequest z cfg e userId header body)"
  unfolding postOrderRequest_def postOrder_def
proof (rule keeps_lift, rule keeps_service, rule keeps_andThen)
  fix dto assume "validBody z (createOrderSchema z) body = Inr dto"
  from order_wf[OF body_accepted[OF this]] have "addressCheck z (d_walletAddress dto)" by simp
  then show "keeps (orderAddresses z) (createOrder cfg e userId (dto\<lparr>d_idempotencyKey := orElse header (d_idempotencyKey dto)\<rparr>))"
    by (intro createOrder_addresses) simp
qed (auto intro: keeps_ret split: prod.splits)

lemma order_wallet_addresses: "keeps (orderAddresses z) (orderWalletRequest z userId rl params body)"
  unfolding orderWalletRequest_def walletRoute_def
  by (rule keeps_lift)
    (auto simp: validate_def parsePart_def split: sum.splits intro!: keeps_service updateWallet_addresses dest: wallet_change_wf)

lemma create_wallet_addresses: "keeps (walletAddresses z) (createWalletRequest z e userId body)"
  unfolding createWalletRequest_def
proof (rule keeps_lift, rule keeps_service)
  fix w assume "validBody z (createWalletSchema z) body = Inr w"
  from wallet_wf[OF body_accepted[OF this]]
  have "sk_publicKey (zo_keys z) (wi_address w) \<and> (\<exists>l. wi_label w = Some l \<and> length l \<le> 50)" by simp
  then show "keeps (walletAddresses z) (createWallet e userId w)"
    by (auto simp: keeps_def createWallet_def walletAddresses_def Let_def accountAudit_def onAccounts_def orDefault_def split: if_splits)
qed

lemma deleted_wallets: "keeps (walletAddresses z) (deleteWalletRequest z1 userId params)"
  unfolding deleteWalletRequest_def
  by (rule keeps_lift, rule keeps_service)
    (auto simp: keeps_def deleteWallet_def walletAddresses_def accountAudit_def onAccounts_def split: option.splits)

text \<open>
  C39. An address on record is one the Stellar SDK accepts: whatever a request to create an order, to
  attach a wallet to one, or to create or delete a wallet holds, after it every order has no
  address or a valid one, and every wallet a valid one and a label of at most fifty characters.
\<close>

theorem requests_keep_addresses_valid:
  "keeps (orderAddresses z) (postOrderRequest z cfg oe userId header body)
   \<and> keeps (orderAddresses z) (orderWalletRequest z userId rl params body)
   \<and> keeps (walletAddresses z) (createWalletRequest z ae userId body)
   \<and> keeps (walletAddresses z) (deleteWalletRequest z userId params)"
  using post_order_addresses order_wallet_addresses create_wallet_addresses deleted_wallets by blast

subsection \<open>Parsing what was parsed\<close>

text \<open>The typed inputs as the JSON a client would send for them.\<close>

definition nameOf :: "(string \<times> 'a) list \<Rightarrow> 'a \<Rightarrow> string" where
  "nameOf names x = (case find (\<lambda>(t, y). y = x) names of Some (t, _) \<Rightarrow> t | None \<Rightarrow> [])"

definition given :: "string \<Rightarrow> string option \<Rightarrow> (string \<times> json) list" where
  "given name v = (case v of None \<Rightarrow> [] | Some t \<Rightarrow> [(name, JStr t)])"

definition registerJson :: "register_input \<Rightarrow> json" where
  "registerJson r = JObj ([(''email'', JStr (ri_email r)), (''password'', JStr (ri_password r))] @ given ''phone'' (ri_phone r)
     @ given ''role'' (map_option (nameOf roles) (ri_role r)))"

definition orderJson :: "order_dto \<Rightarrow> json" where
  "orderJson d = JObj ([(''quoteId'', JStr (d_quoteId d))] @ given ''type'' (map_option (nameOf orderTypes) (d_type d))
     @ given ''walletAddress'' (d_walletAddress d) @ given ''idempotencyKey'' (d_idempotencyKey d))"

definition paymentJson :: "payment_input \<Rightarrow> json" where
  "paymentJson y = JObj ([(''orderId'', JStr (ci_orderId y))] @ given ''currency'' (ci_currency y)
     @ given ''type'' (map_option (nameOf paymentTypes) (ci_type y)) @ given ''provider'' (ci_provider y))"

definition walletJson :: "wallet_input \<Rightarrow> json" where
  "walletJson w = JObj ([(''address'', JStr (wi_address w))] @ given ''label'' (wi_label w) @ given ''network'' (wi_network w))"

lemma names_inverse [simp]:
  "map_of roles (nameOf roles rl) = Some rl" "map_of orderTypes (nameOf orderTypes ot) = Some ot"
  "map_of paymentTypes (nameOf paymentTypes pt) = Some pt"
  subgoal by (cases rl; simp add: roles_def nameOf_def)
  subgoal by (cases ot; simp add: orderTypes_def nameOf_def)
  subgoal by (cases pt; simp add: paymentTypes_def nameOf_def)
  done

lemma map_of_given [simp]: "map_of (given n v) k = (if k = n then map_option JStr v else None)"
  by (simp add: given_def split: option.splits)

text \<open>
  What the schemas of registration, orders, payments and wallets accept is in normal form: the
  parsed input, with the defaults filled in and unknown fields dropped, sent once more is accepted
  and parsed to itself.
\<close>

theorem accepted_requests_roundtrip:
  "(registerSchema z v = Inr r \<longrightarrow> registerSchema z (Some (registerJson r)) = Inr r)
   \<and> (createOrderSchema z v = Inr d \<longrightarrow> createOrderSchema z (Some (orderJson d)) = Inr d)
   \<and> (createPaymentSchema z v = Inr y \<longrightarrow> createPaymentSchema z (Some (paymentJson y)) = Inr y)
   \<and> (createWalletSchema z v = Inr w \<longrightarrow> createWalletSchema z (Some (walletJson w)) = Inr w)"
proof (intro conjI impI)
  show "registerSchema z (Some (registerJson r)) = Inr r" if "registerSchema z v = Inr r"
    using that by (auto simp: registerSchema_def registerJson_def parsed map_add_def split: option.splits)
  show "createOrderSchema z (Some (orderJson d)) = Inr d" if "createOrderSchema z v = Inr d"
    using that by (auto simp: createOrderSchema_def orderJson_def parsed map_add_def split: option.splits)
  show "createPaymentSchema z (Some (paymentJson y)) = Inr y" if "createPaymentSchema z v = Inr y"
    using that by (auto simp: createPaymentSchema_def paymentJson_def parsed map_add_def split: option.splits)
  show "createWalletSchema z (Some (walletJson w)) = Inr w" if "createWalletSchema z v = Inr w"
    using that by (auto simp: createWalletSchema_def walletJson_def addressField_def parsed map_add_def split: option.splits)
qed

subsection \<open>Examples\<close>

definition demo_zod :: zod_env where
  "demo_zod = \<lparr>zo_keys = \<lparr>sk_publicKey = (\<lambda>t. hd t = CHR ''G''), sk_secretSeed = (\<lambda>_. False), sk_contract = (\<lambda>_. False)\<rparr>,
     zo_email = (\<lambda>t. contains t ''@''), zo_uuid = (\<lambda>t. length t = 4), zo_number = (\<lambda>t. Finite (of_nat (length t))),
     zo_coerce = (\<lambda>_. NotANumber), zo_parseFloat = (\<lambda>_. NotANumber), zo_decimal = (\<lambda>_. None),
     zo_wrongType = (\<lambda>k _. k), zo_text = id, zo_details = (\<lambda>is. concat (map snd is)),
     zo_message = (\<lambda>is. concat (map fst is)), zo_format = (\<lambda>is. concat (map snd is))\<rparr>"

lemma isl_never: "isl r \<longleftrightarrow> (\<forall>x. r \<noteq> Inr x)"
  by (cases r) auto

lemma demo_malformed:
  "isl (createOrderSchema demo_zod (Some (JObj [(''quoteId'', JStr ''q'')])))"
  "isl (createPaymentSchema demo_zod (Some (JObj [(''quoteId'', JStr ''q'')])))"
  by (simp_all add: isl_never createOrderSchema_def createPaymentSchema_def parsed demo_zod_def)

theorem malformed_requests_reported_witness:
  "refusedWith ''production'' (postOrderRequest demo_zod demo_cfg (demo_oe 10 ''o'') ''u'' None (Some (JObj [(''quoteId'', JStr ''q'')])))
     empty_sys 400 ''VALIDATION_ERROR''
   \<and> refusedWith ''production'' (createPaymentRequest demo_zod demo_cfg demo_penv
       \<lparr>ye_now = 0, ye_paymentId = ''p'', ye_reference = ''r''\<rparr> ''u'' None
       (Some (JObj [(''quoteId'', JStr ''q'')]))) empty_sys 500 ''INTERNAL_SERVER_ERROR''"
  using malformed_requests_reported[where v = "Some (JObj [(''quoteId'', JStr ''q'')])" and z = demo_zod and stage = "''production''"
      and cfg = demo_cfg and oe = "demo_oe 10 ''o''" and u = "''u''" and h = None and s = empty_sys and pe = demo_penv
      and ye = "\<lparr>ye_now = 0, ye_paymentId = ''p'', ye_reference = ''r''\<rparr>"] demo_malformed by blast

definition demo_request :: json where
  "demo_request = JObj [(''quoteId'', JStr ''q123''), (''extra'', JNull), (''walletAddress'', JStr ''GABC'')]"

theorem accepted_requests_roundtrip_witness:
  "createOrderSchema demo_zod (Some (orderJson \<lparr>d_quoteId = ''q123'', d_type = Some ON_RAMP, d_walletAddress = Some ''GABC'',
       d_idempotencyKey = None\<rparr>)) =
     Inr \<lparr>d_quoteId = ''q123'', d_type = Some ON_RAMP, d_walletAddress = Some ''GABC'', d_idempotencyKey = None\<rparr>"
proof -
  have "createOrderSchema demo_zod (Some demo_request) =
     Inr \<lparr>d_quoteId = ''q123'', d_type = Some ON_RAMP, d_walletAddress = Some ''GABC'', d_idempotencyKey = None\<rparr>"
    by (simp add: createOrderSchema_def demo_request_def parsed demo_zod_def addressCheck_def)
  with accepted_requests_roundtrip[of demo_zod "Some demo_request"] show ?thesis by blast
qed

end
