(* ===== verification/Spec2Isabelle.thy ===== *)
theory Spec2Isabelle
  imports RunnerProps Routes AccountProps Connections Disbursements OperatorScripts SequenceLock RequestProps
begin

text \<open>
  Verification library of the LuminaRail backend: a TypeScript service that sells a stablecoin on
  the Stellar network for local currency. A user asks for a quote, orders against it (which
  reserves treasury liquidity), pays through a payment provider, and a worker pays the order out
  on the chain; refunds, webhooks, a reservation cleanup and a reconciliation daemon act on the
  same rows at the same time.

  \<^bold>\<open>How the program is modelled.\<close> The database is one record \<open>sys\<close> of tables (\<open>Schema\<close>, after
  \<^verbatim>\<open>prisma/schema.prisma\<close>); a row is a record, a status a datatype with the constructors of the
  source. A method is a function from the state to the state and a result, \<open>Inl\<close> of the thrown
  error or \<open>Inr\<close> of the returned value (\<open>op\<close>, sequenced with \<open>andThen\<close>, \<open>catching\<close>, \<open>finallyDo\<close> and
  \<open>forEach\<close> of \<open>Prelude\<close>): effects made before a throw stay, except inside \<open>inTransaction\<close>. Money
  columns are integers at the scale of the column (\<open>toColumn\<close>, \<open>ofColumn\<close>), amounts in memory are
  rationals, hash and settlement ids are words of their width. The clock, drawn ids and every
  answer of code outside the repository (Redis, Horizon, Soroban RPC, AWS KMS, the Paystack and FX
  APIs, the Stellar SDK, bcryptjs, jsonwebtoken, decimal.js, HMAC and SHA-256) are arguments; what
  is relied on of them is stated as a locale or a premise.

  \<^bold>\<open>Parts.\<close>

  \<^item> \<open>Prelude\<close>: operations that throw, keyed rows, optional strings, the combinators \<open>keeps\<close> that
    carry an invariant through a program. \<open>Schema\<close>: tables, errors, configuration, audit rows.
    \<open>StateMachines\<close>: the four transition tables (\<^verbatim>\<open>*.state-machine.ts\<close>).
  \<^item> \<open>Liquidity\<close>, \<open>Ledger\<close>, \<open>LiquidityProps\<close>: \<^verbatim>\<open>liquidity.service.ts\<close> and the treasury alerts of
    \<^verbatim>\<open>treasury-telemetry.service.ts\<close>. The abstract ledger of \<open>Ledger\<close> is what a pool promises; the
    service refines it, and every run of operations keeps \<open>ledger_inv\<close>.
  \<^item> \<open>Quotes\<close>, \<open>QuoteProps\<close>: \<^verbatim>\<open>quotes.service.ts\<close> and its two providers. \<open>Orders\<close>, \<open>OrderProps\<close>:
    \<^verbatim>\<open>orders.service.ts\<close>.
  \<^item> \<open>Providers\<close>, \<open>ProviderProps\<close>: the payment providers with their in-memory stores, where one
    answer object is shared between two maps, kept as addresses into one list. \<open>Payments\<close>,
    \<open>PaymentProps\<close>: \<^verbatim>\<open>payments.service.ts\<close> and \<^verbatim>\<open>webhooks.service.ts\<close>, split where another request
    may run in between (\<open>establishPayment\<close>, \<open>providerCreate\<close>, \<open>answerPayment\<close>; \<open>verifyRead\<close>, \<open>verifyCommit\<close>).
  \<^item> \<open>Refunds\<close>, \<open>RefundProps\<close>: \<^verbatim>\<open>refunds.service.ts\<close>, a creation split into what it reads and what it
    writes (\<open>refundPlan\<close>, \<open>openRefund\<close>), an execution into read, claim, provider call and settling. \<open>Settlements\<close>, \<open>SettlementProps\<close>: \<^verbatim>\<open>settlements.service.ts\<close>.
  \<^item> \<open>StellarConfig\<close>: \<^verbatim>\<open>config/index.ts\<close> and \<^verbatim>\<open>stellar/config/index.ts\<close>. \<open>Stroops\<close>: the two conversions of
    \<^verbatim>\<open>transaction.service.ts\<close>. \<open>Policy\<close>, \<open>Signers\<close>, \<open>Soroban\<close>, \<open>PolicyProps\<close>: the policy engine, both
    signers, building, signing, broadcasting and polling; the contract with the SDK is the locale
    \<open>stellar_sdk\<close>, the executors satisfy the contract the workers rely on.
  \<^item> \<open>Workers\<close>, \<open>Interleavings\<close>, \<open>Payouts\<close>, \<open>WorkerProps\<close>: \<^verbatim>\<open>settlement.worker.ts\<close> and
    \<^verbatim>\<open>reservation-cleanup.worker.ts\<close>. \<open>Interleavings\<close> holds the step relation \<open>act\<close> over the single writes
    to settlements and refunds, each with what its operation read some time before; in \<open>Payouts\<close> the
    operations are runs of it. \<open>Reconciliation\<close>, \<open>ReconcileProps\<close>:
    \<^verbatim>\<open>reconciliation.daemon.ts\<close>. \<open>Runner\<close>, \<open>RunnerProps\<close>: \<^verbatim>\<open>worker.ts\<close>,
    \<^verbatim>\<open>graceful-shutdown.service.ts\<close> and the answer of the liveness server; \<open>WorkerHealth\<close>: the health
    record they share.
  \<^item> \<open>Locks\<close>: \<^verbatim>\<open>distributed-lock.service.ts\<close> over \<^verbatim>\<open>redis.mock.ts\<close>, a client and a store meeting in a
    locale of the three commands the locks need. \<open>SequenceLock\<close>: the wait for such a lock in
    \<^verbatim>\<open>transaction.service.ts\<close> before a transaction of a signer is built.
  \<^item> \<open>ErrorHandler\<close>, \<open>Routes\<close>, \<open>Accounts\<close>, \<open>AccountProps\<close>, \<open>AuditTrail\<close>: what a client is told, who reaches
    which handler, users, tokens and wallets, redaction of the audit log. \<open>StellarRead\<close>: reading
    accounts, balances and transactions through the cache.
  \<^item> \<open>Schemas\<close>, \<open>Requests\<close>, \<open>RequestProps\<close>: the schemas of the \<^verbatim>\<open>*.schemas.ts\<close> files with
    \<^verbatim>\<open>middleware/validate.ts\<close>, and the handlers of the controllers from the JSON they are sent to the
    call of the service. A schema is a parser from JSON to the input of the service or the issues
    found; what zod documents of its combinators is written out.
  \<^item> \<open>Connections\<close>: \<^verbatim>\<open>redis.service.ts\<close>, the shared clients of Horizon and Soroban, the health page of
    \<^verbatim>\<open>app.ts\<close> and the server object of \<^verbatim>\<open>worker-liveness.server.ts\<close>. \<open>Disbursements\<close>: payouts and
    payment instructions of the providers, and the registry of providers. \<open>OperatorScripts\<close>:
    \<^verbatim>\<open>scripts/reset-test-settlement.ts\<close>, run between two payouts of the worker.

  \<^bold>\<open>What is shown.\<close> Invariants of interleavings, of writes that come some time after what they
  were decided on: an order is not both refunded and paid out, refunds stay under a payment, a
  captured payment stays captured, an ordered quote is spent for later readers. The code does not
  keep every write from being overtaken by another, so the first three hold for the orders of writes
  in which none is, each claim says which orders those are, and a lemma beside it shows what an overtaken
  write does (\<open>overtaken_mark_pays_and_refunds\<close>, \<open>overtaken_refund_counts_again\<close>,
  \<open>late_answer_overwrites\<close>). Invariants of sequences of whole operations: the ledger balances, under all
  four daemons too; ids and addresses of wallets are unique; a lock stays with its owner. Below
  them stand functional descriptions of each operation on every branch, round trips
  (amounts, registration and login), equivalences (redaction, polling, the sweep of the daemons) and
  bounds. Where the code does something other than it seems to mean, the theorem states what it does.

  \<^bold>\<open>What counts as one step.\<close> A definition is the method run without interruption; a claim about a
  single operation is about such a run. The following are whole even in the claims about runs,
  although the code awaits in between. A command of the in-memory Redis: its \<open>eval\<close> awaits \<open>get\<close> before
  \<open>pexpire\<close> or \<open>del\<close>. The operations on reservations: \<open>consumeReservation\<close> and \<open>releaseReservation\<close> read
  the reservation before they lock the pool and do not read it again. A reservation of the cleanup: its
  status is read, then it is released, and a payment that confirms it in between loses it. The
  checks of the policy, the signature and the broadcast, which see one state. A webhook, up to its
  transaction, which \<open>PvApply\<close> takes from an earlier read. Writes to the database succeed, but for the
  one that records the outcome of a submission (\<open>wk_recordError\<close>). A theory that treats operations in
  sequence - \<open>LiquidityProps\<close>, \<open>RunnerProps\<close>, \<open>SettlementProps\<close>, \<open>ReconcileProps\<close> - claims no more.

  \<^bold>\<open>Loops.\<close> The polling of a transaction and the wait for running jobs are functions with a
  measure, the attempts left and the milliseconds left; the endless loop of the worker is
  \<open>runLoop\<close> over the list of turns it was given time for, of any length. The wait for the sequence
  lock ends only by the clock, and is a \<open>partial_function\<close> whose answer may be missing; that it
  returns, after at most 61 attempts when the clock advances by each sleep, is proved. No function
  takes fuel.

  \<^bold>\<open>Not modelled.\<close> The clients of third parties (\<^verbatim>\<open>db/prisma.ts\<close>, ioredis, express, helmet, CORS, the
  rate limiter), opening the port of the HTTP server (\<^verbatim>\<open>server.ts\<close>), and the scripts that only read
  and print: they do nothing but call libraries. Successful answers are the rows themselves, so
  the fields a controller copies out of a row, included relations and the metadata echoed by
  providers are left out, as are console output, foreign keys, the e-mail address of a Paystack
  payer and the error classes nothing throws. Messages keep the wording of the source where code
  or a client tells errors apart by them; an interpolated value nothing reads may be missing.
  Queries ordered by creation time return the rows in the order of the table, in which rows are
  appended.
\<close>

end
